(* ===== verification/Tuner_Prelude.thy ===== *)
theory Tuner_Prelude
  imports Complex_Main "HOL-Library.AList" "HOL-Library.Word" "HOL-Library.List_Lexorder"
    "HOL-Library.Char_ord"
begin

text \<open>
  The shared vocabulary of the development: Python values and exceptions, the few string
  renderings that appear in error messages, insertion-ordered dictionaries, deques with a maximal
  length, and the two interfaces that several components implement (a bounded log and a
  simulation-time clock). Every component theory imports this one.
\<close>

section \<open>Hint collections\<close>

named_theorems py_simps \<open>unfolding of the small Python library functions\<close>
named_theorems state_simps \<open>projections of updated component states\<close>

section \<open>Bytes and strings\<close>

type_synonym u8 = "8 word"
type_synonym bytes = "u8 list"

text \<open>Strings are lists of code points below 256, which is what a HOL character holds.\<close>

definition digit_char :: "nat \<Rightarrow> char" where
  "digit_char d = (if d < 10 then char_of (48 + d) else char_of (55 + d))"

fun str_base :: "nat \<Rightarrow> nat \<Rightarrow> string" where
  "str_base b n =
     (if b < 2 then ''''
      else if n < b then [digit_char n] else str_base b (n div b) @ [digit_char (n mod b)])"

declare str_base.simps [simp del]

definition str_int :: "int \<Rightarrow> string" where
  "str_int i = (if i < 0 then ''-'' @ str_base 10 (nat (- i)) else str_base 10 (nat i))"

definition zero_pad :: "nat \<Rightarrow> string \<Rightarrow> string" where
  "zero_pad w s = replicate (w - length s) (CHR ''0'') @ s"

text \<open>\<open>' '.join(words)\<close>.\<close>

fun join_space :: "string list \<Rightarrow> string" where
  "join_space [] = []"
| "join_space [w] = w"
| "join_space (w # ws) = w @ CHR '' '' # join_space ws"

text \<open>The format specifications \<open>:X\<close> and \<open>:03X\<close> applied to a non-negative integer.\<close>

definition hex_upper :: "int \<Rightarrow> string" where
  "hex_upper i = str_base 16 (nat i)"

definition hex03 :: "int \<Rightarrow> string" where
  "hex03 i = zero_pad 3 (hex_upper i)"

definition hex_lower_byte :: "nat \<Rightarrow> string" where
  "hex_lower_byte n =
     map (\<lambda>c. if of_char c \<ge> (65::nat) then char_of (of_char c + (32::nat)) else c)
       (zero_pad 2 (str_base 16 n))"

text \<open>\<open>repr\<close> of a string and of a byte string: the quote chosen, escapes written out.\<close>

definition py_quote :: "nat list \<Rightarrow> nat" where
  "py_quote cs = (if 39 \<in> set cs \<and> 34 \<notin> set cs then 34 else 39)"

definition escape_code :: "bool \<Rightarrow> nat \<Rightarrow> nat \<Rightarrow> string" where
  "escape_code ascii q c =
     (if c = q \<or> c = 92 then [CHR 0x5C, char_of c]
      else if c = 10 then [CHR 0x5C, CHR ''n'']
      else if c = 13 then [CHR 0x5C, CHR ''r'']
      else if c = 9 then [CHR 0x5C, CHR ''t'']
      else if c < 32 \<or> c = 127 \<or> (ascii \<and> 127 < c) \<or> (127 < c \<and> c \<le> 160) \<or> c = 173
        then [CHR 0x5C, CHR ''x''] @ hex_lower_byte c
      else [char_of c])"

definition py_repr :: "string \<Rightarrow> string" where
  "py_repr s =
     (let cs = map of_char s; q = py_quote cs
      in char_of q # concat (map (escape_code False q) cs) @ [char_of q])"

definition py_repr_bytes :: "bytes \<Rightarrow> string" where
  "py_repr_bytes bs =
     (let cs = map unat bs; q = py_quote cs
      in ''b'' @ char_of q # concat (map (escape_code True q) cs) @ [char_of q])"

section \<open>Exceptions and results\<close>

text \<open>
  The exception classes the program raises or catches, with the direct base class of each; an
  \<open>except\<close> clause matches a class and everything below it.
\<close>

datatype (plugins only: code size) exn_class =
    Py_Exception
  | Type_Error | Value_Error | Key_Error | Runtime_Error | Assertion_Error | OS_Error | Struct_Error
  | Lookup_Error | Attribute_Error | Arithmetic_Error | Overflow_Error | Zero_Division_Error
  | Unicode_Error | Json_Decode_Error | File_Not_Found_Error
  | Raw_Can_Record_Error
  | Gateway_Error | Gateway_Protocol_Error | Gateway_Connection_Error
  | Can_Decode_Error | Unknown_Can_Frame_Error | Malformed_Can_Frame_Error
  | Decoding_Frame_Length
  | Telemetry_Error | Telemetry_Schema_Error | Out_Of_Order_Telemetry_Error
  | Diagnostic_Error | Unknown_Diagnostic_Code_Error | Diagnostic_Clear_Error
  | Session_Error | Session_Format_Error | Session_Version_Error | Session_Integrity_Error
  | Session_Dbc_Mismatch_Error | Session_Recording_Error
  | Investigation_Error | Investigation_Query_Error | Investigation_Compatibility_Error
  | Investigation_Limit_Error | Queue_Full

fun exn_base :: "exn_class \<Rightarrow> exn_class option" where
  "exn_base Py_Exception = None"
| "exn_base Key_Error = Some Lookup_Error"
| "exn_base Overflow_Error = Some Arithmetic_Error"
| "exn_base Zero_Division_Error = Some Arithmetic_Error"
| "exn_base Unicode_Error = Some Value_Error"
| "exn_base Json_Decode_Error = Some Value_Error"
| "exn_base File_Not_Found_Error = Some OS_Error"
| "exn_base Raw_Can_Record_Error = Some Value_Error"
| "exn_base Gateway_Protocol_Error = Some Gateway_Error"
| "exn_base Gateway_Connection_Error = Some Gateway_Error"
| "exn_base Can_Decode_Error = Some Value_Error"
| "exn_base Unknown_Can_Frame_Error = Some Can_Decode_Error"
| "exn_base Malformed_Can_Frame_Error = Some Can_Decode_Error"
| "exn_base Telemetry_Error = Some Value_Error"
| "exn_base Telemetry_Schema_Error = Some Telemetry_Error"
| "exn_base Out_Of_Order_Telemetry_Error = Some Telemetry_Error"
| "exn_base Diagnostic_Error = Some Value_Error"
| "exn_base Unknown_Diagnostic_Code_Error = Some Diagnostic_Error"
| "exn_base Diagnostic_Clear_Error = Some Diagnostic_Error"
| "exn_base Session_Format_Error = Some Session_Error"
| "exn_base Session_Version_Error = Some Session_Format_Error"
| "exn_base Session_Integrity_Error = Some Session_Format_Error"
| "exn_base Session_Dbc_Mismatch_Error = Some Session_Integrity_Error"
| "exn_base Session_Recording_Error = Some Session_Error"
| "exn_base Investigation_Error = Some Value_Error"
| "exn_base Investigation_Query_Error = Some Investigation_Error"
| "exn_base Investigation_Compatibility_Error = Some Investigation_Error"
| "exn_base Investigation_Limit_Error = Some Investigation_Error"
| "exn_base _ = Some Py_Exception"

text \<open>\<open>issubclass\<close>: the class itself or one of its bases; no chain here has more than four links.\<close>

fun subclass_upto :: "nat \<Rightarrow> exn_class \<Rightarrow> exn_class \<Rightarrow> bool" where
  "subclass_upto n c d =
     (c = d \<or> (case n of 0 \<Rightarrow> False
               | Suc m \<Rightarrow> (case exn_base c of None \<Rightarrow> False | Some b \<Rightarrow> subclass_upto m b d)))"

declare subclass_upto.simps [simp del]

definition is_subclass :: "exn_class \<Rightarrow> exn_class \<Rightarrow> bool" where
  "is_subclass c d = subclass_upto 4 c d"

text \<open>The message is what \<open>str(error)\<close> gives; for a \<open>KeyError\<close> that is the \<open>repr\<close> of its argument.\<close>

datatype exn = Exn (exn_class: exn_class) (exn_message: string)

type_synonym 'a result = "exn + 'a"

abbreviation raise :: "exn_class \<Rightarrow> string \<Rightarrow> 'a result" where
  "raise c m \<equiv> Inl (Exn c m)"

definition catches :: "exn_class \<Rightarrow> exn \<Rightarrow> bool" where
  "catches c e = is_subclass (exn_class e) c"

definition rbind :: "'a result \<Rightarrow> ('a \<Rightarrow> 'b result) \<Rightarrow> 'b result" where
  "rbind m f = (case m of Inl e \<Rightarrow> Inl e | Inr x \<Rightarrow> f x)"

lemma rbind_simps [simp]:
  "rbind (Inl e) f = Inl e"
  "rbind (Inr x) f = f x"
  by (simp_all add: rbind_def)

lemma rbind_eq_Inr: "rbind m f = Inr y \<longleftrightarrow> (\<exists>x. m = Inr x \<and> f x = Inr y)"
  by (cases m) auto

fun mapM :: "('a \<Rightarrow> 'b result) \<Rightarrow> 'a list \<Rightarrow> 'b list result" where
  "mapM f [] = Inr []"
| "mapM f (x # xs) = rbind (f x) (\<lambda>y. rbind (mapM f xs) (\<lambda>ys. Inr (y # ys)))"

lemma mapM_eq_Inr: "mapM f xs = Inr ys \<longleftrightarrow> list_all2 (\<lambda>x y. f x = Inr y) xs ys"
proof (induction xs arbitrary: ys)
  case (Cons x xs)
  then show ?case by (cases ys) (auto simp: rbind_eq_Inr)
qed auto

lemma mapM_total: "(\<And>x. x \<in> set xs \<Longrightarrow> f x = Inr (g x)) \<Longrightarrow> mapM f xs = Inr (map g xs)"
  by (induction xs) auto

lemma mapM_eq_Inl: "mapM f xs = Inl e \<Longrightarrow> \<exists>x \<in> set xs. f x = Inl e"
proof (induction xs)
  case (Cons x xs)
  then show ?case by (cases "f x"; cases "mapM f xs") auto
qed auto

section \<open>Dictionaries\<close>

text \<open>
  A Python \<open>dict\<close> keeps its keys in insertion order and overwrites in place, which is exactly
  \<^const>\<open>AList.update\<close> on an association list; lookup is \<^const>\<open>map_of\<close>.
\<close>

type_synonym ('k, 'v) dict = "('k \<times> 'v) list"

abbreviation dict_set :: "'k \<Rightarrow> 'v \<Rightarrow> ('k, 'v) dict \<Rightarrow> ('k, 'v) dict" where
  "dict_set \<equiv> AList.update"

abbreviation dict_get :: "('k, 'v) dict \<Rightarrow> 'k \<Rightarrow> 'v option" where
  "dict_get \<equiv> map_of"

abbreviation dict_keys :: "('k, 'v) dict \<Rightarrow> 'k list" where
  "dict_keys d \<equiv> map fst d"

definition dict_of :: "('k \<times> 'v) list \<Rightarrow> ('k, 'v) dict" where
  "dict_of kvs = foldl (\<lambda>d (k, v). dict_set k v d) [] kvs"

lemma dict_get_set [simp]: "dict_get (dict_set k v d) k' = (if k' = k then Some v else dict_get d k')"
  by (simp add: update_conv')

lemma dict_keys_set:
  "dict_keys (dict_set k v d) = (if k \<in> set (dict_keys d) then dict_keys d else dict_keys d @ [k])"
  by (induction d) auto

lemma distinct_dict_set [simp]: "distinct (dict_keys (dict_set k v d)) = distinct (dict_keys d)"
  by (induction d) (auto simp: dict_keys_set)

lemma set_dict_keys_set [simp]: "fst ` set (dict_set k v d) = insert k (fst ` set d)"
  by (induction d) auto

lemma dict_set_fresh: "k \<notin> set (dict_keys d) \<Longrightarrow> dict_set k v d = d @ [(k, v)]"
  by (induction d) auto

lemma dict_get_mem: "dict_get d k = Some v \<Longrightarrow> (k, v) \<in> set d"
  by (rule map_of_SomeD)

lemma dict_of_fold_distinct:
  "distinct (dict_keys d) \<Longrightarrow> distinct (dict_keys (foldl (\<lambda>d (k, v). dict_set k v d) d kvs))"
  by (induction kvs arbitrary: d) (auto split: prod.splits)

lemma dict_of_fold_get:
  "dict_get (foldl (\<lambda>d (k, v). dict_set k v d) d kvs) k =
     (case dict_get (rev kvs) k of None \<Rightarrow> dict_get d k | Some v \<Rightarrow> Some v)"
proof (induction kvs arbitrary: d)
  case (Cons kv kvs)
  then show ?case by (cases kv) (auto simp: map_add_def split: option.splits)
qed simp

lemma distinct_dict_of [simp]: "distinct (dict_keys (dict_of kvs))"
  unfolding dict_of_def by (rule dict_of_fold_distinct) simp

lemma dict_get_dict_of: "dict_get (dict_of kvs) k = dict_get (rev kvs) k"
  by (simp add: dict_of_def dict_of_fold_get split: option.splits)

lemma dict_set_append_fold:
  "distinct (dict_keys (d @ kvs)) \<Longrightarrow> foldl (\<lambda>d (k, v). dict_set k v d) d kvs = d @ kvs"
proof (induction kvs arbitrary: d)
  case (Cons kv kvs)
  then show ?case by (cases kv) (simp add: dict_set_fresh image_Un)
qed simp

lemma dict_of_distinct: "distinct (dict_keys kvs) \<Longrightarrow> dict_of kvs = kvs"
  using dict_set_append_fold [of "[]" kvs] by (simp add: dict_of_def)

section \<open>Deques with a maximal length, and slices from the end\<close>

definition last_n :: "nat \<Rightarrow> 'a list \<Rightarrow> 'a list" where
  "last_n n xs = drop (length xs - n) xs"

text \<open>\<open>xs[-limit:]\<close> for a positive limit; a limit of zero would select the whole sequence.\<close>

definition slice_last :: "int \<Rightarrow> 'a list \<Rightarrow> 'a list" where
  "slice_last limit xs =
     (if limit > 0 then last_n (nat limit) xs
      else drop (nat (- limit)) xs)"

definition deque_append :: "nat \<Rightarrow> 'a list \<Rightarrow> 'a \<Rightarrow> 'a list" where
  "deque_append maxlen xs x = last_n maxlen (xs @ [x])"

lemma length_last_n [simp]: "length (last_n n xs) = min n (length xs)"
  by (simp add: last_n_def)

lemma last_n_all: "length xs \<le> n \<Longrightarrow> last_n n xs = xs"
  by (simp add: last_n_def)

lemma last_n_last_n_append: "last_n n (last_n n xs @ ys) = last_n n (xs @ ys)"
  by (cases "length xs \<le> n") (simp_all add: last_n_def add.commute)

lemma set_last_n_subset: "set (last_n n xs) \<subseteq> set xs"
  by (simp add: last_n_def set_drop_subset)

lemma last_last_n: "0 < n \<Longrightarrow> last (last_n n (xs @ [x])) = x"
  by (simp add: last_n_def)

lemma last_n_Nil [simp]: "last_n n [] = []"
  by (simp add: last_n_def)

lemma last_n_snoc_nonempty: "0 < n \<Longrightarrow> last_n n (xs @ [x]) \<noteq> []"
  by (simp add: last_n_def)

lemma last_n_map: "last_n n (map f xs) = map f (last_n n xs)"
  by (simp add: last_n_def drop_map)

lemma last_n_snoc:
  "0 < n \<Longrightarrow> last_n n (xs @ [x]) = (if length xs < n then xs else drop (Suc (length xs) - n) xs) @ [x]"
  by (auto simp: last_n_def)

lemma deque_append_full:
  assumes "length xs = n" and "0 < n"
  shows "deque_append n xs x = tl xs @ [x]"
  using assms by (cases xs) (simp_all add: deque_append_def last_n_def)

lemma deque_append_room: "length xs < n \<Longrightarrow> deque_append n xs x = xs @ [x]"
  by (simp add: deque_append_def last_n_all)

section \<open>Interface: bounded logs\<close>

text \<open>
  A component that keeps, per key, the newest entries of an unbounded sequence: an operation that
  appends an entry, the contents retained under a key, and the capacity. Its clients only rely on
  the law \<open>contents_push\<close>; what is retained after any number of appends follows from it.
\<close>

locale keyed_log =
  fixes push :: "'s \<Rightarrow> 'a \<Rightarrow> 's"
    and contents :: "'s \<Rightarrow> 'k \<Rightarrow> 'a list"
    and key :: "'a \<Rightarrow> 'k"
    and cap :: "'s \<Rightarrow> nat"
  assumes contents_push:
    "contents (push s x) k =
       (if key x = k then deque_append (cap s) (contents s k) x else contents s k)"
    and cap_push: "cap (push s x) = cap s"
begin

lemma cap_pushes: "cap (foldl push s xs) = cap s"
  by (induction xs arbitrary: s) (simp_all add: cap_push)

lemma keyed_length_bound:
  "length (contents s k) \<le> cap s \<Longrightarrow> length (contents (push s x) k) \<le> cap s"
  by (simp add: contents_push deque_append_def)

lemma contents_pushes:
  "length (contents s k) \<le> cap s \<Longrightarrow>
     contents (foldl push s xs) k = last_n (cap s) (contents s k @ filter (\<lambda>x. key x = k) xs)"
proof (induction xs arbitrary: s)
  case Nil
  then show ?case by (simp add: last_n_all)
next
  case (Cons x xs)
  have "contents (foldl push s (x # xs)) k
      = last_n (cap s) (contents (push s x) k @ filter (\<lambda>x. key x = k) xs)"
    using Cons.IH [of "push s x"] Cons.prems by (simp add: keyed_length_bound cap_push)
  then show ?case by (simp add: contents_push deque_append_def last_n_last_n_append)
qed

lemma keyed_refines_full_log:
  "contents s k = last_n (cap s) full \<Longrightarrow>
     contents (foldl push s xs) k = last_n (cap s) (full @ filter (\<lambda>x. key x = k) xs)"
  by (simp add: contents_pushes last_n_last_n_append)

lemma newest_retained:
  "0 < cap s \<Longrightarrow> contents (push s x) (key x) \<noteq> [] \<and> last (contents (push s x) (key x)) = x"
  by (simp add: contents_push deque_append_def last_last_n last_n_snoc_nonempty)

end

text \<open>A log without keys is the same contract with a single key.\<close>

locale bounded_log =
  fixes push :: "'s \<Rightarrow> 'a \<Rightarrow> 's"
    and contents :: "'s \<Rightarrow> 'a list"
    and cap :: "'s \<Rightarrow> nat"
  assumes contents_append: "contents (push s x) = deque_append (cap s) (contents s) x"
    and cap_append: "cap (push s x) = cap s"

sublocale bounded_log \<subseteq> single: keyed_log push "\<lambda>s (_::unit). contents s" "\<lambda>_. ()" cap
  by unfold_locales (simp_all add: contents_append cap_append)

context bounded_log
begin

lemma length_bound: "length (contents s) \<le> cap s \<Longrightarrow> length (contents (push s x)) \<le> cap s"
  by (rule single.keyed_length_bound)

lemma refines_full_log:
  "contents s = last_n (cap s) full \<Longrightarrow>
     contents (foldl push s xs) = last_n (cap s) (full @ xs)"
  using single.keyed_refines_full_log [where s = s and k = "()" and full = full and xs = xs] by simp

lemma newest: "0 < cap s \<Longrightarrow> contents (push s x) \<noteq> [] \<and> last (contents (push s x)) = x"
  using single.newest_retained [where s = s and x = x] by simp

end

section \<open>Interface: a simulation-time clock\<close>

text \<open>
  Several components accept inputs in nondecreasing simulation time and refuse an input that
  precedes the last accepted one. \<open>stamp\<close> is the time of an input (an input without a time leaves
  the clock alone), \<open>step\<close> the operation, which may raise.
\<close>

locale sim_clock =
  fixes clock :: "'s \<Rightarrow> int option"
    and stamp :: "'f \<Rightarrow> int option"
    and step :: "'s \<Rightarrow> 'f \<Rightarrow> 'r result \<times> 's"
  assumes accepted_advances:
      "step s f = (Inr r, s') \<Longrightarrow> stamp f = Some t \<Longrightarrow> clock s' = Some t"
    and accepted_ordered:
      "step s f = (Inr r, s') \<Longrightarrow> stamp f = Some t \<Longrightarrow> clock s = Some c \<Longrightarrow> c \<le> t"
    and accepted_without_time:
      "step s f = (Inr r, s') \<Longrightarrow> stamp f = None \<Longrightarrow> clock s' = clock s"
begin

text \<open>Feeding a list of inputs, stopping at the first one that is refused.\<close>

fun accepts_all :: "'s \<Rightarrow> 'f list \<Rightarrow> 's option" where
  "accepts_all s [] = Some s"
| "accepts_all s (f # fs) =
     (case step s f of (Inl e, s') \<Rightarrow> None | (Inr r, s') \<Rightarrow> accepts_all s' fs)"

lemma backward_refused:
  assumes "stamp f = Some t" and "clock s = Some c" and "t < c"
  shows "\<exists>e s'. step s f = (Inl e, s')"
proof (cases "step s f")
  case (Pair res s')
  show ?thesis
  proof (cases res)
    case (Inr r)
    with Pair accepted_ordered assms(1,2) have "c \<le> t" by blast
    with assms(3) show ?thesis by simp
  qed (use Pair in auto)
qed

lemma accepted_sorted_from:
  "accepts_all s fs = Some s' \<Longrightarrow>
     sorted (List.map_filter stamp fs) \<and>
     (\<forall>c. clock s = Some c \<longrightarrow> (\<forall>t \<in> set (List.map_filter stamp fs). c \<le> t))"
proof (induction fs arbitrary: s)
  case Nil
  then show ?case by (simp add: List.map_filter_def)
next
  case (Cons f fs)
  from Cons.prems obtain r s1 where st: "step s f = (Inr r, s1)" and rest: "accepts_all s1 fs = Some s'"
    by (auto split: prod.splits sum.splits)
  note IH = Cons.IH [OF rest]
  show ?case
  proof (cases "stamp f")
    case None
    with accepted_without_time [OF st] IH show ?thesis by (simp add: List.map_filter_simps)
  next
    case (Some t)
    have ge: "\<forall>u \<in> set (List.map_filter stamp fs). t \<le> u"
      using IH accepted_advances [OF st Some] by blast
    moreover have "\<forall>c. clock s = Some c \<longrightarrow> c \<le> t"
      using accepted_ordered [OF st Some] by blast
    ultimately show ?thesis
      using IH Some by (fastforce simp: List.map_filter_simps)
  qed
qed

lemma accepted_sorted: "accepts_all s fs = Some s' \<Longrightarrow> sorted (List.map_filter stamp fs)"
  using accepted_sorted_from by blast

end

section \<open>Further list lemmas\<close>

lemma map_of_map_graph:
  "map_of (map (\<lambda>k. (k, f k)) ks) k = (if k \<in> set ks then Some (f k) else None)"
  by (induction ks) auto

lemma map_zip_first: "length xs = length ys \<Longrightarrow> map (\<lambda>(x, y). f x) (zip xs ys) = map f xs"
  by (induction xs ys rule: list_induct2) auto

lemma map_zip_second: "length xs = length ys \<Longrightarrow> map (\<lambda>(x, y). f y) (zip xs ys) = map f ys"
  by (induction xs ys rule: list_induct2) auto

lemma dict_get_key: "dict_get d k = Some v \<Longrightarrow> k \<in> set (dict_keys d)"
  by (force dest: map_of_SomeD)

lemma list_all2_map_fst: "list_all2 (\<lambda>x y. f x = g y) xs ys \<Longrightarrow> map f xs = map g ys"
  by (induction rule: list_all2_induct) auto

lemma count_list_append [simp]: "count_list (xs @ ys) x = count_list xs x + count_list ys x"
  by (induction xs) auto

lemma sorted_snoc: "sorted (xs @ [x]) \<longleftrightarrow> sorted xs \<and> (\<forall>y \<in> set xs. y \<le> x)"
  for x :: "'a::linorder"
  by (auto simp: sorted_append)

end
