(* ===== verification/Py_Values.thy ===== *)
theory Py_Values
  imports Tuner_Prelude "HOL-Library.Log_Nat"
begin

text \<open>
  Python's \<open>float\<close> (IEEE 754 binary64) and the dynamically typed values the program inspects with
  \<open>isinstance\<close> and \<open>type\<close>. A finite float is the rational number it denotes (the two zeros are one
  value: nothing in the program tells them apart); every arithmetic operation rounds its exact
  result to the nearest double, ties to even, and overflows to an infinity.
\<close>

section \<open>Rounding to binary64\<close>

definition pow2 :: "int \<Rightarrow> rat" where
  "pow2 e = (if 0 \<le> e then 2 ^ nat e else 1 / 2 ^ nat (- e))"

text \<open>Exponent of the leading bit of a positive rational.\<close>

definition ilog2 :: "rat \<Rightarrow> int" where
  "ilog2 x =
     (case quotient_of x of (n, d) \<Rightarrow>
        let k = int (floorlog 2 (nat n)) - int (floorlog 2 (nat d))
        in if pow2 k \<le> x then k else k - 1)"

definition round_half_even :: "rat \<Rightarrow> int" where
  "round_half_even x =
     (let f = \<lfloor>x\<rfloor>; r = x - of_int f
      in if r < 1 / 2 then f else if 1 / 2 < r then f + 1 else if even f then f else f + 1)"

datatype pyfloat = Finite rat | Pos_Inf | Neg_Inf | Not_A_Number

definition unit_exponent :: "rat \<Rightarrow> int" where
  "unit_exponent x = max (ilog2 \<bar>x\<bar> - 52) (- 1074)"

definition round_double :: "rat \<Rightarrow> pyfloat" where
  "round_double x =
     (if x = 0 then Finite 0
      else let u = pow2 (unit_exponent x); y = of_int (round_half_even (x / u)) * u
           in if 2 ^ 1024 \<le> y then Pos_Inf else if y \<le> - (2 ^ 1024) then Neg_Inf else Finite y)"

section \<open>Comparison and arithmetic\<close>

fun float_less :: "pyfloat \<Rightarrow> pyfloat \<Rightarrow> bool" where
  "float_less (Finite x) (Finite y) = (x < y)"
| "float_less (Finite _) Pos_Inf = True"
| "float_less Neg_Inf (Finite _) = True"
| "float_less Neg_Inf Pos_Inf = True"
| "float_less _ _ = False"

fun float_neg :: "pyfloat \<Rightarrow> pyfloat" where
  "float_neg (Finite x) = Finite (- x)"
| "float_neg Pos_Inf = Neg_Inf"
| "float_neg Neg_Inf = Pos_Inf"
| "float_neg Not_A_Number = Not_A_Number"

fun float_abs :: "pyfloat \<Rightarrow> pyfloat" where
  "float_abs (Finite x) = Finite \<bar>x\<bar>"
| "float_abs Neg_Inf = Pos_Inf"
| "float_abs f = f"

fun float_add :: "pyfloat \<Rightarrow> pyfloat \<Rightarrow> pyfloat" where
  "float_add (Finite x) (Finite y) = round_double (x + y)"
| "float_add Not_A_Number _ = Not_A_Number"
| "float_add _ Not_A_Number = Not_A_Number"
| "float_add Pos_Inf Neg_Inf = Not_A_Number"
| "float_add Neg_Inf Pos_Inf = Not_A_Number"
| "float_add Pos_Inf _ = Pos_Inf"
| "float_add _ Pos_Inf = Pos_Inf"
| "float_add Neg_Inf _ = Neg_Inf"
| "float_add _ Neg_Inf = Neg_Inf"

definition float_sub :: "pyfloat \<Rightarrow> pyfloat \<Rightarrow> pyfloat" where
  "float_sub x y = float_add x (float_neg y)"

text \<open>\<open>float(i)\<close> of an integer: rounded, \<open>OverflowError\<close> beyond the largest double.\<close>

definition float_of_int :: "int \<Rightarrow> pyfloat result" where
  "float_of_int i =
     (case round_double (of_int i) of
        Finite x \<Rightarrow> Inr (Finite x)
      | _ \<Rightarrow> raise Overflow_Error ''int too large to convert to float'')"

text \<open>
  \<open>a / b\<close> of two integers is the correctly rounded exact quotient; \<open>max\<close> over a sequence keeps the
  first item no later item exceeds.
\<close>

definition int_truediv :: "int \<Rightarrow> int \<Rightarrow> pyfloat result" where
  "int_truediv a b =
     (if b = 0 then raise Zero_Division_Error ''division by zero''
      else case round_double (of_int a / of_int b) of
             Finite x \<Rightarrow> Inr (Finite x)
           | _ \<Rightarrow> raise Overflow_Error ''integer division result too large for a float'')"

text \<open>
  \<open>x / y\<close> of two floats: a zero divisor raises, an overflow is silently infinite.
\<close>

definition float_is_zero :: "pyfloat \<Rightarrow> bool" where
  "float_is_zero x = (x = Finite 0)"

definition float_div :: "pyfloat \<Rightarrow> pyfloat \<Rightarrow> pyfloat result" where
  "float_div x y =
     (if float_is_zero y then raise Zero_Division_Error ''float division by zero''
      else Inr (case (x, y) of
          (Finite a, Finite b) \<Rightarrow> round_double (a / b)
        | (Finite _, Pos_Inf) \<Rightarrow> Finite 0
        | (Finite _, Neg_Inf) \<Rightarrow> Finite 0
        | (Pos_Inf, Finite b) \<Rightarrow> if 0 < b then Pos_Inf else Neg_Inf
        | (Neg_Inf, Finite b) \<Rightarrow> if 0 < b then Neg_Inf else Pos_Inf
        | _ \<Rightarrow> Not_A_Number))"

fun float_max_from :: "pyfloat \<Rightarrow> pyfloat list \<Rightarrow> pyfloat" where
  "float_max_from m [] = m"
| "float_max_from m (x # xs) = float_max_from (if float_less m x then x else m) xs"

definition float_max :: "pyfloat list \<Rightarrow> pyfloat result" where
  "float_max xs =
     (case xs of [] \<Rightarrow> raise Value_Error ''max() iterable argument is empty''
      | x # rest \<Rightarrow> Inr (float_max_from x rest))"

section \<open>Dynamically typed values\<close>

datatype py_value =
    Py_Bool bool | Py_Int int | Py_Float pyfloat | Py_Str string | Py_Bytes bytes | Py_None

text \<open>\<open>bool\<close> is a subclass of \<open>int\<close>, so \<open>isinstance(True, int)\<close> holds and the program excludes it.\<close>

fun isinstance_bool :: "py_value \<Rightarrow> bool" where
  "isinstance_bool (Py_Bool _) = True"
| "isinstance_bool _ = False"

fun isinstance_int :: "py_value \<Rightarrow> bool" where
  "isinstance_int (Py_Bool _) = True"
| "isinstance_int (Py_Int _) = True"
| "isinstance_int _ = False"

fun isinstance_bytes :: "py_value \<Rightarrow> bool" where
  "isinstance_bytes (Py_Bytes _) = True"
| "isinstance_bytes _ = False"

fun int_value :: "py_value \<Rightarrow> int" where
  "int_value (Py_Bool b) = (if b then 1 else 0)"
| "int_value (Py_Int i) = i"
| "int_value _ = 0"

fun bytes_value :: "py_value \<Rightarrow> bytes" where
  "bytes_value (Py_Bytes b) = b"
| "bytes_value _ = []"

text \<open>The guard \<open>isinstance(x, bool) or not isinstance(x, int)\<close> that most validators start with.\<close>

definition not_plain_int :: "py_value \<Rightarrow> bool" where
  "not_plain_int v = (isinstance_bool v \<or> \<not> isinstance_int v)"

lemma not_plain_int_iff: "\<not> not_plain_int v \<longleftrightarrow> (\<exists>i. v = Py_Int i)"
  by (cases v) (auto simp: not_plain_int_def)

lemma not_plain_int_simps [simp]:
  "not_plain_int (Py_Int i) = False" "not_plain_int (Py_Bool b) = True"
  "not_plain_int (Py_Float f) = True" "not_plain_int (Py_Str s) = True"
  "not_plain_int (Py_Bytes bs) = True" "not_plain_int Py_None = True"
  by (simp_all add: not_plain_int_def)

section \<open>Order lemmas for floats\<close>

lemma float_less_irrefl [simp]: "\<not> float_less x x"
  by (cases x) auto

lemma float_less_trans: "float_less x y \<Longrightarrow> float_less y z \<Longrightarrow> float_less x z"
  by (cases x; cases y; cases z) auto

lemma float_less_asym: "float_less x y \<Longrightarrow> \<not> float_less y x"
  by (cases x; cases y) auto

text \<open>
  A value above the higher of two finite thresholds is above the lower one, whatever the value is;
  NaN is above neither.
\<close>

lemma float_less_weaken_left: "q \<le> p \<Longrightarrow> float_less (Finite p) x \<Longrightarrow> float_less (Finite q) x"
  by (cases x) auto

lemma float_less_weaken_right: "p \<le> q \<Longrightarrow> float_less x (Finite p) \<Longrightarrow> float_less x (Finite q)"
  by (cases x) auto

lemma float_max_from_exceeds:
  assumes "m \<noteq> Not_A_Number" and "Not_A_Number \<notin> set xs"
  shows "float_less t (float_max_from m xs) \<longleftrightarrow> float_less t m \<or> (\<exists>x \<in> set xs. float_less t x)"
  using assms
proof (induction xs arbitrary: m)
  case (Cons x xs)
  have "float_less t (if float_less m x then x else m) \<longleftrightarrow> float_less t m \<or> float_less t x"
    using Cons.prems by (cases t; cases m; cases x) auto
  with Cons.IH [of "if float_less m x then x else m"] Cons.prems show ?case by auto
qed simp

lemma float_max_exceeds:
  assumes "float_max xs = Inr m" and "Not_A_Number \<notin> set xs"
  shows "float_less t m \<longleftrightarrow> (\<exists>x \<in> set xs. float_less t x)"
  using assms by (auto simp: float_max_def float_max_from_exceeds split: list.splits)

section \<open>Rounding lemmas\<close>

lemma pow2_pos [simp]: "0 < pow2 e"
  by (simp add: pow2_def)

lemma round_half_even_of_int [simp]: "round_half_even (of_int i) = i"
  by (simp add: round_half_even_def)

lemma round_double_zero [simp]: "round_double 0 = Finite 0"
  by (simp add: round_double_def)

lemma round_double_not_nan [simp]: "round_double x \<noteq> Not_A_Number"
  by (simp add: round_double_def Let_def)

lemma float_sub_finite: "float_sub (Finite x) (Finite y) = round_double (x - y)"
  by (simp add: float_sub_def)

lemma float_sub_self [simp]: "float_sub (Finite x) (Finite x) = Finite 0"
  by (simp add: float_sub_finite)

lemma round_half_even_mono: "x \<le> y \<Longrightarrow> round_half_even x \<le> round_half_even y"
proof -
  assume xy: "x \<le> y"
  have fl: "\<lfloor>x\<rfloor> \<le> \<lfloor>y\<rfloor>" using xy by (rule floor_mono)
  have bnd: "\<lfloor>z\<rfloor> \<le> round_half_even z \<and> round_half_even z \<le> \<lfloor>z\<rfloor> + 1" for z
    by (simp add: round_half_even_def Let_def)
  show ?thesis
  proof (cases "\<lfloor>x\<rfloor> = \<lfloor>y\<rfloor>")
    case True
    then show ?thesis using xy by (auto simp: round_half_even_def Let_def)
  next
    case False
    with fl have "\<lfloor>x\<rfloor> + 1 \<le> \<lfloor>y\<rfloor>" by simp
    with bnd [of x] bnd [of y] show ?thesis by linarith
  qed
qed

text \<open>
  A float that is an integer multiple of its own unit in the last place, below the overflow
  threshold, is a fixed point of the rounding: differences and quotients that are representable are
  computed exactly.
\<close>

lemma round_double_exact:
  assumes "x = of_int m * pow2 (unit_exponent x)" and "\<bar>x\<bar> < 2 ^ 1024"
  shows "round_double x = Finite x"
proof (cases "x = 0")
  case False
  let ?u = "pow2 (unit_exponent x)"
  have "x / ?u = of_int m"
    using assms(1) by (metis less_irrefl nonzero_mult_div_cancel_right pow2_pos)
  then have "of_int (round_half_even (x / ?u)) * ?u = x"
    using assms(1) by simp
  then show ?thesis
    using assms(2) False by (auto simp: round_double_def Let_def abs_less_iff)
qed simp

section \<open>Bounded quotients round to finite floats\<close>

lemma pow2_diff: "pow2 (int a - int b) = 2 ^ a / 2 ^ b"
proof (cases "b \<le> a")
  case True
  then have "nat (int a - int b) = a - b" by simp
  then show ?thesis using True by (simp add: pow2_def power_diff)
next
  case False
  then have "nat (- (int a - int b)) = b - a" and "\<not> 0 \<le> int a - int b" by simp_all
  then show ?thesis using False by (simp add: pow2_def power_diff)
qed

lemma pow2_mono: "a \<le> b \<Longrightarrow> pow2 a \<le> pow2 b"
proof -
  assume ab: "a \<le> b"
  obtain m n where m: "a = int m - int n" by (metis int_diff_cases)
  obtain p q where p: "b = int p - int q" by (metis int_diff_cases)
  have "m + q \<le> p + n" using ab m p by simp
  then have "(2::rat) ^ (m + q) \<le> 2 ^ (p + n)" by (simp add: power_increasing)
  then show ?thesis unfolding m p pow2_diff by (simp add: field_simps power_add)
qed

lemma pow2_ilog2: "0 < x \<Longrightarrow> pow2 (ilog2 x) \<le> x"
proof -
  assume x: "0 < x"
  obtain n d where q: "quotient_of x = (n, d)" by force
  have d: "0 < d" and xd: "x = of_int n / of_int d"
    using quotient_of_denom_pos [OF q] quotient_of_div [OF q] by simp_all
  have n: "0 < n" using x xd d by (simp add: zero_less_divide_iff)
  let ?a = "floorlog 2 (nat n)" and ?b = "floorlog 2 (nat d)"
  have a: "2 ^ (?a - 1) \<le> nat n" and pos: "0 < ?a" and b: "nat d < 2 ^ ?b"
    using n d floorlog_bounds [of "nat n" 2] floorlog_bounds [of "nat d" 2]
    by (simp_all add: floorlog_eq_zero_iff neq0_conv [symmetric])
  have "(2::rat) ^ (?a - 1) \<le> of_nat (nat n)" using a by (metis of_nat_le_iff of_nat_numeral of_nat_power)
  moreover have "of_nat (nat d) \<le> (2::rat) ^ ?b"
    using b by (metis less_imp_le of_nat_le_iff of_nat_numeral of_nat_power)
  ultimately have "(2::rat) ^ (?a - 1) / 2 ^ ?b \<le> of_int n / of_int d"
    using n d by (intro frac_le) simp_all
  then have "pow2 (int ?a - int ?b - 1) \<le> x"
    using pow2_diff [of "?a - 1" ?b] pos by (simp add: xd of_nat_diff algebra_simps)
  then show ?thesis by (simp add: ilog2_def q Let_def)
qed

lemma round_half_even_near:
  "of_int (round_half_even z) \<le> z + 1 \<and> z - 1 \<le> of_int (round_half_even z)"
  unfolding round_half_even_def Let_def by (auto simp: not_less) linarith+

lemma round_double_finite:
  assumes "\<bar>x\<bar> \<le> 2 ^ 70"
  shows "\<exists>y. round_double x = Finite y"
proof (cases "x = 0")
  case False
  let ?u = "pow2 (unit_exponent x)"
  have "pow2 (ilog2 \<bar>x\<bar> - 52) \<le> \<bar>x\<bar>"
    using pow2_mono [of "ilog2 \<bar>x\<bar> - 52" "ilog2 \<bar>x\<bar>"] pow2_ilog2 [of "\<bar>x\<bar>"] False by simp
  moreover have "pow2 (- 1074) \<le> 1" using pow2_mono [of "- 1074" 0] by (simp add: pow2_def)
  ultimately have u: "?u \<le> max \<bar>x\<bar> 1" by (simp add: unit_exponent_def max_def)
  have "max \<bar>x\<bar> 1 \<le> (2::rat) ^ 70" using assms by simp
  with u have u70: "?u \<le> 2 ^ 70" by linarith
  let ?y = "of_int (round_half_even (x / ?u)) * ?u"
  have up: "?y \<le> (x / ?u + 1) * ?u" and lo: "(x / ?u - 1) * ?u \<le> ?y"
    using round_half_even_near [of "x / ?u"] by (simp_all add: mult_right_mono)
  have "?u \<noteq> 0" using pow2_pos [of "unit_exponent x"] by linarith
  then have "x / ?u * ?u = x" by simp
  then have e1: "(x / ?u + 1) * ?u = x + ?u" and e2: "(x / ?u - 1) * ?u = x - ?u"
    by (simp_all only: distrib_right left_diff_distrib mult_1)
  have x70: "x \<le> 2 ^ 70" "- x \<le> 2 ^ 70" using assms by (simp_all add: abs_le_iff)
  have "?y \<le> 2 ^ 70 + 2 ^ 70"
    using up add_mono [OF x70(1) u70] unfolding e1 by (rule order_trans)
  moreover have "- ?y \<le> 2 ^ 70 + 2 ^ 70"
  proof -
    have "- ?y \<le> - (x - ?u)" using lo unfolding e2 by (simp only: neg_le_iff_le)
    also have "\<dots> = - x + ?u" by simp
    also have "\<dots> \<le> 2 ^ 70 + 2 ^ 70" by (rule add_mono [OF x70(2) u70])
    finally show ?thesis .
  qed
  moreover have "(2::rat) ^ 70 + 2 ^ 70 < 2 ^ 1024" by simp
  ultimately have "?y < 2 ^ 1024" and "- ?y < 2 ^ 1024" by (metis le_less_trans)+
  then have "\<not> 2 ^ 1024 \<le> ?y" and "\<not> ?y \<le> - (2 ^ 1024)"
    by (simp_all only: not_le minus_less_iff)
  then show ?thesis using False by (simp add: round_double_def Let_def)
qed simp

lemma int_truediv_finite:
  assumes "\<bar>a\<bar> < 2 ^ 64" and "1 \<le> b"
  shows "\<exists>y. int_truediv a b = Inr (Finite y)"
proof -
  have "\<bar>of_int a / of_int b :: rat\<bar> \<le> of_int \<bar>a\<bar>"
  proof -
    have "(of_int \<bar>a\<bar> :: rat) / of_int b \<le> of_int \<bar>a\<bar> / 1"
      using assms(2) by (intro frac_le) simp_all
    then show ?thesis using assms(2) by (simp add: abs_divide)
  qed
  moreover have "(of_int \<bar>a\<bar> :: rat) \<le> of_int (2 ^ 70)"
    using assms(1) by (simp only: of_int_le_iff) simp
  ultimately have "\<bar>of_int a / of_int b :: rat\<bar> \<le> 2 ^ 70" by simp
  from round_double_finite [OF this] assms(2) show ?thesis by (auto simp: int_truediv_def)
qed

end
