(* ===== verification/Can_Frames.thy ===== *)
theory Can_Frames
  imports Py_Values
begin

text \<open>
  The raw and decoded CAN boundary contracts (\<open>can/models.py\<close>) and the fixed 19-byte record codec
  (\<open>can/record_codec.py\<close>), shared by the gateway and by recorded sessions. The lemmas show that
  encoding and decoding are inverse on canonical records, what decoding accepts and rejects, and
  that everything decoding returns satisfies the frame contract.
\<close>

section \<open>Frames\<close>

record raw_can_frame =
  arbitration_id :: int
  payload :: bytes
  timestamp_microseconds :: int

text \<open>The dataclass constructor: field assignment followed by \<open>__post_init__\<close>.\<close>

definition make_raw_can_frame :: "py_value \<Rightarrow> py_value \<Rightarrow> py_value \<Rightarrow> raw_can_frame result" where
  "make_raw_can_frame aid pl ts =
     (if not_plain_int aid then raise Type_Error ''arbitration_id must be an integer''
      else if \<not> (0 \<le> int_value aid \<and> int_value aid \<le> 0x7FF)
        then raise Value_Error ''standard CAN arbitration_id must be in [0, 0x7FF]''
      else if \<not> isinstance_bytes pl then raise Type_Error ''payload must be bytes''
      else if length (bytes_value pl) > 8
        then raise Value_Error ''Classic CAN payload cannot exceed 8 bytes''
      else if not_plain_int ts then raise Type_Error ''timestamp_microseconds must be an integer''
      else if int_value ts < 0
        then raise Value_Error ''timestamp_microseconds cannot be negative''
      else Inr \<lparr>arbitration_id = int_value aid, payload = bytes_value pl,
                timestamp_microseconds = int_value ts\<rparr>)"

definition payload_length :: "raw_can_frame \<Rightarrow> int" where
  "payload_length f = int (length (payload f))"

type_synonym signal_value = py_value

record decoded_can_frame =
  df_arbitration_id :: int
  df_message_name :: string
  df_timestamp_microseconds :: int
  df_signals :: "(string, signal_value) dict"

text \<open>\<open>__post_init__\<close> copies the given mapping, so later changes to it are not seen.\<close>

definition make_decoded_can_frame ::
  "int \<Rightarrow> string \<Rightarrow> int \<Rightarrow> (string, signal_value) dict \<Rightarrow> decoded_can_frame" where
  "make_decoded_can_frame aid name ts signals =
     \<lparr>df_arbitration_id = aid, df_message_name = name, df_timestamp_microseconds = ts,
      df_signals = dict_of signals\<rparr>"

text \<open>What the constructor guarantees of every frame in the system.\<close>

definition wf_frame :: "raw_can_frame \<Rightarrow> bool" where
  "wf_frame f \<longleftrightarrow> 0 \<le> arbitration_id f \<and> arbitration_id f \<le> 0x7FF \<and> length (payload f) \<le> 8
     \<and> 0 \<le> timestamp_microseconds f"

lemma make_raw_can_frame_wf: "make_raw_can_frame a p t = Inr f \<Longrightarrow> wf_frame f"
  by (auto simp: make_raw_can_frame_def wf_frame_def split: if_splits)

lemma make_raw_can_frame_complete:
  "wf_frame f \<Longrightarrow>
     make_raw_can_frame (Py_Int (arbitration_id f)) (Py_Bytes (payload f))
       (Py_Int (timestamp_microseconds f)) = Inr f"
  by (simp add: make_raw_can_frame_def wf_frame_def)

section \<open>Big-endian fields\<close>

fun be_bytes :: "nat \<Rightarrow> int \<Rightarrow> bytes" where
  "be_bytes 0 i = []"
| "be_bytes (Suc n) i = be_bytes n (i div 256) @ [word_of_int (i mod 256)]"

definition be_value :: "bytes \<Rightarrow> int" where
  "be_value bs = foldl (\<lambda>acc b. acc * 256 + uint b) 0 bs"

lemma length_be_bytes [simp]: "length (be_bytes n i) = n"
  by (induction n arbitrary: i) auto

lemma be_value_snoc [simp]: "be_value (bs @ [b]) = be_value bs * 256 + uint b"
  by (simp add: be_value_def)

lemma be_value_Nil [simp]: "be_value [] = 0"
  by (simp add: be_value_def)

lemma uint_word_of_byte: "0 \<le> i \<Longrightarrow> i < 256 \<Longrightarrow> uint (word_of_int i :: u8) = i"
  by (simp add: uint_word_of_int)

lemma be_value_bytes: "0 \<le> i \<Longrightarrow> i < 256 ^ n \<Longrightarrow> be_value (be_bytes n i) = i"
proof (induction n arbitrary: i)
  case (Suc n)
  have "i div 256 < 256 ^ n" using Suc.prems by (simp add: div_less_iff_less_mult mult.commute)
  then have "be_value (be_bytes n (i div 256)) = i div 256" using Suc by simp
  then show ?case by (simp add: uint_word_of_byte)
qed simp

lemma uint_u8_less: "uint (b :: u8) < 256"
  using uint_lt2p [of b] by simp

lemma be_value_bound: "0 \<le> be_value bs \<and> be_value bs < 256 ^ length bs"
proof (induction bs rule: rev_induct)
  case (snoc b bs)
  have "be_value bs * 256 + uint b < (be_value bs + 1) * 256" using uint_u8_less [of b] by simp
  also have "\<dots> \<le> 256 ^ length bs * 256" using snoc by (intro mult_right_mono) auto
  finally show ?case using snoc by simp
qed simp

lemma be_bytes_value: "length bs = n \<Longrightarrow> be_bytes n (be_value bs) = bs"
proof (induction bs arbitrary: n rule: rev_induct)
  case (snoc b bs)
  have "(be_value bs * 256 + uint b) div 256 = be_value bs"
    and "(be_value bs * 256 + uint b) mod 256 = uint b"
    using uint_u8_less [of b] by simp_all
  with snoc show ?case by (auto simp: word_of_int_uint)
qed auto

section \<open>The record codec\<close>

abbreviation (input) RAW_CAN_RECORD_SIZE :: nat where
  "RAW_CAN_RECORD_SIZE \<equiv> 19"

text \<open>
  \<open>struct.Struct("!QHB8s")\<close>: eight, two and one big-endian bytes, then the payload field, which
  \<open>8s\<close> truncates or zero-fills to eight bytes. Packing an integer outside its field raises
  \<open>struct.error\<close>, which is not a \<open>ValueError\<close>.
\<close>

definition pack_field :: "nat \<Rightarrow> int \<Rightarrow> bytes result" where
  "pack_field n i =
     (if 0 \<le> i \<and> i < 256 ^ n then Inr (be_bytes n i)
      else raise Struct_Error ''argument out of range'')"

definition ljust_zero :: "nat \<Rightarrow> bytes \<Rightarrow> bytes" where
  "ljust_zero n bs = bs @ replicate (n - length bs) 0"

definition encode_raw_can_record :: "raw_can_frame \<Rightarrow> bytes result" where
  "encode_raw_can_record f =
     rbind (pack_field 8 (timestamp_microseconds f)) (\<lambda>q.
     rbind (pack_field 2 (arbitration_id f)) (\<lambda>h.
     rbind (pack_field 1 (payload_length f)) (\<lambda>b.
       Inr (q @ h @ b @ take 8 (ljust_zero 8 (payload f))))))"

definition decode_raw_can_record :: "bytes \<Rightarrow> raw_can_frame result" where
  "decode_raw_can_record data =
     (if length data \<noteq> RAW_CAN_RECORD_SIZE
        then raise Raw_Can_Record_Error
          (''raw CAN record requires '' @ str_int 19 @ '' bytes, got '' @ str_int (int (length data)))
      else
        let timestamp = be_value (take 8 data);
            aid = be_value (take 2 (drop 8 data));
            dlc = be_value (take 1 (drop 10 data));
            padded_payload = take 8 (drop 11 data)
        in if aid > 0x7FF
             then raise Raw_Can_Record_Error
               (''invalid standard CAN arbitration ID 0x'' @ hex_upper aid)
           else if dlc > 8
             then raise Raw_Can_Record_Error (''invalid Classic CAN DLC '' @ str_int dlc)
           else make_raw_can_frame (Py_Int aid) (Py_Bytes (take (nat dlc) padded_payload))
                  (Py_Int timestamp))"

text \<open>A record in canonical form: nothing but zeros behind the payload.\<close>

definition canonical_record :: "bytes \<Rightarrow> bool" where
  "canonical_record data \<longleftrightarrow>
     (\<forall>b \<in> set (drop (11 + nat (be_value (take 1 (drop 10 data)))) data). b = 0)"

definition encodable :: "raw_can_frame \<Rightarrow> bool" where
  "encodable f \<longleftrightarrow> wf_frame f \<and> timestamp_microseconds f < 2 ^ 64"

subsection \<open>Encoding\<close>

definition record_bytes :: "raw_can_frame \<Rightarrow> bytes" where
  "record_bytes f =
     be_bytes 8 (timestamp_microseconds f) @ be_bytes 2 (arbitration_id f)
       @ be_bytes 1 (payload_length f) @ payload f @ replicate (8 - length (payload f)) 0"

lemma encode_ok: "encodable f \<Longrightarrow> encode_raw_can_record f = Inr (record_bytes f)"
  by (auto simp: encodable_def wf_frame_def encode_raw_can_record_def pack_field_def
      payload_length_def record_bytes_def ljust_zero_def)

lemma length_record_bytes: "wf_frame f \<Longrightarrow> length (record_bytes f) = RAW_CAN_RECORD_SIZE"
  by (simp add: record_bytes_def wf_frame_def)

lemma encode_wf_iff: "wf_frame f \<Longrightarrow> (\<exists>b. encode_raw_can_record f = Inr b) \<longleftrightarrow> encodable f"
  by (auto simp: encodable_def wf_frame_def encode_raw_can_record_def pack_field_def
      payload_length_def rbind_def)

lemma encode_overflow:
  "2 ^ 64 \<le> timestamp_microseconds f \<Longrightarrow>
     encode_raw_can_record f = raise Struct_Error ''argument out of range''"
  by (simp add: encode_raw_can_record_def pack_field_def)

lemma encode_Inr: "wf_frame f \<Longrightarrow> encode_raw_can_record f = Inr b \<Longrightarrow> encodable f \<and> b = record_bytes f"
  using encode_wf_iff [of f] encode_ok [of f] by auto

subsection \<open>Decoding\<close>

lemma decode_length: "decode_raw_can_record data = Inr f \<Longrightarrow> length data = RAW_CAN_RECORD_SIZE"
  by (simp add: decode_raw_can_record_def split: if_splits)

lemma decode_wf: "decode_raw_can_record data = Inr f \<Longrightarrow> wf_frame f"
  by (auto simp: decode_raw_can_record_def Let_def split: if_splits dest: make_raw_can_frame_wf)

lemma decode_fields:
  assumes "decode_raw_can_record data = Inr f"
  shows "timestamp_microseconds f = be_value (take 8 data)"
    and "arbitration_id f = be_value (take 2 (drop 8 data))"
    and "payload f = take (nat (be_value (take 1 (drop 10 data)))) (take 8 (drop 11 data))"
    and "be_value (take 1 (drop 10 data)) \<le> 8"
  using assms
  by (auto simp: decode_raw_can_record_def make_raw_can_frame_def Let_def split: if_splits)

lemma decode_encodable: "decode_raw_can_record data = Inr f \<Longrightarrow> encodable f"
proof -
  assume d: "decode_raw_can_record data = Inr f"
  have "be_value (take 8 data) < 256 ^ 8"
    using be_value_bound [of "take 8 data"] decode_length [OF d] by simp
  then show ?thesis
    using decode_fields(1) [OF d] decode_wf [OF d] by (simp add: encodable_def)
qed

lemma decode_record_bytes:
  assumes "encodable f"
  shows "decode_raw_can_record (record_bytes f) = Inr f"
proof -
  let ?n = "length (payload f)"
  have wf: "wf_frame f" and ts: "timestamp_microseconds f < 256 ^ 8"
    using assms by (simp_all add: encodable_def)
  have n8: "?n \<le> 8" using wf by (simp add: wf_frame_def)
  let ?data = "record_bytes f"
  have fields: "take 8 ?data = be_bytes 8 (timestamp_microseconds f)"
    "take 2 (drop 8 ?data) = be_bytes 2 (arbitration_id f)"
    "take 1 (drop 10 ?data) = be_bytes 1 (int ?n)"
    "take 8 (drop 11 ?data) = payload f @ replicate (8 - ?n) 0"
    using n8 by (simp_all add: record_bytes_def payload_length_def del: be_bytes.simps)
  have vals: "be_value (be_bytes 8 (timestamp_microseconds f)) = timestamp_microseconds f"
    "be_value (be_bytes 2 (arbitration_id f)) = arbitration_id f"
    "be_value (be_bytes 1 (int ?n)) = int ?n"
    using wf ts n8 by (simp_all add: be_value_bytes wf_frame_def del: be_bytes.simps)
  have "\<not> arbitration_id f > 0x7FF" and "\<not> int ?n > 8"
    using wf by (simp_all add: wf_frame_def)
  then show ?thesis
    using length_record_bytes [OF wf] make_raw_can_frame_complete [OF wf]
    by (simp add: decode_raw_can_record_def Let_def fields vals del: One_nat_def)
qed

lemma decode_total:
  assumes "length data = RAW_CAN_RECORD_SIZE"
    and "be_value (take 2 (drop 8 data)) \<le> 0x7FF"
    and "be_value (take 1 (drop 10 data)) \<le> 8"
  shows "\<exists>f. decode_raw_can_record data = Inr f"
  using assms be_value_bound [of "take 2 (drop 8 data)"] be_value_bound [of "take 8 data"]
    be_value_bound [of "take 1 (drop 10 data)"]
  by (auto simp: decode_raw_can_record_def make_raw_can_frame_def Let_def)

lemma decode_error_class:
  assumes "decode_raw_can_record data = Inl e"
  shows "exn_class e = Raw_Can_Record_Error"
proof (rule ccontr)
  assume neq: "exn_class e \<noteq> Raw_Can_Record_Error"
  have "length data = RAW_CAN_RECORD_SIZE \<and> be_value (take 2 (drop 8 data)) \<le> 0x7FF
      \<and> be_value (take 1 (drop 10 data)) \<le> 8"
    using assms neq by (auto simp: decode_raw_can_record_def Let_def split: if_splits)
  then show False using decode_total [of data] assms by auto
qed

lemma split_record:
  "(data :: bytes) = take 8 data @ take 2 (drop 8 data) @ take 1 (drop 10 data) @ drop 11 data"
proof -
  have "drop 10 data = take 1 (drop 10 data) @ drop 11 data"
    using append_take_drop_id [of 1 "drop 10 data"] by simp
  moreover have "drop 8 data = take 2 (drop 8 data) @ drop 10 data"
    using append_take_drop_id [of 2 "drop 8 data"] by simp
  ultimately show ?thesis
    using append_take_drop_id [of 8 data] by metis
qed

lemma record_bytes_decode:
  assumes d: "decode_raw_can_record data = Inr f" and c: "canonical_record data"
  shows "record_bytes f = data"
proof -
  note len = decode_length [OF d] and flds = decode_fields [OF d]
  let ?dlc = "nat (be_value (take 1 (drop 10 data)))"
  have dlc: "0 \<le> be_value (take 1 (drop 10 data))" by (rule be_value_bound [THEN conjunct1])
  have n: "length (payload f) = ?dlc"
    using flds(3,4) len dlc by simp
  have tail: "drop 11 data = payload f @ replicate (8 - ?dlc) 0"
  proof -
    have "drop 11 data = take ?dlc (drop 11 data) @ drop ?dlc (drop 11 data)"
      by (rule append_take_drop_id [symmetric])
    moreover have "take ?dlc (drop 11 data) = payload f"
      using flds(3) flds(4) len by simp
    moreover have "drop ?dlc (drop 11 data) = replicate (8 - ?dlc) 0"
      using c len by (intro replicate_eqI) (auto simp: canonical_record_def add.commute)
    ultimately show ?thesis by metis
  qed
  have "be_bytes 1 (payload_length f) = take 1 (drop 10 data)"
    using n dlc len by (simp add: payload_length_def be_bytes_value del: be_bytes.simps)
  moreover have "be_bytes 8 (timestamp_microseconds f) = take 8 data"
    and "be_bytes 2 (arbitration_id f) = take 2 (drop 8 data)"
    using flds(1,2) len by (simp_all add: be_bytes_value del: be_bytes.simps)
  ultimately show ?thesis
    using split_record [of data] tail n by (simp add: record_bytes_def)
qed

lemma canonical_record_bytes:
  assumes "encodable f"
  shows "canonical_record (record_bytes f)"
proof -
  have n: "length (payload f) \<le> 8" using assms by (simp add: encodable_def wf_frame_def)
  have "take 1 (drop 10 (record_bytes f)) = be_bytes 1 (payload_length f)"
    by (simp add: record_bytes_def del: be_bytes.simps)
  moreover have "be_value (be_bytes 1 (payload_length f)) = payload_length f"
    using n by (simp add: be_value_bytes payload_length_def del: be_bytes.simps)
  moreover have "drop (11 + length (payload f)) (record_bytes f) = replicate (8 - length (payload f)) 0"
    by (simp add: record_bytes_def del: be_bytes.simps)
  ultimately show ?thesis by (auto simp: canonical_record_def payload_length_def)
qed

end
