(* ===== verification/Sha256.thy ===== *)
theory Sha256
  imports Can_Frames
begin

text \<open>
  \<open>hashlib.sha256\<close> as the session files use it: the digest of everything fed to the hasher, in
  lowercase hexadecimal. Feeding a hasher piecewise is feeding it the concatenation, so a hasher is
  represented by the bytes it has consumed.
\<close>

unbundle bit_operations_syntax

type_synonym u32 = "32 word"

text \<open>
  The constants are the first 32 bits of the fractional parts of roots of the first primes: \<open>root_bits k x\<close>
  is the integer \<open>k\<close>-th root of a number below \<open>2 ^ (38 * k)\<close>, found bit by bit.
\<close>

definition root_bits :: "nat \<Rightarrow> int \<Rightarrow> int" where
  "root_bits k x = foldl (\<lambda>r i. if (r + 2 ^ i) ^ k \<le> x then r + 2 ^ i else r) 0 (rev [0..<38])"

definition small_primes :: "int list" where
  "small_primes = filter (\<lambda>n. list_all (\<lambda>d. n mod d \<noteq> 0) [2..n - 1]) [2..311]"

definition root_fraction :: "nat \<Rightarrow> int \<Rightarrow> u32" where
  "root_fraction k p = word_of_int (root_bits k (p * 2 ^ (32 * k)))"

definition sha_round_constants :: "u32 list" where
  "sha_round_constants = map (root_fraction 3) small_primes"

text \<open>The padded message, its 64-byte blocks and the 16 big-endian words of a block.\<close>

definition sha_pad :: "bytes \<Rightarrow> bytes" where
  "sha_pad m = m @ [0x80] @ replicate ((119 - length m mod 64) mod 64) 0 @ be_bytes 8 (8 * int (length m))"

definition sha_blocks :: "bytes \<Rightarrow> bytes list" where
  "sha_blocks p = map (\<lambda>i. take 64 (drop (64 * i) p)) [0..<length p div 64]"

definition sha_words :: "bytes \<Rightarrow> u32 list" where
  "sha_words b = map (\<lambda>i. word_of_int (be_value (take 4 (drop (4 * i) b)))) [0..<16]"

definition sha_extend :: "u32 list \<Rightarrow> u32 list" where
  "sha_extend w =
     (let n = length w; w15 = w ! (n - 15); w2 = w ! (n - 2);
          s0 = (word_rotr 7 w15 XOR word_rotr 18 w15) XOR drop_bit 3 w15;
          s1 = (word_rotr 17 w2 XOR word_rotr 19 w2) XOR drop_bit 10 w2
      in w @ [w ! (n - 16) + s0 + w ! (n - 7) + s1])"

definition sha_schedule :: "bytes \<Rightarrow> u32 list" where
  "sha_schedule b = (sha_extend ^^ 48) (sha_words b)"

text \<open>One round on the eight working variables, with its round constant and schedule word.\<close>

type_synonym sha_state = "u32 \<times> u32 \<times> u32 \<times> u32 \<times> u32 \<times> u32 \<times> u32 \<times> u32"

definition sha_round :: "sha_state \<Rightarrow> u32 \<times> u32 \<Rightarrow> sha_state" where
  "sha_round v kw =
     (case v of (a, b, c, d, e, f, g, h) \<Rightarrow>
        let s1 = (word_rotr 6 e XOR word_rotr 11 e) XOR word_rotr 25 e;
            ch = (e AND f) XOR (NOT e AND g);
            t1 = h + s1 + ch + fst kw + snd kw;
            s0 = (word_rotr 2 a XOR word_rotr 13 a) XOR word_rotr 22 a;
            maj = ((a AND b) XOR (a AND c)) XOR (b AND c)
        in (t1 + (s0 + maj), a, b, c, d + t1, e, f, g))"

definition sha_compress :: "sha_state \<Rightarrow> bytes \<Rightarrow> sha_state" where
  "sha_compress v block =
     (case v of (a, b, c, d, e, f, g, h) \<Rightarrow>
      (case foldl sha_round v (zip sha_round_constants (sha_schedule block)) of
         (a', b', c', d', e', f', g', h') \<Rightarrow>
           (a + a', b + b', c + c', d + d', e + e', f + f', g + g', h + h')))"

definition sha_start :: sha_state where
  "sha_start =
     (case map (root_fraction 2) (take 8 small_primes) of
        [a, b, c, d, e, f, g, h] \<Rightarrow> (a, b, c, d, e, f, g, h)
      | _ \<Rightarrow> (0, 0, 0, 0, 0, 0, 0, 0))"

definition sha256 :: "bytes \<Rightarrow> bytes" where
  "sha256 m =
     (case foldl sha_compress sha_start (sha_blocks (sha_pad m)) of
        (a, b, c, d, e, f, g, h) \<Rightarrow> concat (map (\<lambda>w. be_bytes 4 (uint w)) [a, b, c, d, e, f, g, h]))"

definition hex_digit :: "nat \<Rightarrow> char" where
  "hex_digit n = ''0123456789abcdef'' ! n"

definition hex_byte :: "u8 \<Rightarrow> string" where
  "hex_byte b = [hex_digit (unat b div 16), hex_digit (unat b mod 16)]"

definition hexdigest :: "bytes \<Rightarrow> string" where
  "hexdigest m = concat (map hex_byte (sha256 m))"

lemma length_sha256: "length (sha256 m) = 32"
  by (simp add: sha256_def split: prod.split)

lemma hex_byte_digits: "set (hex_byte b) \<subseteq> set ''0123456789abcdef''"
proof -
  have "unat b < 256" using unsigned_less [of b] by simp
  then have "unat b div 16 < length ''0123456789abcdef''" by simp
  moreover have "unat b mod 16 < length ''0123456789abcdef''" by simp
  ultimately show ?thesis unfolding hex_byte_def hex_digit_def
    by (metis nth_mem list.set(1,2) empty_subsetI insert_subset)
qed

lemma length_hexdigest: "length (hexdigest m) = 64"
  by (simp add: hexdigest_def length_concat hex_byte_def comp_def length_sha256 sum_list_triv)

lemma set_hexdigest: "set (hexdigest m) \<subseteq> set ''0123456789abcdef''"
proof -
  have "set (hexdigest m) = (\<Union>b \<in> set (sha256 m). set (hex_byte b))" by (simp add: hexdigest_def)
  then show ?thesis using hex_byte_digits by blast
qed

end
