(* ===== verification/Dbc_Decoder.thy ===== *)
theory Dbc_Decoder
  imports Sha256
begin

text \<open>
  Database metadata (\<open>can/metadata.py\<close>) and the DBC-backed decoder (\<open>can/decoder.py\<close>). The
  \<open>canmatrix\<close> package is not part of the repository: what it loads from the packaged file is the
  argument \<open>databases\<close> of the constructor, and its frame decoder is the argument \<open>msg_decode\<close> of
  \<open>decode\<close>. The lemmas describe every branch of decoding and how the decoder's own metadata agrees
  with the frames it looks up.
\<close>

section \<open>What canmatrix hands over\<close>

record dbc_signal =
  sig_name :: string
  sig_unit :: "string option"

record dbc_frame =
  frame_id :: int
  frame_name :: string
  frame_size :: int
  frame_transmitters :: "string list"
  frame_cycle_time :: int
  frame_signals :: "dbc_signal list"

text \<open>A decoded signal: the raw integer, and the exact physical value before \<open>float\<close> rounds it.\<close>

record dbc_value =
  raw_value :: int
  phys_value :: rat

type_synonym msg_decoder = "dbc_frame \<Rightarrow> bytes \<Rightarrow> (string, dbc_value) dict result"

section \<open>Metadata\<close>

record can_signal_metadata =
  sm_signal_name :: string
  sm_unit :: string

record can_message_metadata =
  mm_arbitration_id :: int
  mm_message_name :: string
  mm_transmitter :: string
  mm_cycle_time_microseconds :: int
  mm_signals :: "can_signal_metadata list"

type_synonym can_database_metadata = "can_message_metadata list"

definition single_transmitter :: "dbc_frame \<Rightarrow> string result" where
  "single_transmitter f =
     (case frame_transmitters f of
        [t] \<Rightarrow> Inr t
      | _ \<Rightarrow> raise Runtime_Error
          (frame_name f @ '' must define exactly one authoritative synthetic transmitter''))"

definition cycle_time_microseconds :: "dbc_frame \<Rightarrow> int result" where
  "cycle_time_microseconds f =
     (if frame_cycle_time f \<le> 0
      then raise Runtime_Error (frame_name f @ '' must define a positive DBC cycle time'')
      else Inr (frame_cycle_time f * 1000))"

definition signal_metadata :: "dbc_signal \<Rightarrow> can_signal_metadata" where
  "signal_metadata s =
     \<lparr>sm_signal_name = sig_name s, sm_unit = (case sig_unit s of None \<Rightarrow> '''' | Some u \<Rightarrow> u)\<rparr>"

definition message_metadata :: "dbc_frame \<Rightarrow> can_message_metadata result" where
  "message_metadata f =
     rbind (single_transmitter f) (\<lambda>t.
     rbind (cycle_time_microseconds f) (\<lambda>c.
       Inr \<lparr>mm_arbitration_id = frame_id f, mm_message_name = frame_name f, mm_transmitter = t,
            mm_cycle_time_microseconds = c, mm_signals = map signal_metadata (frame_signals f)\<rparr>))"

section \<open>The decoder object\<close>

record dbc_decoder =
  dec_frames_by_id :: "(int, dbc_frame) dict"
  dec_metadata :: can_database_metadata

definition make_decoder :: "dbc_frame list list \<Rightarrow> dbc_decoder result" where
  "make_decoder databases =
     (case databases of
        [database] \<Rightarrow>
          rbind (mapM message_metadata database) (\<lambda>messages.
            Inr \<lparr>dec_frames_by_id = dict_of (map (\<lambda>f. (frame_id f, f)) database),
                 dec_metadata = messages\<rparr>)
      | _ \<Rightarrow> raise Runtime_Error ''authoritative TunerOS DBC must contain exactly one CAN database'')"

definition supported_arbitration_ids :: "dbc_decoder \<Rightarrow> int list" where
  "supported_arbitration_ids d = sort (dict_keys (dec_frames_by_id d))"

definition supports :: "dbc_decoder \<Rightarrow> int \<Rightarrow> bool" where
  "supports d aid = (dict_get (dec_frames_by_id d) aid \<noteq> None)"

definition unknown_id_message :: "int \<Rightarrow> string" where
  "unknown_id_message aid =
     ''CAN arbitration ID 0x'' @ hex03 aid @ '' is not defined by the TunerOS DBC''"

definition message_name :: "dbc_decoder \<Rightarrow> int \<Rightarrow> string result" where
  "message_name d aid =
     (case dict_get (dec_frames_by_id d) aid of
        Some f \<Rightarrow> Inr (frame_name f)
      | None \<Rightarrow> raise Unknown_Can_Frame_Error (unknown_id_message aid))"

text \<open>\<open>float(value.phys_value)\<close> of an exact decimal: rounded, infinite beyond the largest double.\<close>

definition signal_of_value :: "string \<Rightarrow> dbc_value \<Rightarrow> signal_value" where
  "signal_of_value name v =
     (if name = ''EngineRunning'' then Py_Bool (raw_value v \<noteq> 0)
      else Py_Float (round_double (phys_value v)))"

definition decode_frame :: "msg_decoder \<Rightarrow> dbc_decoder \<Rightarrow> raw_can_frame \<Rightarrow> decoded_can_frame result"
  where
  "decode_frame msg_decode d f =
     (case dict_get (dec_frames_by_id d) (arbitration_id f) of
        None \<Rightarrow> raise Unknown_Can_Frame_Error (unknown_id_message (arbitration_id f))
      | Some message \<Rightarrow>
          if payload_length f \<noteq> frame_size message
          then raise Malformed_Can_Frame_Error
                 (frame_name message @ '' requires DLC '' @ str_int (frame_size message) @ '', got ''
                    @ str_int (payload_length f))
          else (case msg_decode message (payload f) of
                  Inl e \<Rightarrow>
                    if catches Decoding_Frame_Length e
                    then raise Malformed_Can_Frame_Error (''could not decode '' @ frame_name message)
                    else Inl e
                | Inr decoded \<Rightarrow>
                    Inr (make_decoded_can_frame (arbitration_id f) (frame_name message)
                           (timestamp_microseconds f)
                           (map (\<lambda>(name, v). (name, signal_of_value name v)) decoded))))"

definition LEGACY_PHASE_8A_DBC_SHA256 :: string where
  "LEGACY_PHASE_8A_DBC_SHA256 = ''320239cad283771dcffbcf293ed6d319ee11c4c383ab3da4d680a8dac16306f2''"

text \<open>\<open>resource\<close> is the content of the packaged database file, which \<open>read_bytes\<close> returns.\<close>

definition authoritative_dbc_sha256 :: "bytes \<Rightarrow> string" where
  "authoritative_dbc_sha256 resource = hexdigest resource"

definition is_supported_dbc_sha256 :: "bytes \<Rightarrow> string \<Rightarrow> bool" where
  "is_supported_dbc_sha256 resource value =
     (value \<in> {authoritative_dbc_sha256 resource, LEGACY_PHASE_8A_DBC_SHA256})"

section \<open>The packaged database\<close>

text \<open>The messages, cycle times and signals written in \<open>can/dbc/tuneros_simulation.dbc\<close>.\<close>

definition dsig :: "string \<Rightarrow> string \<Rightarrow> dbc_signal" where
  "dsig name un = \<lparr>sig_name = name, sig_unit = Some un\<rparr>"

definition dme_frame :: "int \<Rightarrow> string \<Rightarrow> int \<Rightarrow> string \<Rightarrow> int \<Rightarrow> dbc_signal list \<Rightarrow> dbc_frame" where
  "dme_frame i n sz t c sigs =
     \<lparr>frame_id = i, frame_name = n, frame_size = sz, frame_transmitters = [t], frame_cycle_time = c,
      frame_signals = sigs\<rparr>"

definition simulation_dbc :: "dbc_frame list" where
  "simulation_dbc =
     [dme_frame 1280 ''DmeFastEngine'' 5 ''TunerOsSimulatedDme'' 10
        [dsig ''EngineSpeedRpm'' ''rpm'', dsig ''ThrottlePosition'' ''normalized'',
         dsig ''EngineLoad'' ''normalized'', dsig ''EngineRunning'' ''boolean''],
      dme_frame 1281 ''DmeAirLoad'' 4 ''TunerOsSimulatedDme'' 20
        [dsig ''ManifoldPressureAbsolute'' ''kPa_abs'', dsig ''AcceleratorPedalPosition'' ''normalized'',
         dsig ''RequestedScenarioLoad'' ''normalized''],
      dme_frame 1282 ''DmeThermalElectrical'' 7 ''TunerOsSimulatedDme'' 100
        [dsig ''CoolantTemperature'' ''degC'', dsig ''OilTemperature'' ''degC'',
         dsig ''IntakeAirTemperature'' ''degC'', dsig ''BatteryVoltage'' ''V''],
      dme_frame 1283 ''DmeCombustionObservation'' 3 ''TunerOsSimulatedDme'' 20
        [dsig ''Lambda'' ''lambda'', dsig ''IgnitionTiming'' ''degrees''],
      dme_frame 1312 ''DscVehicleMotion'' 3 ''TunerOsSimulatedDsc'' 20
        [dsig ''VehicleSpeed'' ''m/s'', dsig ''CurrentGear'' ''gear''],
      dme_frame 1313 ''DscWheelSpeeds'' 8 ''TunerOsSimulatedDsc'' 20
        [dsig ''FrontLeftWheelSpeed'' ''m/s'', dsig ''FrontRightWheelSpeed'' ''m/s'',
         dsig ''RearLeftWheelSpeed'' ''m/s'', dsig ''RearRightWheelSpeed'' ''m/s'']]"

section \<open>Lemmas\<close>

text \<open>The frame a decoder looks up is one the metadata describes, with the same name and signals.\<close>

definition describes :: "can_message_metadata \<Rightarrow> dbc_frame \<Rightarrow> bool" where
  "describes m f \<longleftrightarrow> mm_arbitration_id m = frame_id f \<and> mm_message_name m = frame_name f
     \<and> frame_transmitters f = [mm_transmitter m]
     \<and> 0 < mm_cycle_time_microseconds m
     \<and> mm_cycle_time_microseconds m = frame_cycle_time f * 1000
     \<and> map sm_signal_name (mm_signals m) = map sig_name (frame_signals f)"

lemma message_metadata_describes: "message_metadata f = Inr m \<Longrightarrow> describes m f"
  by (auto simp: message_metadata_def rbind_eq_Inr describes_def single_transmitter_def
      cycle_time_microseconds_def signal_metadata_def split: list.splits if_splits)

lemma make_decoder_describes:
  assumes "make_decoder [db] = Inr d"
  shows "list_all2 describes (dec_metadata d) db"
    and "dec_frames_by_id d = dict_of (map (\<lambda>f. (frame_id f, f)) db)"
proof -
  from assms obtain ms where ms: "mapM message_metadata db = Inr ms" and d: "dec_metadata d = ms"
    and fr: "dec_frames_by_id d = dict_of (map (\<lambda>f. (frame_id f, f)) db)"
    by (auto simp: make_decoder_def rbind_eq_Inr)
  from ms have "list_all2 (\<lambda>f m. message_metadata f = Inr m) db ms" by (simp add: mapM_eq_Inr)
  then have "list_all2 (\<lambda>f m. describes m f) db ms"
    by (rule list_all2_mono) (rule message_metadata_describes)
  then show "list_all2 describes (dec_metadata d) db" unfolding d by (simp add: list_all2_conv_all_nth)
  show "dec_frames_by_id d = dict_of (map (\<lambda>f. (frame_id f, f)) db)" by (rule fr)
qed

lemma decoder_lookup:
  assumes "make_decoder [db] = Inr d" and "distinct (map frame_id db)"
  shows "dict_get (dec_frames_by_id d) i = Some f \<longleftrightarrow> f \<in> set db \<and> frame_id f = i"
proof -
  have keys: "dict_keys (map (\<lambda>f. (frame_id f, f)) db) = map frame_id db" by simp
  then have dist: "distinct (dict_keys (map (\<lambda>f. (frame_id f, f)) db))" using assms(2) by metis
  have "dec_frames_by_id d = map (\<lambda>f. (frame_id f, f)) db"
    using make_decoder_describes(2) [OF assms(1)] dict_of_distinct [OF dist] by simp
  then show ?thesis using map_of_eq_Some_iff [OF dist] by auto
qed

lemma decode_frame_Inr:
  assumes "decode_frame msg_decode d f = Inr df"
  shows "\<exists>message vals. dict_get (dec_frames_by_id d) (arbitration_id f) = Some message
    \<and> msg_decode message (payload f) = Inr vals \<and> payload_length f = frame_size message
    \<and> df_arbitration_id df = arbitration_id f \<and> df_message_name df = frame_name message
    \<and> df_timestamp_microseconds df = timestamp_microseconds f
    \<and> df_signals df = dict_of (map (\<lambda>(n, v). (n, signal_of_value n v)) vals)"
  using assms
  by (auto simp: decode_frame_def make_decoded_can_frame_def
      split: option.splits if_splits sum.splits)

lemma decode_frame_timestamp:
  "decode_frame msg_decode d f = Inr df \<Longrightarrow> df_timestamp_microseconds df = timestamp_microseconds f"
  using decode_frame_Inr by blast

lemma decode_frame_error:
  assumes "decode_frame msg_decode d f = Inl e"
  shows "catches Can_Decode_Error e
    \<or> (\<exists>message. dict_get (dec_frames_by_id d) (arbitration_id f) = Some message
         \<and> msg_decode message (payload f) = Inl e)"
  using assms
  by (auto simp: decode_frame_def catches_def is_subclass_def subclass_upto.simps
      split: option.splits if_splits sum.splits)

lemma signal_of_value_type:
  "signal_of_value n v = Py_Bool b \<Longrightarrow> n = ''EngineRunning''"
  by (auto simp: signal_of_value_def split: if_splits)

lemma simulation_dbc_ids: "map frame_id simulation_dbc = [1280, 1281, 1282, 1283, 1312, 1313]"
  by (simp add: simulation_dbc_def dme_frame_def)

definition simulation_decoder :: dbc_decoder where
  "simulation_decoder =
     (case make_decoder [simulation_dbc] of Inr d \<Rightarrow> d
      | Inl _ \<Rightarrow> \<lparr>dec_frames_by_id = [], dec_metadata = []\<rparr>)"

definition simulation_metadata :: can_database_metadata where
  "simulation_metadata = dec_metadata simulation_decoder"

lemma make_simulation_decoder: "make_decoder [simulation_dbc] = Inr simulation_decoder"
  by (simp add: simulation_decoder_def make_decoder_def simulation_dbc_def dme_frame_def
      message_metadata_def single_transmitter_def cycle_time_microseconds_def)

end
