(* ===== verification/Signal_Catalogs.thy ===== *)
theory Signal_Catalogs
  imports Dbc_Decoder
begin

text \<open>
  Signal identity and provenance (\<open>telemetry/catalog.py\<close>, and \<open>SignalKey\<close> of
  \<open>telemetry/models.py\<close>): the catalog the telemetry engine, the diagnostic catalog and the
  investigation share. The lemmas show that construction refuses duplicates, that every lookup
  agrees with the database metadata, and what a decoded frame must satisfy to be catalogued.
\<close>

section \<open>Signal keys\<close>

datatype signal_key = Signal_Key (key_message_name: string) (key_signal_name: string)

text \<open>\<open>order=True\<close>: keys compare as the tuple of their fields.\<close>

instantiation signal_key :: linorder
begin

definition less_eq_signal_key :: "signal_key \<Rightarrow> signal_key \<Rightarrow> bool" where
  "less_eq_signal_key a b \<longleftrightarrow>
     key_message_name a < key_message_name b
     \<or> key_message_name a = key_message_name b \<and> key_signal_name a \<le> key_signal_name b"

definition less_signal_key :: "signal_key \<Rightarrow> signal_key \<Rightarrow> bool" where
  "less_signal_key a b \<longleftrightarrow>
     key_message_name a < key_message_name b
     \<or> key_message_name a = key_message_name b \<and> key_signal_name a < key_signal_name b"

instance
  by standard (auto simp: less_eq_signal_key_def less_signal_key_def signal_key.expand)

end

definition str_key :: "signal_key \<Rightarrow> string" where
  "str_key k = ''SignalKey(message_name='' @ py_repr (key_message_name k) @ '', signal_name=''
     @ py_repr (key_signal_name k) @ '')''"

section \<open>The catalog\<close>

record signal_definition =
  sd_key :: signal_key
  sd_arbitration_id :: int
  sd_message_name :: string
  sd_source_ecu :: string
  sd_unit :: string
  sd_expected_period_microseconds :: int

record signal_catalog =
  cat_definitions :: "signal_definition list"
  cat_messages_by_id :: "(int, can_message_metadata) dict"
  cat_definitions_by_key :: "(signal_key, signal_definition) dict"
  cat_keys_by_signal_name :: "(string, signal_key list) dict"

definition empty_catalog :: signal_catalog where
  "empty_catalog =
     \<lparr>cat_definitions = [], cat_messages_by_id = [], cat_definitions_by_key = [],
      cat_keys_by_signal_name = []\<rparr>"

definition make_definition :: "can_message_metadata \<Rightarrow> can_signal_metadata \<Rightarrow> signal_definition" where
  "make_definition m s =
     \<lparr>sd_key = Signal_Key (mm_message_name m) (sm_signal_name s),
      sd_arbitration_id = mm_arbitration_id m, sd_message_name = mm_message_name m,
      sd_source_ecu = mm_transmitter m, sd_unit = sm_unit s,
      sd_expected_period_microseconds = mm_cycle_time_microseconds m\<rparr>"

text \<open>The body of the inner loop, and the two nested loops of the constructor.\<close>

definition add_signal ::
  "can_message_metadata \<Rightarrow> can_signal_metadata \<Rightarrow> signal_catalog \<Rightarrow> signal_catalog result" where
  "add_signal m s c =
     (let key = Signal_Key (mm_message_name m) (sm_signal_name s);
          defn = make_definition m s
      in if dict_get (cat_definitions_by_key c) key \<noteq> None
         then raise Telemetry_Schema_Error (''duplicate telemetry signal key '' @ str_key key)
         else Inr (c\<lparr>cat_definitions := cat_definitions c @ [defn],
                    cat_definitions_by_key := dict_set key defn (cat_definitions_by_key c),
                    cat_keys_by_signal_name :=
                      dict_set (sm_signal_name s)
                        ((case dict_get (cat_keys_by_signal_name c) (sm_signal_name s) of
                            None \<Rightarrow> [] | Some ks \<Rightarrow> ks) @ [key])
                        (cat_keys_by_signal_name c)\<rparr>))"

fun add_signals ::
  "can_message_metadata \<Rightarrow> can_signal_metadata list \<Rightarrow> signal_catalog \<Rightarrow> signal_catalog result" where
  "add_signals m [] c = Inr c"
| "add_signals m (s # ss) c = rbind (add_signal m s c) (add_signals m ss)"

definition add_message :: "can_message_metadata \<Rightarrow> signal_catalog \<Rightarrow> signal_catalog result" where
  "add_message m c =
     (if dict_get (cat_messages_by_id c) (mm_arbitration_id m) \<noteq> None
      then raise Telemetry_Schema_Error
             (''duplicate CAN message ID 0x'' @ hex03 (mm_arbitration_id m) @ '' in metadata'')
      else add_signals m (mm_signals m)
             (c\<lparr>cat_messages_by_id := dict_set (mm_arbitration_id m) m (cat_messages_by_id c)\<rparr>))"

fun add_messages :: "can_database_metadata \<Rightarrow> signal_catalog \<Rightarrow> signal_catalog result" where
  "add_messages [] c = Inr c"
| "add_messages (m # ms) c = rbind (add_message m c) (add_messages ms)"

definition make_signal_catalog :: "can_database_metadata \<Rightarrow> signal_catalog result" where
  "make_signal_catalog ms = add_messages ms empty_catalog"

definition catalog_get :: "signal_catalog \<Rightarrow> signal_key \<Rightarrow> signal_definition option" where
  "catalog_get c k = dict_get (cat_definitions_by_key c) k"

definition catalog_require :: "signal_catalog \<Rightarrow> signal_key \<Rightarrow> signal_definition result" where
  "catalog_require c k =
     (case catalog_get c k of
        None \<Rightarrow> raise Telemetry_Schema_Error
                 (''signal is absent from authoritative catalog: '' @ str_key k)
      | Some defn \<Rightarrow> Inr defn)"

definition find_unique_signal :: "signal_catalog \<Rightarrow> string \<Rightarrow> signal_key option result" where
  "find_unique_signal c name =
     (let keys = (case dict_get (cat_keys_by_signal_name c) name of None \<Rightarrow> [] | Some ks \<Rightarrow> ks)
      in if keys = [] then Inr None
         else if length keys > 1
           then raise Telemetry_Schema_Error
                  (''signal name '' @ py_repr name @ '' is ambiguous across ''
                     @ str_int (int (length keys)) @ '' messages'')
         else Inr (Some (hd keys)))"

definition frame_signal_definition ::
  "signal_catalog \<Rightarrow> string \<Rightarrow> string \<Rightarrow> signal_definition result" where
  "frame_signal_definition c msg name =
     (case dict_get (cat_definitions_by_key c) (Signal_Key msg name) of
        None \<Rightarrow> raise Telemetry_Schema_Error
                 (''signal '' @ py_repr name @ '' is not defined for '' @ msg)
      | Some defn \<Rightarrow> Inr defn)"

definition definitions_for_frame ::
  "signal_catalog \<Rightarrow> decoded_can_frame \<Rightarrow> signal_definition list result" where
  "definitions_for_frame c f =
     (case dict_get (cat_messages_by_id c) (df_arbitration_id f) of
        None \<Rightarrow> raise Telemetry_Schema_Error
                 (''decoded frame uses unknown arbitration ID 0x'' @ hex03 (df_arbitration_id f))
      | Some m \<Rightarrow>
          if df_message_name f \<noteq> mm_message_name m
          then raise Telemetry_Schema_Error
                 (''decoded frame ID 0x'' @ hex03 (df_arbitration_id f) @ '' is ''
                    @ mm_message_name m @ '', not '' @ df_message_name f)
          else mapM (frame_signal_definition c (df_message_name f)) (dict_keys (df_signals f)))"

section \<open>Specification of the constructor\<close>

text \<open>All definitions of a database in order, and what makes the database acceptable.\<close>

definition metadata_definitions :: "can_database_metadata \<Rightarrow> signal_definition list" where
  "metadata_definitions ms = concat (map (\<lambda>m. map (make_definition m) (mm_signals m)) ms)"

text \<open>The part of the constructor's state that the loops have built so far.\<close>

definition catalogued ::
  "signal_catalog \<Rightarrow> can_database_metadata \<Rightarrow> signal_definition list \<Rightarrow> bool" where
  "catalogued c ms ds \<longleftrightarrow>
     cat_definitions c = ds
     \<and> cat_messages_by_id c = map (\<lambda>m. (mm_arbitration_id m, m)) ms
     \<and> distinct (map mm_arbitration_id ms)
     \<and> cat_definitions_by_key c = map (\<lambda>d. (sd_key d, d)) ds
     \<and> distinct (map sd_key ds)
     \<and> (\<forall>name. (case dict_get (cat_keys_by_signal_name c) name of None \<Rightarrow> [] | Some ks \<Rightarrow> ks)
            = filter (\<lambda>k. key_signal_name k = name) (map sd_key ds))"

lemma catalogued_empty: "catalogued empty_catalog [] []"
  by (simp add: catalogued_def empty_catalog_def)

lemma sd_key_make_definition [simp]:
  "sd_key (make_definition m s) = Signal_Key (mm_message_name m) (sm_signal_name s)"
  by (simp add: make_definition_def)

lemma map_of_keyed:
  "map_of (map (\<lambda>d. (f d, d)) ds) k = None \<longleftrightarrow> k \<notin> f ` set ds"
  by (induction ds) auto

lemma map_of_keyed_Some:
  "distinct (map f ds) \<Longrightarrow> map_of (map (\<lambda>d. (f d, d)) ds) k = Some d \<longleftrightarrow> d \<in> set ds \<and> f d = k"
proof -
  assume "distinct (map f ds)"
  then have "distinct (map fst (map (\<lambda>d. (f d, d)) ds))" by (simp add: comp_def)
  from map_of_eq_Some_iff [OF this] show ?thesis by auto
qed

lemma add_signal_Inr:
  assumes "catalogued c ms ds"
  shows "add_signal m s c = Inr c' \<Longrightarrow> catalogued c' ms (ds @ [make_definition m s])"
    and "(\<exists>e. add_signal m s c = Inl e) \<longleftrightarrow> sd_key (make_definition m s) \<in> sd_key ` set ds"
proof -
  show "(\<exists>e. add_signal m s c = Inl e) \<longleftrightarrow> sd_key (make_definition m s) \<in> sd_key ` set ds"
    using assms by (auto simp: add_signal_def Let_def catalogued_def map_of_keyed)
  assume ok: "add_signal m s c = Inr c'"
  then have fresh: "Signal_Key (mm_message_name m) (sm_signal_name s) \<notin> sd_key ` set ds"
    using assms by (auto simp: add_signal_def Let_def catalogued_def map_of_keyed split: if_splits)
  then have notin: "Signal_Key (mm_message_name m) (sm_signal_name s)
      \<notin> set (dict_keys (map (\<lambda>d. (sd_key d, d)) ds))"
    by (auto simp: image_image)
  show "catalogued c' ms (ds @ [make_definition m s])"
    using ok assms fresh dict_set_fresh [OF notin]
    by (auto simp: add_signal_def Let_def catalogued_def split: if_splits)
qed

lemma add_signals_Inr:
  "catalogued c ms ds \<Longrightarrow> add_signals m ss c = Inr c' \<Longrightarrow>
     catalogued c' ms (ds @ map (make_definition m) ss)"
proof (induction ss arbitrary: c ds)
  case (Cons s ss)
  then obtain c1 where "add_signal m s c = Inr c1" and "add_signals m ss c1 = Inr c'"
    by (auto simp: rbind_eq_Inr)
  with Cons.IH [of c1 "ds @ [make_definition m s]"] add_signal_Inr(1) [OF Cons.prems(1)]
  show ?case by simp
qed simp

lemma add_signals_total:
  "catalogued c ms ds \<Longrightarrow> distinct (map sd_key (ds @ map (make_definition m) ss)) \<Longrightarrow>
     \<exists>c'. add_signals m ss c = Inr c'"
proof (induction ss arbitrary: c ds)
  case (Cons s ss)
  have "sd_key (make_definition m s) \<notin> sd_key ` set ds" using Cons.prems(2) by auto
  with add_signal_Inr(2) [OF Cons.prems(1), of m s] obtain c1 where c1: "add_signal m s c = Inr c1"
    by (cases "add_signal m s c") auto
  from Cons.IH [OF add_signal_Inr(1) [OF Cons.prems(1) c1]] Cons.prems(2) c1 show ?case by simp
qed simp

lemma catalogued_message:
  assumes "catalogued c ms ds" and "mm_arbitration_id m \<notin> mm_arbitration_id ` set ms"
  shows "catalogued (c\<lparr>cat_messages_by_id := dict_set (mm_arbitration_id m) m (cat_messages_by_id c)\<rparr>)
           (ms @ [m]) ds"
proof -
  have "mm_arbitration_id m \<notin> set (dict_keys (map (\<lambda>m. (mm_arbitration_id m, m)) ms))"
    using assms(2) by (auto simp: image_image)
  from dict_set_fresh [OF this] assms show ?thesis by (auto simp: catalogued_def)
qed

lemma add_message_Inr:
  assumes "catalogued c ms ds"
  shows "add_message m c = Inr c' \<Longrightarrow>
    catalogued c' (ms @ [m]) (ds @ map (make_definition m) (mm_signals m))"
  using assms add_signals_Inr [OF catalogued_message [OF assms]]
  by (auto simp: add_message_def catalogued_def map_of_keyed split: if_splits)

lemma add_message_total:
  assumes "catalogued c ms ds" and "mm_arbitration_id m \<notin> mm_arbitration_id ` set ms"
    and "distinct (map sd_key (ds @ map (make_definition m) (mm_signals m)))"
  shows "\<exists>c'. add_message m c = Inr c'"
proof -
  have "dict_get (cat_messages_by_id c) (mm_arbitration_id m) = None"
    using assms(1,2) by (simp add: catalogued_def map_of_keyed)
  then show ?thesis
    using add_signals_total [OF catalogued_message [OF assms(1,2)] assms(3)]
    by (simp add: add_message_def)
qed

lemma metadata_definitions_simps [simp]:
  "metadata_definitions [] = []"
  "metadata_definitions (m # ms) = map (make_definition m) (mm_signals m) @ metadata_definitions ms"
  "metadata_definitions (ms @ ms') = metadata_definitions ms @ metadata_definitions ms'"
  by (simp_all add: metadata_definitions_def)

lemma add_messages_Inr:
  "catalogued c ms ds \<Longrightarrow> add_messages ms' c = Inr c' \<Longrightarrow>
     catalogued c' (ms @ ms') (ds @ metadata_definitions ms')"
proof (induction ms' arbitrary: c ms ds)
  case (Cons m ms')
  then obtain c1 where "add_message m c = Inr c1" and "add_messages ms' c1 = Inr c'"
    by (auto simp: rbind_eq_Inr)
  with Cons.IH [OF add_message_Inr [OF Cons.prems(1)]] show ?case by simp
qed simp

lemma add_messages_total:
  "catalogued c ms ds \<Longrightarrow> distinct (map mm_arbitration_id (ms @ ms')) \<Longrightarrow>
     distinct (map sd_key (ds @ metadata_definitions ms')) \<Longrightarrow> \<exists>c'. add_messages ms' c = Inr c'"
proof (induction ms' arbitrary: c ms ds)
  case (Cons m ms')
  have "mm_arbitration_id m \<notin> mm_arbitration_id ` set ms"
    and "distinct (map sd_key (ds @ map (make_definition m) (mm_signals m)))"
    using Cons.prems(2,3) by auto
  from add_message_total [OF Cons.prems(1) this] obtain c1 where c1: "add_message m c = Inr c1" by blast
  from Cons.IH [OF add_message_Inr [OF Cons.prems(1) c1]] Cons.prems(2,3) c1 show ?case by simp
qed simp

lemma make_catalog_catalogued:
  "make_signal_catalog ms = Inr c \<Longrightarrow> catalogued c ms (metadata_definitions ms)"
  using add_messages_Inr [OF catalogued_empty] by (simp add: make_signal_catalog_def)

lemma make_catalog_iff:
  "(\<exists>c. make_signal_catalog ms = Inr c) \<longleftrightarrow>
     distinct (map mm_arbitration_id ms) \<and> distinct (map sd_key (metadata_definitions ms))"
  using make_catalog_catalogued [of ms] add_messages_total [OF catalogued_empty, of ms]
  by (auto simp: catalogued_def make_signal_catalog_def)

section \<open>Well-formed catalogs\<close>

definition wf_catalog :: "signal_catalog \<Rightarrow> bool" where
  "wf_catalog c \<longleftrightarrow> (\<exists>ms. make_signal_catalog ms = Inr c
     \<and> (\<forall>m \<in> set ms. 0 < mm_cycle_time_microseconds m))"

lemma wf_catalogE:
  assumes "wf_catalog c"
  obtains ms where "catalogued c ms (metadata_definitions ms)"
    and "\<forall>m \<in> set ms. 0 < mm_cycle_time_microseconds m"
  using assms make_catalog_catalogued unfolding wf_catalog_def by blast

lemma catalog_get_key: "wf_catalog c \<Longrightarrow> catalog_get c k = Some d \<Longrightarrow> sd_key d = k"
  by (erule wf_catalogE) (auto simp: catalog_get_def catalogued_def map_of_keyed_Some)

lemma set_metadata_definitions:
  "d \<in> set (metadata_definitions ms) \<longleftrightarrow> (\<exists>m \<in> set ms. \<exists>s \<in> set (mm_signals m). d = make_definition m s)"
  by (auto simp: metadata_definitions_def)

lemma catalog_get_period:
  "wf_catalog c \<Longrightarrow> catalog_get c k = Some d \<Longrightarrow> 0 < sd_expected_period_microseconds d"
  by (erule wf_catalogE)
    (auto simp: catalog_get_def catalogued_def map_of_keyed_Some set_metadata_definitions make_definition_def)

lemma catalog_require_Inr: "catalog_require c k = Inr d \<longleftrightarrow> catalog_get c k = Some d"
  by (simp add: catalog_require_def split: option.splits)

lemma catalog_require_Inl:
  "catalog_require c k = Inl e \<Longrightarrow> catalog_get c k = None \<and> exn_class e = Telemetry_Schema_Error"
  by (auto simp: catalog_require_def split: option.splits)

lemma definitions_for_frame_Inr:
  assumes "definitions_for_frame c f = Inr ds"
  shows "list_all2 (\<lambda>n d. catalog_get c (Signal_Key (df_message_name f) n) = Some d)
           (dict_keys (df_signals f)) ds"
  using assms
  by (auto simp: definitions_for_frame_def mapM_eq_Inr frame_signal_definition_def catalog_get_def
      split: option.splits if_splits elim!: list_all2_mono)

lemma definitions_for_frame_error:
  "definitions_for_frame c f = Inl e \<Longrightarrow> exn_class e = Telemetry_Schema_Error"
  by (auto simp: definitions_for_frame_def frame_signal_definition_def
      dest!: mapM_eq_Inl split: option.splits if_splits)

lemma definitions_for_frame_keys:
  assumes "wf_catalog c" and "definitions_for_frame c f = Inr ds"
  shows "map sd_key ds = map (Signal_Key (df_message_name f)) (dict_keys (df_signals f))"
proof -
  from definitions_for_frame_Inr [OF assms(2)]
  have "list_all2 (\<lambda>n d. Signal_Key (df_message_name f) n = sd_key d) (dict_keys (df_signals f)) ds"
    by (rule list_all2_mono) (use catalog_get_key [OF assms(1)] in auto)
  from list_all2_map_fst [OF this] show ?thesis by simp
qed

section \<open>The catalog of the packaged database\<close>

definition simulation_catalog :: signal_catalog where
  "simulation_catalog =
     (case make_signal_catalog simulation_metadata of Inr c \<Rightarrow> c | Inl _ \<Rightarrow> empty_catalog)"

lemma simulation_metadata_eq:
  "simulation_metadata = map (\<lambda>f. \<lparr>mm_arbitration_id = frame_id f, mm_message_name = frame_name f,
     mm_transmitter = hd (frame_transmitters f), mm_cycle_time_microseconds = frame_cycle_time f * 1000,
     mm_signals = map signal_metadata (frame_signals f)\<rparr>) simulation_dbc"
  by (simp add: simulation_metadata_def simulation_decoder_def make_decoder_def simulation_dbc_def
      dme_frame_def message_metadata_def single_transmitter_def cycle_time_microseconds_def)

lemma make_simulation_catalog: "make_signal_catalog simulation_metadata = Inr simulation_catalog"
proof -
  have "\<exists>c. make_signal_catalog simulation_metadata = Inr c"
    unfolding make_catalog_iff
    by (simp add: simulation_metadata_eq simulation_dbc_def dme_frame_def dsig_def signal_metadata_def
        make_definition_def metadata_definitions_def)
  then show ?thesis by (auto simp: simulation_catalog_def)
qed

lemma wf_simulation_catalog: "wf_catalog simulation_catalog"
  unfolding wf_catalog_def using make_simulation_catalog
  by (intro exI [of _ simulation_metadata])
    (simp add: simulation_metadata_eq simulation_dbc_def dme_frame_def)

end
