(* ===== verification/Telemetry_Engine.thy ===== *)
theory Telemetry_Engine
  imports Signal_Catalogs
begin

text \<open>
  The synchronous telemetry engine (\<open>telemetry/engine.py\<close>) and its value types
  (\<open>telemetry/models.py\<close>): latest values, bounded histories, freshness, statistics and snapshots
  built from decoded frames. The abstract specification is the unbounded log of accepted frames;
  the lemmas show that the engine refines it, that a rejected frame changes nothing, and that the
  snapshots are coherent.
\<close>

section \<open>Value types\<close>

datatype signal_freshness = FRESH | STALE

record signal_sample =
  ss_key :: signal_key
  ss_value :: signal_value
  ss_timestamp_microseconds :: int
  ss_frame_sequence :: int
  ss_arbitration_id :: int
  ss_message_name :: string
  ss_source_ecu :: string
  ss_unit :: string

record telemetry_statistics =
  st_total_frames :: int
  st_total_signal_updates :: int
  st_latest_timestamp_microseconds :: "int option"
  st_last_frame_sequence :: "int option"
  st_frames_by_arbitration_id :: "(int, int) dict"

record telemetry_snapshot =
  sn_observation_timestamp_microseconds :: "int option"
  sn_last_frame_sequence :: "int option"
  sn_samples :: "(signal_key, signal_sample) dict"
  sn_freshness :: "(signal_key, signal_freshness option) dict"
  sn_statistics :: telemetry_statistics

definition snapshot_latest :: "telemetry_snapshot \<Rightarrow> signal_key \<Rightarrow> signal_sample option" where
  "snapshot_latest sn k = dict_get (sn_samples sn) k"

definition snapshot_status :: "telemetry_snapshot \<Rightarrow> signal_key \<Rightarrow> signal_freshness option" where
  "snapshot_status sn k = (case dict_get (sn_freshness sn) k of None \<Rightarrow> None | Some v \<Rightarrow> v)"

section \<open>The engine\<close>

abbreviation (input) DEFAULT_HISTORY_CAPACITY :: int where
  "DEFAULT_HISTORY_CAPACITY \<equiv> 256"

abbreviation (input) FRESHNESS_PERIOD_MULTIPLIER :: int where
  "FRESHNESS_PERIOD_MULTIPLIER \<equiv> 2"

record telemetry_engine =
  te_catalog :: signal_catalog
  te_history_capacity :: int
  te_latest :: "(signal_key, signal_sample) dict"
  te_histories :: "(signal_key, signal_sample list) dict"
  te_next_frame_sequence :: int
  te_total_frames :: int
  te_total_signal_updates :: int
  te_latest_timestamp_microseconds :: "int option"
  te_last_frame_sequence :: "int option"
  te_frames_by_arbitration_id :: "(int, int) dict"

definition telemetry_reset :: "telemetry_engine \<Rightarrow> telemetry_engine" where
  "telemetry_reset e =
     e\<lparr>te_latest := [], te_histories := [], te_next_frame_sequence := 0, te_total_frames := 0,
       te_total_signal_updates := 0, te_latest_timestamp_microseconds := None,
       te_last_frame_sequence := None, te_frames_by_arbitration_id := []\<rparr>"

definition make_telemetry_engine :: "signal_catalog \<Rightarrow> py_value \<Rightarrow> telemetry_engine result" where
  "make_telemetry_engine catalog history_capacity =
     (if not_plain_int history_capacity then raise Type_Error ''history_capacity must be an integer''
      else if int_value history_capacity \<le> 0
        then raise Value_Error ''history_capacity must be positive''
      else Inr \<lparr>te_catalog = catalog, te_history_capacity = int_value history_capacity,
                te_latest = [], te_histories = [], te_next_frame_sequence = 0, te_total_frames = 0,
                te_total_signal_updates = 0, te_latest_timestamp_microseconds = None,
                te_last_frame_sequence = None, te_frames_by_arbitration_id = []\<rparr>)"

subsection \<open>Ingest\<close>

definition make_sample ::
  "decoded_can_frame \<Rightarrow> int \<Rightarrow> signal_definition \<Rightarrow> signal_value \<Rightarrow> signal_sample" where
  "make_sample f frame_sequence defn v =
     \<lparr>ss_key = sd_key defn, ss_value = v, ss_timestamp_microseconds = df_timestamp_microseconds f,
      ss_frame_sequence = frame_sequence, ss_arbitration_id = df_arbitration_id f,
      ss_message_name = df_message_name f, ss_source_ecu = sd_source_ecu defn,
      ss_unit = sd_unit defn\<rparr>"

text \<open>\<open>type(value) in (bool, int, float)\<close>\<close>

fun telemetry_typed :: "signal_value \<Rightarrow> bool" where
  "telemetry_typed (Py_Bool _) = True"
| "telemetry_typed (Py_Int _) = True"
| "telemetry_typed (Py_Float _) = True"
| "telemetry_typed _ = False"

definition zip_strict :: "'a list \<Rightarrow> 'b list \<Rightarrow> ('a \<times> 'b) list result" where
  "zip_strict xs ys =
     (if length xs \<noteq> length ys then raise Value_Error ''zip() arguments differ in length''
      else Inr (zip xs ys))"

definition telemetry_append_history ::
  "int \<Rightarrow> (signal_key, signal_sample list) dict \<Rightarrow> signal_sample \<Rightarrow> (signal_key, signal_sample list) dict"
  where
  "telemetry_append_history cap hs s =
     dict_set (ss_key s)
       (deque_append (nat cap) (case dict_get hs (ss_key s) of None \<Rightarrow> [] | Some h \<Rightarrow> h) s) hs"

definition out_of_order_message :: "decoded_can_frame \<Rightarrow> int \<Rightarrow> string" where
  "out_of_order_message f latest =
     ''frame '' @ df_message_name f @ '' 0x'' @ hex03 (df_arbitration_id f) @ '' timestamp ''
       @ str_int (df_timestamp_microseconds f) @ '' precedes latest timestamp '' @ str_int latest"

definition check_order :: "telemetry_engine \<Rightarrow> decoded_can_frame \<Rightarrow> unit result" where
  "check_order e f =
     (case te_latest_timestamp_microseconds e of
        None \<Rightarrow> Inr ()
      | Some latest \<Rightarrow>
          if df_timestamp_microseconds f < latest
          then raise Out_Of_Order_Telemetry_Error (out_of_order_message f latest)
          else Inr ())"

text \<open>Everything before the first mutation: the samples of an acceptable frame.\<close>

definition frame_samples :: "telemetry_engine \<Rightarrow> decoded_can_frame \<Rightarrow> signal_sample list result" where
  "frame_samples e f =
     rbind (check_order e f) (\<lambda>_.
     rbind (definitions_for_frame (te_catalog e) f) (\<lambda>definitions.
     rbind (zip_strict definitions (map snd (df_signals f))) (\<lambda>pairs.
       let samples = map (\<lambda>(d, v). make_sample f (te_next_frame_sequence e) d v) pairs
       in if \<exists>s \<in> set samples. \<not> telemetry_typed (ss_value s)
          then raise Telemetry_Schema_Error ''decoded telemetry values must be float, int, or bool''
          else Inr samples)))"

text \<open>The mutations: one per sample, then the counters.\<close>

definition store_sample :: "telemetry_engine \<Rightarrow> signal_sample \<Rightarrow> telemetry_engine" where
  "store_sample e s =
     e\<lparr>te_histories := telemetry_append_history (te_history_capacity e) (te_histories e) s,
       te_latest := dict_set (ss_key s) s (te_latest e)\<rparr>"

definition bump_count :: "int \<Rightarrow> (int, int) dict \<Rightarrow> (int, int) dict" where
  "bump_count k d = dict_set k ((case dict_get d k of None \<Rightarrow> 0 | Some n \<Rightarrow> n) + 1) d"

definition telemetry_ingest ::
  "telemetry_engine \<Rightarrow> decoded_can_frame \<Rightarrow> signal_sample list result \<times> telemetry_engine" where
  "telemetry_ingest e f =
     (case frame_samples e f of
        Inl ex \<Rightarrow> (Inl ex, e)
      | Inr samples \<Rightarrow>
          let frame_sequence = te_next_frame_sequence e;
              e1 = foldl store_sample e samples
          in (Inr samples,
              e1\<lparr>te_total_frames := te_total_frames e1 + 1,
                 te_total_signal_updates := te_total_signal_updates e1 + int (length samples),
                 te_frames_by_arbitration_id :=
                   bump_count (df_arbitration_id f) (te_frames_by_arbitration_id e1),
                 te_latest_timestamp_microseconds := Some (df_timestamp_microseconds f),
                 te_last_frame_sequence := Some frame_sequence,
                 te_next_frame_sequence := te_next_frame_sequence e1 + 1\<rparr>))"

subsection \<open>Reads\<close>

definition telemetry_latest :: "telemetry_engine \<Rightarrow> signal_key \<Rightarrow> signal_sample option result" where
  "telemetry_latest e k =
     rbind (catalog_require (te_catalog e) k) (\<lambda>_. Inr (dict_get (te_latest e) k))"

definition telemetry_latest_all :: "telemetry_engine \<Rightarrow> (signal_key, signal_sample) dict" where
  "telemetry_latest_all e = dict_of (te_latest e)"

definition history_of :: "(signal_key, signal_sample list) dict \<Rightarrow> signal_key \<Rightarrow> signal_sample list" where
  "history_of hs k = (case dict_get hs k of None \<Rightarrow> [] | Some h \<Rightarrow> h)"

definition telemetry_history :: "telemetry_engine \<Rightarrow> signal_key \<Rightarrow> signal_sample list result" where
  "telemetry_history e k =
     rbind (catalog_require (te_catalog e) k) (\<lambda>_. Inr (history_of (te_histories e) k))"

definition telemetry_freshness ::
  "telemetry_engine \<Rightarrow> signal_key \<Rightarrow> int option \<Rightarrow> signal_freshness option result" where
  "telemetry_freshness e k observation =
     rbind (catalog_require (te_catalog e) k) (\<lambda>defn.
       case dict_get (te_latest e) k of
         None \<Rightarrow> Inr None
       | Some sample \<Rightarrow>
           (case (if observation = None then te_latest_timestamp_microseconds e else observation) of
              None \<Rightarrow> raise Value_Error
                ''freshness observation timestamp cannot precede the signal sample''
            | Some obs \<Rightarrow>
                if obs < ss_timestamp_microseconds sample
                then raise Value_Error
                  ''freshness observation timestamp cannot precede the signal sample''
                else
                  let age = obs - ss_timestamp_microseconds sample;
                      threshold = sd_expected_period_microseconds defn * FRESHNESS_PERIOD_MULTIPLIER
                  in Inr (Some (if age \<le> threshold then FRESH else STALE))))"

definition telemetry_statistics_of :: "telemetry_engine \<Rightarrow> telemetry_statistics" where
  "telemetry_statistics_of e =
     \<lparr>st_total_frames = te_total_frames e, st_total_signal_updates = te_total_signal_updates e,
      st_latest_timestamp_microseconds = te_latest_timestamp_microseconds e,
      st_last_frame_sequence = te_last_frame_sequence e,
      st_frames_by_arbitration_id = dict_of (te_frames_by_arbitration_id e)\<rparr>"

fun select_samples ::
  "telemetry_engine \<Rightarrow> signal_key list \<Rightarrow> (signal_key, signal_sample) dict
     \<Rightarrow> (signal_key, signal_sample) dict result" where
  "select_samples e [] samples = Inr samples"
| "select_samples e (k # ks) samples =
     rbind (catalog_require (te_catalog e) k) (\<lambda>_.
       select_samples e ks
         (case dict_get (te_latest e) k of None \<Rightarrow> samples | Some s \<Rightarrow> dict_set k s samples))"

definition telemetry_snapshot_of ::
  "telemetry_engine \<Rightarrow> signal_key list option \<Rightarrow> telemetry_snapshot result" where
  "telemetry_snapshot_of e keys =
     rbind (case keys of None \<Rightarrow> Inr (dict_of (te_latest e)) | Some ks \<Rightarrow> select_samples e ks [])
       (\<lambda>samples.
     rbind (mapM (\<lambda>k. rbind (telemetry_freshness e k None) (\<lambda>st. Inr (k, st))) (dict_keys samples))
       (\<lambda>statuses.
       Inr \<lparr>sn_observation_timestamp_microseconds = te_latest_timestamp_microseconds e,
            sn_last_frame_sequence = te_last_frame_sequence e,
            sn_samples = dict_of samples, sn_freshness = dict_of statuses,
            sn_statistics = telemetry_statistics_of e\<rparr>))"

section \<open>Histories are bounded logs\<close>

interpretation history_log: keyed_log "telemetry_append_history cap" history_of ss_key
  "\<lambda>_. nat cap" for cap
  by unfold_locales (simp_all add: history_of_def telemetry_append_history_def)

lemma foldl_store_sample:
  "foldl store_sample e ss =
     e\<lparr>te_histories := foldl (telemetry_append_history (te_history_capacity e)) (te_histories e) ss,
       te_latest := foldl (\<lambda>d s. dict_set (ss_key s) s d) (te_latest e) ss\<rparr>"
  by (induction ss arbitrary: e) (simp_all add: store_sample_def)

lemma latest_fold:
  "dict_get (foldl (\<lambda>d s. dict_set (ss_key s) s d) d ss) k =
     (case filter (\<lambda>s. ss_key s = k) (rev ss) of [] \<Rightarrow> dict_get d k | s # _ \<Rightarrow> Some s)"
proof (induction ss arbitrary: d)
  case (Cons s ss)
  then show ?case by (cases "filter (\<lambda>s. ss_key s = k) (rev ss)") simp_all
qed simp

lemma latest_fold_keys_distinct:
  "distinct (dict_keys d) \<Longrightarrow> distinct (dict_keys (foldl (\<lambda>d s. dict_set (ss_key s) s d) d ss))"
  by (induction ss arbitrary: d) auto

lemma bump_count_get:
  "dict_get (bump_count k d) k' =
     (if k' = k then Some ((case dict_get d k of None \<Rightarrow> 0 | Some n \<Rightarrow> n) + 1) else dict_get d k')"
  by (simp add: bump_count_def)

lemma bump_count_distinct: "distinct (dict_keys (bump_count k d)) = distinct (dict_keys d)"
  by (simp add: bump_count_def)

section \<open>The abstract log\<close>

text \<open>
  The specification keeps every accepted frame with the samples it produced. \<open>represents\<close> is the
  simulation relation: each field of the engine is a function of that log.
\<close>

type_synonym telemetry_log = "(decoded_can_frame \<times> signal_sample list) list"

definition log_samples :: "telemetry_log \<Rightarrow> signal_sample list" where
  "log_samples l = concat (map snd l)"

definition samples_of :: "telemetry_log \<Rightarrow> signal_key \<Rightarrow> signal_sample list" where
  "samples_of l k = filter (\<lambda>s. ss_key s = k) (log_samples l)"

definition last_opt :: "'a list \<Rightarrow> 'a option" where
  "last_opt xs = (if xs = [] then None else Some (last xs))"

definition sample_ok :: "signal_catalog \<Rightarrow> int \<Rightarrow> decoded_can_frame \<Rightarrow> signal_sample \<Rightarrow> bool" where
  "sample_ok c i f s \<longleftrightarrow>
     (\<exists>d. catalog_get c (ss_key s) = Some d \<and> ss_source_ecu s = sd_source_ecu d \<and> ss_unit s = sd_unit d)
     \<and> ss_timestamp_microseconds s = df_timestamp_microseconds f
     \<and> ss_frame_sequence s = i \<and> ss_arbitration_id s = df_arbitration_id f
     \<and> ss_message_name s = df_message_name f \<and> telemetry_typed (ss_value s)"

definition frame_ok :: "signal_catalog \<Rightarrow> int \<Rightarrow> decoded_can_frame \<times> signal_sample list \<Rightarrow> bool" where
  "frame_ok c i b \<longleftrightarrow> (\<forall>s \<in> set (snd b). sample_ok c i (fst b) s)
     \<and> map ss_key (snd b) = map (Signal_Key (df_message_name (fst b))) (dict_keys (df_signals (fst b)))
     \<and> map ss_value (snd b) = map snd (df_signals (fst b))"

definition log_ok :: "signal_catalog \<Rightarrow> telemetry_log \<Rightarrow> bool" where
  "log_ok c l \<longleftrightarrow> sorted (map (df_timestamp_microseconds \<circ> fst) l)
     \<and> (\<forall>i < length l. frame_ok c (int i) (l ! i))"

definition id_count :: "telemetry_log \<Rightarrow> int \<Rightarrow> int" where
  "id_count l i = int (length (filter (\<lambda>b. df_arbitration_id (fst b) = i) l))"

definition represents :: "telemetry_engine \<Rightarrow> telemetry_log \<Rightarrow> bool" where
  "represents e l \<longleftrightarrow>
     wf_catalog (te_catalog e) \<and> 0 < te_history_capacity e \<and> log_ok (te_catalog e) l
     \<and> (\<forall>k. dict_get (te_latest e) k = last_opt (samples_of l k))
     \<and> distinct (dict_keys (te_latest e))
     \<and> (\<forall>k. history_of (te_histories e) k = last_n (nat (te_history_capacity e)) (samples_of l k))
     \<and> te_next_frame_sequence e = int (length l)
     \<and> te_total_frames e = int (length l)
     \<and> te_total_signal_updates e = int (length (log_samples l))
     \<and> te_latest_timestamp_microseconds e = map_option (df_timestamp_microseconds \<circ> fst) (last_opt l)
     \<and> te_last_frame_sequence e = (if l = [] then None else Some (int (length l) - 1))
     \<and> distinct (dict_keys (te_frames_by_arbitration_id e))
     \<and> (\<forall>i. (case dict_get (te_frames_by_arbitration_id e) i of None \<Rightarrow> 0 | Some n \<Rightarrow> n) = id_count l i)"

lemma log_samples_snoc [simp]: "log_samples (l @ [(f, ss)]) = log_samples l @ ss"
  by (simp add: log_samples_def)

lemma samples_of_snoc [simp]: "samples_of (l @ [(f, ss)]) k = samples_of l k @ filter (\<lambda>s. ss_key s = k) ss"
  by (simp add: samples_of_def)

lemma id_count_snoc [simp]:
  "id_count (l @ [(f, ss)]) i = id_count l i + (if df_arbitration_id f = i then 1 else 0)"
  by (simp add: id_count_def)

lemma last_opt_snoc [simp]: "last_opt (xs @ [x]) = Some x"
  by (simp add: last_opt_def)

lemma last_opt_append: "last_opt (xs @ ys) = (if ys = [] then last_opt xs else last_opt ys)"
  by (simp add: last_opt_def)

lemma last_opt_rev: "last_opt xs = (case rev xs of [] \<Rightarrow> None | x # _ \<Rightarrow> Some x)"
  by (cases xs rule: rev_cases) (simp_all add: last_opt_def)

subsection \<open>What an accepted frame looks like\<close>

lemma frame_samples_Inr:
  assumes "frame_samples e f = Inr ss" and "wf_catalog (te_catalog e)"
  shows "frame_ok (te_catalog e) (te_next_frame_sequence e) (f, ss)"
    and "\<And>t. te_latest_timestamp_microseconds e = Some t \<Longrightarrow> t \<le> df_timestamp_microseconds f"
proof -
  from assms(1) obtain ds where ds: "definitions_for_frame (te_catalog e) f = Inr ds"
    and len: "length ds = length (df_signals f)"
    and ss: "ss = map (\<lambda>(d, v). make_sample f (te_next_frame_sequence e) d v) (zip ds (map snd (df_signals f)))"
    and typed: "\<forall>s \<in> set ss. telemetry_typed (ss_value s)"
    by (auto simp: frame_samples_def rbind_eq_Inr zip_strict_def Let_def split: if_splits)
  have get: "list_all2 (\<lambda>n d. catalog_get (te_catalog e) (Signal_Key (df_message_name f) n) = Some d)
      (dict_keys (df_signals f)) ds"
    by (rule definitions_for_frame_Inr [OF ds])
  have ok: "sample_ok (te_catalog e) (te_next_frame_sequence e) f s" if s: "s \<in> set ss" for s
  proof -
    from s ss obtain d v where "s = make_sample f (te_next_frame_sequence e) d v" and "d \<in> set ds"
      by (auto dest: set_zip_leftD)
    moreover from this get catalog_get_key [OF assms(2)]
    have "catalog_get (te_catalog e) (sd_key d) = Some d"
      by (auto simp: list_all2_conv_all_nth in_set_conv_nth)
    ultimately show ?thesis using typed s by (auto simp: sample_ok_def make_sample_def)
  qed
  have "map ss_key ss = map sd_key ds"
    using len map_zip_first [of ds "map snd (df_signals f)" sd_key]
    by (simp add: ss comp_def case_prod_unfold make_sample_def)
  moreover have "map ss_value ss = map snd (df_signals f)"
    using len map_zip_second [of ds "map snd (df_signals f)" "\<lambda>v. v"]
    by (simp add: ss comp_def case_prod_unfold make_sample_def)
  ultimately show "frame_ok (te_catalog e) (te_next_frame_sequence e) (f, ss)"
    using ok definitions_for_frame_keys [OF assms(2) ds] by (simp add: frame_ok_def)
  fix t assume "te_latest_timestamp_microseconds e = Some t"
  then show "t \<le> df_timestamp_microseconds f"
    using assms(1) by (auto simp: frame_samples_def rbind_eq_Inr check_order_def split: if_splits)
qed

lemma telemetry_ingest_Inl: "telemetry_ingest e f = (Inl ex, e') \<Longrightarrow> e' = e"
  by (auto simp: telemetry_ingest_def Let_def split: sum.splits)

lemma telemetry_ingest_Inr:
  assumes "telemetry_ingest e f = (Inr ss, e')"
  shows "frame_samples e f = Inr ss"
    and "e' = e\<lparr>te_histories := foldl (telemetry_append_history (te_history_capacity e)) (te_histories e) ss,
        te_latest := foldl (\<lambda>d s. dict_set (ss_key s) s d) (te_latest e) ss,
        te_total_frames := te_total_frames e + 1,
        te_total_signal_updates := te_total_signal_updates e + int (length ss),
        te_frames_by_arbitration_id := bump_count (df_arbitration_id f) (te_frames_by_arbitration_id e),
        te_latest_timestamp_microseconds := Some (df_timestamp_microseconds f),
        te_last_frame_sequence := Some (te_next_frame_sequence e),
        te_next_frame_sequence := te_next_frame_sequence e + 1\<rparr>"
  using assms
  by (auto simp: telemetry_ingest_def Let_def foldl_store_sample split: sum.splits)

lemma log_ok_snoc:
  "log_ok c l \<Longrightarrow> frame_ok c (int (length l)) b \<Longrightarrow>
     (\<forall>b' \<in> set l. df_timestamp_microseconds (fst b') \<le> df_timestamp_microseconds (fst b)) \<Longrightarrow>
     log_ok c (l @ [b])"
  by (auto simp: log_ok_def sorted_append nth_append less_Suc_eq)

lemma log_ok_last:
  assumes "log_ok c l" and "last_opt l = Some b" and "b' \<in> set l"
  shows "df_timestamp_microseconds (fst b') \<le> df_timestamp_microseconds (fst b)"
proof -
  from assms(2) obtain l' where "l = l' @ [b]"
    by (cases l rule: rev_cases) (auto simp: last_opt_def split: if_splits)
  then show ?thesis using assms(1,3) by (auto simp: log_ok_def sorted_append)
qed

lemma represents_reset:
  "wf_catalog (te_catalog e) \<Longrightarrow> 0 < te_history_capacity e \<Longrightarrow> represents (telemetry_reset e) []"
  by (simp add: represents_def telemetry_reset_def log_ok_def samples_of_def log_samples_def
      last_opt_def history_of_def id_count_def)

lemma represents_make:
  "make_telemetry_engine c v = Inr e \<Longrightarrow> wf_catalog c \<Longrightarrow> represents e []"
  by (auto simp: make_telemetry_engine_def represents_def log_ok_def samples_of_def log_samples_def
      last_opt_def history_of_def id_count_def split: if_splits)

lemma represents_ingest:
  assumes rep: "represents e l" and ing: "telemetry_ingest e f = (Inr ss, e')"
  shows "represents e' (l @ [(f, ss)])"
proof -
  note fs = telemetry_ingest_Inr(1) [OF ing] and e' = telemetry_ingest_Inr(2) [OF ing]
  have wf: "wf_catalog (te_catalog e)" and lok: "log_ok (te_catalog e) l"
    and next': "te_next_frame_sequence e = int (length l)"
    using rep by (simp_all add: represents_def)
  have fok: "frame_ok (te_catalog e) (int (length l)) (f, ss)"
    using frame_samples_Inr(1) [OF fs wf] next' by simp
  have le: "\<forall>b' \<in> set l. df_timestamp_microseconds (fst b') \<le> df_timestamp_microseconds f"
  proof (cases "last_opt l")
    case (Some b)
    then have "te_latest_timestamp_microseconds e = Some (df_timestamp_microseconds (fst b))"
      using rep by (simp add: represents_def)
    from frame_samples_Inr(2) [OF fs wf this] log_ok_last [OF lok Some] show ?thesis by fastforce
  qed (simp add: last_opt_def split: if_splits)
  have lok': "log_ok (te_catalog e) (l @ [(f, ss)])"
    using log_ok_snoc [OF lok fok] le by simp
  have latest: "dict_get (foldl (\<lambda>d s. dict_set (ss_key s) s d) (te_latest e) ss) k
      = last_opt (samples_of (l @ [(f, ss)]) k)" for k
    using rep by (cases "filter (\<lambda>s. ss_key s = k) (rev ss)")
      (simp_all add: represents_def latest_fold last_opt_append rev_filter [symmetric] last_opt_rev)
  have hist: "history_of (foldl (telemetry_append_history (te_history_capacity e)) (te_histories e) ss) k
      = last_n (nat (te_history_capacity e)) (samples_of (l @ [(f, ss)]) k)" for k
    using rep by (simp add: represents_def history_log.keyed_refines_full_log)
  show ?thesis
    using rep lok' latest hist latest_fold_keys_distinct
    by (auto simp: represents_def e' last_opt_snoc bump_count_get bump_count_distinct id_count_snoc
        split: option.splits)
qed

subsection \<open>Reads of a represented engine\<close>

lemma samples_of_mem:
  assumes "log_ok c l" and "s \<in> set (samples_of l k)"
  shows "ss_key s = k" and "\<exists>d. catalog_get c k = Some d"
    and "\<exists>b \<in> set l. ss_timestamp_microseconds s = df_timestamp_microseconds (fst b)"
proof -
  from assms(2) show key: "ss_key s = k" by (simp add: samples_of_def)
  from assms(2) obtain b where b: "b \<in> set l" and s: "s \<in> set (snd b)"
    by (auto simp: samples_of_def log_samples_def)
  from b obtain i where "i < length l" and "l ! i = b" by (auto simp: in_set_conv_nth)
  then have "frame_ok c (int i) b" using assms(1) by (auto simp: log_ok_def)
  then have ok: "sample_ok c (int i) (fst b) s" using s by (simp add: frame_ok_def)
  then show "\<exists>d. catalog_get c k = Some d" using key by (auto simp: sample_ok_def)
  show "\<exists>b \<in> set l. ss_timestamp_microseconds s = df_timestamp_microseconds (fst b)"
    using b ok by (auto simp: sample_ok_def)
qed

lemma last_opt_mem: "last_opt xs = Some x \<Longrightarrow> x \<in> set xs"
  by (auto simp: last_opt_def split: if_splits)

text \<open>A signal that has been observed is in the catalog and not newer than the engine's clock.\<close>

lemma represents_latest:
  assumes rep: "represents e l" and get: "dict_get (te_latest e) k = Some s"
  shows "ss_key s = k" and "\<exists>d. catalog_require (te_catalog e) k = Inr d"
    and "\<exists>t. te_latest_timestamp_microseconds e = Some t \<and> ss_timestamp_microseconds s \<le> t"
proof -
  have lok: "log_ok (te_catalog e) l" using rep by (simp add: represents_def)
  have mem: "s \<in> set (samples_of l k)"
    using rep get last_opt_mem by (auto simp: represents_def)
  show "ss_key s = k" by (rule samples_of_mem(1) [OF lok mem])
  show "\<exists>d. catalog_require (te_catalog e) k = Inr d"
    using samples_of_mem(2) [OF lok mem] by (simp add: catalog_require_Inr)
  from samples_of_mem(3) [OF lok mem] obtain b where b: "b \<in> set l"
    and ts: "ss_timestamp_microseconds s = df_timestamp_microseconds (fst b)" by blast
  then obtain b' where b': "last_opt l = Some b'" by (cases l rule: rev_cases) auto
  have "te_latest_timestamp_microseconds e = Some (df_timestamp_microseconds (fst b'))"
    using rep b' by (simp add: represents_def)
  then show "\<exists>t. te_latest_timestamp_microseconds e = Some t \<and> ss_timestamp_microseconds s \<le> t"
    using log_ok_last [OF lok b' b] ts by auto
qed

definition freshness_at :: "signal_definition \<Rightarrow> signal_sample \<Rightarrow> int \<Rightarrow> signal_freshness" where
  "freshness_at d s t =
     (if t \<le> ss_timestamp_microseconds s + 2 * sd_expected_period_microseconds d then FRESH else STALE)"

lemma telemetry_freshness_at:
  assumes "catalog_get (te_catalog e) k = Some d" and "dict_get (te_latest e) k = Some s"
    and "(if obs = None then te_latest_timestamp_microseconds e else obs) = Some t"
    and "ss_timestamp_microseconds s \<le> t"
  shows "telemetry_freshness e k obs = Inr (Some (freshness_at d s t))"
  using assms
  by (auto simp: telemetry_freshness_def catalog_require_def freshness_at_def Let_def algebra_simps)

lemma represents_freshness:
  assumes "represents e l" and "dict_get (te_latest e) k = Some s"
  shows "\<exists>d t. catalog_get (te_catalog e) k = Some d \<and> te_latest_timestamp_microseconds e = Some t
    \<and> telemetry_freshness e k None = Inr (Some (freshness_at d s t))"
  using represents_latest [OF assms] telemetry_freshness_at [of e k _ s None] assms(2)
  by (auto simp: catalog_require_Inr)

text \<open>A snapshot never raises on a reachable engine, and its parts agree.\<close>

lemma represents_snapshot:
  assumes rep: "represents e l"
  shows "\<exists>sn. telemetry_snapshot_of e None = Inr sn
    \<and> sn_samples sn = te_latest e
    \<and> sn_observation_timestamp_microseconds sn = te_latest_timestamp_microseconds e
    \<and> sn_last_frame_sequence sn = te_last_frame_sequence e
    \<and> sn_statistics sn = telemetry_statistics_of e
    \<and> dict_keys (sn_freshness sn) = dict_keys (te_latest e)
    \<and> (\<forall>k s. dict_get (te_latest e) k = Some s \<longrightarrow>
         (\<exists>d t. catalog_get (te_catalog e) k = Some d \<and> te_latest_timestamp_microseconds e = Some t
            \<and> snapshot_status sn k = Some (freshness_at d s t)))"
proof -
  have dist: "distinct (dict_keys (te_latest e))" using rep by (simp add: represents_def)
  define st where "st k = (case telemetry_freshness e k None of Inr v \<Rightarrow> v | Inl _ \<Rightarrow> None)" for k
  let ?ks = "dict_keys (te_latest e)"
  have ok: "telemetry_freshness e k None = Inr (st k)" if "k \<in> set ?ks" for k
  proof -
    from that obtain s where "dict_get (te_latest e) k = Some s"
      using dist by (metis map_of_eq_None_iff not_None_eq set_map)
    from represents_freshness [OF rep this] show ?thesis by (auto simp: st_def)
  qed
  have map: "mapM (\<lambda>k. rbind (telemetry_freshness e k None) (\<lambda>v. Inr (k, v))) ?ks
      = Inr (map (\<lambda>k. (k, st k)) ?ks)"
    by (rule mapM_total) (simp add: ok)
  have keys: "dict_keys (map (\<lambda>k. (k, st k)) ?ks) = ?ks" by (simp add: comp_def)
  then have dict: "dict_of (map (\<lambda>k. (k, st k)) ?ks) = map (\<lambda>k. (k, st k)) ?ks"
    using dist by (metis dict_of_distinct)
  define sn where "sn = \<lparr>sn_observation_timestamp_microseconds = te_latest_timestamp_microseconds e,
    sn_last_frame_sequence = te_last_frame_sequence e, sn_samples = te_latest e,
    sn_freshness = map (\<lambda>k. (k, st k)) ?ks, sn_statistics = telemetry_statistics_of e\<rparr>"
  have snap: "telemetry_snapshot_of e None = Inr sn"
    using map dict dict_of_distinct [OF dist]
    by (simp add: telemetry_snapshot_of_def sn_def del: map_map)
  have status: "\<exists>d t. catalog_get (te_catalog e) k = Some d \<and> te_latest_timestamp_microseconds e = Some t
      \<and> snapshot_status sn k = Some (freshness_at d s t)" if get: "dict_get (te_latest e) k = Some s" for k s
  proof -
    have "snapshot_status sn k = st k"
      using dict_get_key [OF get] by (simp add: snapshot_status_def sn_def map_of_map_graph del: map_map)
    with represents_freshness [OF rep get] ok [OF dict_get_key [OF get]] show ?thesis by auto
  qed
  show ?thesis
    using keys by (intro exI [of _ sn]) (use snap status in \<open>simp add: sn_def del: map_map\<close>)
qed

section \<open>The engine keeps simulation time\<close>

interpretation telemetry_clock: sim_clock te_latest_timestamp_microseconds
  "\<lambda>f. Some (df_timestamp_microseconds f)" telemetry_ingest
proof
  fix e f ss e' t
  assume ing: "telemetry_ingest e f = (Inr ss, e')"
  note fs = telemetry_ingest_Inr(1) [OF ing] and e' = telemetry_ingest_Inr(2) [OF ing]
  {
    assume "Some (df_timestamp_microseconds f) = Some t"
    then show "te_latest_timestamp_microseconds e' = Some t" by (simp add: e')
  }
  {
    fix c assume "Some (df_timestamp_microseconds f) = Some t" and "te_latest_timestamp_microseconds e = Some c"
    then show "c \<le> t"
      using fs by (auto simp: frame_samples_def rbind_eq_Inr check_order_def split: if_splits)
  }
qed simp

end
