(* ===== verification/Diag_Rules.thy ===== *)
theory Diag_Rules
  imports Telemetry_Engine
begin

text \<open>
  The diagnostic contracts (\<open>diagnostics/models.py\<close>), the four condition primitives
  (\<open>diagnostics/rules.py\<close>) and the rule catalog with the five default rules
  (\<open>diagnostics/catalog.py\<close>). The lemmas show when a condition raises, that each condition is a
  hysteresis (what is normal for an active code is normal for an inactive one), and which rule
  tuples the catalog accepts.
\<close>

section \<open>Contracts\<close>

datatype diagnostic_status = PENDING | ACTIVE | HISTORICAL | CLEARED

datatype diagnostic_severity = INFO | WARNING | CRITICAL

datatype diagnostic_event_type =
  CONDITION_DETECTED | CONDITION_CLEARED | DTC_CONFIRMED | DTC_RECOVERED | DTC_CLEARED

record diagnostic_definition =
  dd_code :: string
  dd_rule_id :: string
  dd_name :: string
  dd_description :: string
  dd_severity :: diagnostic_severity
  dd_source_system :: string
  dd_required_signals :: "signal_key list"
  dd_confirmation_duration_microseconds :: int
  dd_recovery_duration_microseconds :: int
  dd_activation_description :: string
  dd_recovery_description :: string

record diagnostic_trouble_code =
  dtc_definition :: diagnostic_definition
  dtc_status :: diagnostic_status
  dtc_first_detected :: int
  dtc_confirmed :: "int option"
  dtc_last_seen :: int
  dtc_resolved :: "int option"
  dtc_cleared :: "int option"
  dtc_occurrence_count :: int
  dtc_freeze_frame_available :: bool

record diagnostic_event =
  ev_sequence :: int
  ev_timestamp_microseconds :: int
  ev_code :: string
  ev_event_type :: diagnostic_event_type
  ev_prior_status :: "diagnostic_status option"
  ev_new_status :: "diagnostic_status option"

record freeze_frame_signal =
  ffs_key :: signal_key
  ffs_value :: signal_value
  ffs_unit :: string
  ffs_source_ecu :: string
  ffs_arbitration_id :: int
  ffs_timestamp_microseconds :: int
  ffs_telemetry_frame_sequence :: int

record diagnostic_freeze_frame =
  ff_code :: string
  ff_capture_timestamp_microseconds :: int
  ff_telemetry_frame_sequence :: int
  ff_signals :: "freeze_frame_signal list"

record diagnostic_snapshot =
  ds_observation_timestamp_microseconds :: "int option"
  ds_latest_telemetry_frame_sequence :: "int option"
  ds_dtcs :: "diagnostic_trouble_code list"
  ds_retained_event_count :: int
  ds_total_event_count :: int
  ds_latest_event_sequence :: "int option"
  ds_pending_count :: int
  ds_active_count :: int
  ds_historical_count :: int
  ds_cleared_count :: int

fun status_value :: "diagnostic_status \<Rightarrow> string" where
  "status_value PENDING = ''pending''"
| "status_value ACTIVE = ''active''"
| "status_value HISTORICAL = ''historical''"
| "status_value CLEARED = ''cleared''"

section \<open>Condition primitives\<close>

datatype condition_result = NORMAL | VIOLATION

definition sample_value :: "telemetry_snapshot \<Rightarrow> signal_key \<Rightarrow> signal_value result" where
  "sample_value sn k =
     (case dict_get (sn_samples sn) k of
        None \<Rightarrow> raise Key_Error (str_key k) | Some s \<Rightarrow> Inr (ss_value s))"

definition number :: "telemetry_snapshot \<Rightarrow> signal_key \<Rightarrow> pyfloat result" where
  "number sn k =
     rbind (sample_value sn k) (\<lambda>v.
       case v of
         Py_Int i \<Rightarrow> float_of_int i
       | Py_Float x \<Rightarrow> Inr x
       | _ \<Rightarrow> raise Type_Error (''diagnostic signal '' @ str_key k @ '' must be numeric''))"

definition boolean :: "telemetry_snapshot \<Rightarrow> signal_key \<Rightarrow> bool result" where
  "boolean sn k =
     rbind (sample_value sn k) (\<lambda>v.
       case v of
         Py_Bool b \<Rightarrow> Inr b
       | _ \<Rightarrow> raise Type_Error (''diagnostic signal '' @ str_key k @ '' must be boolean''))"

text \<open>The four dataclasses that implement the \<open>DiagnosticCondition\<close> protocol; thresholds are floats.\<close>

datatype diagnostic_condition =
    High_Threshold (hc_signal: signal_key) (hc_activation_above: rat) (hc_recovery_below: rat)
  | Low_While_True signal_key signal_key rat rat
  | Outside_Range_While_True signal_key signal_key rat rat rat rat
  | Signal_Disagreement "signal_key list" signal_key rat rat

definition violation_if :: "bool \<Rightarrow> condition_result" where
  "violation_if b = (if b then VIOLATION else NORMAL)"

definition evaluate_high ::
  "signal_key \<Rightarrow> rat \<Rightarrow> rat \<Rightarrow> telemetry_snapshot \<Rightarrow> bool \<Rightarrow> condition_result result" where
  "evaluate_high signal hi_limit lo_limit sn active =
     (let threshold = (if active then lo_limit else hi_limit)
      in rbind (number sn signal) (\<lambda>x. Inr (violation_if (float_less (Finite threshold) x))))"

definition evaluate_low ::
  "signal_key \<Rightarrow> signal_key \<Rightarrow> rat \<Rightarrow> rat \<Rightarrow> telemetry_snapshot \<Rightarrow> bool \<Rightarrow> condition_result result" where
  "evaluate_low signal context_key lo_limit hi_limit sn active =
     rbind (boolean sn context_key) (\<lambda>c.
       if \<not> c then Inr NORMAL
       else let threshold = (if active then hi_limit else lo_limit)
            in rbind (number sn signal) (\<lambda>x. Inr (violation_if (float_less x (Finite threshold)))))"

definition evaluate_range ::
  "signal_key \<Rightarrow> signal_key \<Rightarrow> rat \<Rightarrow> rat \<Rightarrow> rat \<Rightarrow> rat \<Rightarrow> telemetry_snapshot \<Rightarrow> bool
     \<Rightarrow> condition_result result" where
  "evaluate_range signal context_key amin amax rmin rmax sn active =
     rbind (boolean sn context_key) (\<lambda>c.
       if \<not> c then Inr NORMAL
       else rbind (number sn signal) (\<lambda>x.
              let lo = (if active then rmin else amin); hi = (if active then rmax else amax)
              in Inr (violation_if (float_less x (Finite lo) \<or> float_less (Finite hi) x))))"

definition deviation :: "telemetry_snapshot \<Rightarrow> pyfloat \<Rightarrow> signal_key \<Rightarrow> pyfloat result" where
  "deviation sn reference k = rbind (number sn k) (\<lambda>x. Inr (float_abs (float_sub x reference)))"

definition evaluate_disagreement ::
  "signal_key list \<Rightarrow> signal_key \<Rightarrow> rat \<Rightarrow> rat \<Rightarrow> telemetry_snapshot \<Rightarrow> bool
     \<Rightarrow> condition_result result" where
  "evaluate_disagreement compared ref_key adelta rdelta sn active =
     rbind (number sn ref_key) (\<lambda>reference.
     rbind (mapM (deviation sn reference) compared) (\<lambda>deltas.
     rbind (float_max deltas) (\<lambda>maximum_delta.
       let threshold = (if active then rdelta else adelta)
       in Inr (violation_if (float_less (Finite threshold) maximum_delta)))))"

fun evaluate :: "diagnostic_condition \<Rightarrow> telemetry_snapshot \<Rightarrow> bool \<Rightarrow> condition_result result" where
  "evaluate (High_Threshold s a r) sn active = evaluate_high s a r sn active"
| "evaluate (Low_While_True s c a r) sn active = evaluate_low s c a r sn active"
| "evaluate (Outside_Range_While_True s c alo ahi rlo rhi) sn active =
     evaluate_range s c alo ahi rlo rhi sn active"
| "evaluate (Signal_Disagreement cs r ad rd) sn active = evaluate_disagreement cs r ad rd sn active"

section \<open>The rule catalog\<close>

record diagnostic_rule =
  rule_definition :: diagnostic_definition
  rule_condition :: diagnostic_condition

record diagnostic_catalog =
  dc_rules :: "diagnostic_rule list"
  dc_by_code :: "(string, diagnostic_rule) dict"

abbreviation rule_code :: "diagnostic_rule \<Rightarrow> string" where
  "rule_code r \<equiv> dd_code (rule_definition r)"

text \<open>The validation loop of the constructor, with the codes and rule IDs seen so far.\<close>

fun check_rules ::
  "signal_catalog \<Rightarrow> diagnostic_rule list \<Rightarrow> string set \<Rightarrow> string set \<Rightarrow> unit result" where
  "check_rules c [] codes rule_ids = Inr ()"
| "check_rules c (r # rs) codes rule_ids =
     (let d = rule_definition r
      in if dd_code d \<in> codes
           then raise Value_Error (''duplicate diagnostic code '' @ dd_code d)
         else if dd_rule_id d \<in> rule_ids
           then raise Value_Error (''duplicate diagnostic rule ID '' @ dd_rule_id d)
         else if dd_confirmation_duration_microseconds d < 0
           then raise Value_Error ''diagnostic confirmation duration cannot be negative''
         else if dd_recovery_duration_microseconds d < 0
           then raise Value_Error ''diagnostic recovery duration cannot be negative''
         else rbind (mapM (catalog_require c) (dd_required_signals d)) (\<lambda>_.
                check_rules c rs (insert (dd_code d) codes) (insert (dd_rule_id d) rule_ids)))"

definition make_diagnostic_catalog ::
  "diagnostic_rule list \<Rightarrow> signal_catalog \<Rightarrow> diagnostic_catalog result" where
  "make_diagnostic_catalog rules c =
     rbind (check_rules c rules {} {}) (\<lambda>_.
       Inr \<lparr>dc_rules = rules, dc_by_code = dict_of (map (\<lambda>r. (rule_code r, r)) rules)\<rparr>)"

definition diag_catalog_get :: "diagnostic_catalog \<Rightarrow> string \<Rightarrow> diagnostic_rule option" where
  "diag_catalog_get c code = dict_get (dc_by_code c) code"

definition diag_catalog_require :: "diagnostic_catalog \<Rightarrow> string \<Rightarrow> diagnostic_rule result" where
  "diag_catalog_require c code =
     (case diag_catalog_get c code of
        None \<Rightarrow> raise Unknown_Diagnostic_Code_Error (''unknown diagnostic code '' @ py_repr code)
      | Some r \<Rightarrow> Inr r)"

section \<open>The default rules\<close>

definition COOLANT :: signal_key where
  "COOLANT = Signal_Key ''DmeThermalElectrical'' ''CoolantTemperature''"

definition OIL :: signal_key where
  "OIL = Signal_Key ''DmeThermalElectrical'' ''OilTemperature''"

definition BATTERY :: signal_key where
  "BATTERY = Signal_Key ''DmeThermalElectrical'' ''BatteryVoltage''"

definition ENGINE_RUNNING :: signal_key where
  "ENGINE_RUNNING = Signal_Key ''DmeFastEngine'' ''EngineRunning''"

definition MANIFOLD_PRESSURE :: signal_key where
  "MANIFOLD_PRESSURE = Signal_Key ''DmeAirLoad'' ''ManifoldPressureAbsolute''"

definition VEHICLE_SPEED :: signal_key where
  "VEHICLE_SPEED = Signal_Key ''DscVehicleMotion'' ''VehicleSpeed''"

definition WHEEL_SPEEDS :: "signal_key list" where
  "WHEEL_SPEEDS =
     [Signal_Key ''DscWheelSpeeds'' ''FrontLeftWheelSpeed'',
      Signal_Key ''DscWheelSpeeds'' ''FrontRightWheelSpeed'',
      Signal_Key ''DscWheelSpeeds'' ''RearLeftWheelSpeed'',
      Signal_Key ''DscWheelSpeeds'' ''RearRightWheelSpeed'']"

lemmas default_signal_defs =
  COOLANT_def OIL_def BATTERY_def ENGINE_RUNNING_def MANIFOLD_PRESSURE_def VEHICLE_SPEED_def
  WHEEL_SPEEDS_def

definition diag_definition ::
  "string \<Rightarrow> string \<Rightarrow> string \<Rightarrow> string \<Rightarrow> diagnostic_severity \<Rightarrow> string \<Rightarrow> signal_key list
     \<Rightarrow> int \<Rightarrow> int \<Rightarrow> string \<Rightarrow> string \<Rightarrow> diagnostic_definition" where
  "diag_definition code rule_id name description severity source_system required
     confirmation_seconds recovery_seconds activation_description recovery_description =
     \<lparr>dd_code = code, dd_rule_id = rule_id, dd_name = name, dd_description = description,
      dd_severity = severity, dd_source_system = source_system, dd_required_signals = required,
      dd_confirmation_duration_microseconds = confirmation_seconds * 1000000,
      dd_recovery_duration_microseconds = recovery_seconds * 1000000,
      dd_activation_description = activation_description,
      dd_recovery_description = recovery_description\<rparr>"

definition default_rules :: "diagnostic_rule list" where
  "default_rules =
     [\<lparr>rule_definition = diag_definition ''TUN-DME-001'' ''dme.coolant_temperature_high''
         ''Engine coolant temperature high''
         ''Decoded coolant temperature remained above the TunerOS high threshold.''
         CRITICAL ''DME'' [COOLANT] 5 3
         ''CoolantTemperature > 115 degC'' ''CoolantTemperature <= 110 degC'',
       rule_condition = High_Threshold COOLANT 115 110\<rparr>,
      \<lparr>rule_definition = diag_definition ''TUN-DME-002'' ''dme.oil_temperature_high''
         ''Engine oil temperature high''
         ''Decoded oil temperature remained above the TunerOS high threshold.''
         CRITICAL ''DME'' [OIL] 5 3
         ''OilTemperature > 135 degC'' ''OilTemperature <= 130 degC'',
       rule_condition = High_Threshold OIL 135 130\<rparr>,
      \<lparr>rule_definition = diag_definition ''TUN-DME-003'' ''dme.charging_voltage_low''
         ''Charging voltage low while running''
         ''Battery voltage remained low while decoded engine-running state was true.''
         WARNING ''DME'' [BATTERY, ENGINE_RUNNING] 3 2
         ''EngineRunning and BatteryVoltage < 12.5 V'' ''Engine stopped or BatteryVoltage >= 13.0 V'',
       rule_condition = Low_While_True BATTERY ENGINE_RUNNING (25 / 2) 13\<rparr>,
      \<lparr>rule_definition = diag_definition ''TUN-DME-004'' ''dme.manifold_pressure_implausible''
         ''Manifold pressure implausible''
         ''Decoded absolute manifold pressure remained outside broad TunerOS bounds.''
         WARNING ''DME'' [MANIFOLD_PRESSURE, ENGINE_RUNNING] 2 2
         ''EngineRunning and MAP outside 10..250 kPa absolute''
         ''Engine stopped or MAP within 15..240 kPa absolute'',
       rule_condition = Outside_Range_While_True MANIFOLD_PRESSURE ENGINE_RUNNING 10 250 15 240\<rparr>,
      \<lparr>rule_definition = diag_definition ''TUN-DSC-001'' ''dsc.wheel_speed_disagreement''
         ''Wheel-speed plausibility disagreement''
         ''A decoded wheel speed remained materially different from decoded vehicle speed.''
         WARNING ''DSC'' (WHEEL_SPEEDS @ [VEHICLE_SPEED]) 1 1
         ''Any wheel differs from VehicleSpeed by > 3.0 m/s''
         ''Every wheel is within 1.5 m/s of VehicleSpeed'',
       rule_condition = Signal_Disagreement WHEEL_SPEEDS VEHICLE_SPEED 3 (3 / 2)\<rparr>]"

definition create_default_diagnostic_catalog :: "signal_catalog \<Rightarrow> diagnostic_catalog result" where
  "create_default_diagnostic_catalog c = make_diagnostic_catalog default_rules c"

section \<open>Lemmas on conditions\<close>

text \<open>Thresholds that leave a dead band: recovering is at least as demanding as not activating.\<close>

fun hysteresis :: "diagnostic_condition \<Rightarrow> bool" where
  "hysteresis (High_Threshold s a r) = (r \<le> a)"
| "hysteresis (Low_While_True s c a r) = (a \<le> r)"
| "hysteresis (Outside_Range_While_True s c alo ahi rlo rhi) = (alo \<le> rlo \<and> rhi \<le> ahi)"
| "hysteresis (Signal_Disagreement cs r ad rd) = (rd \<le> ad)"

lemma violation_if_simps [simp]:
  "violation_if b = VIOLATION \<longleftrightarrow> b" "violation_if b = NORMAL \<longleftrightarrow> \<not> b"
  by (simp_all add: violation_if_def)

lemma normal_mono:
  assumes "rbind m (\<lambda>x. Inr (violation_if (P x))) = Inr NORMAL" and "\<And>x. Q x \<Longrightarrow> P x"
  shows "rbind m (\<lambda>x. Inr (violation_if (Q x))) = (Inr NORMAL :: condition_result result)"
  using assms by (cases m) auto

lemma evaluate_hysteresis:
  assumes "hysteresis c" and "evaluate c sn True = Inr NORMAL"
  shows "evaluate c sn False = Inr NORMAL"
proof (cases c)
  case (High_Threshold s a r)
  then show ?thesis
    using assms float_less_weaken_left [of r a]
    by (auto simp: evaluate_high_def elim: normal_mono)
next
  case (Low_While_True s k a r)
  then show ?thesis
    using assms float_less_weaken_right [of a r]
    by (cases "boolean sn k") (auto simp: evaluate_low_def elim: normal_mono split: if_splits)
next
  case (Outside_Range_While_True s k alo ahi rlo rhi)
  show ?thesis
  proof (cases "boolean sn k = Inr True")
    case True
    have "rbind (number sn s) (\<lambda>x. Inr (violation_if
        (float_less x (Finite rlo) \<or> float_less (Finite rhi) x))) = Inr NORMAL"
      using assms(2) Outside_Range_While_True True by (simp add: evaluate_range_def)
    then have "rbind (number sn s) (\<lambda>x. Inr (violation_if
        (float_less x (Finite alo) \<or> float_less (Finite ahi) x))) = Inr NORMAL"
      by (rule normal_mono)
        (use assms(1) Outside_Range_While_True float_less_weaken_left [of rhi ahi]
           float_less_weaken_right [of alo rlo] in auto)
    then show ?thesis using Outside_Range_While_True True by (simp add: evaluate_range_def)
  next
    case False
    then show ?thesis
      using assms(2) Outside_Range_While_True
      by (auto simp: evaluate_range_def rbind_def split: sum.splits)
  qed
next
  case (Signal_Disagreement cs k ad rd)
  obtain reference ds where "number sn k = Inr reference" and "mapM (deviation sn reference) cs = Inr ds"
    and "rbind (float_max ds) (\<lambda>x. Inr (violation_if (float_less (Finite rd) x))) = Inr NORMAL"
    using assms(2) Signal_Disagreement
    by (cases "number sn k"; cases "mapM (deviation sn (projr (number sn k))) cs")
      (auto simp: evaluate_disagreement_def)
  moreover from this(3) have "rbind (float_max ds) (\<lambda>x. Inr (violation_if (float_less (Finite ad) x))) = Inr NORMAL"
    by (rule normal_mono) (use assms(1) Signal_Disagreement float_less_weaken_left [of rd ad] in auto)
  ultimately show ?thesis using Signal_Disagreement by (simp add: evaluate_disagreement_def)
qed

text \<open>The signals a condition reads, as numbers and as booleans.\<close>

fun numeric_signals :: "diagnostic_condition \<Rightarrow> signal_key list" where
  "numeric_signals (High_Threshold s a r) = [s]"
| "numeric_signals (Low_While_True s c a r) = [s]"
| "numeric_signals (Outside_Range_While_True s c alo ahi rlo rhi) = [s]"
| "numeric_signals (Signal_Disagreement cs r ad rd) = r # cs"

fun boolean_signals :: "diagnostic_condition \<Rightarrow> signal_key list" where
  "boolean_signals (Low_While_True s c a r) = [c]"
| "boolean_signals (Outside_Range_While_True s c alo ahi rlo rhi) = [c]"
| "boolean_signals _ = []"

fun has_comparands :: "diagnostic_condition \<Rightarrow> bool" where
  "has_comparands (Signal_Disagreement cs r ad rd) = (cs \<noteq> [])"
| "has_comparands _ = True"

definition float_typed :: "telemetry_snapshot \<Rightarrow> signal_key \<Rightarrow> bool" where
  "float_typed sn k \<longleftrightarrow> (\<exists>s x. dict_get (sn_samples sn) k = Some s \<and> ss_value s = Py_Float x)"

definition bool_typed :: "telemetry_snapshot \<Rightarrow> signal_key \<Rightarrow> bool" where
  "bool_typed sn k \<longleftrightarrow> (\<exists>s b. dict_get (sn_samples sn) k = Some s \<and> ss_value s = Py_Bool b)"

lemma number_float_typed: "float_typed sn k \<Longrightarrow> \<exists>x. number sn k = Inr x"
  by (auto simp: float_typed_def number_def sample_value_def)

lemma boolean_bool_typed: "bool_typed sn k \<Longrightarrow> \<exists>b. boolean sn k = Inr b"
  by (auto simp: bool_typed_def boolean_def sample_value_def)

lemma mapM_deviation_total:
  assumes "\<forall>k \<in> set ks. \<exists>x. number sn k = Inr x"
  shows "\<exists>ds. mapM (deviation sn ref_key) ks = Inr ds \<and> length ds = length ks"
  using assms by (induction ks) (auto simp: deviation_def)

text \<open>With its signals present and of the expected type, a condition does not raise.\<close>

lemma evaluate_total:
  assumes "\<forall>k \<in> set (numeric_signals c). float_typed sn k"
    and "\<forall>k \<in> set (boolean_signals c). bool_typed sn k" and "has_comparands c"
  shows "\<exists>r. evaluate c sn active = Inr r"
proof (cases c)
  case (High_Threshold s a r)
  with assms show ?thesis by (auto simp: evaluate_high_def dest!: number_float_typed)
next
  case (Low_While_True s k a r)
  with assms show ?thesis
    by (auto simp: evaluate_low_def Let_def dest!: number_float_typed boolean_bool_typed)
next
  case (Outside_Range_While_True s k alo ahi rlo rhi)
  with assms show ?thesis
    by (auto simp: evaluate_range_def Let_def dest!: number_float_typed boolean_bool_typed)
next
  case (Signal_Disagreement cs k ad rd)
  with assms obtain ref_value where "number sn k = Inr ref_value" by (auto dest: number_float_typed)
  moreover obtain ds where "mapM (deviation sn ref_value) cs = Inr ds" and "length ds = length cs"
    using mapM_deviation_total [of cs sn ref_value] assms(1) Signal_Disagreement
    by (auto dest: number_float_typed)
  ultimately show ?thesis
    using assms(3) Signal_Disagreement
    by (cases ds) (auto simp: evaluate_disagreement_def float_max_def)
qed

section \<open>Lemmas on catalogs\<close>

lemma check_rules_iff:
  "check_rules c rs codes ids = Inr () \<longleftrightarrow>
     distinct (map rule_code rs) \<and> rule_code ` set rs \<inter> codes = {}
     \<and> distinct (map (dd_rule_id \<circ> rule_definition) rs)
     \<and> (dd_rule_id \<circ> rule_definition) ` set rs \<inter> ids = {}
     \<and> (\<forall>r \<in> set rs. 0 \<le> dd_confirmation_duration_microseconds (rule_definition r)
          \<and> 0 \<le> dd_recovery_duration_microseconds (rule_definition r)
          \<and> (\<forall>k \<in> set (dd_required_signals (rule_definition r)). catalog_get c k \<noteq> None))"
proof (induction rs arbitrary: codes ids)
  case (Cons r rs)
  have req: "(\<exists>ds. mapM (catalog_require c) ks = Inr ds) \<longleftrightarrow> (\<forall>k \<in> set ks. catalog_get c k \<noteq> None)" for ks
    by (induction ks) (auto simp: rbind_eq_Inr catalog_require_Inr)
  show ?case
    using Cons.IH req [of "dd_required_signals (rule_definition r)"]
    by (auto simp: Let_def rbind_eq_Inr)
qed simp

lemma make_diagnostic_catalog_Inr:
  assumes "make_diagnostic_catalog rules c = Inr cat"
  shows "dc_rules cat = rules" and "distinct (map rule_code rules)"
    and "diag_catalog_get cat code = Some r \<longleftrightarrow> r \<in> set rules \<and> rule_code r = code"
proof -
  from assms have chk: "check_rules c rules {} {} = Inr ()"
    and cat: "cat = \<lparr>dc_rules = rules, dc_by_code = dict_of (map (\<lambda>r. (rule_code r, r)) rules)\<rparr>"
    by (auto simp: make_diagnostic_catalog_def rbind_eq_Inr)
  show "dc_rules cat = rules" by (simp add: cat)
  show dist: "distinct (map rule_code rules)" using chk by (simp add: check_rules_iff)
  have "dict_keys (map (\<lambda>r. (rule_code r, r)) rules) = map rule_code rules" by simp
  then have "dict_of (map (\<lambda>r. (rule_code r, r)) rules) = map (\<lambda>r. (rule_code r, r)) rules"
    using dist by (metis dict_of_distinct)
  then show "diag_catalog_get cat code = Some r \<longleftrightarrow> r \<in> set rules \<and> rule_code r = code"
    using map_of_keyed_Some [OF dist] by (simp add: diag_catalog_get_def cat)
qed

definition wf_rule :: "diagnostic_rule \<Rightarrow> bool" where
  "wf_rule r \<longleftrightarrow> 0 \<le> dd_confirmation_duration_microseconds (rule_definition r)
     \<and> 0 \<le> dd_recovery_duration_microseconds (rule_definition r)"

lemma make_diagnostic_catalog_wf_rules:
  "make_diagnostic_catalog rules c = Inr cat \<Longrightarrow> r \<in> set rules \<Longrightarrow> wf_rule r"
  by (auto simp: make_diagnostic_catalog_def rbind_eq_Inr check_rules_iff wf_rule_def)

lemma default_rules_durations:
  "\<forall>r \<in> set default_rules. hysteresis (rule_condition r) \<and> wf_rule r
     \<and> set (numeric_signals (rule_condition r)) \<union> set (boolean_signals (rule_condition r))
         \<subseteq> set (dd_required_signals (rule_definition r))
     \<and> has_comparands (rule_condition r)"
  by (simp add: default_rules_def diag_definition_def wf_rule_def WHEEL_SPEEDS_def)

text \<open>The database of the repository has every signal the default rules require.\<close>

lemma simulation_catalog_get:
  "catalog_get simulation_catalog k \<noteq> None \<longleftrightarrow>
     k \<in> sd_key ` set (metadata_definitions simulation_metadata)"
  using make_catalog_catalogued [OF make_simulation_catalog]
  by (simp add: catalog_get_def catalogued_def map_of_keyed)

lemma simulation_keys:
  "sd_key ` set (metadata_definitions simulation_metadata) =
     (\<Union>f \<in> set simulation_dbc. (\<lambda>s. Signal_Key (frame_name f) (sig_name s)) ` set (frame_signals f))"
  by (simp add: metadata_definitions_def simulation_metadata_eq image_UN image_image
      signal_metadata_def)

lemma default_required_known:
  "r \<in> set default_rules \<Longrightarrow> k \<in> set (dd_required_signals (rule_definition r)) \<Longrightarrow>
     catalog_get simulation_catalog k \<noteq> None"
  unfolding simulation_catalog_get simulation_keys
  by (auto simp: default_rules_def diag_definition_def default_signal_defs simulation_dbc_def
      dme_frame_def dsig_def)

lemma default_catalog_accepted:
  "\<exists>cat. create_default_diagnostic_catalog simulation_catalog = Inr cat \<and> dc_rules cat = default_rules"
proof -
  have "distinct (map rule_code default_rules)"
    and "distinct (map (dd_rule_id \<circ> rule_definition) default_rules)"
    by (simp_all add: default_rules_def diag_definition_def)
  then have "check_rules simulation_catalog default_rules {} {} = Inr ()"
    unfolding check_rules_iff using default_rules_durations default_required_known
    by (auto simp: wf_rule_def)
  then show ?thesis by (simp add: create_default_diagnostic_catalog_def make_diagnostic_catalog_def)
qed

end
