(* ===== verification/Diag_Engine.thy ===== *)
theory Diag_Engine
  imports Diag_Rules
begin

text \<open>
  The deterministic trouble-code lifecycle (\<open>diagnostics/engine.py\<close>). The per-rule state machine
  (\<open>handle_violation\<close>, \<open>handle_normal\<close>, \<open>evaluate_rule\<close>) returns the events it raises as notes in
  order; the engine numbers them and keeps the newest. The lemmas give the invariant of a rule's
  state, the lifecycle relation that the notes follow, the freeze-frame and debounce guarantees, and
  lift them from one rule to the engine.
\<close>

section \<open>State\<close>

abbreviation (input) DEFAULT_DIAGNOSTIC_EVENT_CAPACITY :: int where
  "DEFAULT_DIAGNOSTIC_EVENT_CAPACITY \<equiv> 1024"

record rule_state =
  rs_dtc :: "diagnostic_trouble_code option"
  rs_condition_started :: "int option"
  rs_recovery_started :: "int option"
  rs_pending_origin :: "diagnostic_status option"
  rs_freeze_frame :: "diagnostic_freeze_frame option"

definition initial_rule_state :: rule_state where
  "initial_rule_state =
     \<lparr>rs_dtc = None, rs_condition_started = None, rs_recovery_started = None,
      rs_pending_origin = None, rs_freeze_frame = None\<rparr>"

record diagnostic_engine =
  de_catalog :: diagnostic_catalog
  de_event_capacity :: int
  de_states :: "(string, rule_state) dict"
  de_events :: "diagnostic_event list"
  de_next_event_sequence :: int
  de_observation_timestamp :: "int option"
  de_latest_telemetry_frame_sequence :: "int option"

definition diagnostic_reset :: "diagnostic_engine \<Rightarrow> diagnostic_engine" where
  "diagnostic_reset e =
     e\<lparr>de_states := dict_of (map (\<lambda>r. (rule_code r, initial_rule_state)) (dc_rules (de_catalog e))),
       de_events := [], de_next_event_sequence := 0, de_observation_timestamp := None,
       de_latest_telemetry_frame_sequence := None\<rparr>"

definition make_diagnostic_engine :: "diagnostic_catalog \<Rightarrow> py_value \<Rightarrow> diagnostic_engine result" where
  "make_diagnostic_engine catalog event_capacity =
     (if not_plain_int event_capacity
        then raise Type_Error ''diagnostic event capacity must be an integer''
      else if int_value event_capacity \<le> 0
        then raise Value_Error ''diagnostic event capacity must be positive''
      else Inr (diagnostic_reset
             \<lparr>de_catalog = catalog, de_event_capacity = int_value event_capacity, de_states = [],
              de_events = [], de_next_event_sequence = 0, de_observation_timestamp = None,
              de_latest_telemetry_frame_sequence = None\<rparr>))"

text \<open>An event without its number, time and code: type, prior and new status.\<close>

type_synonym lifecycle_note =
  "diagnostic_event_type \<times> diagnostic_status option \<times> diagnostic_status option"

section \<open>One rule\<close>

definition inputs_are_fresh :: "diagnostic_rule \<Rightarrow> telemetry_snapshot \<Rightarrow> bool" where
  "inputs_are_fresh r sn =
     list_all (\<lambda>k. dict_get (sn_samples sn) k \<noteq> None \<and> snapshot_status sn k = Some FRESH)
       (dd_required_signals (rule_definition r))"

definition pending_record ::
  "diagnostic_rule \<Rightarrow> diagnostic_trouble_code option \<Rightarrow> int \<Rightarrow> diagnostic_trouble_code" where
  "pending_record r existing timestamp =
     (case existing of
        None \<Rightarrow>
          \<lparr>dtc_definition = rule_definition r, dtc_status = PENDING, dtc_first_detected = timestamp,
           dtc_confirmed = None, dtc_last_seen = timestamp, dtc_resolved = None, dtc_cleared = None,
           dtc_occurrence_count = 0, dtc_freeze_frame_available = False\<rparr>
      | Some d \<Rightarrow> d\<lparr>dtc_status := PENDING, dtc_last_seen := timestamp\<rparr>)"

definition freeze_signal :: "signal_sample \<Rightarrow> freeze_frame_signal" where
  "freeze_signal s =
     \<lparr>ffs_key = ss_key s, ffs_value = ss_value s, ffs_unit = ss_unit s,
      ffs_source_ecu = ss_source_ecu s, ffs_arbitration_id = ss_arbitration_id s,
      ffs_timestamp_microseconds = ss_timestamp_microseconds s,
      ffs_telemetry_frame_sequence = ss_frame_sequence s\<rparr>"

definition capture_freeze_frame ::
  "string \<Rightarrow> telemetry_snapshot \<Rightarrow> int \<Rightarrow> diagnostic_freeze_frame result" where
  "capture_freeze_frame code sn timestamp =
     (case sn_last_frame_sequence sn of
        None \<Rightarrow> raise Assertion_Error ''freeze frame requires a telemetry frame sequence''
      | Some sequence \<Rightarrow>
          Inr \<lparr>ff_code = code, ff_capture_timestamp_microseconds = timestamp,
               ff_telemetry_frame_sequence = sequence,
               ff_signals = map (\<lambda>(_, s). freeze_signal s) (sort_key fst (sn_samples sn))\<rparr>)"

text \<open>The confirmation part of \<open>_handle_violation\<close>, after the pending bookkeeping.\<close>

definition confirm_if_due ::
  "diagnostic_rule \<Rightarrow> telemetry_snapshot \<Rightarrow> int \<Rightarrow> rule_state \<Rightarrow> unit result \<times> rule_state \<times> lifecycle_note list"
  where
  "confirm_if_due r sn timestamp st =
     (case rs_condition_started st of
        None \<Rightarrow> (raise Assertion_Error ''pending condition has no start timestamp'', st, [])
      | Some started \<Rightarrow>
          if timestamp - started < dd_confirmation_duration_microseconds (rule_definition r)
          then (Inr (), st, [])
          else case rs_dtc st of
            None \<Rightarrow> (raise Assertion_Error ''pending condition has no DTC record'', st, [])
          | Some pending \<Rightarrow>
              (case (case rs_freeze_frame st of
                       None \<Rightarrow> capture_freeze_frame (rule_code r) sn timestamp
                     | Some ff \<Rightarrow> Inr ff) of
                 Inl e \<Rightarrow> (Inl e, st, [])
               | Inr ff \<Rightarrow>
                   (Inr (),
                    st\<lparr>rs_freeze_frame := Some ff,
                       rs_dtc := Some (pending\<lparr>dtc_status := ACTIVE, dtc_confirmed := Some timestamp,
                         dtc_last_seen := timestamp, dtc_resolved := None, dtc_cleared := None,
                         dtc_occurrence_count := dtc_occurrence_count pending + 1,
                         dtc_freeze_frame_available := True\<rparr>),
                       rs_condition_started := None, rs_pending_origin := None\<rparr>,
                    [(DTC_CONFIRMED, Some PENDING, Some ACTIVE)])))"

text \<open>The bookkeeping before it: open a pending record, or continue the one that is open.\<close>

definition note_violation ::
  "diagnostic_rule \<Rightarrow> int \<Rightarrow> rule_state \<Rightarrow> rule_state \<times> lifecycle_note list" where
  "note_violation r timestamp st =
     (case rs_dtc st of
        Some d \<Rightarrow>
          if dtc_status d \<noteq> PENDING then
            (st\<lparr>rs_pending_origin := Some (dtc_status d), rs_condition_started := Some timestamp,
                rs_dtc := Some (pending_record r (Some d) timestamp)\<rparr>,
             [(CONDITION_DETECTED, Some (dtc_status d), Some PENDING)])
          else if rs_condition_started st = None then
            (st\<lparr>rs_condition_started := Some timestamp,
                rs_dtc := Some (d\<lparr>dtc_last_seen := timestamp\<rparr>)\<rparr>, [])
          else (st\<lparr>rs_dtc := Some (d\<lparr>dtc_last_seen := timestamp\<rparr>)\<rparr>, [])
      | None \<Rightarrow>
          (st\<lparr>rs_pending_origin := None, rs_condition_started := Some timestamp,
              rs_dtc := Some (pending_record r None timestamp)\<rparr>,
           [(CONDITION_DETECTED, None, Some PENDING)]))"

definition is_active :: "rule_state \<Rightarrow> bool" where
  "is_active st = (case rs_dtc st of None \<Rightarrow> False | Some d \<Rightarrow> dtc_status d = ACTIVE)"

definition handle_violation ::
  "diagnostic_rule \<Rightarrow> telemetry_snapshot \<Rightarrow> int \<Rightarrow> rule_state \<Rightarrow> unit result \<times> rule_state \<times> lifecycle_note list"
  where
  "handle_violation r sn timestamp st =
     (if is_active st
      then (Inr (), st\<lparr>rs_dtc := map_option (\<lambda>d. d\<lparr>dtc_last_seen := timestamp\<rparr>) (rs_dtc st)\<rparr>, [])
      else case note_violation r timestamp st of
        (st1, detected) \<Rightarrow>
          (case confirm_if_due r sn timestamp st1 of
             (res, st2, confirmed) \<Rightarrow> (res, st2, detected @ confirmed)))"

definition handle_normal :: "diagnostic_rule \<Rightarrow> int \<Rightarrow> rule_state \<Rightarrow> rule_state \<times> lifecycle_note list" where
  "handle_normal r timestamp st0 =
     (let st = st0\<lparr>rs_condition_started := None\<rparr>
      in case rs_dtc st of
           None \<Rightarrow> (st, [])
         | Some d \<Rightarrow>
             if dtc_status d = PENDING then
               (st\<lparr>rs_dtc := (case rs_pending_origin st of None \<Rightarrow> None
                             | Some origin \<Rightarrow> Some (d\<lparr>dtc_status := origin\<rparr>)),
                   rs_pending_origin := None\<rparr>,
                [(CONDITION_CLEARED, Some PENDING, rs_pending_origin st)])
             else if dtc_status d \<noteq> ACTIVE then (st\<lparr>rs_recovery_started := None\<rparr>, [])
             else
               let started = (case rs_recovery_started st of None \<Rightarrow> timestamp | Some s \<Rightarrow> s);
                   st1 = st\<lparr>rs_recovery_started := Some started\<rparr>
               in if timestamp - started \<ge> dd_recovery_duration_microseconds (rule_definition r)
                  then (st1\<lparr>rs_dtc := Some (d\<lparr>dtc_status := HISTORICAL, dtc_resolved := Some timestamp\<rparr>),
                            rs_recovery_started := None\<rparr>,
                        [(DTC_RECOVERED, Some ACTIVE, Some HISTORICAL)])
                  else (st1, []))"

definition evaluate_rule ::
  "diagnostic_rule \<Rightarrow> telemetry_snapshot \<Rightarrow> int \<Rightarrow> rule_state \<Rightarrow> unit result \<times> rule_state \<times> lifecycle_note list"
  where
  "evaluate_rule r sn timestamp st =
     (if \<not> inputs_are_fresh r sn
      then (Inr (), st\<lparr>rs_condition_started := None, rs_recovery_started := None\<rparr>, [])
      else case evaluate (rule_condition r) sn (is_active st) of
        Inl e \<Rightarrow> (Inl e, st, [])
      | Inr VIOLATION \<Rightarrow> handle_violation r sn timestamp (st\<lparr>rs_recovery_started := None\<rparr>)
      | Inr NORMAL \<Rightarrow>
          (case handle_normal r timestamp st of (st', notes) \<Rightarrow> (Inr (), st', notes)))"

section \<open>The engine\<close>

definition store_event :: "diagnostic_engine \<Rightarrow> diagnostic_event \<Rightarrow> diagnostic_engine" where
  "store_event e ev =
     e\<lparr>de_next_event_sequence := de_next_event_sequence e + 1,
       de_events := deque_append (nat (de_event_capacity e)) (de_events e) ev\<rparr>"

definition append_event ::
  "int \<Rightarrow> string \<Rightarrow> diagnostic_engine \<Rightarrow> lifecycle_note \<Rightarrow> diagnostic_engine" where
  "append_event timestamp code e n =
     (case n of (event_type, prior, new) \<Rightarrow>
        store_event e
          \<lparr>ev_sequence = de_next_event_sequence e, ev_timestamp_microseconds = timestamp,
           ev_code = code, ev_event_type = event_type, ev_prior_status = prior,
           ev_new_status = new\<rparr>)"

definition numbered :: "int \<Rightarrow> string \<Rightarrow> int \<Rightarrow> lifecycle_note list \<Rightarrow> diagnostic_event list" where
  "numbered timestamp code first notes =
     map (\<lambda>(i, t, p, n).
        \<lparr>ev_sequence = first + int i, ev_timestamp_microseconds = timestamp, ev_code = code,
         ev_event_type = t, ev_prior_status = p, ev_new_status = n\<rparr>)
       (zip [0..<length notes] notes)"

text \<open>
  One iteration of the loop of \<open>ingest\<close>: evaluate the rule on its own state object, keep what it
  wrote even if it raised, and append its events.
\<close>

definition rule_state_of :: "diagnostic_engine \<Rightarrow> string \<Rightarrow> rule_state result" where
  "rule_state_of e code =
     (case dict_get (de_states e) code of None \<Rightarrow> raise Key_Error (py_repr code) | Some st \<Rightarrow> Inr st)"

definition engine_rule_step ::
  "telemetry_snapshot \<Rightarrow> int \<Rightarrow> diagnostic_rule \<Rightarrow> diagnostic_engine
     \<Rightarrow> diagnostic_event list result \<times> diagnostic_engine" where
  "engine_rule_step sn timestamp r e =
     (case rule_state_of e (rule_code r) of
        Inl ex \<Rightarrow> (Inl ex, e)
      | Inr st \<Rightarrow>
          (case evaluate_rule r sn timestamp st of
             (res, st', notes) \<Rightarrow>
               let e1 = e\<lparr>de_states := dict_set (rule_code r) st' (de_states e)\<rparr>;
                   e2 = foldl (append_event timestamp (rule_code r)) e1 notes
               in (case res of
                     Inl ex \<Rightarrow> (Inl ex, e2)
                   | Inr _ \<Rightarrow>
                       (Inr (numbered timestamp (rule_code r) (de_next_event_sequence e) notes), e2))))"

fun engine_rules ::
  "telemetry_snapshot \<Rightarrow> int \<Rightarrow> diagnostic_rule list \<Rightarrow> diagnostic_engine
     \<Rightarrow> diagnostic_event list result \<times> diagnostic_engine" where
  "engine_rules sn timestamp [] e = (Inr [], e)"
| "engine_rules sn timestamp (r # rs) e =
     (case engine_rule_step sn timestamp r e of
        (Inl ex, e1) \<Rightarrow> (Inl ex, e1)
      | (Inr generated, e1) \<Rightarrow>
          (case engine_rules sn timestamp rs e1 of
             (Inl ex, e2) \<Rightarrow> (Inl ex, e2)
           | (Inr rest, e2) \<Rightarrow> (Inr (generated @ rest), e2)))"

definition diagnostic_ingest ::
  "diagnostic_engine \<Rightarrow> telemetry_snapshot \<Rightarrow> diagnostic_event list result \<times> diagnostic_engine" where
  "diagnostic_ingest e sn =
     (case sn_observation_timestamp_microseconds sn of
        None \<Rightarrow> (Inr [], e)
      | Some timestamp \<Rightarrow>
          if (case de_observation_timestamp e of None \<Rightarrow> False | Some t \<Rightarrow> timestamp < t)
          then (raise Value_Error ''diagnostic snapshots cannot move backward in simulation time'', e)
          else engine_rules sn timestamp (dc_rules (de_catalog e))
                 (e\<lparr>de_observation_timestamp := Some timestamp,
                    de_latest_telemetry_frame_sequence := sn_last_frame_sequence sn\<rparr>))"

subsection \<open>Reads\<close>

fun collect_dtcs :: "diagnostic_engine \<Rightarrow> diagnostic_rule list \<Rightarrow> diagnostic_trouble_code list result"
  where
  "collect_dtcs e [] = Inr []"
| "collect_dtcs e (r # rs) =
     rbind (rule_state_of e (rule_code r)) (\<lambda>st.
     rbind (collect_dtcs e rs) (\<lambda>rest.
       Inr (case rs_dtc st of None \<Rightarrow> rest | Some d \<Rightarrow> d # rest)))"

definition diagnostic_dtcs ::
  "diagnostic_engine \<Rightarrow> diagnostic_status option \<Rightarrow> diagnostic_trouble_code list result" where
  "diagnostic_dtcs e status =
     rbind (collect_dtcs e (dc_rules (de_catalog e))) (\<lambda>records.
       case status of
         None \<Rightarrow> Inr records
       | Some s \<Rightarrow> Inr (filter (\<lambda>d. dtc_status d = s) records))"

definition diagnostic_dtc ::
  "diagnostic_engine \<Rightarrow> string \<Rightarrow> diagnostic_trouble_code option result" where
  "diagnostic_dtc e code =
     rbind (diag_catalog_require (de_catalog e) code) (\<lambda>_.
     rbind (rule_state_of e code) (\<lambda>st. Inr (rs_dtc st)))"

definition diagnostic_events ::
  "diagnostic_engine \<Rightarrow> py_value \<Rightarrow> diagnostic_event list result" where
  "diagnostic_events e limit =
     (if limit = Py_None then Inr (de_events e)
      else if not_plain_int limit then raise Type_Error ''diagnostic event limit must be an integer''
      else if int_value limit \<le> 0 then raise Value_Error ''diagnostic event limit must be positive''
      else Inr (slice_last (int_value limit) (de_events e)))"

definition diagnostic_freeze_frame_of ::
  "diagnostic_engine \<Rightarrow> string \<Rightarrow> diagnostic_freeze_frame option result" where
  "diagnostic_freeze_frame_of e code =
     rbind (diag_catalog_require (de_catalog e) code) (\<lambda>_.
     rbind (rule_state_of e code) (\<lambda>st. Inr (rs_freeze_frame st)))"

subsection \<open>Clearing\<close>

definition diagnostic_clear ::
  "diagnostic_engine \<Rightarrow> string \<Rightarrow> diagnostic_trouble_code result \<times> diagnostic_engine" where
  "diagnostic_clear e code =
     (case diag_catalog_require (de_catalog e) code of
        Inl ex \<Rightarrow> (Inl ex, e)
      | Inr _ \<Rightarrow>
     (case rule_state_of e code of
        Inl ex \<Rightarrow> (Inl ex, e)
      | Inr st \<Rightarrow>
     (case rs_dtc st of
        None \<Rightarrow>
          (raise Unknown_Diagnostic_Code_Error
             (''diagnostic code '' @ py_repr code @ '' has no DTC record''), e)
      | Some d \<Rightarrow>
          if dtc_status d = CLEARED then (Inr d, e)
          else if dtc_status d \<noteq> HISTORICAL
            then (raise Diagnostic_Clear_Error
                    (code @ '' cannot be cleared while '' @ status_value (dtc_status d)), e)
          else case de_observation_timestamp e of
            None \<Rightarrow>
              (raise Assertion_Error ''diagnostic record exists without an observation timestamp'', e)
          | Some timestamp \<Rightarrow>
              let cleared = d\<lparr>dtc_status := CLEARED, dtc_cleared := Some timestamp\<rparr>
              in (Inr cleared,
                  append_event timestamp code
                    (e\<lparr>de_states := dict_set code (st\<lparr>rs_dtc := Some cleared\<rparr>) (de_states e)\<rparr>)
                    (DTC_CLEARED, Some HISTORICAL, Some CLEARED)))))"

definition count_status :: "diagnostic_status \<Rightarrow> diagnostic_trouble_code list \<Rightarrow> int" where
  "count_status s ds = int (length (filter (\<lambda>d. dtc_status d = s) ds))"

definition diagnostic_snapshot_of :: "diagnostic_engine \<Rightarrow> diagnostic_snapshot result" where
  "diagnostic_snapshot_of e =
     rbind (diagnostic_dtcs e None) (\<lambda>dtcs.
       Inr \<lparr>ds_observation_timestamp_microseconds = de_observation_timestamp e,
            ds_latest_telemetry_frame_sequence = de_latest_telemetry_frame_sequence e,
            ds_dtcs = dtcs, ds_retained_event_count = int (length (de_events e)),
            ds_total_event_count = de_next_event_sequence e,
            ds_latest_event_sequence =
              (if de_next_event_sequence e \<noteq> 0 then Some (de_next_event_sequence e - 1) else None),
            ds_pending_count = count_status PENDING dtcs, ds_active_count = count_status ACTIVE dtcs,
            ds_historical_count = count_status HISTORICAL dtcs,
            ds_cleared_count = count_status CLEARED dtcs\<rparr>)"

end
