(* ===== verification/Diag_Lifecycle.thy ===== *)
theory Diag_Lifecycle
  imports Diag_Engine
begin

text \<open>
  Correctness of the trouble-code lifecycle: the invariant of a rule's state, the lifecycle relation
  its notes follow, the immutability of freeze frames, the debounce of confirmation and recovery,
  and the lifting of all of them from one rule to the engine and its bounded event log.
\<close>

section \<open>The lifecycle relation\<close>

text \<open>
  Which event may take a code from which status (\<open>None\<close>: no record) to which. This is the contract
  the event log promises to its readers.
\<close>

inductive lifecycle ::
  "diagnostic_event_type \<Rightarrow> diagnostic_status option \<Rightarrow> diagnostic_status option \<Rightarrow> bool" where
  detected: "s \<in> {None, Some HISTORICAL, Some CLEARED} \<Longrightarrow> lifecycle CONDITION_DETECTED s (Some PENDING)"
| withdrawn: "s \<in> {None, Some HISTORICAL, Some CLEARED} \<Longrightarrow> lifecycle CONDITION_CLEARED (Some PENDING) s"
| confirmed: "lifecycle DTC_CONFIRMED (Some PENDING) (Some ACTIVE)"
| recovered: "lifecycle DTC_RECOVERED (Some ACTIVE) (Some HISTORICAL)"
| cleared: "lifecycle DTC_CLEARED (Some HISTORICAL) (Some CLEARED)"

inductive_simps lifecycle_simps:
  "lifecycle CONDITION_DETECTED s s'" "lifecycle CONDITION_CLEARED s s'" "lifecycle DTC_CONFIRMED s s'"
  "lifecycle DTC_RECOVERED s s'" "lifecycle DTC_CLEARED s s'"

inductive_cases into_active: "lifecycle t s (Some ACTIVE)"

lemma only_confirmation_activates: "lifecycle t s (Some ACTIVE) \<Longrightarrow> t = DTC_CONFIRMED \<and> s = Some PENDING"
  by (auto elim: into_active)

text \<open>A chain of notes that leads from one status to another.\<close>

fun follows :: "diagnostic_status option \<Rightarrow> lifecycle_note list \<Rightarrow> diagnostic_status option \<Rightarrow> bool" where
  "follows s [] s' = (s = s')"
| "follows s ((t, p, n) # ns) s' = (p = s \<and> lifecycle t p n \<and> follows n ns s')"

lemma follows_append: "follows s ns u \<Longrightarrow> follows u ms v \<Longrightarrow> follows s (ns @ ms) v"
  by (induction s ns u rule: follows.induct) auto

lemma follows_snoc: "follows s (ns @ [(t, p, n)]) v \<longleftrightarrow> follows s ns p \<and> lifecycle t p n \<and> n = v"
  by (induction ns arbitrary: s) auto

definition confirmations :: "lifecycle_note list \<Rightarrow> int" where
  "confirmations ns = int (length (filter (\<lambda>n. fst n = DTC_CONFIRMED) ns))"

lemma confirmations_simps [simp]:
  "confirmations [] = 0"
  "confirmations (n # ns) = (if fst n = DTC_CONFIRMED then 1 else 0) + confirmations ns"
  "confirmations (ns @ ms) = confirmations ns + confirmations ms"
  by (simp_all add: confirmations_def)

section \<open>Invariant of a rule's state\<close>

definition status_of :: "rule_state \<Rightarrow> diagnostic_status option" where
  "status_of st = map_option dtc_status (rs_dtc st)"

definition occurrences_of :: "rule_state \<Rightarrow> int" where
  "occurrences_of st = (case rs_dtc st of None \<Rightarrow> 0 | Some d \<Rightarrow> dtc_occurrence_count d)"

text \<open>The timestamps of a code that has been confirmed and resolved, and perhaps cleared.\<close>

definition closed_as :: "int \<Rightarrow> diagnostic_status \<Rightarrow> diagnostic_trouble_code \<Rightarrow> bool" where
  "closed_as now s d \<longleftrightarrow> s \<in> {HISTORICAL, CLEARED} \<and> 0 < dtc_occurrence_count d
     \<and> (\<exists>c t. dtc_confirmed d = Some c \<and> dtc_resolved d = Some t \<and> c \<le> t \<and> t \<le> now
          \<and> (if s = CLEARED then \<exists>k. dtc_cleared d = Some k \<and> t \<le> k \<and> k \<le> now
             else dtc_cleared d = None))"

definition pending_ok :: "int \<Rightarrow> rule_state \<Rightarrow> diagnostic_trouble_code \<Rightarrow> bool" where
  "pending_ok now st d \<longleftrightarrow> rs_recovery_started st = None
     \<and> (case rs_pending_origin st of
          None \<Rightarrow> dtc_occurrence_count d = 0 \<and> dtc_resolved d = None \<and> dtc_cleared d = None
        | Some s \<Rightarrow> closed_as now s d)
     \<and> (\<forall>s. rs_condition_started st = Some s \<longrightarrow> s \<le> now)"

definition active_ok :: "int \<Rightarrow> rule_state \<Rightarrow> diagnostic_trouble_code \<Rightarrow> bool" where
  "active_ok now st d \<longleftrightarrow> rs_condition_started st = None \<and> rs_pending_origin st = None
     \<and> 0 < dtc_occurrence_count d \<and> dtc_resolved d = None \<and> dtc_cleared d = None
     \<and> (\<exists>c. dtc_confirmed d = Some c \<and> c \<le> dtc_last_seen d)
     \<and> (\<forall>s. rs_recovery_started st = Some s \<longrightarrow> s \<le> now)"

definition closed_ok :: "int \<Rightarrow> rule_state \<Rightarrow> diagnostic_trouble_code \<Rightarrow> bool" where
  "closed_ok now st d \<longleftrightarrow> rs_condition_started st = None \<and> rs_recovery_started st = None
     \<and> rs_pending_origin st = None \<and> closed_as now (dtc_status d) d"

definition record_ok :: "int \<Rightarrow> diagnostic_rule \<Rightarrow> rule_state \<Rightarrow> diagnostic_trouble_code \<Rightarrow> bool" where
  "record_ok now r st d \<longleftrightarrow> dtc_definition d = rule_definition r
     \<and> dtc_first_detected d \<le> dtc_last_seen d \<and> dtc_last_seen d \<le> now
     \<and> 0 \<le> dtc_occurrence_count d
     \<and> (dtc_freeze_frame_available d \<longleftrightarrow> rs_freeze_frame st \<noteq> None)
     \<and> (0 < dtc_occurrence_count d \<longleftrightarrow> rs_freeze_frame st \<noteq> None)
     \<and> (case dtc_status d of PENDING \<Rightarrow> pending_ok now st d | ACTIVE \<Rightarrow> active_ok now st d
        | _ \<Rightarrow> closed_ok now st d)"

definition rule_inv :: "int \<Rightarrow> diagnostic_rule \<Rightarrow> rule_state \<Rightarrow> bool" where
  "rule_inv now r st \<longleftrightarrow>
     (\<forall>ff. rs_freeze_frame st = Some ff \<longrightarrow>
        ff_code ff = rule_code r \<and> ff_capture_timestamp_microseconds ff \<le> now)
     \<and> (case rs_dtc st of
          None \<Rightarrow> rs_condition_started st = None \<and> rs_recovery_started st = None
            \<and> rs_pending_origin st = None \<and> rs_freeze_frame st = None
        | Some d \<Rightarrow> record_ok now r st d)"

lemmas record_defs = record_ok_def pending_ok_def active_ok_def closed_ok_def closed_as_def

lemma closed_as_mono: "closed_as now s d \<Longrightarrow> now \<le> now' \<Longrightarrow> closed_as now' s d"
  unfolding closed_as_def by (smt (verit))

lemma record_ok_mono: "record_ok now r st d \<Longrightarrow> now \<le> now' \<Longrightarrow> record_ok now' r st d"
  by (auto simp: record_ok_def pending_ok_def active_ok_def closed_ok_def
      split: diagnostic_status.splits option.splits intro: closed_as_mono)

lemma rule_inv_mono: "rule_inv now r st \<Longrightarrow> now \<le> now' \<Longrightarrow> rule_inv now' r st"
  by (auto simp: rule_inv_def split: option.splits intro: record_ok_mono)

lemma rule_inv_initial: "rule_inv now r initial_rule_state"
  by (simp add: rule_inv_def initial_rule_state_def)

lemma is_active_status: "is_active st \<longleftrightarrow> status_of st = Some ACTIVE"
  by (simp add: is_active_def status_of_def split: option.splits)

section \<open>One rule keeps the invariant and follows the lifecycle\<close>

text \<open>What one operation on a rule's state guarantees, and how guarantees compose.\<close>

definition step_ok ::
  "int \<Rightarrow> diagnostic_rule \<Rightarrow> rule_state \<Rightarrow> lifecycle_note list \<Rightarrow> rule_state \<Rightarrow> bool" where
  "step_ok t r st notes st' \<longleftrightarrow> rule_inv t r st'
     \<and> follows (status_of st) notes (status_of st')
     \<and> occurrences_of st' = occurrences_of st + confirmations notes
     \<and> (\<forall>ff. rs_freeze_frame st = Some ff \<longrightarrow> rs_freeze_frame st' = Some ff)"

lemma step_ok_trans:
  "step_ok t r st ns st1 \<Longrightarrow> step_ok t r st1 ms st2 \<Longrightarrow> step_ok t r st (ns @ ms) st2"
  by (auto simp: step_ok_def intro: follows_append)

lemma step_ok_refl: "rule_inv t r st \<Longrightarrow> step_ok t r st [] st"
  by (simp add: step_ok_def)

lemma rule_inv_some: "rs_dtc st = Some d \<Longrightarrow> rule_inv t r st \<Longrightarrow> record_ok t r st d"
  by (simp add: rule_inv_def)

lemma note_violation_ok:
  assumes inv: "rule_inv t r st" and na: "\<not> is_active st" and rec: "rs_recovery_started st = None"
    and nv: "note_violation r t st = (st1, ns)"
  shows "step_ok t r st ns st1 \<and> status_of st1 = Some PENDING
    \<and> (\<exists>s. rs_condition_started st1 = Some s)"
proof (cases "rs_dtc st")
  case None
  with inv nv show ?thesis
    by (auto simp: note_violation_def step_ok_def rule_inv_def record_defs pending_record_def
        status_of_def occurrences_of_def lifecycle_simps)
next
  case (Some d)
  note ok = rule_inv_some [OF Some inv]
  show ?thesis
  proof (cases "dtc_status d")
    case PENDING
    with Some nv inv ok show ?thesis
      by (auto simp: note_violation_def step_ok_def rule_inv_def record_ok_def pending_ok_def
          closed_as_def status_of_def occurrences_of_def split: if_splits option.splits)
  next
    case ACTIVE
    with na Some show ?thesis by (simp add: is_active_def)
  next
    case HISTORICAL
    with Some nv inv ok rec show ?thesis
      by (auto simp: note_violation_def step_ok_def rule_inv_def record_ok_def pending_ok_def
          closed_ok_def closed_as_def status_of_def occurrences_of_def pending_record_def lifecycle_simps)
  next
    case CLEARED
    with Some nv inv ok rec show ?thesis
      by (auto simp: note_violation_def step_ok_def rule_inv_def record_ok_def pending_ok_def
          closed_ok_def closed_as_def status_of_def occurrences_of_def pending_record_def lifecycle_simps)
  qed
qed

lemma capture_freeze_frame_Inr:
  "capture_freeze_frame code sn t = Inr ff \<Longrightarrow>
     ff_code ff = code \<and> ff_capture_timestamp_microseconds ff = t
     \<and> sn_last_frame_sequence sn = Some (ff_telemetry_frame_sequence ff)
     \<and> ff_signals ff = map (\<lambda>(_, s). freeze_signal s) (sort_key fst (sn_samples sn))"
  by (auto simp: capture_freeze_frame_def split: option.splits)

text \<open>Confirmation either does nothing to the state or activates the pending record.\<close>

definition activated ::
  "diagnostic_rule \<Rightarrow> int \<Rightarrow> diagnostic_freeze_frame \<Rightarrow> diagnostic_trouble_code \<Rightarrow> rule_state \<Rightarrow> rule_state"
  where
  "activated r t ff d st =
     st\<lparr>rs_freeze_frame := Some ff,
        rs_dtc := Some (d\<lparr>dtc_status := ACTIVE, dtc_confirmed := Some t, dtc_last_seen := t,
          dtc_resolved := None, dtc_cleared := None,
          dtc_occurrence_count := dtc_occurrence_count d + 1, dtc_freeze_frame_available := True\<rparr>),
        rs_condition_started := None, rs_pending_origin := None\<rparr>"

definition first_freeze_frame ::
  "diagnostic_rule \<Rightarrow> telemetry_snapshot \<Rightarrow> int \<Rightarrow> rule_state \<Rightarrow> diagnostic_freeze_frame result" where
  "first_freeze_frame r sn t st =
     (case rs_freeze_frame st of
        None \<Rightarrow> capture_freeze_frame (rule_code r) sn t | Some ff \<Rightarrow> Inr ff)"

lemma confirm_if_due_cases:
  assumes "rs_dtc st = Some d" and "rs_condition_started st = Some s"
  shows "confirm_if_due r sn t st =
    (if t - s < dd_confirmation_duration_microseconds (rule_definition r) then (Inr (), st, [])
     else case first_freeze_frame r sn t st of
            Inl e \<Rightarrow> (Inl e, st, [])
          | Inr ff \<Rightarrow> (Inr (), activated r t ff d st, [(DTC_CONFIRMED, Some PENDING, Some ACTIVE)]))"
  using assms
  by (cases "first_freeze_frame r sn t st")
    (simp_all add: confirm_if_due_def activated_def first_freeze_frame_def [symmetric])

lemma activated_ok:
  assumes inv: "rule_inv t r st" and d: "rs_dtc st = Some d" and p: "dtc_status d = PENDING"
    and ff: "first_freeze_frame r sn t st = Inr ff"
  shows "step_ok t r st [(DTC_CONFIRMED, Some PENDING, Some ACTIVE)] (activated r t ff d st)"
proof -
  note ok = rule_inv_some [OF d inv]
  have "ff_code ff = rule_code r \<and> ff_capture_timestamp_microseconds ff \<le> t"
    using ff inv
    by (auto simp: first_freeze_frame_def rule_inv_def dest: capture_freeze_frame_Inr split: option.splits)
  moreover have "f = ff" if "rs_freeze_frame st = Some f" for f
    using ff that by (simp add: first_freeze_frame_def)
  ultimately show ?thesis
    using ok p d
    by (simp add: activated_def step_ok_def rule_inv_def record_ok_def active_ok_def pending_ok_def
        status_of_def occurrences_of_def lifecycle_simps)
qed

lemma confirm_if_due_ok:
  assumes inv: "rule_inv t r st" and pend: "status_of st = Some PENDING"
    and started: "rs_condition_started st = Some s"
    and cf: "confirm_if_due r sn t st = (res, st', ns)"
  shows "step_ok t r st ns st'"
proof -
  from pend obtain d where d: "rs_dtc st = Some d" and p: "dtc_status d = PENDING"
    by (auto simp: status_of_def)
  show ?thesis
    using cf activated_ok [OF inv d p] step_ok_refl [OF inv]
    by (auto simp: confirm_if_due_cases [OF d started] split: if_splits sum.splits)
qed

lemma clear_recovery_inv:
  "rule_inv t r st \<Longrightarrow> rule_inv t r (st\<lparr>rs_recovery_started := None\<rparr>)"
  by (auto simp: rule_inv_def record_ok_def pending_ok_def active_ok_def closed_ok_def
      split: option.splits diagnostic_status.splits)

lemma clear_starts_inv:
  "rule_inv t r st \<Longrightarrow> rule_inv t r (st\<lparr>rs_condition_started := None, rs_recovery_started := None\<rparr>)"
  by (auto simp: rule_inv_def record_ok_def pending_ok_def active_ok_def closed_ok_def
      split: option.splits diagnostic_status.splits)

lemma handle_violation_ok:
  assumes inv: "rule_inv t r st" and rec: "rs_recovery_started st = None"
    and hv: "handle_violation r sn t st = (res, st', ns)"
  shows "step_ok t r st ns st'"
proof (cases "is_active st")
  case True
  then obtain d where d: "rs_dtc st = Some d" and a: "dtc_status d = ACTIVE"
    by (auto simp: is_active_def split: option.splits)
  with hv True rule_inv_some [OF d inv] inv show ?thesis
    by (auto simp: handle_violation_def step_ok_def rule_inv_def record_ok_def active_ok_def
        status_of_def occurrences_of_def)
next
  case False
  obtain st1 ns1 where nv: "note_violation r t st = (st1, ns1)" by force
  obtain res2 st2 ns2 where cf: "confirm_if_due r sn t st1 = (res2, st2, ns2)"
    by (cases "confirm_if_due r sn t st1")
  from note_violation_ok [OF inv False rec nv]
  obtain s where s1: "step_ok t r st ns1 st1" and p: "status_of st1 = Some PENDING"
    and s: "rs_condition_started st1 = Some s" by auto
  have "step_ok t r st1 ns2 st2"
    using confirm_if_due_ok [OF _ p s cf] s1 by (simp add: step_ok_def)
  with s1 have "step_ok t r st (ns1 @ ns2) st2" by (rule step_ok_trans)
  with hv False nv cf show ?thesis by (simp add: handle_violation_def)
qed

lemma handle_normal_ok:
  assumes inv: "rule_inv t r st" and hn: "handle_normal r t st = (st', ns)"
  shows "step_ok t r st ns st'"
proof (cases "rs_dtc st")
  case None
  with hn inv show ?thesis
    by (auto simp: handle_normal_def step_ok_def rule_inv_def status_of_def occurrences_of_def)
next
  case (Some d)
  note ok = rule_inv_some [OF Some inv]
  show ?thesis
  proof (cases "dtc_status d")
    case PENDING
    with hn inv ok Some show ?thesis
      by (auto simp: handle_normal_def step_ok_def rule_inv_def record_ok_def pending_ok_def
          closed_ok_def closed_as_def status_of_def occurrences_of_def lifecycle_simps split: option.splits)
  next
    case ACTIVE
    with hn inv ok Some show ?thesis
      by (auto simp: handle_normal_def Let_def step_ok_def rule_inv_def record_ok_def active_ok_def
          closed_ok_def closed_as_def status_of_def occurrences_of_def lifecycle_simps
          split: option.splits if_splits)
  next
    case HISTORICAL
    with hn inv ok Some show ?thesis
      by (auto simp: handle_normal_def step_ok_def rule_inv_def record_ok_def closed_ok_def
          status_of_def occurrences_of_def)
  next
    case CLEARED
    with hn inv ok Some show ?thesis
      by (auto simp: handle_normal_def step_ok_def rule_inv_def record_ok_def closed_ok_def
          status_of_def occurrences_of_def)
  qed
qed

lemma status_of_update [simp]:
  "status_of (st\<lparr>rs_recovery_started := x\<rparr>) = status_of st"
  "status_of (st\<lparr>rs_condition_started := y\<rparr>) = status_of st"
  "occurrences_of (st\<lparr>rs_recovery_started := x\<rparr>) = occurrences_of st"
  "occurrences_of (st\<lparr>rs_condition_started := y\<rparr>) = occurrences_of st"
  by (simp_all add: status_of_def occurrences_of_def)

lemma evaluate_rule_ok:
  assumes inv: "rule_inv now r st" and le: "now \<le> t" and ev: "evaluate_rule r sn t st = (res, st', ns)"
  shows "step_ok t r st ns st'"
proof -
  have inv': "rule_inv t r st" by (rule rule_inv_mono [OF inv le])
  show ?thesis
  proof (cases "inputs_are_fresh r sn")
    case False
    with ev clear_starts_inv [OF inv'] show ?thesis
      by (auto simp: evaluate_rule_def step_ok_def)
  next
    case True
    show ?thesis
    proof (cases "evaluate (rule_condition r) sn (is_active st)")
      case (Inl e)
      with ev True inv' show ?thesis by (auto simp: evaluate_rule_def step_ok_refl)
    next
      case (Inr c)
      show ?thesis
      proof (cases c)
        case VIOLATION
        let ?st = "st\<lparr>rs_recovery_started := None\<rparr>"
        have "handle_violation r sn t ?st = (res, st', ns)"
          using ev True Inr VIOLATION by (simp add: evaluate_rule_def)
        from handle_violation_ok [OF clear_recovery_inv [OF inv'] _ this] show ?thesis
          by (simp add: step_ok_def)
      next
        case NORMAL
        then obtain "handle_normal r t st = (st', ns)"
          using ev True Inr by (auto simp: evaluate_rule_def split: prod.splits)
        from handle_normal_ok [OF inv' this] show ?thesis .
      qed
    qed
  qed
qed

end
