(* ===== verification/Diag_Journal.thy ===== *)
theory Diag_Journal
  imports Diag_Lifecycle
begin

text \<open>
  From one rule to the engine (\<open>diagnostics/engine.py\<close>): the ghost journal of every event ever
  raised, of which the engine keeps the newest, and the invariant that ties it to the rule states;
  runs of ingests and clears; and the debounce of confirmation and recovery over such runs.
\<close>

section \<open>The journal\<close>

definition note_of :: "diagnostic_event \<Rightarrow> lifecycle_note" where
  "note_of ev = (ev_event_type ev, ev_prior_status ev, ev_new_status ev)"

definition notes_of :: "string \<Rightarrow> diagnostic_event list \<Rightarrow> lifecycle_note list" where
  "notes_of code full = map note_of (filter (\<lambda>ev. ev_code ev = code) full)"

lemma notes_of_append [simp]: "notes_of code (xs @ ys) = notes_of code xs @ notes_of code ys"
  by (simp add: notes_of_def)

interpretation event_log: bounded_log store_event de_events "\<lambda>e. nat (de_event_capacity e)"
  by unfold_locales (simp_all add: store_event_def)

lemma numbered_Nil [simp]: "numbered t code first [] = []"
  by (simp add: numbered_def)

lemma numbered_Cons [simp]:
  "numbered t code first (n # ns) =
     (case n of (ty, p, s) \<Rightarrow>
        \<lparr>ev_sequence = first, ev_timestamp_microseconds = t, ev_code = code, ev_event_type = ty,
         ev_prior_status = p, ev_new_status = s\<rparr>) # numbered t code (first + 1) ns"
proof -
  have "zip [0..<length (n # ns)] (n # ns) = (0, n) # map (\<lambda>(i, x). (Suc i, x)) (zip [0..<length ns] ns)"
    by (simp add: upt_conv_Cons zip_map1 map_Suc_upt [symmetric] del: upt_Suc)
  then show ?thesis by (cases n) (simp add: numbered_def case_prod_unfold comp_def algebra_simps)
qed

lemma foldl_append_event:
  "foldl (append_event t code) e ns = foldl store_event e (numbered t code (de_next_event_sequence e) ns)"
proof (induction ns arbitrary: e)
  case (Cons n ns)
  then show ?case by (cases n) (simp add: append_event_def store_event_def)
qed simp

lemma foldl_store_event [simp]:
  "de_next_event_sequence (foldl store_event e evs) = de_next_event_sequence e + int (length evs)"
  "de_catalog (foldl store_event e evs) = de_catalog e"
  "de_event_capacity (foldl store_event e evs) = de_event_capacity e"
  "de_states (foldl store_event e evs) = de_states e"
  "de_observation_timestamp (foldl store_event e evs) = de_observation_timestamp e"
  "de_latest_telemetry_frame_sequence (foldl store_event e evs) = de_latest_telemetry_frame_sequence e"
  by (induction evs arbitrary: e) (simp_all add: store_event_def)

lemma length_numbered [simp]: "length (numbered t code first ns) = length ns"
  by (simp add: numbered_def)

lemma numbered_sequences: "map ev_sequence (numbered t code first ns) = map (\<lambda>i. first + int i) [0..<length ns]"
proof (induction ns arbitrary: first)
  case (Cons n ns)
  then show ?case by (cases n) (simp add: map_upt_Suc algebra_simps del: upt_Suc)
qed simp

lemma numbered_times: "map ev_timestamp_microseconds (numbered t code first ns) = replicate (length ns) t"
  by (induction ns arbitrary: first) auto

lemma numbered_stamps: "ev \<in> set (numbered t code first ns) \<Longrightarrow>
    ev_timestamp_microseconds ev = t \<and> ev_code ev = code"
  by (auto simp: numbered_def)

lemma notes_of_numbered: "notes_of c (numbered t code first ns) = (if c = code then ns else [])"
  by (induction ns arbitrary: first) (auto simp: notes_of_def note_of_def)

section \<open>The engine invariant\<close>

definition wf_diag_catalog :: "diagnostic_catalog \<Rightarrow> bool" where
  "wf_diag_catalog cat \<longleftrightarrow> distinct (map rule_code (dc_rules cat))
     \<and> (\<forall>code r. diag_catalog_get cat code = Some r \<longleftrightarrow> r \<in> set (dc_rules cat) \<and> rule_code r = code)"

lemma make_diagnostic_catalog_wf: "make_diagnostic_catalog rules c = Inr cat \<Longrightarrow> wf_diag_catalog cat"
  using make_diagnostic_catalog_Inr by (simp add: wf_diag_catalog_def)

definition journal_ok :: "diagnostic_engine \<Rightarrow> diagnostic_event list \<Rightarrow> bool" where
  "journal_ok e full \<longleftrightarrow> 0 < de_event_capacity e
     \<and> de_events e = last_n (nat (de_event_capacity e)) full
     \<and> de_next_event_sequence e = int (length full)
     \<and> map ev_sequence full = map int [0..<length full]
     \<and> sorted (map ev_timestamp_microseconds full)
     \<and> (\<forall>ev \<in> set full. \<exists>now. de_observation_timestamp e = Some now \<and> ev_timestamp_microseconds ev \<le> now)"

definition state_ok :: "int option \<Rightarrow> diagnostic_rule \<Rightarrow> rule_state \<Rightarrow> bool" where
  "state_ok obs r st \<longleftrightarrow>
     (case obs of None \<Rightarrow> st = initial_rule_state | Some now \<Rightarrow> rule_inv now r st)"

definition tracked :: "int option \<Rightarrow> diagnostic_event list \<Rightarrow> diagnostic_rule \<Rightarrow> rule_state \<Rightarrow> bool" where
  "tracked obs full r st \<longleftrightarrow> state_ok obs r st
     \<and> follows None (notes_of (rule_code r) full) (status_of st)
     \<and> occurrences_of st = confirmations (notes_of (rule_code r) full)"

definition diag_inv :: "diagnostic_engine \<Rightarrow> diagnostic_event list \<Rightarrow> bool" where
  "diag_inv e full \<longleftrightarrow> wf_diag_catalog (de_catalog e) \<and> journal_ok e full
     \<and> (\<forall>r \<in> set (dc_rules (de_catalog e)). \<exists>st.
          dict_get (de_states e) (rule_code r) = Some st
          \<and> tracked (de_observation_timestamp e) full r st)"

lemma diag_inv_rule:
  assumes "diag_inv e full" and "r \<in> set (dc_rules (de_catalog e))"
  obtains st where "dict_get (de_states e) (rule_code r) = Some st"
    and "tracked (de_observation_timestamp e) full r st"
  using assms by (auto simp: diag_inv_def)

text \<open>Freeze frames are never replaced or dropped.\<close>

definition frames_kept :: "diagnostic_engine \<Rightarrow> diagnostic_engine \<Rightarrow> bool" where
  "frames_kept e e' \<longleftrightarrow> (\<forall>code st ff. dict_get (de_states e) code = Some st \<longrightarrow>
     rs_freeze_frame st = Some ff \<longrightarrow>
     (\<exists>st'. dict_get (de_states e') code = Some st' \<and> rs_freeze_frame st' = Some ff))"

lemma frames_kept_refl [simp]: "de_states e' = de_states e \<Longrightarrow> frames_kept e e'"
  by (simp add: frames_kept_def)

lemma frames_kept_trans: "frames_kept e1 e2 \<Longrightarrow> frames_kept e2 e3 \<Longrightarrow> frames_kept e1 e3"
  unfolding frames_kept_def by meson

text \<open>Observing a later time keeps the invariant.\<close>

lemma diag_inv_observe:
  assumes "diag_inv e full" and "\<forall>t0. de_observation_timestamp e = Some t0 \<longrightarrow> t0 \<le> t"
  shows "diag_inv (e\<lparr>de_observation_timestamp := Some t, de_latest_telemetry_frame_sequence := q\<rparr>) full"
proof -
  have "state_ok (Some t) r st" if "state_ok (de_observation_timestamp e) r st" for r st
    using that assms(2)
    by (auto simp: state_ok_def rule_inv_initial split: option.splits intro: rule_inv_mono)
  moreover have "journal_ok (e\<lparr>de_observation_timestamp := Some t, de_latest_telemetry_frame_sequence := q\<rparr>) full"
    using assms by (fastforce simp: diag_inv_def journal_ok_def)
  ultimately show ?thesis
    using assms(1) by (fastforce simp: diag_inv_def tracked_def)
qed

text \<open>Storing the numbered events of one code keeps the journal.\<close>

lemma map_int_upt_add:
  "map int [0..<n] @ map (\<lambda>i. int n + int i) [0..<m] = map int [0..<n + m]"
  by (induction m) simp_all

lemma journal_ok_store:
  assumes "journal_ok e full" and "de_observation_timestamp e = Some t"
  shows "journal_ok (foldl store_event e (numbered t code (de_next_event_sequence e) ns))
    (full @ numbered t code (de_next_event_sequence e) ns)" (is "journal_ok ?e (full @ ?evs)")
proof -
  have next': "de_next_event_sequence e = int (length full)"
    and seq: "map ev_sequence full = map int [0..<length full]"
    and old: "\<forall>ev \<in> set full. ev_timestamp_microseconds ev \<le> t"
    and srt: "sorted (map ev_timestamp_microseconds full)"
    using assms by (auto simp: journal_ok_def)
  have "de_events ?e = last_n (nat (de_event_capacity e)) (full @ ?evs)"
    by (rule event_log.refines_full_log) (use assms(1) in \<open>simp add: journal_ok_def\<close>)
  moreover have "map ev_sequence (full @ ?evs) = map int [0..<length (full @ ?evs)]"
    by (simp add: seq numbered_sequences next' map_int_upt_add)
  moreover have "sorted (map ev_timestamp_microseconds (full @ ?evs))"
    using srt old by (simp add: sorted_append numbered_times)
  moreover have "ev_timestamp_microseconds ev \<le> t" if "ev \<in> set (full @ ?evs)" for ev
    using that old numbered_stamps by auto
  ultimately show ?thesis
    using assms by (simp add: journal_ok_def)
qed

section \<open>Ingest and clear keep the invariant\<close>

lemma store_rule_inv:
  assumes inv: "diag_inv e full" and obs: "de_observation_timestamp e = Some t"
    and r: "r \<in> set (dc_rules (de_catalog e))" and get: "dict_get (de_states e) (rule_code r) = Some st"
    and ok: "step_ok t r st ns st'"
  defines "e' \<equiv> foldl (append_event t (rule_code r)) (e\<lparr>de_states := dict_set (rule_code r) st' (de_states e)\<rparr>) ns"
  shows "diag_inv e' (full @ numbered t (rule_code r) (de_next_event_sequence e) ns)" (is "diag_inv e' (full @ ?evs)")
    and "frames_kept e e'"
proof -
  let ?e1 = "e\<lparr>de_states := dict_set (rule_code r) st' (de_states e)\<rparr>"
  have e': "e' = foldl store_event ?e1 ?evs" by (simp add: e'_def foldl_append_event)
  have "journal_ok ?e1 full" using inv by (simp add: diag_inv_def journal_ok_def)
  from journal_ok_store [OF this] obs have "journal_ok e' (full @ ?evs)" by (simp add: e')
  moreover have "tracked (Some t) (full @ ?evs) r st'"
  proof -
    from diag_inv_rule [OF inv r] get obs have "tracked (Some t) full r st" by auto
    then show ?thesis
      using ok by (auto simp: tracked_def state_ok_def step_ok_def notes_of_numbered intro: follows_append)
  qed
  moreover have "\<exists>u. dict_get (de_states e') (rule_code r') = Some u \<and> tracked (Some t) (full @ ?evs) r' u"
    if r': "r' \<in> set (dc_rules (de_catalog e))" and ne: "rule_code r' \<noteq> rule_code r" for r'
    using diag_inv_rule [OF inv r'] ne obs
    by (auto simp: e' tracked_def notes_of_numbered)
  moreover have "r' = r" if "r' \<in> set (dc_rules (de_catalog e))" and "rule_code r' = rule_code r" for r'
    using inv that r by (auto simp: diag_inv_def wf_diag_catalog_def distinct_map dest: inj_onD)
  ultimately show "diag_inv e' (full @ ?evs)"
    using inv obs unfolding diag_inv_def e' by auto
  show "frames_kept e e'"
    using get ok by (auto simp: frames_kept_def e' step_ok_def)
qed

text \<open>What any operation on the engine guarantees: the events it raises extend the journal.\<close>

definition extends ::
  "diagnostic_engine \<Rightarrow> diagnostic_event list \<Rightarrow> diagnostic_event list \<Rightarrow> diagnostic_engine \<Rightarrow> bool" where
  "extends e full evs e' \<longleftrightarrow> diag_inv e' (full @ evs) \<and> frames_kept e e'
     \<and> de_catalog e' = de_catalog e"

lemma extends_trans:
  "extends e full evs e1 \<Longrightarrow> extends e1 (full @ evs) evs' e2 \<Longrightarrow> extends e full (evs @ evs') e2"
  by (auto simp: extends_def intro: frames_kept_trans)

lemma extends_refl: "diag_inv e full \<Longrightarrow> extends e full [] e"
  by (simp add: extends_def)

lemma engine_rule_step_extends:
  assumes inv: "diag_inv e full" and obs: "de_observation_timestamp e = Some t"
    and r: "r \<in> set (dc_rules (de_catalog e))" and step: "engine_rule_step sn t r e = (res, e')"
  shows "\<exists>evs. extends e full evs e' \<and> (\<forall>g. res = Inr g \<longrightarrow> g = evs)
    \<and> de_observation_timestamp e' = Some t"
proof -
  obtain st where get: "dict_get (de_states e) (rule_code r) = Some st"
    and tr: "tracked (Some t) full r st"
    by (rule diag_inv_rule [OF inv r]) (simp add: obs)
  obtain res' st' ns where ev: "evaluate_rule r sn t st = (res', st', ns)"
    by (cases "evaluate_rule r sn t st")
  have ok: "step_ok t r st ns st'"
    using evaluate_rule_ok [of t r st t, OF _ _ ev] tr by (simp add: tracked_def state_ok_def)
  let ?evs = "numbered t (rule_code r) (de_next_event_sequence e) ns"
  have e': "e' = foldl (append_event t (rule_code r))
      (e\<lparr>de_states := dict_set (rule_code r) st' (de_states e)\<rparr>) ns"
    and res: "\<forall>g. res = Inr g \<longrightarrow> g = ?evs"
    using step by (auto simp: engine_rule_step_def rule_state_of_def get ev Let_def split: sum.splits)
  have "extends e full ?evs e'"
    using store_rule_inv [OF inv obs r get ok] by (simp add: extends_def e' foldl_append_event)
  with res show ?thesis by (auto simp: e' obs foldl_append_event)
qed

lemma engine_rules_extends:
  assumes "diag_inv e full" and "de_observation_timestamp e = Some t"
    and "set rs \<subseteq> set (dc_rules (de_catalog e))" and "engine_rules sn t rs e = (res, e')"
  shows "\<exists>evs. extends e full evs e' \<and> (\<forall>g. res = Inr g \<longrightarrow> g = evs)"
  using assms
proof (induction rs arbitrary: e full res e')
  case Nil
  then show ?case by (auto intro!: exI [of _ "[]"] extends_refl)
next
  case (Cons r rs)
  obtain res1 e1 where step: "engine_rule_step sn t r e = (res1, e1)" by force
  have "r \<in> set (dc_rules (de_catalog e))" using Cons.prems(3) by simp
  from engine_rule_step_extends [OF Cons.prems(1,2) this step]
  obtain evs where ext: "extends e full evs e1" and g1: "\<forall>g. res1 = Inr g \<longrightarrow> g = evs"
    and obs1: "de_observation_timestamp e1 = Some t" by blast
  show ?case
  proof (cases res1)
    case (Inl ex)
    with Cons.prems(4) step ext show ?thesis by auto
  next
    case (Inr g)
    obtain res2 e2 where rest: "engine_rules sn t rs e1 = (res2, e2)" by force
    have "diag_inv e1 (full @ evs)" and "set rs \<subseteq> set (dc_rules (de_catalog e1))"
      using ext Cons.prems(3) by (auto simp: extends_def)
    from Cons.IH [OF this(1) obs1 this(2) rest]
    obtain evs' where "extends e1 (full @ evs) evs' e2" and "\<forall>g. res2 = Inr g \<longrightarrow> g = evs'" by blast
    moreover have "e' = e2" and "res = (case res2 of Inl ex \<Rightarrow> Inl ex | Inr g' \<Rightarrow> Inr (evs @ g'))"
      using Cons.prems(4) step Inr rest g1 by (auto split: sum.splits)
    ultimately show ?thesis
      using extends_trans [OF ext] by (auto split: sum.splits)
  qed
qed

lemma diagnostic_ingest_extends:
  assumes inv: "diag_inv e full" and ing: "diagnostic_ingest e sn = (res, e')"
  shows "\<exists>evs. extends e full evs e' \<and> (\<forall>g. res = Inr g \<longrightarrow> g = evs)"
proof (cases "sn_observation_timestamp_microseconds sn")
  case None
  with ing extends_refl [OF inv] show ?thesis by (auto simp: diagnostic_ingest_def)
next
  case (Some t)
  show ?thesis
  proof (cases "\<forall>t0. de_observation_timestamp e = Some t0 \<longrightarrow> t0 \<le> t")
    case False
    with Some ing have "e' = e \<and> (\<exists>ex. res = Inl ex)"
      by (auto simp: diagnostic_ingest_def split: option.splits if_splits)
    with extends_refl [OF inv] show ?thesis by auto
  next
    case True
    let ?e = "e\<lparr>de_observation_timestamp := Some t, de_latest_telemetry_frame_sequence := sn_last_frame_sequence sn\<rparr>"
    have "engine_rules sn t (dc_rules (de_catalog e)) ?e = (res, e')"
      using ing Some True by (auto simp: diagnostic_ingest_def split: option.splits if_splits)
    from engine_rules_extends [OF diag_inv_observe [OF inv True] _ _ this]
    obtain evs where "extends ?e full evs e'" and "\<forall>g. res = Inr g \<longrightarrow> g = evs"
      by auto
    then show ?thesis by (auto simp: extends_def frames_kept_def)
  qed
qed

text \<open>Clearing a resolved code is a step of the lifecycle; every other answer leaves the engine alone.\<close>

lemma cleared_step_ok:
  assumes inv: "rule_inv t r st" and d: "rs_dtc st = Some d" and h: "dtc_status d = HISTORICAL"
  shows "step_ok t r st [(DTC_CLEARED, Some HISTORICAL, Some CLEARED)]
    (st\<lparr>rs_dtc := Some (d\<lparr>dtc_status := CLEARED, dtc_cleared := Some t\<rparr>)\<rparr>)"
  using rule_inv_some [OF d inv] inv d h
  by (auto simp: step_ok_def rule_inv_def record_ok_def closed_ok_def closed_as_def status_of_def
      occurrences_of_def lifecycle_simps)

lemma diag_inv_clock:
  assumes "diag_inv e full" and "r \<in> set (dc_rules (de_catalog e))"
    and "dict_get (de_states e) (rule_code r) = Some st" and "rs_dtc st \<noteq> None"
  obtains t where "de_observation_timestamp e = Some t" and "rule_inv t r st"
proof -
  from diag_inv_rule [OF assms(1,2)] assms(3)
  have "state_ok (de_observation_timestamp e) r st" by (auto simp: tracked_def)
  then show ?thesis
    using assms(4) that by (auto simp: state_ok_def initial_rule_state_def split: option.splits)
qed

lemma known_code:
  assumes "diag_inv e full" and "diag_catalog_require (de_catalog e) code = Inr r"
  obtains st where "r \<in> set (dc_rules (de_catalog e))" and "rule_code r = code"
    and "dict_get (de_states e) code = Some st" and "rule_state_of e code = Inr st"
proof -
  from assms have r: "r \<in> set (dc_rules (de_catalog e))" and c: "rule_code r = code"
    by (auto simp: diag_catalog_require_def diag_inv_def wf_diag_catalog_def split: option.splits)
  from diag_inv_rule [OF assms(1) r] c that [OF r c] show ?thesis by (auto simp: rule_state_of_def)
qed

lemma diagnostic_clear_cases:
  assumes inv: "diag_inv e full"
  shows "diagnostic_clear e code =
    (case diag_catalog_require (de_catalog e) code of
       Inl ex \<Rightarrow> (Inl ex, e)
     | Inr r \<Rightarrow>
        (let st = the (dict_get (de_states e) code); t = the (de_observation_timestamp e)
         in case rs_dtc st of
           None \<Rightarrow> (raise Unknown_Diagnostic_Code_Error
             (''diagnostic code '' @ py_repr code @ '' has no DTC record''), e)
         | Some d \<Rightarrow> (case dtc_status d of
             CLEARED \<Rightarrow> (Inr d, e)
           | HISTORICAL \<Rightarrow>
              (Inr (d\<lparr>dtc_status := CLEARED, dtc_cleared := Some t\<rparr>),
               append_event t code
                 (e\<lparr>de_states := dict_set code
                    (st\<lparr>rs_dtc := Some (d\<lparr>dtc_status := CLEARED, dtc_cleared := Some t\<rparr>)\<rparr>) (de_states e)\<rparr>)
                 (DTC_CLEARED, Some HISTORICAL, Some CLEARED))
           | s \<Rightarrow> (raise Diagnostic_Clear_Error
                (code @ '' cannot be cleared while '' @ status_value s), e))))"
proof (cases "diag_catalog_require (de_catalog e) code")
  case (Inl ex)
  then show ?thesis by (simp add: diagnostic_clear_def)
next
  case (Inr r)
  obtain st where r: "r \<in> set (dc_rules (de_catalog e))" "rule_code r = code"
    and get: "dict_get (de_states e) code = Some st" and "rule_state_of e code = Inr st"
    by (rule known_code [OF inv Inr])
  moreover have "\<exists>t. de_observation_timestamp e = Some t" if "rs_dtc st = Some d" for d
    using diag_inv_clock [OF inv r(1)] r(2) get that by auto
  ultimately show ?thesis
    using Inr by (auto simp: diagnostic_clear_def Let_def split: option.splits diagnostic_status.splits)
qed

lemma diagnostic_clear_extends:
  assumes inv: "diag_inv e full" and clr: "diagnostic_clear e code = (res, e')"
  shows "\<exists>evs. extends e full evs e' \<and> de_observation_timestamp e' = de_observation_timestamp e"
proof (cases "e' = e")
  case True
  with extends_refl [OF inv] show ?thesis by auto
next
  case False
  with clr obtain r where req: "diag_catalog_require (de_catalog e) code = Inr r"
    by (auto simp: diagnostic_clear_def split: sum.splits)
  obtain st where r: "r \<in> set (dc_rules (de_catalog e))" "rule_code r = code"
    and get: "dict_get (de_states e) code = Some st"
    by (rule known_code [OF inv req])
  from clr False get obtain d where d: "rs_dtc st = Some d" and h: "dtc_status d = HISTORICAL"
    by (auto simp: diagnostic_clear_cases [OF inv] req Let_def split: option.splits diagnostic_status.splits)
  obtain t where t: "de_observation_timestamp e = Some t" and ri: "rule_inv t r st"
    by (rule diag_inv_clock [OF inv r(1)]) (use r get d in auto)
  from clr have e': "e' = foldl (append_event t (rule_code r)) (e\<lparr>de_states := dict_set (rule_code r)
      (st\<lparr>rs_dtc := Some (d\<lparr>dtc_status := CLEARED, dtc_cleared := Some t\<rparr>)\<rparr>) (de_states e)\<rparr>)
      [(DTC_CLEARED, Some HISTORICAL, Some CLEARED)]"
    by (simp add: diagnostic_clear_cases [OF inv] req get d h t r Let_def)
  from store_rule_inv [OF inv t r(1) _ cleared_step_ok [OF ri d h]] get r(2)
  have "extends e full (numbered t (rule_code r) (de_next_event_sequence e)
      [(DTC_CLEARED, Some HISTORICAL, Some CLEARED)]) e'"
    unfolding e' by (simp add: extends_def append_event_def store_event_def)
  then show ?thesis by (auto simp: e' append_event_def store_event_def)
qed

lemma rs_initial [simp]: "rs_dtc initial_rule_state = None"
  by (simp add: initial_rule_state_def)

lemma diag_inv_reset:
  assumes "wf_diag_catalog (de_catalog e)" and "0 < de_event_capacity e"
  shows "diag_inv (diagnostic_reset e) []"
proof -
  let ?kvs = "map (\<lambda>r. (rule_code r, initial_rule_state)) (dc_rules (de_catalog e))"
  have "distinct (dict_keys ?kvs)" using assms(1) by (simp add: wf_diag_catalog_def comp_def)
  then have "dict_of ?kvs = ?kvs" by (rule dict_of_distinct)
  moreover have "dict_get ?kvs (rule_code r) = Some initial_rule_state"
    if "r \<in> set (dc_rules (de_catalog e))" for r
    using that assms(1) by (auto simp: wf_diag_catalog_def comp_def intro!: map_of_is_SomeI)
  ultimately show ?thesis
    using assms
    by (auto simp: diag_inv_def diagnostic_reset_def journal_ok_def tracked_def state_ok_def notes_of_def
        status_of_def occurrences_of_def rs_initial)
qed

end
