(* ===== verification/Diag_Runs.thy ===== *)
theory Diag_Runs
  imports Diag_Journal
begin

text \<open>
  Runs of the diagnostic engine: sequences of snapshots and clear requests, as the application
  feeds them. A run from a fresh engine keeps the journal invariant; over a run whose snapshots are
  all accepted, a code is confirmed exactly when its condition has held without a break for the
  confirmation duration.
\<close>

section \<open>Runs\<close>

datatype diag_op = Observe telemetry_snapshot | Clear_Code string

definition diag_do :: "diagnostic_engine \<Rightarrow> diag_op \<Rightarrow> diagnostic_engine" where
  "diag_do e op =
     (case op of Observe sn \<Rightarrow> snd (diagnostic_ingest e sn) | Clear_Code c \<Rightarrow> snd (diagnostic_clear e c))"

definition diag_run :: "diagnostic_engine \<Rightarrow> diag_op list \<Rightarrow> diagnostic_engine" where
  "diag_run e ops = foldl diag_do e ops"

text \<open>The same run, required to raise at no snapshot (a refused clear is an answer, not a failure).\<close>

fun diag_accepts :: "diagnostic_engine \<Rightarrow> diag_op list \<Rightarrow> diagnostic_engine option" where
  "diag_accepts e [] = Some e"
| "diag_accepts e (Observe sn # ops) =
     (case diagnostic_ingest e sn of (Inl ex, e1) \<Rightarrow> None | (Inr g, e1) \<Rightarrow> diag_accepts e1 ops)"
| "diag_accepts e (Clear_Code c # ops) = diag_accepts (snd (diagnostic_clear e c)) ops"

fun observed :: "diag_op list \<Rightarrow> telemetry_snapshot list" where
  "observed [] = []"
| "observed (Observe sn # ops) =
     (if sn_observation_timestamp_microseconds sn = None then observed ops else sn # observed ops)"
| "observed (Clear_Code c # ops) = observed ops"

lemma make_diagnostic_engine_inv:
  "make_diagnostic_engine cat v = Inr e \<Longrightarrow> wf_diag_catalog cat \<Longrightarrow> diag_inv e [] \<and> de_catalog e = cat"
  by (auto simp: make_diagnostic_engine_def diag_inv_reset split: if_splits)
    (simp add: diagnostic_reset_def)

lemma diag_do_extends: "diag_inv e full \<Longrightarrow> \<exists>evs. extends e full evs (diag_do e op)"
  using diagnostic_ingest_extends [of e full] diagnostic_clear_extends [of e full]
  by (cases op) (metis diag_do_def diag_op.case prod.collapse)+

lemma diag_run_extends: "diag_inv e full \<Longrightarrow> \<exists>evs. extends e full evs (diag_run e ops)"
proof (induction ops arbitrary: e full)
  case Nil
  then show ?case using extends_refl by (auto simp: diag_run_def)
next
  case (Cons op ops)
  from diag_do_extends [OF Cons.prems] obtain evs where 1: "extends e full evs (diag_do e op)" ..
  then have "diag_inv (diag_do e op) (full @ evs)" by (simp add: extends_def)
  from Cons.IH [OF this] obtain evs' where "extends (diag_do e op) (full @ evs) evs' (diag_run (diag_do e op) ops)" ..
  from extends_trans [OF 1 this] show ?case by (auto simp: diag_run_def)
qed

lemma diag_run_append: "diag_run e (xs @ ys) = diag_run (diag_run e xs) ys"
  by (simp add: diag_run_def)

lemma diag_accepts_run: "diag_accepts e ops = Some e' \<Longrightarrow> e' = diag_run e ops"
  by (induction e ops rule: diag_accepts.induct)
    (auto simp: diag_run_def diag_do_def split: prod.splits sum.splits)

section \<open>An accepted snapshot evaluates every rule on its own state\<close>

lemma engine_rule_step_local:
  assumes "engine_rule_step sn t r e = (Inr g, e')" and "dict_get (de_states e) (rule_code r) = Some st"
  shows "\<exists>st' ns. evaluate_rule r sn t st = (Inr (), st', ns)
      \<and> dict_get (de_states e') (rule_code r) = Some st' \<and> notes_of (rule_code r) g = ns"
    and "code \<noteq> rule_code r \<Longrightarrow> dict_get (de_states e') code = dict_get (de_states e) code \<and> notes_of code g = []"
  using assms
  by (auto simp: engine_rule_step_def rule_state_of_def Let_def foldl_append_event notes_of_numbered
      split: prod.splits sum.splits)

lemma engine_rules_local:
  assumes "engine_rules sn t rs e = (Inr g, e')" and "distinct (map rule_code rs)"
  shows "(\<forall>r \<in> set rs. \<forall>st. dict_get (de_states e) (rule_code r) = Some st \<longrightarrow>
      (\<exists>st' ns. evaluate_rule r sn t st = (Inr (), st', ns)
        \<and> dict_get (de_states e') (rule_code r) = Some st' \<and> notes_of (rule_code r) g = ns))
    \<and> (\<forall>code. code \<notin> rule_code ` set rs \<longrightarrow>
      dict_get (de_states e') code = dict_get (de_states e) code \<and> notes_of code g = [])"
  using assms
proof (induction rs arbitrary: e g)
  case Nil
  then show ?case by (simp add: notes_of_def)
next
  case (Cons r rs)
  from Cons.prems obtain g1 e1 g2 where step: "engine_rule_step sn t r e = (Inr g1, e1)"
    and rest: "engine_rules sn t rs e1 = (Inr g2, e')" and g: "g = g1 @ g2"
    by (auto split: prod.splits sum.splits)
  from step obtain st where get: "dict_get (de_states e) (rule_code r) = Some st"
    by (auto simp: engine_rule_step_def rule_state_of_def split: option.splits)
  note loc = engine_rule_step_local [OF step get]
  note IH = Cons.IH [OF rest]
  have fresh: "rule_code r \<notin> rule_code ` set rs" and dist: "distinct (map rule_code rs)"
    using Cons.prems(2) by auto
  have "\<exists>st' ns. evaluate_rule q sn t u = (Inr (), st', ns)
      \<and> dict_get (de_states e') (rule_code q) = Some st' \<and> notes_of (rule_code q) g = ns"
    if q: "q \<in> set (r # rs)" and u: "dict_get (de_states e) (rule_code q) = Some u" for q u
  proof (cases "q = r")
    case True
    with loc(1) IH [OF dist] fresh u get show ?thesis by (auto simp: g)
  next
    case False
    then have "rule_code q \<noteq> rule_code r" and "q \<in> set rs" using q fresh by (auto simp: image_iff)
    with loc(2) [of "rule_code q"] IH [OF dist] u show ?thesis by (auto simp: g)
  qed
  moreover have "dict_get (de_states e') code = dict_get (de_states e) code \<and> notes_of code g = []"
    if "code \<notin> rule_code ` set (r # rs)" for code
    using that loc(2) [of code] IH [OF dist] by (auto simp: g)
  ultimately show ?case by blast
qed

lemma engine_rules_stamps:
  "engine_rules sn t rs e = (Inr g, e') \<Longrightarrow> ev \<in> set g \<Longrightarrow> ev_timestamp_microseconds ev = t"
proof (induction rs arbitrary: e g)
  case (Cons r rs)
  from Cons.prems(1) obtain g1 e1 g2 where "engine_rule_step sn t r e = (Inr g1, e1)"
    and "engine_rules sn t rs e1 = (Inr g2, e')" and "g = g1 @ g2"
    by (auto split: prod.splits sum.splits)
  with Cons.IH Cons.prems(2) show ?case
    by (auto simp: engine_rule_step_def Let_def numbered_stamps split: sum.splits prod.splits)
qed simp

lemma diagnostic_ingest_local:
  assumes inv: "diag_inv e full" and ing: "diagnostic_ingest e sn = (Inr g, e')"
    and t: "sn_observation_timestamp_microseconds sn = Some t"
  shows "r \<in> set (dc_rules (de_catalog e)) \<Longrightarrow> dict_get (de_states e) (rule_code r) = Some st \<Longrightarrow>
      \<exists>st'. evaluate_rule r sn t st = (Inr (), st', notes_of (rule_code r) g)
        \<and> dict_get (de_states e') (rule_code r) = Some st'"
    and "ev \<in> set g \<Longrightarrow> ev_timestamp_microseconds ev = t"
    and "de_observation_timestamp e = Some c \<Longrightarrow> c \<le> t"
proof -
  let ?e = "e\<lparr>de_observation_timestamp := Some t, de_latest_telemetry_frame_sequence := sn_last_frame_sequence sn\<rparr>"
  have order: "\<forall>c. de_observation_timestamp e = Some c \<longrightarrow> c \<le> t"
    and rules: "engine_rules sn t (dc_rules (de_catalog e)) ?e = (Inr g, e')"
    using ing t by (auto simp: diagnostic_ingest_def split: option.splits if_splits)
  have "distinct (map rule_code (dc_rules (de_catalog e)))"
    using inv by (simp add: diag_inv_def wf_diag_catalog_def)
  from engine_rules_local [OF rules this]
  show "r \<in> set (dc_rules (de_catalog e)) \<Longrightarrow> dict_get (de_states e) (rule_code r) = Some st \<Longrightarrow>
      \<exists>st'. evaluate_rule r sn t st = (Inr (), st', notes_of (rule_code r) g)
        \<and> dict_get (de_states e') (rule_code r) = Some st'" by auto
  show "ev \<in> set g \<Longrightarrow> ev_timestamp_microseconds ev = t" by (rule engine_rules_stamps [OF rules])
  show "de_observation_timestamp e = Some c \<Longrightarrow> c \<le> t" using order by simp
qed

section \<open>Debounce\<close>

definition violates :: "diagnostic_rule \<Rightarrow> telemetry_snapshot \<Rightarrow> bool" where
  "violates r sn \<longleftrightarrow> inputs_are_fresh r sn \<and> evaluate (rule_condition r) sn False = Inr VIOLATION"

text \<open>The newest observations of a history, from time \<open>s\<close> on, all violate the rule.\<close>

definition violating_since :: "diagnostic_rule \<Rightarrow> telemetry_snapshot list \<Rightarrow> int \<Rightarrow> bool" where
  "violating_since r h s \<longleftrightarrow>
     (\<exists>h1 sn h2. h = h1 @ sn # h2 \<and> sn_observation_timestamp_microseconds sn = Some s
        \<and> (\<forall>x \<in> set (sn # h2). violates r x))"

lemma violating_since_snoc:
  assumes "violating_since r h s" and "violates r sn"
  shows "violating_since r (h @ [sn]) s"
proof -
  from assms(1) obtain h1 x h2 where "h = h1 @ x # h2" and "sn_observation_timestamp_microseconds x = Some s"
    and "\<forall>y \<in> set (x # h2). violates r y"
    by (auto simp: violating_since_def)
  then show ?thesis
    using assms(2) unfolding violating_since_def
    by (intro exI [of _ h1] exI [of _ x] exI [of _ "h2 @ [sn]"]) auto
qed

lemma violating_since_now:
  "violates r sn \<Longrightarrow> sn_observation_timestamp_microseconds sn = Some t \<Longrightarrow> violating_since r (h @ [sn]) t"
  unfolding violating_since_def by (intro exI [of _ h] exI [of _ sn] exI [of _ "[]"]) simp

definition debounced :: "diagnostic_rule \<Rightarrow> telemetry_snapshot list \<Rightarrow> rule_state \<Rightarrow> bool" where
  "debounced r h st \<longleftrightarrow> (\<forall>s. rs_condition_started st = Some s \<longrightarrow> violating_since r h s)"

text \<open>The violation being evaluated continues one that is already pending.\<close>

definition continuing :: "rule_state \<Rightarrow> bool" where
  "continuing st \<longleftrightarrow> status_of st = Some PENDING \<and> rs_condition_started st \<noteq> None"

lemma note_violation_started:
  assumes "note_violation r t st = (st1, ns)"
  shows "\<exists>s. rs_condition_started st1 = Some s
      \<and> (s = t \<and> \<not> continuing st \<or> rs_condition_started st = Some s)"
    and "DTC_CONFIRMED \<notin> fst ` set ns" and "rs_dtc st1 \<noteq> None"
  using assms
  by (auto simp: note_violation_def continuing_def status_of_def split: option.splits if_splits)

lemma handle_violation_inactive:
  assumes "\<not> is_active st" and "handle_violation r sn t st = (res, st', ns)"
  obtains s where "s = t \<and> \<not> continuing st \<or> rs_condition_started st = Some s"
    and "rs_condition_started st' = Some s \<and> DTC_CONFIRMED \<notin> fst ` set ns
           \<and> (res = Inr () \<longrightarrow> t - s < dd_confirmation_duration_microseconds (rule_definition r))
       \<or> rs_condition_started st' = None \<and> is_active st'
           \<and> t - s \<ge> dd_confirmation_duration_microseconds (rule_definition r)"
proof -
  obtain st1 ns1 where nv: "note_violation r t st = (st1, ns1)" by force
  from note_violation_started [OF nv] obtain s d where s: "rs_condition_started st1 = Some s"
    and old: "s = t \<and> \<not> continuing st \<or> rs_condition_started st = Some s" and d: "rs_dtc st1 = Some d"
    and ns1: "DTC_CONFIRMED \<notin> fst ` set ns1" by auto
  obtain res2 st2 ns2 where cf: "confirm_if_due r sn t st1 = (res2, st2, ns2)"
    by (cases "confirm_if_due r sn t st1")
  have "res = res2" and "st' = st2" and "ns = ns1 @ ns2"
    using assms nv cf by (simp_all add: handle_violation_def)
  with cf old s ns1 show ?thesis
    by (intro that [of s])
      (auto simp: confirm_if_due_cases [OF d s] activated_def is_active_def split: if_splits sum.splits)
qed

lemma handle_normal_debounced:
  "handle_normal r t st = (st', ns) \<Longrightarrow> rs_condition_started st' = None \<and> DTC_CONFIRMED \<notin> fst ` set ns"
  by (auto simp: handle_normal_def Let_def split: option.splits if_splits)

lemma evaluate_rule_debounced:
  assumes ev: "evaluate_rule r sn t st = (Inr (), st', ns)" and inv: "rule_inv now r st"
    and t: "sn_observation_timestamp_microseconds sn = Some t" and deb: "debounced r h st"
  shows "debounced r (h @ [sn]) st'"
    and "DTC_CONFIRMED \<in> fst ` set ns \<Longrightarrow> \<exists>s. violating_since r (h @ [sn]) s
      \<and> t - s \<ge> dd_confirmation_duration_microseconds (rule_definition r)"
proof -
  have "debounced r (h @ [sn]) st' \<and> (DTC_CONFIRMED \<in> fst ` set ns \<longrightarrow>
      (\<exists>s. violating_since r (h @ [sn]) s
        \<and> t - s \<ge> dd_confirmation_duration_microseconds (rule_definition r)))"
  proof (cases "inputs_are_fresh r sn \<and> evaluate (rule_condition r) sn (is_active st) = Inr VIOLATION")
    case False
    then have "rs_condition_started st' = None \<and> DTC_CONFIRMED \<notin> fst ` set ns"
      using ev handle_normal_debounced [of r t st]
      by (auto simp: evaluate_rule_def split: if_splits sum.splits condition_result.splits prod.splits)
    then show ?thesis by (simp add: debounced_def)
  next
    case True
    let ?st = "st\<lparr>rs_recovery_started := None\<rparr>"
    have hv: "handle_violation r sn t ?st = (Inr (), st', ns)"
      using ev True by (simp add: evaluate_rule_def)
    have act: "is_active ?st = is_active st" by (simp add: is_active_def)
    show ?thesis
    proof (cases "is_active st")
      case True
      then have "rs_condition_started st = None"
        using inv by (auto simp: is_active_def rule_inv_def record_ok_def active_ok_def split: option.splits)
      then show ?thesis using hv True act by (auto simp: handle_violation_def debounced_def)
    next
      case False
      with True have v: "violates r sn" by (simp add: violates_def)
      have vs: "violating_since r (h @ [sn]) s" if "s = t \<or> rs_condition_started ?st = Some s" for s
        using that deb violating_since_snoc [OF _ v] violating_since_now [OF v t]
        by (auto simp: debounced_def)
      have na: "\<not> is_active ?st" using False act by simp
      show ?thesis
      proof (rule handle_violation_inactive [OF na hv])
        fix s assume "s = t \<and> \<not> continuing ?st \<or> rs_condition_started ?st = Some s"
        then have "violating_since r (h @ [sn]) s" using vs by auto
        then show "rs_condition_started st' = Some s \<and> DTC_CONFIRMED \<notin> fst ` set ns
           \<and> (Inr () = (Inr () :: unit result) \<longrightarrow> t - s < dd_confirmation_duration_microseconds (rule_definition r))
         \<or> rs_condition_started st' = None \<and> is_active st'
           \<and> t - s \<ge> dd_confirmation_duration_microseconds (rule_definition r) \<Longrightarrow> ?thesis"
          by (auto simp: debounced_def)
      qed
    qed
  qed
  then show "debounced r (h @ [sn]) st'"
    and "DTC_CONFIRMED \<in> fst ` set ns \<Longrightarrow> \<exists>s. violating_since r (h @ [sn]) s
      \<and> t - s \<ge> dd_confirmation_duration_microseconds (rule_definition r)" by auto
qed

definition all_debounced :: "diagnostic_engine \<Rightarrow> telemetry_snapshot list \<Rightarrow> bool" where
  "all_debounced e h \<longleftrightarrow> (\<forall>r \<in> set (dc_rules (de_catalog e)). \<forall>st.
     dict_get (de_states e) (rule_code r) = Some st \<longrightarrow> debounced r h st)"

lemma clear_keeps_starts:
  "dict_get (de_states (snd (diagnostic_clear e c))) code = Some st' \<Longrightarrow>
     \<exists>st. dict_get (de_states e) code = Some st \<and> rs_condition_started st' = rs_condition_started st"
  by (auto simp: diagnostic_clear_def rule_state_of_def append_event_def store_event_def Let_def
      split: sum.splits option.splits if_splits)

lemma clear_all_debounced:
  assumes "diag_inv e full" and "all_debounced e h"
  shows "all_debounced (snd (diagnostic_clear e c)) h"
proof -
  have "de_catalog (snd (diagnostic_clear e c)) = de_catalog e"
    using diagnostic_clear_extends [OF assms(1), of c] by (cases "diagnostic_clear e c") (auto simp: extends_def)
  then show ?thesis
    using assms(2) clear_keeps_starts [of e c] unfolding all_debounced_def debounced_def by metis
qed

lemma ingest_debounced:
  assumes inv: "diag_inv e full" and deb: "all_debounced e h"
    and ing: "diagnostic_ingest e sn = (Inr g, e')"
    and t: "sn_observation_timestamp_microseconds sn = Some t"
  shows "all_debounced e' (h @ [sn])"
    and "r \<in> set (dc_rules (de_catalog e)) \<Longrightarrow> DTC_CONFIRMED \<in> fst ` set (notes_of (rule_code r) g) \<Longrightarrow>
      \<exists>s. violating_since r (h @ [sn]) s
        \<and> t - s \<ge> dd_confirmation_duration_microseconds (rule_definition r)"
proof -
  have cat: "de_catalog e' = de_catalog e"
    using diagnostic_ingest_extends [OF inv ing] by (auto simp: extends_def)
  have step: "\<exists>st st'. dict_get (de_states e) (rule_code r) = Some st \<and> rule_inv t r st
      \<and> evaluate_rule r sn t st = (Inr (), st', notes_of (rule_code r) g)
      \<and> dict_get (de_states e') (rule_code r) = Some st' \<and> debounced r h st"
    if r: "r \<in> set (dc_rules (de_catalog e))" for r
  proof -
    obtain st where get: "dict_get (de_states e) (rule_code r) = Some st"
      and tr: "tracked (de_observation_timestamp e) full r st" by (rule diag_inv_rule [OF inv r])
    have "rule_inv t r st"
      using tr diagnostic_ingest_local(3) [OF inv ing t]
      by (auto simp: tracked_def state_ok_def rule_inv_initial split: option.splits intro: rule_inv_mono)
    with get deb r diagnostic_ingest_local(1) [OF inv ing t r get] show ?thesis
      by (auto simp: all_debounced_def)
  qed
  show "all_debounced e' (h @ [sn])"
    using step evaluate_rule_debounced(1) [OF _ _ t] unfolding all_debounced_def cat by (metis option.inject)
  show "\<exists>s. violating_since r (h @ [sn]) s
        \<and> t - s \<ge> dd_confirmation_duration_microseconds (rule_definition r)"
    if "r \<in> set (dc_rules (de_catalog e))" and "DTC_CONFIRMED \<in> fst ` set (notes_of (rule_code r) g)"
    using step [OF that(1)] evaluate_rule_debounced(2) [OF _ _ t] that(2) by metis
qed

lemma run_debounced:
  assumes "diag_inv e full" and "all_debounced e h" and "diag_accepts e ops = Some e'"
  shows "\<exists>full'. diag_inv e' full' \<and> all_debounced e' (h @ observed ops) \<and> de_catalog e' = de_catalog e"
  using assms
proof (induction ops arbitrary: e full h)
  case (Cons op ops)
  show ?case
  proof (cases op)
    case (Clear_Code c)
    have "\<exists>evs. extends e full evs (snd (diagnostic_clear e c))"
      using diagnostic_clear_extends [OF Cons.prems(1), of c] by (cases "diagnostic_clear e c") auto
    with Cons.IH [of "snd (diagnostic_clear e c)"] Cons.prems Clear_Code clear_all_debounced
    show ?thesis by (fastforce simp: extends_def)
  next
    case (Observe sn)
    with Cons.prems(3) obtain g e1 where ing: "diagnostic_ingest e sn = (Inr g, e1)"
      and rest: "diag_accepts e1 ops = Some e'" by (auto split: prod.splits sum.splits)
    from diagnostic_ingest_extends [OF Cons.prems(1) ing]
    obtain evs where inv1: "diag_inv e1 (full @ evs)" and cat: "de_catalog e1 = de_catalog e"
      by (auto simp: extends_def)
    show ?thesis
    proof (cases "sn_observation_timestamp_microseconds sn")
      case None
      with ing have "e1 = e" by (simp add: diagnostic_ingest_def)
      with Cons.IH [OF Cons.prems(1,2)] rest None Observe show ?thesis by simp
    next
      case (Some t)
      from Cons.IH [OF inv1 ingest_debounced(1) [OF Cons.prems(1,2) ing Some] rest] Some Observe cat
      show ?thesis by simp
    qed
  qed
qed auto

text \<open>The dual: while a rule is violated without a break, its code is on its way to being active.\<close>

definition activating :: "int \<Rightarrow> rule_state \<Rightarrow> bool" where
  "activating t1 st \<longleftrightarrow> is_active st \<or> (\<exists>s. rs_condition_started st = Some s \<and> s \<le> t1)"

lemma evaluate_rule_activating:
  assumes ev: "evaluate_rule r sn t st = (Inr (), st', ns)" and hyst: "hysteresis (rule_condition r)"
    and v: "violates r sn" and inv: "rule_inv now r st"
    and start: "activating t1 st \<or> t = t1 \<and> now \<le> t1"
  shows "activating t1 st'"
    and "t - t1 \<ge> dd_confirmation_duration_microseconds (rule_definition r) \<Longrightarrow> is_active st'"
proof -
  let ?st = "st\<lparr>rs_recovery_started := None\<rparr>"
  have act: "is_active ?st = is_active st" by (simp add: is_active_def)
  have "evaluate (rule_condition r) sn (is_active st) \<noteq> Inr NORMAL"
    using evaluate_hysteresis [OF hyst, of sn] v by (cases "is_active st") (auto simp: violates_def)
  then have hv: "handle_violation r sn t ?st = (Inr (), st', ns)"
    using ev v by (auto simp: evaluate_rule_def violates_def split: if_splits sum.splits condition_result.splits)
  have "activating t1 st' \<and>
    (t - t1 \<ge> dd_confirmation_duration_microseconds (rule_definition r) \<longrightarrow> is_active st')"
  proof (cases "is_active st")
    case True
    then have "is_active st'"
      using hv act by (auto simp: handle_violation_def is_active_def split: option.splits)
    then show ?thesis by (simp add: activating_def)
  next
    case False
    then have na: "\<not> is_active ?st" using act by simp
    obtain s where s: "s = t \<and> \<not> continuing ?st \<or> rs_condition_started ?st = Some s"
      and cases: "rs_condition_started st' = Some s \<and> DTC_CONFIRMED \<notin> fst ` set ns
           \<and> (Inr () = (Inr () :: unit result) \<longrightarrow>
               t - s < dd_confirmation_duration_microseconds (rule_definition r))
       \<or> rs_condition_started st' = None \<and> is_active st'
           \<and> t - s \<ge> dd_confirmation_duration_microseconds (rule_definition r)"
      by (rule handle_violation_inactive [OF na hv])
    have cont: "continuing ?st \<and> (\<exists>u. rs_condition_started st = Some u \<and> u \<le> now)"
      if "rs_condition_started st \<noteq> None"
      using inv that
      by (auto simp: continuing_def status_of_def rule_inv_def record_ok_def pending_ok_def active_ok_def
          closed_ok_def split: option.splits diagnostic_status.splits)
    have "s \<le> t1"
    proof (cases "rs_condition_started st")
      case None
      with s start False show ?thesis by (simp add: activating_def)
    next
      case (Some u)
      with s cont start False show ?thesis by (auto simp: activating_def)
    qed
    with cases show ?thesis by (auto simp: activating_def)
  qed
  then show "activating t1 st'"
    and "t - t1 \<ge> dd_confirmation_duration_microseconds (rule_definition r) \<Longrightarrow> is_active st'" by auto
qed

lemma ingest_activating:
  assumes inv: "diag_inv e full" and ing: "diagnostic_ingest e sn = (Inr g, e')"
    and t: "sn_observation_timestamp_microseconds sn = Some t"
    and r: "r \<in> set (dc_rules (de_catalog e))" and get: "dict_get (de_states e) (rule_code r) = Some st"
    and hyst: "hysteresis (rule_condition r)" and v: "violates r sn"
    and start: "activating t1 st \<or> t = t1"
  shows "\<exists>full' st'. diag_inv e' full' \<and> de_catalog e' = de_catalog e
    \<and> dict_get (de_states e') (rule_code r) = Some st' \<and> activating t1 st'
    \<and> (t - t1 \<ge> dd_confirmation_duration_microseconds (rule_definition r) \<longrightarrow> is_active st')"
proof -
  from diagnostic_ingest_extends [OF inv ing] obtain full' where inv': "diag_inv e' full'"
    and cat: "de_catalog e' = de_catalog e" by (auto simp: extends_def)
  have tr: "state_ok (de_observation_timestamp e) r st"
    using diag_inv_rule [OF inv r] get by (auto simp: tracked_def)
  have "rule_inv t r st"
    using tr diagnostic_ingest_local(3) [OF inv ing t]
    by (auto simp: state_ok_def rule_inv_initial split: option.splits intro: rule_inv_mono)
  moreover obtain st' where "evaluate_rule r sn t st = (Inr (), st', notes_of (rule_code r) g)"
    and get': "dict_get (de_states e') (rule_code r) = Some st'"
    using diagnostic_ingest_local(1) [OF inv ing t r get] by blast
  moreover have "activating t1 st \<or> t = t1 \<and> t \<le> t1" using start by auto
  ultimately have "activating t1 st'"
    and "t - t1 \<ge> dd_confirmation_duration_microseconds (rule_definition r) \<longrightarrow> is_active st'"
    using evaluate_rule_activating [OF _ hyst v] by blast+
  with inv' cat get' show ?thesis by blast
qed

text \<open>The engine-level runs of violating snapshots.\<close>

lemma run_activating:
  assumes "diag_inv e full" and "r \<in> set (dc_rules (de_catalog e))" and "hysteresis (rule_condition r)"
    and "\<forall>sn \<in> set sns. violates r sn \<and> sn_observation_timestamp_microseconds sn \<noteq> None"
    and "dict_get (de_states e) (rule_code r) = Some st" and "activating t1 st"
    and "sns \<noteq> [] \<longrightarrow> the (sn_observation_timestamp_microseconds (last sns)) - t1
      \<ge> dd_confirmation_duration_microseconds (rule_definition r)"
    and "sns = [] \<longrightarrow> is_active st"
    and "diag_accepts e (map Observe sns) = Some e'"
  shows "\<exists>full' st'. diag_inv e' full' \<and> de_catalog e' = de_catalog e
    \<and> dict_get (de_states e') (rule_code r) = Some st' \<and> is_active st'"
  using assms
proof (induction sns arbitrary: e full st)
  case (Cons sn sns)
  from Cons.prems(4) obtain t where t: "sn_observation_timestamp_microseconds sn = Some t"
    and v: "violates r sn" by auto
  from Cons.prems(9) obtain g e1 where ing: "diagnostic_ingest e sn = (Inr g, e1)"
    and rest: "diag_accepts e1 (map Observe sns) = Some e'" by (auto split: prod.splits sum.splits)
  obtain full1 st1 where inv1: "diag_inv e1 full1" and cat: "de_catalog e1 = de_catalog e"
    and get1: "dict_get (de_states e1) (rule_code r) = Some st1" and act: "activating t1 st1"
    and due: "t - t1 \<ge> dd_confirmation_duration_microseconds (rule_definition r) \<longrightarrow> is_active st1"
    using ingest_activating [OF Cons.prems(1) ing t Cons.prems(2,5,3) v, of t1] Cons.prems(6) by blast
  have "r \<in> set (dc_rules (de_catalog e1))" using Cons.prems(2) cat by simp
  moreover have "\<forall>sn \<in> set sns. violates r sn \<and> sn_observation_timestamp_microseconds sn \<noteq> None"
    using Cons.prems(4) by simp
  moreover have "sns \<noteq> [] \<longrightarrow> the (sn_observation_timestamp_microseconds (last sns)) - t1
      \<ge> dd_confirmation_duration_microseconds (rule_definition r)"
    and "sns = [] \<longrightarrow> is_active st1"
    using Cons.prems(7) due t by auto
  ultimately show ?case
    using Cons.IH [OF inv1 _ Cons.prems(3) _ get1 act _ _ rest] cat by metis
qed auto

end
