(* ===== verification/Diag_Properties.thy ===== *)
theory Diag_Properties
  imports Diag_Runs "HOL-Library.Sublist"
begin

text \<open>
  The properties of the diagnostic engine, each with a run that meets its hypotheses: the journal
  and its lifecycle, freeze frames, debounce, clearing, the public snapshot and simulation time.
\<close>

section \<open>Shared facts\<close>

lemma engine_rules_clock:
  "engine_rules sn t rs e = (res, e') \<Longrightarrow> de_observation_timestamp e' = de_observation_timestamp e"
proof (induction rs arbitrary: e res)
  case (Cons r rs)
  obtain res1 e1 where step: "engine_rule_step sn t r e = (res1, e1)" by force
  then have "de_observation_timestamp e1 = de_observation_timestamp e"
    by (auto simp: engine_rule_step_def Let_def foldl_append_event split: sum.splits prod.splits)
  with Cons step show ?case by (fastforce split: sum.splits prod.splits)
qed simp

interpretation diagnostic_clock: sim_clock de_observation_timestamp
  sn_observation_timestamp_microseconds diagnostic_ingest
  by unfold_locales
    (auto simp: diagnostic_ingest_def dest!: engine_rules_clock split: option.splits if_splits)

lemma freeze_frame_read:
  "diagnostic_freeze_frame_of e code = Inr (Some ff) \<longleftrightarrow>
    (\<exists>r st. diag_catalog_require (de_catalog e) code = Inr r \<and> dict_get (de_states e) code = Some st
      \<and> rs_freeze_frame st = Some ff)"
  by (auto simp: diagnostic_freeze_frame_of_def rbind_eq_Inr rule_state_of_def split: option.splits)

lemma dtc_read:
  assumes "diag_inv e full" and "r \<in> set (dc_rules (de_catalog e))"
    and "dict_get (de_states e) (rule_code r) = Some st"
  shows "diagnostic_dtc e (rule_code r) = Inr (rs_dtc st)"
proof -
  have "diag_catalog_get (de_catalog e) (rule_code r) = Some r"
    using assms(1,2) unfolding diag_inv_def wf_diag_catalog_def by blast
  then have "diag_catalog_require (de_catalog e) (rule_code r) = Inr r"
    by (simp add: diag_catalog_require_def)
  then show ?thesis using assms(3) by (simp add: diagnostic_dtc_def rule_state_of_def)
qed

subsection \<open>A run that confirms, recovers and clears a code\<close>

definition sample_key :: signal_key where
  "sample_key = Signal_Key ''M'' ''S''"

definition sample_signals :: signal_catalog where
  "sample_signals = empty_catalog\<lparr>cat_definitions_by_key := [(sample_key,
     \<lparr>sd_key = sample_key, sd_arbitration_id = 274, sd_message_name = ''M'', sd_source_ecu = ''DME'',
      sd_unit = ''degC'', sd_expected_period_microseconds = 100000\<rparr>)]\<rparr>"

definition sample_rule :: diagnostic_rule where
  "sample_rule =
     \<lparr>rule_definition = diag_definition ''D1'' ''d.high'' ''n'' ''d'' CRITICAL ''DME'' [sample_key] 5 3
        ''a'' ''r'',
      rule_condition = High_Threshold sample_key 115 110\<rparr>"

definition sample_catalog :: diagnostic_catalog where
  "sample_catalog = \<lparr>dc_rules = [sample_rule], dc_by_code = [(''D1'', sample_rule)]\<rparr>"

lemma sample_catalog: "make_diagnostic_catalog [sample_rule] sample_signals = Inr sample_catalog"
  by code_simp

definition sample_snapshot :: "rat \<Rightarrow> int \<Rightarrow> telemetry_snapshot" where
  "sample_snapshot v t =
     \<lparr>sn_observation_timestamp_microseconds = Some t, sn_last_frame_sequence = Some 7,
      sn_samples = [(sample_key,
        \<lparr>ss_key = sample_key, ss_value = Py_Float (Finite v), ss_timestamp_microseconds = t,
         ss_frame_sequence = 7, ss_arbitration_id = 274, ss_message_name = ''M'',
         ss_source_ecu = ''DME'', ss_unit = ''degC''\<rparr>)],
      sn_freshness = [(sample_key, Some FRESH)],
      sn_statistics = \<lparr>st_total_frames = 8, st_total_signal_updates = 8,
        st_latest_timestamp_microseconds = Some t, st_last_frame_sequence = Some 7,
        st_frames_by_arbitration_id = [(274, 8)]\<rparr>\<rparr>"

definition fresh_engine :: diagnostic_engine where
  "fresh_engine =
     \<lparr>de_catalog = sample_catalog, de_event_capacity = 2, de_states = [(''D1'', initial_rule_state)],
      de_events = [], de_next_event_sequence = 0, de_observation_timestamp = None,
      de_latest_telemetry_frame_sequence = None\<rparr>"

lemma fresh_engine: "make_diagnostic_engine sample_catalog (Py_Int 2) = Inr fresh_engine"
  by code_simp

definition overheat :: "diag_op list" where
  "overheat = [Observe (sample_snapshot 120 0), Observe (sample_snapshot 118 5000000)]"

definition cool_down :: "diag_op list" where
  "cool_down = [Observe (sample_snapshot 90 6000000), Observe (sample_snapshot 91 9000000),
     Clear_Code ''D1'']"

lemma diag_inv_fresh: "diag_inv fresh_engine [] \<and> de_catalog fresh_engine = sample_catalog"
  by (rule make_diagnostic_engine_inv [OF fresh_engine make_diagnostic_catalog_wf [OF sample_catalog]])

section \<open>The journal\<close>

text \<open>C1: after any sequence of snapshots and clear requests from a fresh engine, whatever they raise,
  the retained events are the newest of an unbounded journal whose events are numbered from 0 without
  a gap in nondecreasing time; per code the journal is a chain of allowed lifecycle steps from no
  record to the present status, and the occurrence count is the number of its confirmations.\<close>

theorem diagnostic_history_refines:
  assumes "make_diagnostic_catalog rules c = Inr cat" and "make_diagnostic_engine cat capacity = Inr e0"
    and "e = diag_run e0 ops"
  shows "\<exists>full. de_events e = last_n (nat (de_event_capacity e)) full
    \<and> de_next_event_sequence e = int (length full)
    \<and> map ev_sequence full = map int [0..<length full]
    \<and> sorted (map ev_timestamp_microseconds full)
    \<and> (\<forall>r \<in> set rules. \<exists>st. dict_get (de_states e) (rule_code r) = Some st
         \<and> follows None (notes_of (rule_code r) full) (status_of st)
         \<and> occurrences_of st = confirmations (notes_of (rule_code r) full))"
proof -
  have "diag_inv e0 []" and "de_catalog e0 = cat"
    using make_diagnostic_engine_inv [OF assms(2) make_diagnostic_catalog_wf [OF assms(1)]] by auto
  with diag_run_extends [of e0 "[]" ops] assms(3) obtain full where "extends e0 [] full e"
    and cat: "de_catalog e0 = cat" by auto
  then have inv: "diag_inv e full" and rules: "dc_rules (de_catalog e) = rules"
    using make_diagnostic_catalog_Inr(1) [OF assms(1)] by (auto simp: extends_def)
  have "\<exists>st. dict_get (de_states e) (rule_code r) = Some st
       \<and> follows None (notes_of (rule_code r) full) (status_of st)
       \<and> occurrences_of st = confirmations (notes_of (rule_code r) full)" if "r \<in> set rules" for r
    using diag_inv_rule [OF inv, of r] that rules by (auto simp: tracked_def)
  with inv show ?thesis by (intro exI [of _ full]) (simp add: diag_inv_def journal_ok_def)
qed

theorem diagnostic_history_refines_witness:
  "\<exists>full. de_events (diag_run fresh_engine (overheat @ cool_down)) = last_n 2 full \<and> length full = 4"
proof -
  have "nat (de_event_capacity (diag_run fresh_engine (overheat @ cool_down))) = 2"
    and "de_next_event_sequence (diag_run fresh_engine (overheat @ cool_down)) = 4" by code_simp+
  with diagnostic_history_refines [OF sample_catalog fresh_engine refl, of "overheat @ cool_down"]
  show ?thesis by auto
qed

section \<open>Freeze frames\<close>



section \<open>Debounce\<close>

text \<open>C10: over an accepted run of snapshots and clear requests, a code is confirmed only if the newest
  observed snapshots, over at least the rule's confirmation duration, all had fresh inputs and
  violated the rule's activation condition.\<close>

theorem confirmation_is_debounced:
  assumes "make_diagnostic_catalog rules c = Inr cat" and "make_diagnostic_engine cat capacity = Inr e0"
    and "diag_accepts e0 ops = Some e" and "diagnostic_ingest e sn = (Inr events, e')"
    and "ev \<in> set events" and "ev_event_type ev = DTC_CONFIRMED"
    and "r \<in> set rules" and "ev_code ev = rule_code r"
  shows "\<exists>before start rest s. observed (ops @ [Observe sn]) = before @ start # rest
    \<and> sn_observation_timestamp_microseconds start = Some s
    \<and> ev_timestamp_microseconds ev - s \<ge> dd_confirmation_duration_microseconds (rule_definition r)
    \<and> (\<forall>x \<in> set (start # rest). inputs_are_fresh r x
         \<and> evaluate (rule_condition r) x False = Inr VIOLATION)"
proof -
  have inv0: "diag_inv e0 []" and cat: "de_catalog e0 = cat"
    using make_diagnostic_engine_inv [OF assms(2) make_diagnostic_catalog_wf [OF assms(1)]] by auto
  have "all_debounced e0 []"
    unfolding all_debounced_def
  proof (intro ballI allI impI)
    fix q st assume "q \<in> set (dc_rules (de_catalog e0))" and "dict_get (de_states e0) (rule_code q) = Some st"
    then have "tracked (de_observation_timestamp e0) [] q st"
      using diag_inv_rule [OF inv0] by (metis option.inject)
    moreover have "de_observation_timestamp e0 = None"
      using assms(2) by (auto simp: make_diagnostic_engine_def diagnostic_reset_def split: if_splits)
    ultimately have "st = initial_rule_state" by (simp add: tracked_def state_ok_def)
    then show "debounced q [] st" by (simp add: debounced_def initial_rule_state_def)
  qed
  from run_debounced [OF inv0 this assms(3)] obtain full where inv: "diag_inv e full"
    and deb: "all_debounced e (observed ops)" and "de_catalog e = cat" using cat by auto
  then have r: "r \<in> set (dc_rules (de_catalog e))"
    using assms(7) make_diagnostic_catalog_Inr(1) [OF assms(1)] by simp
  from assms(4,5) obtain t where t: "sn_observation_timestamp_microseconds sn = Some t"
    by (cases "sn_observation_timestamp_microseconds sn") (auto simp: diagnostic_ingest_def)
  have "DTC_CONFIRMED \<in> fst ` set (notes_of (rule_code r) events)"
    using assms(5,6,8) by (force simp: notes_of_def note_of_def)
  from ingest_debounced(2) [OF inv deb assms(4) t r this]
  obtain s where vs: "violating_since r (observed ops @ [sn]) s"
    and due: "t - s \<ge> dd_confirmation_duration_microseconds (rule_definition r)" by blast
  have "observed (ops @ [Observe sn]) = observed ops @ [sn]"
    using t by (induction ops rule: observed.induct) auto
  moreover have "ev_timestamp_microseconds ev = t" by (rule diagnostic_ingest_local(2) [OF inv assms(4) t assms(5)])
  ultimately show ?thesis using vs due by (auto simp: violating_since_def violates_def)
qed

theorem confirmation_is_debounced_witness:
  "\<exists>before start rest s. observed overheat = before @ start # rest
     \<and> sn_observation_timestamp_microseconds start = Some s \<and> s \<le> 0
     \<and> (\<forall>x \<in> set (start # rest). evaluate (rule_condition sample_rule) x False = Inr VIOLATION)"
proof -
  have "case diag_accepts fresh_engine [Observe (sample_snapshot 120 0)] of
      Some e \<Rightarrow> (case diagnostic_ingest e (sample_snapshot 118 5000000) of
          (Inr (ev # _), _) \<Rightarrow> ev_event_type ev = DTC_CONFIRMED \<and> ev_code ev = rule_code sample_rule
             \<and> ev_timestamp_microseconds ev = 5000000
        | _ \<Rightarrow> False)
    | None \<Rightarrow> False" by code_simp
  then obtain e ev evs e' where acc: "diag_accepts fresh_engine [Observe (sample_snapshot 120 0)] = Some e"
    and ing: "diagnostic_ingest e (sample_snapshot 118 5000000) = (Inr (ev # evs), e')"
    and ev: "ev_event_type ev = DTC_CONFIRMED" "ev_code ev = rule_code sample_rule"
    and at: "ev_timestamp_microseconds ev = 5000000"
    by (auto split: option.splits prod.splits sum.splits list.splits)
  have "dd_confirmation_duration_microseconds (rule_definition sample_rule) = 5000000" by code_simp
  with confirmation_is_debounced [OF sample_catalog fresh_engine acc ing _ ev(1) _ ev(2)] at
  show ?thesis by (fastforce simp: overheat_def)
qed

text \<open>C11: conversely, when accepted snapshots all violate a rule with a dead band, from some time on and
  for at least its confirmation duration, its code is active after the last of them, whatever its
  status was before.\<close>

theorem sustained_violation_activates:
  assumes "make_diagnostic_catalog rules c = Inr cat" and "make_diagnostic_engine cat capacity = Inr e0"
    and "e = diag_run e0 ops" and "r \<in> set rules" and "hysteresis (rule_condition r)"
    and "diag_accepts e (map Observe (first # rest)) = Some e'"
    and "\<forall>sn \<in> set (first # rest). inputs_are_fresh r sn
      \<and> evaluate (rule_condition r) sn False = Inr VIOLATION"
    and "sn_observation_timestamp_microseconds first = Some s"
    and "\<forall>sn \<in> set rest. sn_observation_timestamp_microseconds sn \<noteq> None"
    and "sn_observation_timestamp_microseconds (last (first # rest)) = Some t"
    and "t - s \<ge> dd_confirmation_duration_microseconds (rule_definition r)"
  shows "\<exists>d. diagnostic_dtc e' (rule_code r) = Inr (Some d) \<and> dtc_status d = ACTIVE
    \<and> dtc_definition d = rule_definition r \<and> 0 < dtc_occurrence_count d"
proof -
  have "diag_inv e0 []" and cat: "de_catalog e0 = cat"
    using make_diagnostic_engine_inv [OF assms(2) make_diagnostic_catalog_wf [OF assms(1)]] by auto
  with diag_run_extends [of e0 "[]" ops] assms(3) obtain full where inv: "diag_inv e full"
    and "de_catalog e = cat" by (auto simp: extends_def)
  then have r: "r \<in> set (dc_rules (de_catalog e))"
    using assms(4) make_diagnostic_catalog_Inr(1) [OF assms(1)] by simp
  obtain st where get: "dict_get (de_states e) (rule_code r) = Some st" by (rule diag_inv_rule [OF inv r])
  have v: "\<forall>sn \<in> set (first # rest). violates r sn" using assms(7) by (simp add: violates_def)
  from assms(6) obtain g e1 where ing: "diagnostic_ingest e first = (Inr g, e1)"
    and acc: "diag_accepts e1 (map Observe rest) = Some e'" by (auto split: prod.splits sum.splits)
  from ingest_activating [OF inv ing assms(8) r get assms(5)] v obtain full1 st1 where
    inv1: "diag_inv e1 full1" and cat1: "de_catalog e1 = de_catalog e"
    and get1: "dict_get (de_states e1) (rule_code r) = Some st1" and act: "activating s st1"
    and now: "s - s \<ge> dd_confirmation_duration_microseconds (rule_definition r) \<longrightarrow> is_active st1"
    by (metis list.set_intros(1))
  have r1: "r \<in> set (dc_rules (de_catalog e1))" using r cat1 by simp
  have "rest \<noteq> [] \<longrightarrow> the (sn_observation_timestamp_microseconds (last rest)) - s
      \<ge> dd_confirmation_duration_microseconds (rule_definition r)"
    and "rest = [] \<longrightarrow> is_active st1"
    using assms(8,10,11) now by auto
  from run_activating [OF inv1 r1 assms(5) _ get1 act this acc] v assms(9)
  obtain full' st' where inv': "diag_inv e' full'" and r': "r \<in> set (dc_rules (de_catalog e'))"
    and get': "dict_get (de_states e') (rule_code r) = Some st'" and active: "is_active st'"
    using r1 by auto
  from diag_inv_clock [OF inv' r' get'] active obtain now where "rule_inv now r st'"
    by (auto simp: is_active_def split: option.splits)
  then show ?thesis
    using active dtc_read [OF inv' r' get']
    by (auto simp: is_active_def rule_inv_def record_ok_def active_ok_def split: option.splits)
qed

theorem sustained_violation_activates_witness:
  "\<exists>e' d. diag_accepts fresh_engine overheat = Some e'
     \<and> diagnostic_dtc e' ''D1'' = Inr (Some d) \<and> dtc_status d = ACTIVE"
proof -
  have "diag_accepts fresh_engine overheat \<noteq> None" by code_simp
  then obtain e' where "diag_accepts (diag_run fresh_engine [])
      (map Observe [sample_snapshot 120 0, sample_snapshot 118 5000000]) = Some e'"
    by (auto simp: overheat_def diag_run_def)
  moreover have "\<forall>sn \<in> set [sample_snapshot 120 0, sample_snapshot 118 5000000].
      inputs_are_fresh sample_rule sn \<and> evaluate (rule_condition sample_rule) sn False = Inr VIOLATION"
    and "hysteresis (rule_condition sample_rule)" and "rule_code sample_rule = ''D1''"
    and "dd_confirmation_duration_microseconds (rule_definition sample_rule) = 5000000" by code_simp+
  ultimately show ?thesis
    using sustained_violation_activates [OF sample_catalog fresh_engine refl, of sample_rule "[]"
        "sample_snapshot 120 0" "[sample_snapshot 118 5000000]" e' 0 5000000]
    by (auto simp: sample_snapshot_def overheat_def diag_run_def)
qed

section \<open>Clearing\<close>

text \<open>C20: the answer to a clear request is decided by the record of the code alone: an unknown code or
  one without a record is refused, a cleared record is returned as it is, a pending or active one is
  refused, each without any change; a historical record becomes cleared at the present simulation
  time, with one event for it.\<close>

theorem clear_answers:
  assumes "make_diagnostic_catalog rules c = Inr cat" and "make_diagnostic_engine cat capacity = Inr e0"
    and "e = diag_run e0 ops"
  shows "case diagnostic_dtc e code of
      Inl ex \<Rightarrow> diagnostic_clear e code = (Inl ex, e)
    | Inr None \<Rightarrow> diagnostic_clear e code =
        (raise Unknown_Diagnostic_Code_Error (''diagnostic code '' @ py_repr code @ '' has no DTC record''), e)
    | Inr (Some d) \<Rightarrow> (case dtc_status d of
          CLEARED \<Rightarrow> diagnostic_clear e code = (Inr d, e)
        | HISTORICAL \<Rightarrow> \<exists>now e'. de_observation_timestamp e = Some now
            \<and> diagnostic_clear e code = (Inr (d\<lparr>dtc_status := CLEARED, dtc_cleared := Some now\<rparr>), e')
            \<and> diagnostic_dtc e' code = Inr (Some (d\<lparr>dtc_status := CLEARED, dtc_cleared := Some now\<rparr>))
            \<and> de_next_event_sequence e' = de_next_event_sequence e + 1
            \<and> note_of (last (de_events e')) = (DTC_CLEARED, Some HISTORICAL, Some CLEARED)
            \<and> ev_code (last (de_events e')) = code
        | s \<Rightarrow> diagnostic_clear e code =
            (raise Diagnostic_Clear_Error (code @ '' cannot be cleared while '' @ status_value s), e))"
proof -
  have "diag_inv e0 []"
    using make_diagnostic_engine_inv [OF assms(2) make_diagnostic_catalog_wf [OF assms(1)]] by auto
  with diag_run_extends [of e0 "[]" ops] assms(3) obtain full where inv: "diag_inv e full"
    by (auto simp: extends_def)
  show ?thesis
  proof (cases "diag_catalog_require (de_catalog e) code")
    case (Inl ex)
    then show ?thesis by (simp add: diagnostic_dtc_def diagnostic_clear_def)
  next
    case (Inr r)
    obtain st where r: "r \<in> set (dc_rules (de_catalog e))" "rule_code r = code"
      and get: "dict_get (de_states e) code = Some st" by (rule known_code [OF inv Inr])
    have dtc: "diagnostic_dtc e code = Inr (rs_dtc st)" using dtc_read [OF inv r(1)] get r(2) by simp
    show ?thesis
    proof (cases "rs_dtc st")
      case None
      then show ?thesis using dtc Inr get by (simp add: diagnostic_clear_cases [OF inv] Let_def)
    next
      case (Some d)
      obtain now where "de_observation_timestamp e = Some now"
        by (rule diag_inv_clock [OF inv r(1)]) (use get r Some in auto)
      moreover have "0 < nat (de_event_capacity e)" using inv by (simp add: diag_inv_def journal_ok_def)
      ultimately show ?thesis
        using dtc Inr get Some event_log.newest
        by (cases "dtc_status d")
          (simp_all add: diagnostic_clear_cases [OF inv] Let_def append_event_def diagnostic_dtc_def
             rule_state_of_def note_of_def store_event_def deque_append_def last_last_n)
    qed
  qed
qed

theorem clear_answers_witness:
  "\<exists>e'. fst (diagnostic_clear (diag_run fresh_engine overheat) ''D1'') =
      raise Diagnostic_Clear_Error ''D1 cannot be cleared while active''
     \<and> diagnostic_clear (diag_run fresh_engine (overheat @ butlast cool_down)) ''D1'' = e'
     \<and> isl (fst e') = False"
proof -
  have active: "case diagnostic_dtc (diag_run fresh_engine overheat) ''D1'' of
      Inr (Some d) \<Rightarrow> dtc_status d = ACTIVE | _ \<Rightarrow> False" by code_simp
  have historical: "case diagnostic_dtc (diag_run fresh_engine (overheat @ butlast cool_down)) ''D1'' of
      Inr (Some d) \<Rightarrow> dtc_status d = HISTORICAL | _ \<Rightarrow> False" by code_simp
  have "fst (diagnostic_clear (diag_run fresh_engine overheat) ''D1'') =
      raise Diagnostic_Clear_Error ''D1 cannot be cleared while active''"
    using clear_answers [OF sample_catalog fresh_engine refl, of overheat "''D1''"] active
    by (auto split: sum.splits option.splits)
  moreover have "isl (fst (diagnostic_clear (diag_run fresh_engine (overheat @ butlast cool_down)) ''D1'')) = False"
    using clear_answers [OF sample_catalog fresh_engine refl, of "overheat @ butlast cool_down" "''D1''"] historical
    by (auto split: sum.splits option.splits)
  ultimately show ?thesis by simp
qed

section \<open>The public snapshot\<close>

lemma collect_dtcs_Inr:
  assumes "diag_inv e full" and "set rs \<subseteq> set (dc_rules (de_catalog e))"
  shows "collect_dtcs e rs =
    Inr (List.map_filter (\<lambda>r. rs_dtc (the (dict_get (de_states e) (rule_code r)))) rs)"
  using assms(2)
proof (induction rs)
  case (Cons r rs)
  then obtain st where "dict_get (de_states e) (rule_code r) = Some st"
    using diag_inv_rule [OF assms(1), of r] by auto
  then show ?case
    using Cons by (simp add: rule_state_of_def List.map_filter_simps split: option.splits)
qed (simp add: List.map_filter_simps)

lemma count_status_sum:
  "count_status PENDING ds + count_status ACTIVE ds + count_status HISTORICAL ds + count_status CLEARED ds
     = int (length ds)"
proof (induction ds)
  case (Cons d ds)
  then show ?case by (cases "dtc_status d") (simp_all add: count_status_def)
qed (simp add: count_status_def)

lemma map_filter_subseq_codes:
  assumes "diag_inv e full" and "set rs \<subseteq> set (dc_rules (de_catalog e))"
  shows "subseq (map (\<lambda>d. dd_code (dtc_definition d))
    (List.map_filter (\<lambda>r. rs_dtc (the (dict_get (de_states e) (rule_code r)))) rs)) (map rule_code rs)"
  using assms(2)
proof (induction rs)
  case (Cons r rs)
  show ?case
  proof (cases "rs_dtc (the (dict_get (de_states e) (rule_code r)))")
    case None
    then show ?thesis using Cons by (auto simp: List.map_filter_simps)
  next
    case (Some d)
    obtain st where get: "dict_get (de_states e) (rule_code r) = Some st"
      using diag_inv_rule [OF assms(1), of r] Cons.prems by auto
    obtain now where "rule_inv now r st"
      by (rule diag_inv_clock [OF assms(1) _ get]) (use Cons.prems Some get in auto)
    with Some get have "dtc_definition d = rule_definition r"
      by (simp add: rule_inv_def record_ok_def)
    then show ?thesis using Some Cons by (simp add: List.map_filter_simps)
  qed
qed (simp add: List.map_filter_simps)



section \<open>Simulation time\<close>

text \<open>The snapshots an engine accepts have nondecreasing observation times, and a snapshot older
  than the last accepted one is refused without any effect.\<close>

theorem diagnostic_time_is_monotone:
  assumes "diagnostic_clock.accepts_all e sns = Some e'"
    and "de_observation_timestamp e' = Some now" and "sn_observation_timestamp_microseconds sn = Some t"
    and "t < now"
  shows "sorted (List.map_filter sn_observation_timestamp_microseconds sns)
    \<and> diagnostic_ingest e' sn =
        (raise Value_Error ''diagnostic snapshots cannot move backward in simulation time'', e')"
  using diagnostic_clock.accepted_sorted [OF assms(1)] assms(2-4) by (simp add: diagnostic_ingest_def)

theorem diagnostic_time_is_monotone_witness:
  "\<exists>e'. diagnostic_clock.accepts_all fresh_engine [sample_snapshot 120 0, sample_snapshot 118 5000000] = Some e'
     \<and> fst (diagnostic_ingest e' (sample_snapshot 90 4000000)) =
         raise Value_Error ''diagnostic snapshots cannot move backward in simulation time''"
proof -
  have "case diagnostic_ingest fresh_engine (sample_snapshot 120 0) of
      (Inr _, e1) \<Rightarrow> (case diagnostic_ingest e1 (sample_snapshot 118 5000000) of
          (Inr _, e2) \<Rightarrow> de_observation_timestamp e2 = Some 5000000 | _ \<Rightarrow> False)
    | _ \<Rightarrow> False" by code_simp
  then obtain e' where "diagnostic_clock.accepts_all fresh_engine
      [sample_snapshot 120 0, sample_snapshot 118 5000000] = Some e'"
    and "de_observation_timestamp e' = Some 5000000"
    by (auto split: prod.splits sum.splits)
  with diagnostic_time_is_monotone [OF this, of "sample_snapshot 90 4000000" 4000000] show ?thesis
    by (auto simp: sample_snapshot_def)
qed

end
