(* ===== verification/Gateway_Client.thy ===== *)
theory Gateway_Client
  imports Can_Frames
begin

text \<open>
  The TCP reader of the raw-CAN gateway (\<open>can/gateway.py\<close>): header and record validation, the
  exact-read loop over \<open>recv\<close>, the frame generator and the lifetime of the client. A socket is the
  bytes its peer will still send together with a schedule that decides how many of them each
  \<open>recv\<close> call delivers and where a call fails; the lemmas show that the yielded frames depend on
  the bytes alone.
\<close>

section \<open>Wire constants and validation\<close>

definition GATEWAY_MAGIC :: bytes where
  "GATEWAY_MAGIC = [0x54, 0x4E, 0x43, 0x52]"

abbreviation (input) GATEWAY_PROTOCOL_VERSION :: int where
  "GATEWAY_PROTOCOL_VERSION \<equiv> 1"

abbreviation (input) GATEWAY_HEADER_SIZE :: nat where
  "GATEWAY_HEADER_SIZE \<equiv> 8"

abbreviation (input) GATEWAY_RECORD_SIZE :: nat where
  "GATEWAY_RECORD_SIZE \<equiv> RAW_CAN_RECORD_SIZE"

definition decode_gateway_header :: "bytes \<Rightarrow> unit result" where
  "decode_gateway_header data =
     (if length data \<noteq> GATEWAY_HEADER_SIZE
        then raise Gateway_Protocol_Error
          (''gateway header requires '' @ str_int 8 @ '' bytes, got '' @ str_int (int (length data)))
      else
        let magic = take 4 data; version = be_value (take 1 (drop 4 data)); reserved = drop 5 data
        in if magic \<noteq> GATEWAY_MAGIC
             then raise Gateway_Protocol_Error (''invalid gateway magic '' @ py_repr_bytes magic)
           else if version \<noteq> GATEWAY_PROTOCOL_VERSION
             then raise Gateway_Protocol_Error
               (''unsupported gateway protocol version '' @ str_int version)
           else if reserved \<noteq> [0, 0, 0]
             then raise Gateway_Protocol_Error ''gateway header reserved bytes must be zero''
           else Inr ())"

definition decode_gateway_record :: "bytes \<Rightarrow> raw_can_frame result" where
  "decode_gateway_record data =
     (if length data \<noteq> GATEWAY_RECORD_SIZE
        then raise Gateway_Protocol_Error
          (''gateway record requires '' @ str_int 19 @ '' bytes, got '' @ str_int (int (length data)))
      else case decode_raw_can_record data of
             Inr f \<Rightarrow> Inr f
           | Inl e \<Rightarrow> if catches Raw_Can_Record_Error e
                      then raise Gateway_Protocol_Error (''received '' @ exn_message e) else Inl e)"

section \<open>Sockets\<close>

text \<open>
  \<open>Deliver k\<close> lets the next \<open>recv\<close> return at most \<open>k\<close> bytes (never an empty chunk while bytes are
  pending), \<open>Os_Failure\<close> makes it raise \<open>OSError\<close>; past the schedule a call delivers all it is
  asked for. An empty chunk means the peer has closed.
\<close>

datatype recv_event = Deliver nat | Os_Failure

record gateway_socket =
  pending :: bytes
  schedule :: "recv_event list"
  sock_closed :: bool

definition recv :: "gateway_socket \<Rightarrow> nat \<Rightarrow> bytes result \<times> gateway_socket" where
  "recv s n =
     (if sock_closed s then (raise OS_Error ''Bad file descriptor'', s)
      else case schedule s of
        [] \<Rightarrow> (Inr (take n (pending s)), s\<lparr>pending := drop n (pending s)\<rparr>)
      | Os_Failure # evs \<Rightarrow> (raise OS_Error ''connection reset'', s\<lparr>schedule := evs\<rparr>)
      | Deliver k # evs \<Rightarrow>
          let m = min n (max 1 k)
          in (Inr (take m (pending s)), s\<lparr>pending := drop m (pending s), schedule := evs\<rparr>))"

definition sock_close :: "gateway_socket \<Rightarrow> gateway_socket" where
  "sock_close s = s\<lparr>sock_closed := True\<rparr>"

section \<open>The exact-read loop\<close>

definition truncated_message :: "string \<Rightarrow> nat \<Rightarrow> nat \<Rightarrow> string" where
  "truncated_message description got sz =
     ''truncated gateway '' @ description @ '': received '' @ str_int (int got) @ '' of ''
       @ str_int (int sz) @ '' bytes''"

text \<open>\<open>data\<close> is the bytearray collected so far; the loop of \<open>_read_exact\<close> starts with it empty.\<close>

function read_loop ::
  "nat \<Rightarrow> string \<Rightarrow> bool \<Rightarrow> gateway_socket \<Rightarrow> bytes \<Rightarrow> bytes result \<times> gateway_socket" where
  "read_loop sz description allow_clean_eof s data =
     (if length data < sz then
        (case recv s (sz - length data) of
           (Inl e, s') \<Rightarrow>
             (if catches OS_Error e
              then raise Gateway_Connection_Error (''failed reading gateway '' @ description)
              else Inl e, s')
         | (Inr chunk, s') \<Rightarrow>
             if chunk = [] then
               (if allow_clean_eof \<and> data = [] then (Inr [], s')
                else (raise Gateway_Protocol_Error
                        (truncated_message description (length data) sz), s'))
             else read_loop sz description allow_clean_eof s' (data @ chunk))
      else (Inr data, s))"
  by pat_completeness auto
termination
  by (relation "measure (\<lambda>(sz, description, eof, s, data). sz - length data)")
    (auto simp: length_greater_0_conv [symmetric] simp del: length_greater_0_conv)

declare read_loop.simps [simp del]

definition read_exact ::
  "gateway_socket \<Rightarrow> nat \<Rightarrow> string \<Rightarrow> bool \<Rightarrow> bytes result \<times> gateway_socket" where
  "read_exact s sz description allow_clean_eof = read_loop sz description allow_clean_eof s []"

subsection \<open>What the loop consumes\<close>

lemma recv_pending:
  "recv s n = (Inr chunk, s') \<Longrightarrow> pending s = chunk @ pending s' \<and> length chunk \<le> n"
  by (auto simp: recv_def Let_def split: if_splits list.splits recv_event.splits)

lemma recv_not_stuck:
  "recv s n = (Inr [], s') \<Longrightarrow> 0 < n \<Longrightarrow> pending s = []"
  by (auto simp: recv_def Let_def min_def max_def split: if_splits list.splits recv_event.splits)

lemma recv_error_pending: "recv s n = (Inl e, s') \<Longrightarrow> pending s' = pending s \<and> exn_class e = OS_Error"
  by (auto simp: recv_def Let_def split: if_splits list.splits recv_event.splits)

lemma catches_self [simp]: "catches c (Exn c m)"
  by (simp add: catches_def is_subclass_def subclass_upto.simps)

lemma read_loop_Inr:
  "read_loop sz d eof s data = (Inr r, s') \<Longrightarrow> length data \<le> sz \<Longrightarrow>
     data @ pending s = r @ pending s' \<and> (length r = sz \<or> r = [] \<and> data = [] \<and> eof \<and> pending s = [])"
proof (induction sz d eof s data arbitrary: r s' rule: read_loop.induct)
  case (1 sz d eof s data)
  show ?case
  proof (cases "length data < sz")
    case False
    with "1.prems" show ?thesis by (simp add: read_loop.simps [of sz d eof s data])
  next
    case True
    obtain res s1 where rc: "recv s (sz - length data) = (res, s1)" by force
    show ?thesis
    proof (cases res)
      case (Inl e)
      with "1.prems"(1) True rc show ?thesis
        by (auto simp: read_loop.simps [of sz d eof s data] split: if_splits)
    next
      case (Inr chunk)
      note rc' = rc [unfolded Inr]
      show ?thesis
      proof (cases "chunk = []")
        case True
        with "1.prems"(1) \<open>length data < sz\<close> rc' recv_pending [OF rc'] recv_not_stuck [of s _ s1]
        show ?thesis
          by (auto simp: read_loop.simps [of sz d eof s data] split: if_splits)
      next
        case False
        have "read_loop sz d eof s1 (data @ chunk) = (Inr r, s')"
          using "1.prems"(1) True rc' False by (simp add: read_loop.simps [of sz d eof s data])
        from "1.IH" [OF True rc' [symmetric] refl _ this] False recv_pending [OF rc'] True
        show ?thesis by auto
      qed
    qed
  qed
qed

lemma read_exact_Inr:
  assumes "read_exact s sz d eof = (Inr r, s')"
  shows "pending s = r @ pending s' \<and> (length r = sz \<or> r = [] \<and> eof \<and> pending s = [])"
  using read_loop_Inr [of sz d eof s "[]" r s'] assms by (auto simp: read_exact_def)

section \<open>The client\<close>

record gateway_client =
  connection :: gateway_socket
  client_closed :: bool

definition client_close :: "gateway_client \<Rightarrow> gateway_client" where
  "client_close c =
     (if client_closed c then c
      else c\<lparr>client_closed := True, connection := sock_close (connection c)\<rparr>)"

text \<open>
  \<open>__init__\<close>: read and validate the header; on any exception the client closes itself and the
  exception propagates, so the socket left behind is returned with the result.
\<close>

definition open_client :: "gateway_socket \<Rightarrow> gateway_client result \<times> gateway_socket" where
  "open_client sock =
     (case read_exact sock GATEWAY_HEADER_SIZE ''connection header'' False of
        (Inl e, sock') \<Rightarrow> (Inl e, connection (client_close \<lparr>connection = sock', client_closed = False\<rparr>))
      | (Inr header, sock') \<Rightarrow>
          (case decode_gateway_header header of
             Inl e \<Rightarrow> (Inl e, connection (client_close \<lparr>connection = sock', client_closed = False\<rparr>))
           | Inr _ \<Rightarrow> (Inr \<lparr>connection = sock', client_closed = False\<rparr>, sock')))"

text \<open>
  \<open>connect\<close>: the argument \<open>create\<close> is the operating system's \<open>socket.create_connection\<close>.
\<close>

definition connect ::
  "(string \<Rightarrow> int \<Rightarrow> gateway_socket result) \<Rightarrow> string \<Rightarrow> int \<Rightarrow> gateway_client result \<times> gateway_socket option"
  where
  "connect create host port =
     (case create host port of
        Inl e \<Rightarrow>
          (if catches OS_Error e
           then raise Gateway_Connection_Error
             (''could not connect to gateway at '' @ host @ '':'' @ str_int port)
           else Inl e, None)
      | Inr sock \<Rightarrow>
          (case open_client sock of
             (Inl e, sock') \<Rightarrow> (Inl e, Some (sock_close sock'))
           | (Inr c, sock') \<Rightarrow> (Inr c, Some sock')))"

text \<open>
  The generator \<open>frames\<close>, run to its end: the frames it yields in order, and the exception that
  ends it, if one does.
\<close>

function frames_from :: "gateway_socket \<Rightarrow> raw_can_frame list \<times> exn option \<times> gateway_socket" where
  "frames_from s =
     (case read_exact s GATEWAY_RECORD_SIZE ''record'' True of
        (Inl e, s') \<Rightarrow> ([], Some e, s')
      | (Inr rec, s') \<Rightarrow>
          if rec = [] then ([], None, s')
          else (case decode_gateway_record rec of
                  Inl e \<Rightarrow> ([], Some e, s')
                | Inr f \<Rightarrow> (case frames_from s' of (fs, oe, s'') \<Rightarrow> (f # fs, oe, s''))))"
  by pat_completeness auto
termination
  by (relation "measure (\<lambda>s. length (pending s))") (auto dest!: read_exact_Inr [OF sym])

declare frames_from.simps [simp del]

definition client_frames :: "gateway_client \<Rightarrow> raw_can_frame list \<times> exn option \<times> gateway_socket" where
  "client_frames c = frames_from (connection c)"

section \<open>Specification: frames of a byte stream\<close>

text \<open>What a peer that sent exactly these bytes and then closed has sent.\<close>

function stream_frames :: "bytes \<Rightarrow> raw_can_frame list \<times> exn option" where
  "stream_frames bs =
     (if bs = [] then ([], None)
      else if length bs < GATEWAY_RECORD_SIZE
        then ([], Some (Exn Gateway_Protocol_Error
               (truncated_message ''record'' (length bs) GATEWAY_RECORD_SIZE)))
      else (case decode_gateway_record (take GATEWAY_RECORD_SIZE bs) of
              Inl e \<Rightarrow> ([], Some e)
            | Inr f \<Rightarrow> (case stream_frames (drop GATEWAY_RECORD_SIZE bs) of
                        (fs, oe) \<Rightarrow> (f # fs, oe))))"
  by pat_completeness auto
termination
  by (relation "measure length") auto

declare stream_frames.simps [simp del]

text \<open>A socket whose reads never fail before the end of the stream.\<close>

definition reliable :: "gateway_socket \<Rightarrow> bool" where
  "reliable s \<longleftrightarrow> \<not> sock_closed s \<and> Os_Failure \<notin> set (schedule s)"

lemma recv_reliable:
  assumes "reliable s" and "0 < n"
  shows "\<exists>chunk s'. recv s n = (Inr chunk, s') \<and> reliable s' \<and> pending s = chunk @ pending s'
    \<and> length chunk \<le> n \<and> (chunk = [] \<longrightarrow> pending s = [])"
proof -
  have "\<exists>chunk s'. recv s n = (Inr chunk, s') \<and> reliable s'"
    using assms by (auto simp: recv_def reliable_def Let_def split: list.splits recv_event.splits)
  then show ?thesis using recv_pending recv_not_stuck assms(2) by blast
qed

text \<open>What an exact read of a stream returns, written without a loop.\<close>

definition read_outcome :: "nat \<Rightarrow> string \<Rightarrow> bool \<Rightarrow> bytes \<Rightarrow> bytes result" where
  "read_outcome sz d eof stream =
     (if sz \<le> length stream then Inr (take sz stream)
      else if eof \<and> stream = [] then Inr []
      else raise Gateway_Protocol_Error (truncated_message d (length stream) sz))"

lemma read_loop_reliable:
  assumes "reliable s" and "length data \<le> sz"
  shows "\<exists>s'. reliable s' \<and> pending s' = drop sz (data @ pending s)
    \<and> read_loop sz d eof s data = (read_outcome sz d eof (data @ pending s), s')"
  using assms
proof (induction sz d eof s data rule: read_loop.induct)
  case (1 sz d eof s data)
  note unf = read_loop.simps [of sz d eof s data]
  show ?case
  proof (cases "length data < sz")
    case False
    with "1.prems" show ?thesis by (intro exI [of _ s]) (simp add: unf read_outcome_def)
  next
    case True
    then have "0 < sz - length data" by simp
    from recv_reliable [OF "1.prems"(1) this] obtain chunk s1 where
      rc: "recv s (sz - length data) = (Inr chunk, s1)" and rel: "reliable s1"
      and pend: "pending s = chunk @ pending s1" and len: "length chunk \<le> sz - length data"
      and eos: "chunk = [] \<longrightarrow> pending s = []" by blast
    show ?thesis
    proof (cases "chunk = []")
      case True
      then have "pending s = []" and "pending s1 = []" using eos pend by auto
      with \<open>length data < sz\<close> True rc rel show ?thesis
        by (intro exI [of _ s1]) (simp add: unf read_outcome_def)
    next
      case False
      have "length (data @ chunk) \<le> sz" using len True by simp
      from "1.IH" [OF True rc [symmetric] refl False rel this] True False rc pend
      show ?thesis by (simp add: unf)
    qed
  qed
qed

lemma read_exact_reliable:
  assumes "reliable s"
  shows "\<exists>s'. reliable s' \<and> pending s' = drop sz (pending s)
    \<and> read_exact s sz d eof = (read_outcome sz d eof (pending s), s')"
  using read_loop_reliable [OF assms, of "[]" sz d eof] by (simp add: read_exact_def)

text \<open>The generator refines the specification, whatever chunks the network delivers.\<close>

lemma frames_from_reliable:
  "reliable s \<Longrightarrow> \<exists>s'. frames_from s = (fst (stream_frames (pending s)), snd (stream_frames (pending s)), s')"
proof (induction "pending s" arbitrary: s rule: stream_frames.induct)
  case 1
  obtain s1 where rel: "reliable s1" and pend: "pending s1 = drop GATEWAY_RECORD_SIZE (pending s)"
    and re: "read_exact s GATEWAY_RECORD_SIZE ''record'' True =
      (read_outcome GATEWAY_RECORD_SIZE ''record'' True (pending s), s1)"
    using read_exact_reliable [OF "1.prems"] by metis
  note unf = frames_from.simps [of s] stream_frames.simps [of "pending s"] read_outcome_def
  show ?case
  proof (cases "length (pending s) < GATEWAY_RECORD_SIZE")
    case True
    then show ?thesis using re by (auto simp: unf)
  next
    case False
    then have ne: "pending s \<noteq> []" by auto
    show ?thesis
    proof (cases "decode_gateway_record (take GATEWAY_RECORD_SIZE (pending s))")
      case (Inl e)
      then show ?thesis using re False ne by (auto simp: unf)
    next
      case (Inr f)
      from "1.hyps" [OF ne False Inr pend [symmetric] rel] obtain s2 where
        "frames_from s1 = (fst (stream_frames (pending s1)), snd (stream_frames (pending s1)), s2)"
        by blast
      then show ?thesis using re False ne Inr pend by (auto simp: unf split: prod.splits)
    qed
  qed
qed

section \<open>What a well-formed sender produces\<close>

definition stream_of :: "raw_can_frame list \<Rightarrow> bytes" where
  "stream_of fs = concat (map record_bytes fs)"

lemma decode_gateway_record_bytes: "encodable f \<Longrightarrow> decode_gateway_record (record_bytes f) = Inr f"
  using length_record_bytes [of f] decode_record_bytes [of f]
  by (simp add: decode_gateway_record_def encodable_def)

lemma stream_frames_of:
  "list_all encodable fs \<Longrightarrow> stream_frames (stream_of fs @ rest) =
     (fs @ fst (stream_frames rest), snd (stream_frames rest))"
proof (induction fs)
  case (Cons f fs)
  have len: "length (record_bytes f) = GATEWAY_RECORD_SIZE"
    using Cons.prems length_record_bytes [of f] by (simp add: encodable_def)
  let ?bs = "record_bytes f @ stream_of fs @ rest"
  have "take GATEWAY_RECORD_SIZE ?bs = record_bytes f" and "drop GATEWAY_RECORD_SIZE ?bs = stream_of fs @ rest"
    using len by simp_all
  moreover have "?bs \<noteq> []" and "\<not> length ?bs < GATEWAY_RECORD_SIZE" using len by auto
  ultimately show ?case
    using Cons stream_frames.simps [of ?bs] decode_gateway_record_bytes [of f]
    by (simp add: stream_of_def split: prod.splits)
qed (simp add: stream_of_def)

lemma stream_frames_Nil [simp]: "stream_frames [] = ([], None)"
  by (simp add: stream_frames.simps)

lemma decode_gateway_record_encodable: "decode_gateway_record d = Inr f \<Longrightarrow> encodable f"
  by (auto simp: decode_gateway_record_def dest: decode_encodable split: if_splits sum.splits)

lemma decode_gateway_record_error:
  "decode_gateway_record d = Inl e \<Longrightarrow> exn_class e = Gateway_Protocol_Error"
  by (auto simp: decode_gateway_record_def catches_def is_subclass_def subclass_upto.simps
      dest: decode_error_class split: if_splits sum.splits)

lemma stream_frames_sound:
  "list_all encodable (fst (stream_frames bs)) \<and>
   (\<forall>e. snd (stream_frames bs) = Some e \<longrightarrow> exn_class e = Gateway_Protocol_Error) \<and>
   (snd (stream_frames bs) = None \<longrightarrow> length bs = 19 * length (fst (stream_frames bs)))"
proof (induction bs rule: stream_frames.induct)
  case (1 bs)
  note unf = stream_frames.simps [of bs]
  show ?case
  proof (cases "bs = [] \<or> length bs < GATEWAY_RECORD_SIZE")
    case True
    then show ?thesis by (auto simp: unf)
  next
    case False
    show ?thesis
    proof (cases "decode_gateway_record (take GATEWAY_RECORD_SIZE bs)")
      case (Inl e)
      with False decode_gateway_record_error [OF Inl] show ?thesis by (auto simp: unf)
    next
      case (Inr f)
      with False "1.IH" [of f] decode_gateway_record_encodable [OF Inr] show ?thesis
        by (auto simp: unf split: prod.splits)
    qed
  qed
qed

lemma header_ok_iff:
  "decode_gateway_header data = Inr () \<longleftrightarrow> data = GATEWAY_MAGIC @ [1, 0, 0, 0]"
proof
  assume ok: "decode_gateway_header data = Inr ()"
  then have len: "length data = 8" by (simp add: decode_gateway_header_def split: if_splits)
  with ok have m: "take 4 data = GATEWAY_MAGIC" and v: "be_value (take 1 (drop 4 data)) = 1"
    and r: "drop 5 data = [0, 0, 0]"
    by (auto simp: decode_gateway_header_def Let_def split: if_splits)
  have "take 1 (drop 4 data) = be_bytes 1 1"
    using be_bytes_value [of "take 1 (drop 4 data)" 1] v len by simp
  then have "drop 4 data = [1, 0, 0, 0]"
    using r append_take_drop_id [of 1 "drop 4 data"] by simp
  with m show "data = GATEWAY_MAGIC @ [1, 0, 0, 0]" using append_take_drop_id [of 4 data] by metis
qed (simp add: decode_gateway_header_def GATEWAY_MAGIC_def be_value_def)

end
