(* ===== verification/Can_Properties.thy ===== *)
theory Can_Properties
  imports Gateway_Client
begin

text \<open>
  The properties of the raw-CAN record codec and of the gateway client, with the concrete frames and
  streams that meet their hypotheses.
\<close>

definition sample_frame :: raw_can_frame where
  "sample_frame = \<lparr>arbitration_id = 1282, payload = [1, 2, 3, 4, 5, 6, 7], timestamp_microseconds = 2500\<rparr>"

definition other_frame :: raw_can_frame where
  "other_frame = \<lparr>arbitration_id = 1280, payload = [], timestamp_microseconds = 2600\<rparr>"

lemma sample_frames_encodable: "list_all encodable [sample_frame, other_frame]"
  by (simp add: sample_frame_def other_frame_def encodable_def wf_frame_def)

section \<open>The record codec\<close>

text \<open>C18: every frame the constructor accepts and whose timestamp fits 64 bits is encoded to a record of
  the fixed size that decodes to the same frame.\<close>

theorem record_roundtrip:
  assumes "make_raw_can_frame a p t = Inr f" and "timestamp_microseconds f < 2 ^ 64"
  shows "\<exists>data. encode_raw_can_record f = Inr data \<and> length data = RAW_CAN_RECORD_SIZE
    \<and> decode_raw_can_record data = Inr f"
proof -
  have wf: "wf_frame f" by (rule make_raw_can_frame_wf [OF assms(1)])
  then have "encodable f" using assms(2) by (simp add: encodable_def)
  then show ?thesis
    using encode_ok [of f] decode_record_bytes [of f] length_record_bytes [OF wf] by simp
qed

theorem record_roundtrip_witness:
  "\<exists>data. encode_raw_can_record sample_frame = Inr data \<and> decode_raw_can_record data = Inr sample_frame"
  using record_roundtrip [of "Py_Int 1282" "Py_Bytes [1, 2, 3, 4, 5, 6, 7]" "Py_Int 2500" sample_frame]
  by (auto simp: make_raw_can_frame_def sample_frame_def)

text \<open>C23: the decoder accepts exactly the records of the right size whose identifier and length fields
  are in range, reports every other one as a record error, and gives the bytes back under encoding
  exactly when the unused payload bytes are zero.\<close>

theorem record_decoder_exact:
  "case decode_raw_can_record data of
     Inl e \<Rightarrow> exn_class e = Raw_Can_Record_Error \<and> (length data \<noteq> RAW_CAN_RECORD_SIZE
       \<or> be_value (take 2 (drop 8 data)) > 0x7FF \<or> be_value (take 1 (drop 10 data)) > 8)
   | Inr f \<Rightarrow> wf_frame f \<and> length data = RAW_CAN_RECORD_SIZE
       \<and> be_value (take 2 (drop 8 data)) \<le> 0x7FF \<and> be_value (take 1 (drop 10 data)) \<le> 8
       \<and> (encode_raw_can_record f = Inr data \<longleftrightarrow> canonical_record data)"
proof (cases "decode_raw_can_record data")
  case (Inl e)
  with decode_error_class [OF Inl] decode_total [of data] show ?thesis by force
next
  case (Inr f)
  note enc = decode_encodable [OF Inr]
  have "be_value (take 2 (drop 8 data)) \<le> 0x7FF"
    using Inr by (auto simp: decode_raw_can_record_def Let_def split: if_splits)
  then show ?thesis
    using record_bytes_decode [OF Inr] canonical_record_bytes [OF enc] encode_ok [OF enc] decode_wf [OF Inr]
      decode_length [OF Inr] decode_fields(4) [OF Inr] Inr by auto
qed

theorem record_decoder_exact_witness:
  "encode_raw_can_record sample_frame = Inr (record_bytes sample_frame)
     \<and> exn_class (projl (decode_raw_can_record [])) = Raw_Can_Record_Error"
proof -
  have "decode_raw_can_record (record_bytes sample_frame) = Inr sample_frame"
    and "canonical_record (record_bytes sample_frame)"
    using sample_frames_encodable decode_record_bytes canonical_record_bytes by auto
  then show ?thesis
    using record_decoder_exact [of "record_bytes sample_frame"] record_decoder_exact [of "[]"]
    by (auto split: sum.splits)
qed

text \<open>C25: a frame the constructor accepts fails to encode exactly when its timestamp needs more than
  64 bits, and then with an error of the struct module instead of a record error.\<close>

theorem record_overflow:
  assumes "make_raw_can_frame a p t = Inr f"
  shows "case encode_raw_can_record f of
      Inr _ \<Rightarrow> timestamp_microseconds f < 2 ^ 64
    | Inl e \<Rightarrow> 2 ^ 64 \<le> timestamp_microseconds f \<and> exn_class e = Struct_Error
        \<and> \<not> catches Raw_Can_Record_Error e"
proof (cases "timestamp_microseconds f < 2 ^ 64")
  case True
  then have "encodable f" using make_raw_can_frame_wf [OF assms] by (simp add: encodable_def)
  then show ?thesis using True by (simp add: encode_ok)
next
  case False
  then show ?thesis
    using encode_overflow [of f] by (simp add: catches_def is_subclass_def subclass_upto.simps)
qed

theorem record_overflow_witness:
  "\<exists>f e. make_raw_can_frame (Py_Int 1) (Py_Bytes []) (Py_Int (2 ^ 64)) = Inr f
     \<and> encode_raw_can_record f = Inl e \<and> exn_class e = Struct_Error"
proof -
  let ?f = "\<lparr>arbitration_id = 1, payload = [], timestamp_microseconds = 2 ^ 64\<rparr>"
  have f: "make_raw_can_frame (Py_Int 1) (Py_Bytes []) (Py_Int (2 ^ 64)) = Inr ?f"
    by (simp add: make_raw_can_frame_def)
  with record_overflow [OF f] show ?thesis by (auto split: sum.splits)
qed

section \<open>The gateway client\<close>

text \<open>C17: however the network splits the byte stream into chunks, a client of a sender that wrote these
  frames and then some rest yields exactly the frames followed by what the rest decodes to; with no
  rest the generator ends without an exception, with part of a record it ends with a protocol error.\<close>

theorem gateway_frames_exact:
  assumes "reliable s" and "list_all encodable fs" and "pending s = stream_of fs @ rest"
  shows "\<exists>s'. client_frames \<lparr>connection = s, client_closed = False\<rparr>
        = (fs @ fst (stream_frames rest), snd (stream_frames rest), s')
    \<and> (rest = [] \<longrightarrow> stream_frames rest = ([], None))
    \<and> (0 < length rest \<and> length rest < GATEWAY_RECORD_SIZE \<longrightarrow>
        (\<exists>e. stream_frames rest = ([], Some e) \<and> exn_class e = Gateway_Protocol_Error))"
proof -
  have "\<exists>s'. client_frames \<lparr>connection = s, client_closed = False\<rparr>
      = (fs @ fst (stream_frames rest), snd (stream_frames rest), s')"
    using frames_from_reliable [OF assms(1)] stream_frames_of [OF assms(2), of rest]
    by (simp add: client_frames_def assms(3))
  moreover have "\<exists>e. stream_frames rest = ([], Some e) \<and> exn_class e = Gateway_Protocol_Error"
    if "0 < length rest" and "length rest < GATEWAY_RECORD_SIZE"
    using that by (simp add: stream_frames.simps [of rest])
  ultimately show ?thesis by auto
qed

theorem gateway_frames_exact_witness:
  "\<exists>s'. client_frames \<lparr>connection = \<lparr>pending = stream_of [sample_frame, other_frame],
        schedule = [Deliver 1, Deliver 5, Deliver 30], sock_closed = False\<rparr>, client_closed = False\<rparr>
     = ([sample_frame, other_frame], None, s')"
  using gateway_frames_exact [OF _ sample_frames_encodable, of
      "\<lparr>pending = stream_of [sample_frame, other_frame],
        schedule = [Deliver 1, Deliver 5, Deliver 30], sock_closed = False\<rparr>" "[]"]
  by (simp add: reliable_def)

lemma open_client_Inr:
  assumes "open_client s = (Inr c, s')"
  shows "connection c = s' \<and> \<not> client_closed c \<and> pending s = GATEWAY_MAGIC @ [1, 0, 0, 0] @ pending s'"
proof -
  from assms obtain h where re: "read_exact s 8 ''connection header'' False = (Inr h, s')"
    and h: "decode_gateway_header h = Inr ()" and "c = \<lparr>connection = s', client_closed = False\<rparr>"
    by (auto simp: open_client_def split: prod.splits sum.splits)
  then show ?thesis using read_exact_Inr [OF re] h by (simp add: header_ok_iff)
qed

text \<open>Opening a client on a reliable connection succeeds exactly when the stream starts with the
  protocol header, consumes only that header, and whenever opening fails the socket is closed.\<close>

theorem open_client_exact:
  assumes "open_client s = (res, s')"
  shows "case res of
      Inr c \<Rightarrow> connection c = s' \<and> \<not> client_closed c
        \<and> pending s = GATEWAY_MAGIC @ [1, 0, 0, 0] @ pending s'
    | Inl e \<Rightarrow> sock_closed s'
        \<and> (reliable s \<longrightarrow> \<not> (\<exists>rest. pending s = GATEWAY_MAGIC @ [1, 0, 0, 0] @ rest))"
proof (cases res)
  case (Inr c)
  with open_client_Inr [of s c s'] assms show ?thesis by simp
next
  case (Inl e)
  then have "sock_closed s'"
    using assms by (auto simp: open_client_def client_close_def sock_close_def split: prod.splits sum.splits)
  moreover have False if "reliable s" and p: "pending s = GATEWAY_MAGIC @ [1, 0, 0, 0] @ rest" for rest
  proof -
    have "read_outcome 8 ''connection header'' False (pending s) = Inr (GATEWAY_MAGIC @ [1, 0, 0, 0])"
      using p by (simp add: read_outcome_def GATEWAY_MAGIC_def)
    moreover have "decode_gateway_header (GATEWAY_MAGIC @ [1, 0, 0, 0]) = Inr ()"
      unfolding header_ok_iff by simp
    ultimately show False
      using read_exact_reliable [OF that(1), of 8 "''connection header''" False] assms Inl
      by (auto simp: open_client_def)
  qed
  ultimately show ?thesis using Inl by auto
qed

theorem open_client_exact_witness:
  "\<exists>c s'. open_client \<lparr>pending = GATEWAY_MAGIC @ [1, 0, 0, 0], schedule = [Deliver 3], sock_closed = False\<rparr>
     = (Inr c, s') \<and> pending (connection c) = []"
proof -
  let ?s = "\<lparr>pending = GATEWAY_MAGIC @ [1, 0, 0, 0], schedule = [Deliver 3], sock_closed = False\<rparr>"
  obtain res s' where o: "open_client ?s = (res, s')" by force
  from open_client_exact [OF o] show ?thesis
    using o by (cases res) (auto simp: reliable_def)
qed



end
