(* ===== verification/Telemetry_Properties.thy ===== *)
theory Telemetry_Properties
  imports Telemetry_Engine "HOL-Library.Sublist"
begin

text \<open>
  The properties of the signal catalog and of the telemetry engine: every read of an engine that was
  fed any frames is a function of the log of the frames it accepted; a refused frame changes
  nothing; snapshots are coherent.
\<close>

section \<open>Runs\<close>

text \<open>Feeding frames in order; a refused frame is dropped, as a caller that catches the exception does.\<close>

fun telemetry_feed ::
  "telemetry_engine \<Rightarrow> decoded_can_frame list \<Rightarrow> telemetry_engine \<times> telemetry_log" where
  "telemetry_feed e [] = (e, [])"
| "telemetry_feed e (f # fs) =
     (case telemetry_ingest e f of
        (Inl ex, e1) \<Rightarrow> telemetry_feed e1 fs
      | (Inr ss, e1) \<Rightarrow> (case telemetry_feed e1 fs of (e2, l) \<Rightarrow> (e2, (f, ss) # l)))"

lemma telemetry_feed_represents:
  "represents e l0 \<Longrightarrow> telemetry_feed e fs = (e', l) \<Longrightarrow>
     represents e' (l0 @ l) \<and> subseq (map fst l) fs \<and> te_catalog e' = te_catalog e
     \<and> te_history_capacity e' = te_history_capacity e"
proof (induction e fs arbitrary: l0 e' l rule: telemetry_feed.induct)
  case (2 e f fs)
  show ?case
  proof (cases "telemetry_ingest e f")
    case (Pair res e1)
    show ?thesis
    proof (cases res)
      case (Inl ex)
      with Pair telemetry_ingest_Inl [of e f ex e1] have "e1 = e" by simp
      with "2.IH"(1) [OF Pair [symmetric] Inl, of l0 e' l] "2.prems" Pair Inl show ?thesis by auto
    next
      case (Inr ss)
      obtain l1 where rest: "telemetry_feed e1 fs = (e', l1)" and l: "l = (f, ss) # l1"
        using "2.prems"(2) Pair Inr by (auto split: prod.splits)
      have ing: "telemetry_ingest e f = (Inr ss, e1)" using Pair Inr by simp
      have "te_catalog e1 = te_catalog e" and "te_history_capacity e1 = te_history_capacity e"
        by (simp_all add: telemetry_ingest_Inr(2) [OF ing])
      with "2.IH"(2) [OF Pair [symmetric] Inr represents_ingest [OF "2.prems"(1) ing] rest] l
      show ?thesis by simp
    qed
  qed
qed auto

definition sample_metadata :: can_database_metadata where
  "sample_metadata =
     [\<lparr>mm_arbitration_id = 1282, mm_message_name = ''M'', mm_transmitter = ''DME'',
       mm_cycle_time_microseconds = 100,
       mm_signals = [\<lparr>sm_signal_name = ''S'', sm_unit = ''V''\<rparr>, \<lparr>sm_signal_name = ''R'', sm_unit = ''''\<rparr>]\<rparr>]"

definition sample_signal_catalog :: signal_catalog where
  "sample_signal_catalog = (case make_signal_catalog sample_metadata of Inr c \<Rightarrow> c | Inl _ \<Rightarrow> empty_catalog)"

lemma sample_signal_catalog: "make_signal_catalog sample_metadata = Inr sample_signal_catalog"
proof -
  have "\<exists>c. make_signal_catalog sample_metadata = Inr c"
    unfolding make_catalog_iff
    by (simp add: sample_metadata_def metadata_definitions_def make_definition_def)
  then show ?thesis by (auto simp: sample_signal_catalog_def)
qed

definition decoded_sample :: "int \<Rightarrow> rat \<Rightarrow> decoded_can_frame" where
  "decoded_sample t v = make_decoded_can_frame 1282 ''M'' t [(''S'', Py_Float (Finite v))]"

definition sample_engine :: telemetry_engine where
  "sample_engine = telemetry_reset
     \<lparr>te_catalog = sample_signal_catalog, te_history_capacity = 2, te_latest = [], te_histories = [],
      te_next_frame_sequence = 0, te_total_frames = 0, te_total_signal_updates = 0,
      te_latest_timestamp_microseconds = None, te_last_frame_sequence = None,
      te_frames_by_arbitration_id = []\<rparr>"

lemma sample_engine: "make_telemetry_engine sample_signal_catalog (Py_Int 2) = Inr sample_engine"
  by (simp add: make_telemetry_engine_def sample_engine_def telemetry_reset_def not_plain_int_def)

definition sample_feed :: "decoded_can_frame list" where
  "sample_feed = [decoded_sample 100 12, decoded_sample 90 11, decoded_sample 200 13, decoded_sample 300 14]"

lemma sample_feed_result:
  "let (e, l) = telemetry_feed sample_engine sample_feed
   in length l = 3 \<and> te_latest_timestamp_microseconds e = Some 300"
  by code_simp

section \<open>The signal catalog\<close>

text \<open>A catalog is built exactly from the databases whose message IDs are distinct and whose signal
  keys are distinct, in database order; a lookup gives the definition with that key and nothing else,
  and a short signal name resolves exactly when a single message has it.\<close>

theorem signal_catalog_exact:
  "((\<exists>c. make_signal_catalog ms = Inr c) \<longleftrightarrow>
      distinct (map mm_arbitration_id ms) \<and> distinct (map sd_key (metadata_definitions ms)))
   \<and> (\<forall>c. make_signal_catalog ms = Inr c \<longrightarrow>
        cat_definitions c = metadata_definitions ms
        \<and> (\<forall>k d. catalog_get c k = Some d \<longleftrightarrow> d \<in> set (metadata_definitions ms) \<and> sd_key d = k)
        \<and> (\<forall>name. find_unique_signal c name =
             (case filter (\<lambda>k. key_signal_name k = name) (map sd_key (metadata_definitions ms)) of
                [] \<Rightarrow> Inr None
              | [k] \<Rightarrow> Inr (Some k)
              | ks \<Rightarrow> raise Telemetry_Schema_Error
                  (''signal name '' @ py_repr name @ '' is ambiguous across ''
                     @ str_int (int (length ks)) @ '' messages''))))"
proof (intro conjI allI impI)
  show "(\<exists>c. make_signal_catalog ms = Inr c) \<longleftrightarrow>
      distinct (map mm_arbitration_id ms) \<and> distinct (map sd_key (metadata_definitions ms))"
    by (rule make_catalog_iff)
  fix c assume "make_signal_catalog ms = Inr c"
  from make_catalog_catalogued [OF this] have cat: "catalogued c ms (metadata_definitions ms)" .
  then show "cat_definitions c = metadata_definitions ms" by (simp add: catalogued_def)
  show "catalog_get c k = Some d \<longleftrightarrow> d \<in> set (metadata_definitions ms) \<and> sd_key d = k" for k d
    using cat by (simp add: catalog_get_def catalogued_def map_of_keyed_Some)
  fix name
  define ks where "ks = filter (\<lambda>k. key_signal_name k = name) (map sd_key (metadata_definitions ms))"
  have "(case dict_get (cat_keys_by_signal_name c) name of None \<Rightarrow> [] | Some ks \<Rightarrow> ks) = ks"
    using cat by (simp add: catalogued_def ks_def)
  then have "find_unique_signal c name =
      (case ks of [] \<Rightarrow> Inr None | [k] \<Rightarrow> Inr (Some k)
       | ks \<Rightarrow> raise Telemetry_Schema_Error
           (''signal name '' @ py_repr name @ '' is ambiguous across ''
              @ str_int (int (length ks)) @ '' messages''))"
    by (simp add: find_unique_signal_def Let_def split: list.splits)
  then show "find_unique_signal c name =
      (case filter (\<lambda>k. key_signal_name k = name) (map sd_key (metadata_definitions ms)) of
         [] \<Rightarrow> Inr None
       | [k] \<Rightarrow> Inr (Some k)
       | ks \<Rightarrow> raise Telemetry_Schema_Error
           (''signal name '' @ py_repr name @ '' is ambiguous across ''
              @ str_int (int (length ks)) @ '' messages''))"
    unfolding ks_def .
qed

theorem signal_catalog_exact_witness:
  "catalog_get sample_signal_catalog (Signal_Key ''M'' ''R'') \<noteq> None
     \<and> find_unique_signal sample_signal_catalog ''S'' = Inr (Some (Signal_Key ''M'' ''S''))"
proof -
  note exact = signal_catalog_exact [of sample_metadata, THEN conjunct2, rule_format, OF sample_signal_catalog]
  have "make_definition (hd sample_metadata) \<lparr>sm_signal_name = ''R'', sm_unit = ''''\<rparr>
      \<in> set (metadata_definitions sample_metadata)"
    by (simp add: sample_metadata_def metadata_definitions_def)
  moreover have "sd_key (make_definition (hd sample_metadata) \<lparr>sm_signal_name = ''R'', sm_unit = ''''\<rparr>)
      = Signal_Key ''M'' ''R''" by (simp add: sample_metadata_def)
  moreover have "find_unique_signal sample_signal_catalog ''S'' = Inr (Some (Signal_Key ''M'' ''S''))"
    using exact by (simp add: sample_metadata_def metadata_definitions_def)
  ultimately show ?thesis using exact by blast
qed

section \<open>The telemetry engine\<close>

text \<open>C12: whatever frames an engine is fed, its reads are functions of the log of those it accepted: the
  latest value of a signal is the last sample in the log, its history the newest ones up to the
  capacity, and the statistics count the log; accepted frames are in nondecreasing time, and a signal
  that is not in the catalog is refused.\<close>

theorem telemetry_reads_the_log:
  assumes "make_signal_catalog ms = Inr c" and "\<forall>m \<in> set ms. 0 < mm_cycle_time_microseconds m"
    and "make_telemetry_engine c capacity = Inr e0" and "telemetry_feed e0 fs = (e, l)"
  shows "subseq (map fst l) fs \<and> sorted (map (df_timestamp_microseconds \<circ> fst) l)
    \<and> (\<forall>k. case catalog_get c k of
         None \<Rightarrow> (\<exists>ex. telemetry_latest e k = Inl ex \<and> telemetry_history e k = Inl ex
           \<and> exn_class ex = Telemetry_Schema_Error)
       | Some d \<Rightarrow> telemetry_latest e k = Inr (last_opt (samples_of l k))
           \<and> telemetry_history e k = Inr (last_n (nat (int_value capacity)) (samples_of l k)))
    \<and> st_total_frames (telemetry_statistics_of e) = int (length l)
    \<and> st_total_signal_updates (telemetry_statistics_of e) = int (length (log_samples l))
    \<and> st_latest_timestamp_microseconds (telemetry_statistics_of e)
        = map_option (df_timestamp_microseconds \<circ> fst) (last_opt l)
    \<and> (\<forall>i. (case dict_get (st_frames_by_arbitration_id (telemetry_statistics_of e)) i of
            None \<Rightarrow> 0 | Some n \<Rightarrow> n) = id_count l i)"
proof -
  have "wf_catalog c" using assms(1,2) by (auto simp: wf_catalog_def)
  then have "represents e0 []" using represents_make [OF assms(3)] by simp
  from telemetry_feed_represents [OF this assms(4)]
  have rep: "represents e l" and sub: "subseq (map fst l) fs"
    and cat: "te_catalog e = te_catalog e0" and cap: "te_history_capacity e = te_history_capacity e0" by auto
  have e0: "te_catalog e0 = c" "te_history_capacity e0 = int_value capacity"
    using assms(3) by (auto simp: make_telemetry_engine_def split: if_splits)
  have reads: "case catalog_get c k of
         None \<Rightarrow> (\<exists>ex. telemetry_latest e k = Inl ex \<and> telemetry_history e k = Inl ex
           \<and> exn_class ex = Telemetry_Schema_Error)
       | Some d \<Rightarrow> telemetry_latest e k = Inr (last_opt (samples_of l k))
           \<and> telemetry_history e k = Inr (last_n (nat (int_value capacity)) (samples_of l k))" for k
    using rep by (auto simp: telemetry_latest_def telemetry_history_def catalog_require_def cat cap e0
        represents_def split: option.splits)
  show ?thesis
    using rep sub reads by (simp add: represents_def log_ok_def telemetry_statistics_of_def dict_of_distinct)
qed

theorem telemetry_reads_the_log_witness:
  "\<exists>e l. telemetry_feed sample_engine sample_feed = (e, l) \<and> length l = 3
     \<and> st_total_frames (telemetry_statistics_of e) = 3
     \<and> telemetry_history e (Signal_Key ''M'' ''S'') = Inr (last_n 2 (samples_of l (Signal_Key ''M'' ''S'')))"
proof -
  obtain e l where f: "telemetry_feed sample_engine sample_feed = (e, l)" by force
  then have "length l = 3" using sample_feed_result by simp
  moreover have "catalog_get sample_signal_catalog (Signal_Key ''M'' ''S'') \<noteq> None" by code_simp
  moreover have "\<forall>m \<in> set sample_metadata. 0 < mm_cycle_time_microseconds m" by (simp add: sample_metadata_def)
  ultimately show ?thesis
    using telemetry_reads_the_log [OF sample_signal_catalog _ sample_engine f] f
    by (auto split: option.splits dest: spec [of _ "Signal_Key ''M'' ''S''"])
qed

text \<open>C22: a frame that an engine refuses leaves every field of it as it was, and is refused for one of two
  reasons: it is older than the last accepted frame, or it does not match the catalog (or carries a
  value that is no bool, int or float).\<close>

theorem telemetry_refusal_is_atomic:
  assumes "make_signal_catalog ms = Inr c" and "\<forall>m \<in> set ms. 0 < mm_cycle_time_microseconds m"
    and "make_telemetry_engine c capacity = Inr e0" and "telemetry_feed e0 fs = (e, l)"
    and "telemetry_ingest e f = (Inl ex, e')"
  shows "e' = e \<and> (if \<exists>t. te_latest_timestamp_microseconds e = Some t \<and> df_timestamp_microseconds f < t
      then exn_class ex = Out_Of_Order_Telemetry_Error
      else exn_class ex = Telemetry_Schema_Error)"
proof -
  have "wf_catalog c" using assms(1,2) by (auto simp: wf_catalog_def)
  then have "represents e0 []" using represents_make [OF assms(3)] by simp
  from telemetry_feed_represents [OF this assms(4)] have rep: "represents e l" by simp
  then have wf: "wf_catalog (te_catalog e)" by (simp add: represents_def)
  have fs: "frame_samples e f = Inl ex"
    using assms(5) by (auto simp: telemetry_ingest_def Let_def split: sum.splits)
  show ?thesis
  proof (cases "\<exists>t. te_latest_timestamp_microseconds e = Some t \<and> df_timestamp_microseconds f < t")
    case True
    then show ?thesis
      using fs telemetry_ingest_Inl [OF assms(5)] by (auto simp: frame_samples_def check_order_def)
  next
    case False
    then have "check_order e f = Inr ()" by (auto simp: check_order_def split: option.splits)
    moreover have "length ds = length (df_signals f)" if "definitions_for_frame (te_catalog e) f = Inr ds" for ds
      using definitions_for_frame_keys [OF wf that] by (metis length_map)
    ultimately have "exn_class ex = Telemetry_Schema_Error"
      using fs definitions_for_frame_error [of "te_catalog e" f]
      by (cases "definitions_for_frame (te_catalog e) f")
        (auto simp: frame_samples_def zip_strict_def Let_def split: if_splits)
    then show ?thesis using False telemetry_ingest_Inl [OF assms(5)] by auto
  qed
qed

theorem telemetry_refusal_is_atomic_witness:
  "\<exists>e l ex. telemetry_feed sample_engine sample_feed = (e, l)
     \<and> telemetry_ingest e (decoded_sample 299 12) = (Inl ex, e)
     \<and> exn_class ex = Out_Of_Order_Telemetry_Error"
proof -
  obtain e l where f: "telemetry_feed sample_engine sample_feed = (e, l)" by force
  then have t: "te_latest_timestamp_microseconds e = Some 300" using sample_feed_result by simp
  have "Some (df_timestamp_microseconds (decoded_sample 299 12)) = Some 299"
    by (simp add: decoded_sample_def make_decoded_can_frame_def)
  from telemetry_clock.backward_refused [OF this t] obtain ex e1
    where "telemetry_ingest e (decoded_sample 299 12) = (Inl ex, e1)" by auto
  with telemetry_ingest_Inl [OF this] have ing: "telemetry_ingest e (decoded_sample 299 12) = (Inl ex, e)"
    by simp
  have "\<forall>m \<in> set sample_metadata. 0 < mm_cycle_time_microseconds m" by (simp add: sample_metadata_def)
  from telemetry_refusal_is_atomic [OF sample_signal_catalog this sample_engine f ing] t f ing show ?thesis
    by (auto simp: decoded_sample_def make_decoded_can_frame_def split: if_splits)
qed

text \<open>C13: a snapshot of an engine that was fed any frames never raises and is coherent: its samples are
  the latest ones, its time the last accepted one, every sample has a freshness and nothing else does,
  no sample is in the future, and a sample is fresh exactly while its age is at most twice the expected
  period of its message.\<close>

theorem telemetry_snapshot_coherent:
  assumes "make_signal_catalog ms = Inr c" and "\<forall>m \<in> set ms. 0 < mm_cycle_time_microseconds m"
    and "make_telemetry_engine c capacity = Inr e0" and "telemetry_feed e0 fs = (e, l)"
  shows "\<exists>sn. telemetry_snapshot_of e None = Inr sn
    \<and> sn_observation_timestamp_microseconds sn = te_latest_timestamp_microseconds e
    \<and> (\<forall>k. dict_get (sn_samples sn) k = last_opt (samples_of l k))
    \<and> dict_keys (sn_freshness sn) = dict_keys (sn_samples sn)
    \<and> (\<forall>k s. dict_get (sn_samples sn) k = Some s \<longrightarrow>
         (\<exists>d t. catalog_get c k = Some d \<and> sn_observation_timestamp_microseconds sn = Some t
            \<and> ss_timestamp_microseconds s \<le> t
            \<and> snapshot_status sn k = Some
                (if t - ss_timestamp_microseconds s \<le> 2 * sd_expected_period_microseconds d
                 then FRESH else STALE)))"
proof -
  have "wf_catalog c" using assms(1,2) by (auto simp: wf_catalog_def)
  then have "represents e0 []" using represents_make [OF assms(3)] by simp
  from telemetry_feed_represents [OF this assms(4)]
  have rep: "represents e l" and cat: "te_catalog e = te_catalog e0" by auto
  have "te_catalog e0 = c" using assms(3) by (auto simp: make_telemetry_engine_def split: if_splits)
  with cat have c: "te_catalog e = c" by simp
  from represents_snapshot [OF rep] obtain sn where snap: "telemetry_snapshot_of e None = Inr sn"
    and smp: "sn_samples sn = te_latest e"
    and obs: "sn_observation_timestamp_microseconds sn = te_latest_timestamp_microseconds e"
    and keys: "dict_keys (sn_freshness sn) = dict_keys (te_latest e)"
    and st: "\<And>k s. dict_get (te_latest e) k = Some s \<Longrightarrow>
      \<exists>d t. catalog_get (te_catalog e) k = Some d \<and> te_latest_timestamp_microseconds e = Some t
        \<and> snapshot_status sn k = Some (freshness_at d s t)" by blast
  have "\<exists>d t. catalog_get c k = Some d \<and> te_latest_timestamp_microseconds e = Some t
      \<and> ss_timestamp_microseconds s \<le> t
      \<and> snapshot_status sn k = Some
          (if t - ss_timestamp_microseconds s \<le> 2 * sd_expected_period_microseconds d then FRESH else STALE)"
    if get: "dict_get (te_latest e) k = Some s" for k s
    using st [OF get] represents_latest(3) [OF rep get] by (auto simp: c freshness_at_def algebra_simps)
  moreover have "dict_get (te_latest e) k = last_opt (samples_of l k)" for k
    using rep by (simp add: represents_def)
  ultimately show ?thesis
    using snap keys by (intro exI [of _ sn]) (simp add: smp obs)
qed

theorem telemetry_snapshot_coherent_witness:
  "\<exists>e l sn. telemetry_feed sample_engine sample_feed = (e, l) \<and> telemetry_snapshot_of e None = Inr sn
     \<and> sn_observation_timestamp_microseconds sn = Some 300"
proof -
  obtain e l where f: "telemetry_feed sample_engine sample_feed = (e, l)" by force
  then have "te_latest_timestamp_microseconds e = Some 300" using sample_feed_result by simp
  moreover have "\<forall>m \<in> set sample_metadata. 0 < mm_cycle_time_microseconds m" by (simp add: sample_metadata_def)
  ultimately show ?thesis
    using telemetry_snapshot_coherent [OF sample_signal_catalog _ sample_engine f] f by auto
qed

end
