(* ===== verification/Can_Explorer.thy ===== *)
theory Can_Explorer
  imports Dbc_Decoder
begin

text \<open>
  Bounded raw-CAN inspection (\<open>can/explorer.py\<close>): the newest frames in arrival order, each annotated
  by the database and decoded when it can be, with statistics per arbitration ID that are updated
  incrementally on arrival and eviction. The specification is the unbounded list of observed frames.
\<close>

section \<open>Value types\<close>

abbreviation (input) DEFAULT_CAN_EXPLORER_CAPACITY :: int where
  "DEFAULT_CAN_EXPLORER_CAPACITY \<equiv> 4096"

datatype can_decode_status = DECODED | UNKNOWN | ERROR

record can_explorer_signal =
  es_signal_name :: string
  es_value :: signal_value
  es_unit :: string

record can_explorer_frame =
  ef_sequence :: int
  ef_raw_frame :: raw_can_frame
  ef_message_name :: "string option"
  ef_source_ecu :: "string option"
  ef_expected_period_microseconds :: "int option"
  ef_decode_status :: can_decode_status
  ef_decode_error :: "string option"
  ef_decoded_signals :: "can_explorer_signal list"

record can_message_statistics =
  cm_arbitration_id :: int
  cm_message_name :: "string option"
  cm_source_ecu :: "string option"
  cm_retained_frame_count :: int
  cm_total_frame_count :: int
  cm_first_timestamp_microseconds :: int
  cm_latest_timestamp_microseconds :: int
  cm_expected_period_microseconds :: "int option"
  cm_observed_average_period_microseconds :: "pyfloat option"
  cm_observed_frequency_hz :: "pyfloat option"
  cm_latest_dlc :: int

record can_explorer_statistics =
  cs_retained_frame_count :: int
  cs_total_frame_count :: int
  cs_unique_id_count :: int
  cs_oldest_retained_timestamp_microseconds :: "int option"
  cs_newest_retained_timestamp_microseconds :: "int option"
  cs_last_sequence :: "int option"

record can_explorer_snapshot =
  cx_frames :: "can_explorer_frame list"
  cx_statistics :: can_explorer_statistics
  cx_messages :: "can_message_statistics list"

record mutable_message_statistics =
  mms_arbitration_id :: int
  mms_metadata :: "can_message_metadata option"
  mms_retained_frame_count :: int
  mms_total_frame_count :: int
  mms_first_timestamp_microseconds :: int
  mms_latest_timestamp_microseconds :: int
  mms_latest_dlc :: int

section \<open>The explorer\<close>

record can_explorer =
  ce_decoder :: dbc_decoder
  ce_metadata_by_id :: "(int, can_message_metadata) dict"
  ce_capacity :: int
  ce_frames :: "can_explorer_frame list"
  ce_messages :: "(int, mutable_message_statistics) dict"
  ce_next_sequence :: int

definition make_can_explorer :: "dbc_decoder \<Rightarrow> py_value \<Rightarrow> can_explorer result" where
  "make_can_explorer decoder capacity =
     (if not_plain_int capacity then raise Type_Error ''CAN explorer capacity must be an integer''
      else if int_value capacity \<le> 0 then raise Value_Error ''CAN explorer capacity must be positive''
      else Inr \<lparr>ce_decoder = decoder,
                ce_metadata_by_id = dict_of (map (\<lambda>m. (mm_arbitration_id m, m)) (dec_metadata decoder)),
                ce_capacity = int_value capacity, ce_frames = [], ce_messages = [],
                ce_next_sequence = 0\<rparr>)"

text \<open>The \<open>try\<close> block of \<open>ingest\<close>: metadata, status, error text and signals of a frame.\<close>

definition explorer_signal ::
  "(string, signal_value) dict \<Rightarrow> can_signal_metadata \<Rightarrow> can_explorer_signal result" where
  "explorer_signal values s =
     (case dict_get values (sm_signal_name s) of
        None \<Rightarrow> raise Key_Error (py_repr (sm_signal_name s))
      | Some v \<Rightarrow> Inr \<lparr>es_signal_name = sm_signal_name s, es_value = v, es_unit = sm_unit s\<rparr>)"

type_synonym annotation =
  "can_message_metadata option \<times> can_decode_status \<times> string option \<times> can_explorer_signal list"

definition annotate :: "msg_decoder \<Rightarrow> can_explorer \<Rightarrow> raw_can_frame \<Rightarrow> annotation result" where
  "annotate msg_decode e f =
     (case dict_get (ce_metadata_by_id e) (arbitration_id f) of
        None \<Rightarrow> Inr (None, UNKNOWN, None, [])
      | Some m \<Rightarrow>
          (case rbind (decode_frame msg_decode (ce_decoder e) f) (\<lambda>decoded.
                  mapM (explorer_signal (df_signals decoded)) (mm_signals m)) of
             Inr signals \<Rightarrow> Inr (Some m, DECODED, None, signals)
           | Inl ex \<Rightarrow>
               if catches Unknown_Can_Frame_Error ex then Inr (None, UNKNOWN, None, [])
               else if catches Can_Decode_Error ex then Inr (Some m, ERROR, Some (exn_message ex), [])
               else Inl ex))"

definition explorer_frame :: "int \<Rightarrow> raw_can_frame \<Rightarrow> annotation \<Rightarrow> can_explorer_frame" where
  "explorer_frame sequence f a =
     (case a of (metadata, status, error, signals) \<Rightarrow>
        \<lparr>ef_sequence = sequence, ef_raw_frame = f,
         ef_message_name = map_option mm_message_name metadata,
         ef_source_ecu = map_option mm_transmitter metadata,
         ef_expected_period_microseconds = map_option mm_cycle_time_microseconds metadata,
         ef_decode_status = status, ef_decode_error = error, ef_decoded_signals = signals\<rparr>)"

definition update_message ::
  "raw_can_frame \<Rightarrow> can_message_metadata option \<Rightarrow> (int, mutable_message_statistics) dict
     \<Rightarrow> (int, mutable_message_statistics) dict" where
  "update_message f metadata ms =
     (case dict_get ms (arbitration_id f) of
        None \<Rightarrow>
          dict_set (arbitration_id f)
            \<lparr>mms_arbitration_id = arbitration_id f, mms_metadata = metadata,
             mms_retained_frame_count = 1, mms_total_frame_count = 1,
             mms_first_timestamp_microseconds = timestamp_microseconds f,
             mms_latest_timestamp_microseconds = timestamp_microseconds f,
             mms_latest_dlc = payload_length f\<rparr> ms
      | Some s \<Rightarrow>
          dict_set (arbitration_id f)
            (s\<lparr>mms_retained_frame_count := mms_retained_frame_count s + 1,
               mms_total_frame_count := mms_total_frame_count s + 1,
               mms_latest_timestamp_microseconds := timestamp_microseconds f,
               mms_latest_dlc := payload_length f\<rparr>) ms)"

text \<open>The eviction bookkeeping before a full deque drops its oldest frame.\<close>

definition evict_oldest ::
  "can_explorer \<Rightarrow> (int, mutable_message_statistics) dict result" where
  "evict_oldest e =
     (if int (length (ce_frames e)) = ce_capacity e then
        let i = arbitration_id (ef_raw_frame (hd (ce_frames e)))
        in case dict_get (ce_messages e) i of
             None \<Rightarrow> raise Key_Error (str_int i)
           | Some s \<Rightarrow>
               Inr (dict_set i (s\<lparr>mms_retained_frame_count := mms_retained_frame_count s - 1\<rparr>)
                      (ce_messages e))
      else Inr (ce_messages e))"

definition store_explorer_frame :: "can_explorer \<Rightarrow> can_explorer_frame \<Rightarrow> can_explorer" where
  "store_explorer_frame e x = e\<lparr>ce_frames := deque_append (nat (ce_capacity e)) (ce_frames e) x\<rparr>"

definition explorer_ingest ::
  "msg_decoder \<Rightarrow> can_explorer \<Rightarrow> raw_can_frame \<Rightarrow> can_explorer_frame result \<times> can_explorer" where
  "explorer_ingest msg_decode e f =
     (case annotate msg_decode e f of
        Inl ex \<Rightarrow> (Inl ex, e)
      | Inr a \<Rightarrow>
          let frame = explorer_frame (ce_next_sequence e) f a;
              e1 = e\<lparr>ce_next_sequence := ce_next_sequence e + 1\<rparr>
          in (case evict_oldest e1 of
                Inl ex \<Rightarrow> (Inl ex, e1)
              | Inr messages \<Rightarrow>
                  (Inr frame,
                   (store_explorer_frame e1 frame)\<lparr>ce_messages := update_message f (fst a) messages\<rparr>)))"

section \<open>Reads\<close>

definition frame_matches ::
  "int option \<Rightarrow> string option \<Rightarrow> string option \<Rightarrow> can_explorer_frame \<Rightarrow> bool" where
  "frame_matches aid name ecu x =
     ((case aid of None \<Rightarrow> True | Some i \<Rightarrow> arbitration_id (ef_raw_frame x) = i)
      \<and> (case name of None \<Rightarrow> True | Some n \<Rightarrow> ef_message_name x = Some n)
      \<and> (case ecu of None \<Rightarrow> True | Some u \<Rightarrow> ef_source_ecu x = Some u))"

definition explorer_frames ::
  "can_explorer \<Rightarrow> py_value \<Rightarrow> int option \<Rightarrow> string option \<Rightarrow> string option
     \<Rightarrow> can_explorer_frame list result" where
  "explorer_frames e limit aid name ecu =
     (let result = filter (frame_matches aid name ecu) (ce_frames e)
      in if limit = Py_None then Inr result
         else if not_plain_int limit then raise Type_Error ''CAN frame limit must be an integer''
         else if int_value limit \<le> 0 then raise Value_Error ''CAN frame limit must be positive''
         else Inr (slice_last (int_value limit) result))"

definition explorer_frame_at :: "can_explorer \<Rightarrow> int \<Rightarrow> can_explorer_frame option" where
  "explorer_frame_at e sequence = find (\<lambda>x. ef_sequence x = sequence) (ce_frames e)"

definition observed_average :: "mutable_message_statistics \<Rightarrow> pyfloat option result" where
  "observed_average s =
     (if 2 \<le> mms_total_frame_count s then
        rbind (int_truediv
                 (mms_latest_timestamp_microseconds s - mms_first_timestamp_microseconds s)
                 (mms_total_frame_count s - 1)) (\<lambda>period. Inr (Some period))
      else Inr None)"

definition observed_frequency :: "pyfloat option \<Rightarrow> pyfloat option result" where
  "observed_frequency average =
     (case average of
        None \<Rightarrow> Inr None
      | Some period \<Rightarrow>
          if float_less (Finite 0) period
          then rbind (float_div (Finite 1000000) period) (\<lambda>frequency. Inr (Some frequency))
          else Inr None)"

definition freeze_message :: "mutable_message_statistics \<Rightarrow> can_message_statistics result" where
  "freeze_message s =
     rbind (observed_average s) (\<lambda>period.
     rbind (observed_frequency period) (\<lambda>frequency.
       Inr \<lparr>cm_arbitration_id = mms_arbitration_id s,
            cm_message_name = map_option mm_message_name (mms_metadata s),
            cm_source_ecu = map_option mm_transmitter (mms_metadata s),
            cm_retained_frame_count = mms_retained_frame_count s,
            cm_total_frame_count = mms_total_frame_count s,
            cm_first_timestamp_microseconds = mms_first_timestamp_microseconds s,
            cm_latest_timestamp_microseconds = mms_latest_timestamp_microseconds s,
            cm_expected_period_microseconds = map_option mm_cycle_time_microseconds (mms_metadata s),
            cm_observed_average_period_microseconds = period,
            cm_observed_frequency_hz = frequency,
            cm_latest_dlc = mms_latest_dlc s\<rparr>))"

definition explorer_message_statistic ::
  "can_explorer \<Rightarrow> int \<Rightarrow> can_message_statistics result" where
  "explorer_message_statistic e i =
     (case dict_get (ce_messages e) i of
        None \<Rightarrow> raise Key_Error (str_int i) | Some s \<Rightarrow> freeze_message s)"

definition explorer_message_statistics :: "can_explorer \<Rightarrow> can_message_statistics list result" where
  "explorer_message_statistics e =
     mapM (explorer_message_statistic e) (sort (dict_keys (ce_messages e)))"

definition explorer_statistics :: "can_explorer \<Rightarrow> can_explorer_statistics" where
  "explorer_statistics e =
     (let stamp = \<lambda>x. timestamp_microseconds (ef_raw_frame x)
      in \<lparr>cs_retained_frame_count = int (length (ce_frames e)),
          cs_total_frame_count = ce_next_sequence e,
          cs_unique_id_count = int (length (ce_messages e)),
          cs_oldest_retained_timestamp_microseconds =
            (if ce_frames e = [] then None else Some (stamp (hd (ce_frames e)))),
          cs_newest_retained_timestamp_microseconds =
            (if ce_frames e = [] then None else Some (stamp (last (ce_frames e)))),
          cs_last_sequence = (if ce_next_sequence e \<noteq> 0 then Some (ce_next_sequence e - 1) else None)\<rparr>)"

definition explorer_snapshot_of :: "can_explorer \<Rightarrow> py_value \<Rightarrow> can_explorer_snapshot result" where
  "explorer_snapshot_of e frame_limit =
     rbind (explorer_frames e frame_limit None None None) (\<lambda>frames.
     rbind (explorer_message_statistics e) (\<lambda>messages.
       Inr \<lparr>cx_frames = frames, cx_statistics = explorer_statistics e, cx_messages = messages\<rparr>))"

definition explorer_reset :: "can_explorer \<Rightarrow> can_explorer" where
  "explorer_reset e = e\<lparr>ce_frames := [], ce_messages := [], ce_next_sequence := 0\<rparr>"

section \<open>The unbounded list of observed frames\<close>

interpretation explorer_log: bounded_log store_explorer_frame ce_frames "\<lambda>e. nat (ce_capacity e)"
  by unfold_locales (simp_all add: store_explorer_frame_def)

abbreviation frame_id_of :: "can_explorer_frame \<Rightarrow> int" where
  "frame_id_of x \<equiv> arbitration_id (ef_raw_frame x)"

definition of_id :: "int \<Rightarrow> can_explorer_frame list \<Rightarrow> can_explorer_frame list" where
  "of_id i xs = filter (\<lambda>x. frame_id_of x = i) xs"

text \<open>The statistics an ID should have, given what was observed and what is retained.\<close>

definition counts ::
  "int \<Rightarrow> can_explorer_frame list \<Rightarrow> can_explorer_frame list \<Rightarrow> mutable_message_statistics \<Rightarrow> bool" where
  "counts i full retained s \<longleftrightarrow> of_id i full \<noteq> [] \<and> mms_arbitration_id s = i
     \<and> mms_retained_frame_count s = int (length (of_id i retained))
     \<and> mms_total_frame_count s = int (length (of_id i full))
     \<and> mms_first_timestamp_microseconds s = timestamp_microseconds (ef_raw_frame (hd (of_id i full)))
     \<and> mms_latest_timestamp_microseconds s = timestamp_microseconds (ef_raw_frame (last (of_id i full)))
     \<and> mms_latest_dlc s = payload_length (ef_raw_frame (last (of_id i full)))
     \<and> map_option mm_message_name (mms_metadata s) = ef_message_name (hd (of_id i full))"

definition tally ::
  "int \<Rightarrow> can_explorer_frame list \<Rightarrow> can_explorer_frame list \<Rightarrow> mutable_message_statistics option \<Rightarrow> bool"
  where
  "tally i full retained v \<longleftrightarrow>
     (case v of None \<Rightarrow> of_id i full = [] | Some s \<Rightarrow> counts i full retained s)"

definition tallied ::
  "can_explorer_frame list \<Rightarrow> can_explorer_frame list \<Rightarrow> (int, mutable_message_statistics) dict \<Rightarrow> bool" where
  "tallied full retained ms \<longleftrightarrow> distinct (dict_keys ms) \<and> (\<forall>i. tally i full retained (dict_get ms i))"

definition explored :: "can_explorer \<Rightarrow> can_explorer_frame list \<Rightarrow> bool" where
  "explored e full \<longleftrightarrow> 0 < ce_capacity e
     \<and> ce_frames e = last_n (nat (ce_capacity e)) full
     \<and> ce_next_sequence e = int (length full)
     \<and> map ef_sequence full = map int [0..<length full]
     \<and> tallied full (ce_frames e) (ce_messages e)"

lemma of_id_append [simp]: "of_id i (xs @ ys) = of_id i xs @ of_id i ys"
  by (simp add: of_id_def)

lemma of_id_Cons [simp]: "of_id i (x # xs) = (if frame_id_of x = i then x # of_id i xs else of_id i xs)"
  by (simp add: of_id_def)

lemma of_id_Nil [simp]: "of_id i [] = []"
  by (simp add: of_id_def)

lemma tallied_at: "tallied full retained ms \<Longrightarrow> tally i full retained (dict_get ms i)"
  by (simp only: tallied_def)

lemma tallied_get: "tallied full retained ms \<Longrightarrow> dict_get ms i = Some s \<Longrightarrow> counts i full retained s"
  using tallied_at [of full retained ms i] by (simp only: tally_def option.case)

lemma tallied_none: "tallied full retained ms \<Longrightarrow> dict_get ms i = None \<Longrightarrow> of_id i full = []"
  using tallied_at [of full retained ms i] by (simp only: tally_def option.case)

lemma tallied_set:
  assumes "tallied full retained ms" and "tally k full' retained' (Some v)"
    and "\<And>i w. i \<noteq> k \<Longrightarrow> tally i full retained w \<Longrightarrow> tally i full' retained' w"
  shows "tallied full' retained' (dict_set k v ms)"
  unfolding tallied_def
proof (intro conjI allI)
  show "distinct (dict_keys (dict_set k v ms))" using assms(1) by (simp add: tallied_def)
  show "tally i full' retained' (dict_get (dict_set k v ms) i)" for i
    using assms(2) assms(3) [OF _ tallied_at [OF assms(1)], of i] by (cases "i = k") simp_all
qed

text \<open>Dropping the oldest retained frame, then adding the new one.\<close>

lemma tallied_evict:
  assumes "tallied full (y # ys) ms" and "dict_get ms (frame_id_of y) = Some s"
  shows "tallied full ys (dict_set (frame_id_of y)
    (s\<lparr>mms_retained_frame_count := mms_retained_frame_count s - 1\<rparr>) ms)"
  by (rule tallied_set [OF assms(1)])
    (use tallied_get [OF assms] in \<open>simp_all add: tally_def counts_def split: option.splits\<close>)

lemma tallied_update:
  assumes tal: "tallied full retained ms" and sub: "set retained \<subseteq> set full"
    and x: "ef_raw_frame x = f" and name: "ef_message_name x = map_option mm_message_name metadata"
  shows "tallied (full @ [x]) (retained @ [x]) (update_message f metadata ms)"
proof (cases "dict_get ms (arbitration_id f)")
  case None
  with tallied_none [OF tal None] have new: "of_id (arbitration_id f) full = []" by simp
  then have "of_id (arbitration_id f) retained = []"
    using sub by (auto simp: of_id_def filter_empty_conv)
  then show ?thesis
    unfolding update_message_def None option.case
    by (intro tallied_set [OF tal])
      (use new x name in \<open>simp_all add: tally_def counts_def split: option.splits\<close>)
next
  case (Some s)
  show ?thesis
    unfolding update_message_def Some option.case
    by (intro tallied_set [OF tal])
      (use tallied_get [OF tal Some] x in \<open>simp_all add: tally_def counts_def split: option.splits\<close>)
qed

lemma explorer_frame_fields [simp]:
  "ef_sequence (explorer_frame i f a) = i" "ef_raw_frame (explorer_frame i f a) = f"
  "ef_message_name (explorer_frame i f a) = map_option mm_message_name (fst a)"
  by (cases a; simp add: explorer_frame_def)+

lemma explorer_ingest_explored:
  assumes exp: "explored e full"
  shows "(\<exists>a. annotate msg_decode e f = Inr a \<and> (\<exists>e'. explorer_ingest msg_decode e f =
        (Inr (explorer_frame (ce_next_sequence e) f a), e')
      \<and> explored e' (full @ [explorer_frame (ce_next_sequence e) f a])))
    \<or> (\<exists>ex. annotate msg_decode e f = Inl ex \<and> explorer_ingest msg_decode e f = (Inl ex, e))"
proof (cases "annotate msg_decode e f")
  case (Inl ex)
  then show ?thesis by (simp add: explorer_ingest_def)
next
  case (Inr a)
  let ?x = "explorer_frame (ce_next_sequence e) f a"
  let ?e1 = "e\<lparr>ce_next_sequence := ce_next_sequence e + 1\<rparr>"
  have cap: "0 < ce_capacity e" and fr: "ce_frames e = last_n (nat (ce_capacity e)) full"
    and nx: "ce_next_sequence e = int (length full)"
    and seq: "map ef_sequence full = map int [0..<length full]"
    and tal: "tallied full (ce_frames e) (ce_messages e)"
    using exp unfolding explored_def by blast+
  have sub: "set (ce_frames e) \<subseteq> set full" by (simp add: fr set_last_n_subset)
  have "\<exists>ms kept. evict_oldest ?e1 = Inr ms \<and> tallied full kept ms \<and> set kept \<subseteq> set full
      \<and> deque_append (nat (ce_capacity e)) (ce_frames e) ?x = kept @ [?x]"
  proof (cases "int (length (ce_frames e)) = ce_capacity e")
    case False
    then have "length (ce_frames e) < nat (ce_capacity e)" using cap by (simp add: fr)
    with False tal sub show ?thesis by (simp add: evict_oldest_def deque_append_room)
  next
    case True
    then obtain y ys where y: "ce_frames e = y # ys" using cap by (cases "ce_frames e") auto
    then have "of_id (frame_id_of y) full \<noteq> []" using sub by (auto simp: of_id_def filter_empty_conv)
    then obtain s where s: "dict_get (ce_messages e) (frame_id_of y) = Some s"
      using tallied_none [OF tal] by (cases "dict_get (ce_messages e) (frame_id_of y)") auto
    have "length (ce_frames e) = nat (ce_capacity e)" using True by simp
    then have "deque_append (nat (ce_capacity e)) (ce_frames e) ?x = ys @ [?x]"
      using cap by (simp add: y deque_append_full)
    moreover have "tallied full ys (dict_set (frame_id_of y)
        (s\<lparr>mms_retained_frame_count := mms_retained_frame_count s - 1\<rparr>) (ce_messages e))"
      using tallied_evict [OF tal [unfolded y] s] .
    ultimately show ?thesis using True s y sub by (simp add: evict_oldest_def Let_def)
  qed
  then obtain ms kept where ev: "evict_oldest ?e1 = Inr ms" and tk: "tallied full kept ms"
    and sk: "set kept \<subseteq> set full"
    and dq: "deque_append (nat (ce_capacity e)) (ce_frames e) ?x = kept @ [?x]" by blast
  let ?e2 = "(store_explorer_frame ?e1 ?x)\<lparr>ce_messages := update_message f (fst a) ms\<rparr>"
  have "tallied (full @ [?x]) (kept @ [?x]) (update_message f (fst a) ms)"
    by (rule tallied_update [OF tk sk]) simp_all
  moreover have "deque_append (nat (ce_capacity e)) (ce_frames e) ?x = last_n (nat (ce_capacity e)) (full @ [?x])"
    using explorer_log.refines_full_log [of e full "[?x]"] fr by (simp add: store_explorer_frame_def)
  ultimately have "explored ?e2 (full @ [?x])"
    using cap nx seq dq by (simp add: explored_def store_explorer_frame_def)
  with Inr ev show ?thesis by (simp add: explorer_ingest_def Let_def)
qed

section \<open>Properties\<close>

lemma observed_average_cases:
  "(\<exists>v. observed_average s = Inr v) \<or> (\<exists>msg. observed_average s = raise Overflow_Error msg)"
proof (cases "2 \<le> mms_total_frame_count s")
  case True
  then have "mms_total_frame_count s - 1 \<noteq> 0" by simp
  with True show ?thesis
    by (auto simp: observed_average_def int_truediv_def split: pyfloat.splits)
qed (simp add: observed_average_def)

lemma observed_frequency_total: "\<exists>v. observed_frequency average = Inr v"
proof (cases average)
  case (Some period)
  show ?thesis
  proof (cases "float_less (Finite 0) period")
    case True
    then have "\<not> float_is_zero period" by (cases period) (auto simp: float_is_zero_def)
    then show ?thesis using True Some by (simp add: observed_frequency_def float_div_def)
  qed (simp add: observed_frequency_def Some)
qed (simp add: observed_frequency_def)

lemma freeze_message_cases:
  "case freeze_message s of
     Inl ex \<Rightarrow> exn_class ex = Overflow_Error
   | Inr m \<Rightarrow> cm_arbitration_id m = mms_arbitration_id s
       \<and> cm_total_frame_count m = mms_total_frame_count s
       \<and> cm_retained_frame_count m = mms_retained_frame_count s
       \<and> cm_first_timestamp_microseconds m = mms_first_timestamp_microseconds s
       \<and> cm_latest_timestamp_microseconds m = mms_latest_timestamp_microseconds s
       \<and> cm_latest_dlc m = mms_latest_dlc s"
proof (cases "observed_average s")
  case (Inl ex)
  with observed_average_cases [of s] show ?thesis by (auto simp: freeze_message_def)
next
  case (Inr v)
  with observed_frequency_total [of v] show ?thesis by (auto simp: freeze_message_def)
qed

text \<open>Observing frames in order; a frame whose decoding raises something unexpected is not stored.\<close>

fun explorer_feed ::
  "msg_decoder \<Rightarrow> can_explorer \<Rightarrow> raw_can_frame list \<Rightarrow> can_explorer \<times> can_explorer_frame list" where
  "explorer_feed msg_decode e [] = (e, [])"
| "explorer_feed msg_decode e (f # fs) =
     (case explorer_ingest msg_decode e f of
        (Inl ex, e1) \<Rightarrow> explorer_feed msg_decode e1 fs
      | (Inr x, e1) \<Rightarrow> (case explorer_feed msg_decode e1 fs of (e2, xs) \<Rightarrow> (e2, x # xs)))"

lemma explorer_feed_explored:
  "explored e full \<Longrightarrow> explorer_feed msg_decode e fs = (e', xs) \<Longrightarrow> explored e' (full @ xs)"
proof (induction msg_decode e fs arbitrary: full e' xs rule: explorer_feed.induct)
  case (2 msg_decode e f fs)
  from explorer_ingest_explored [OF "2.prems"(1), of msg_decode f] show ?case
  proof
    assume "\<exists>a. annotate msg_decode e f = Inr a \<and> (\<exists>e'. explorer_ingest msg_decode e f =
        (Inr (explorer_frame (ce_next_sequence e) f a), e')
      \<and> explored e' (full @ [explorer_frame (ce_next_sequence e) f a]))"
    then obtain x e1 where ing: "explorer_ingest msg_decode e f = (Inr x, e1)"
      and exp: "explored e1 (full @ [x])" by blast
    obtain ys where "explorer_feed msg_decode e1 fs = (e', ys)" and "xs = x # ys"
      using "2.prems"(2) ing by (auto split: prod.splits)
    with "2.IH"(2) [OF ing [symmetric] refl exp] show ?thesis by simp
  next
    assume "\<exists>ex. annotate msg_decode e f = Inl ex \<and> explorer_ingest msg_decode e f = (Inl ex, e)"
    then obtain ex where ing: "explorer_ingest msg_decode e f = (Inl ex, e)" by blast
    with "2.IH"(1) [OF ing [symmetric] refl "2.prems"(1)] "2.prems"(2) show ?thesis by simp
  qed
qed simp

lemma make_can_explorer_explored: "make_can_explorer d v = Inr e \<Longrightarrow> explored e []"
  by (auto simp: make_can_explorer_def explored_def tallied_def tally_def split: if_splits)

definition sample_explorer :: can_explorer where
  "sample_explorer = (case make_can_explorer \<lparr>dec_frames_by_id = [], dec_metadata = []\<rparr> (Py_Int 2) of Inr e \<Rightarrow> e)"

lemma sample_explorer:
  "make_can_explorer \<lparr>dec_frames_by_id = [], dec_metadata = []\<rparr> (Py_Int 2) = Inr sample_explorer"
  by (simp add: sample_explorer_def make_can_explorer_def)

definition observed_frames :: "raw_can_frame list" where
  "observed_frames =
     [\<lparr>arbitration_id = 7, payload = [1], timestamp_microseconds = 50\<rparr>,
      \<lparr>arbitration_id = 8, payload = [], timestamp_microseconds = 50\<rparr>,
      \<lparr>arbitration_id = 7, payload = [1, 2], timestamp_microseconds = 50\<rparr>]"

text \<open>C15: after observing any frames, the explorer retains the newest of them in arrival order with
  consecutive sequence numbers, and the statistics of an ID, kept incrementally over arrivals and
  evictions, are exact: its total and retained counts, its first and latest timestamps and its latest
  length are those of the frames observed; an ID has statistics exactly when it was observed.\<close>

theorem explorer_statistics_exact:
  assumes "make_can_explorer d capacity = Inr e0" and "explorer_feed msg_decode e0 fs = (e, full)"
  shows "ce_frames e = last_n (nat (ce_capacity e)) full
    \<and> map ef_sequence full = map int [0..<length full]
    \<and> cs_total_frame_count (explorer_statistics e) = int (length full)
    \<and> (\<forall>i. case explorer_message_statistic e i of
         Inl ex \<Rightarrow> exn_class ex = Overflow_Error
           \<or> exn_class ex = Key_Error \<and> i \<notin> frame_id_of ` set full
       | Inr m \<Rightarrow> of_id i full \<noteq> [] \<and> cm_arbitration_id m = i
           \<and> cm_total_frame_count m = int (length (of_id i full))
           \<and> cm_retained_frame_count m = int (length (of_id i (ce_frames e)))
           \<and> cm_first_timestamp_microseconds m = timestamp_microseconds (ef_raw_frame (hd (of_id i full)))
           \<and> cm_latest_timestamp_microseconds m = timestamp_microseconds (ef_raw_frame (last (of_id i full)))
           \<and> cm_latest_dlc m = payload_length (ef_raw_frame (last (of_id i full))))"
proof -
  from explorer_feed_explored [OF make_can_explorer_explored [OF assms(1)] assms(2)]
  have exp: "explored e full" by simp
  then have tal: "tallied full (ce_frames e) (ce_messages e)" unfolding explored_def by blast
  have "case explorer_message_statistic e i of
         Inl ex \<Rightarrow> exn_class ex = Overflow_Error
           \<or> exn_class ex = Key_Error \<and> i \<notin> frame_id_of ` set full
       | Inr m \<Rightarrow> of_id i full \<noteq> [] \<and> cm_arbitration_id m = i
           \<and> cm_total_frame_count m = int (length (of_id i full))
           \<and> cm_retained_frame_count m = int (length (of_id i (ce_frames e)))
           \<and> cm_first_timestamp_microseconds m = timestamp_microseconds (ef_raw_frame (hd (of_id i full)))
           \<and> cm_latest_timestamp_microseconds m = timestamp_microseconds (ef_raw_frame (last (of_id i full)))
           \<and> cm_latest_dlc m = payload_length (ef_raw_frame (last (of_id i full)))" for i
  proof (cases "dict_get (ce_messages e) i")
    case None
    with tallied_none [OF tal None] show ?thesis
      by (auto simp: explorer_message_statistic_def of_id_def filter_empty_conv)
  next
    case (Some s)
    then have "explorer_message_statistic e i = freeze_message s"
      by (simp add: explorer_message_statistic_def)
    with tallied_get [OF tal Some] freeze_message_cases [of s] show ?thesis
      by (cases "freeze_message s") (simp_all add: counts_def)
  qed
  moreover have "ce_frames e = last_n (nat (ce_capacity e)) full"
    and "map ef_sequence full = map int [0..<length full]" and "ce_next_sequence e = int (length full)"
    using exp unfolding explored_def by blast+
  ultimately show ?thesis by (simp add: explorer_statistics_def Let_def)
qed

theorem explorer_statistics_exact_witness:
  "\<exists>e full. explorer_feed (\<lambda>_ _. Inr []) sample_explorer observed_frames = (e, full)
     \<and> length full = 3 \<and> length (ce_frames e) = 2
     \<and> (\<exists>m. explorer_message_statistic e 7 = Inr m \<and> cm_total_frame_count m = 2
          \<and> cm_retained_frame_count m = 1)"
proof -
  obtain e full where f: "explorer_feed (\<lambda>_ _. Inr []) sample_explorer observed_frames = (e, full)" by force
  have "case explorer_feed (\<lambda>_ _. Inr []) sample_explorer observed_frames of
      (e, full) \<Rightarrow> map frame_id_of full = [7, 8, 7] \<and> map frame_id_of (ce_frames e) = [8, 7]
        \<and> \<not> isl (explorer_message_statistic e 7)" by code_simp
  then have r: "map frame_id_of full = [7, 8, 7]" "map frame_id_of (ce_frames e) = [8, 7]"
    "\<not> isl (explorer_message_statistic e 7)" by (simp_all add: f)
  have of: "length (of_id i xs) = count_list (map frame_id_of xs) i" for i xs
    by (induction xs) auto
  have "length full = length (map frame_id_of full)" and "length (ce_frames e) = length (map frame_id_of (ce_frames e))"
    by simp_all
  with r have "length full = 3" and "length (ce_frames e) = 2" by (simp_all only: list.size)
  moreover obtain m where m: "explorer_message_statistic e 7 = Inr m"
    using r(3) by (cases "explorer_message_statistic e 7") auto
  moreover have "cm_total_frame_count m = 2 \<and> cm_retained_frame_count m = 1"
    using explorer_statistics_exact [OF sample_explorer f, THEN conjunct2, THEN conjunct2, THEN conjunct2,
        THEN spec, of 7] r(1,2) of [of 7 full] of [of 7 "ce_frames e"] by (simp add: m)
  ultimately show ?thesis using f by blast
qed

end
