(* ===== verification/Int_Text.thy ===== *)
theory Int_Text
  imports Tuner_Prelude
begin

text \<open>
  \<open>int(text, base)\<close> of the standard library for the bases 10 and 16, as the command line and session
  IDs use it: surrounding spaces, a sign, the prefix of a hexadecimal number, single underscores between
  digits, and the limit on the number of decimal digits.
\<close>

definition strip_chars :: "(char \<Rightarrow> bool) \<Rightarrow> string \<Rightarrow> string" where
  "strip_chars p s = rev (dropWhile p (rev (dropWhile p s)))"

definition hex_digit :: "char \<Rightarrow> nat option" where
  "hex_digit c =
     (let k = of_char c :: nat
      in if 48 \<le> k \<and> k \<le> 57 then Some (k - 48)
         else if 97 \<le> k \<and> k \<le> 102 then Some (k - 87)
         else if 65 \<le> k \<and> k \<le> 70 then Some (k - 55)
         else None)"

definition digit_in :: "nat \<Rightarrow> char \<Rightarrow> nat option" where
  "digit_in b c = (case hex_digit c of None \<Rightarrow> None | Some d \<Rightarrow> if d < b then Some d else None)"

text \<open>The digits after the first one; a single underscore may stand between two digits.\<close>

fun more_digits :: "nat \<Rightarrow> nat \<Rightarrow> string \<Rightarrow> nat option" where
  "more_digits b n [] = Some n"
| "more_digits b n (c # cs) =
     (case digit_in b c of
        Some d \<Rightarrow> more_digits b (b * n + d) cs
      | None \<Rightarrow>
          if c = CHR ''_'' \<and> cs \<noteq> [] \<and> digit_in b (hd cs) \<noteq> None then more_digits b n cs else None)"

definition digits_value :: "nat \<Rightarrow> string \<Rightarrow> nat option" where
  "digits_value b s =
     (case s of
        [] \<Rightarrow> None
      | c # cs \<Rightarrow> (case digit_in b c of None \<Rightarrow> None | Some d \<Rightarrow> more_digits b d cs))"

abbreviation (input) INT_MAX_STR_DIGITS :: nat where
  "INT_MAX_STR_DIGITS \<equiv> 4300"

definition int_space :: "char \<Rightarrow> bool" where
  "int_space c \<longleftrightarrow> of_char c \<in> {9, 10, 11, 12, 13, 32, 133, 160 :: nat}"

text \<open>What follows spaces and sign; an underscore may follow the prefix \<open>0x\<close>.\<close>

definition unsigned_value :: "nat \<Rightarrow> string \<Rightarrow> nat option" where
  "unsigned_value b s =
     (if b = 16 \<and> take 2 s \<in> {''0x'', ''0X''}
        then digits_value b (if take 1 (drop 2 s) = ''_'' then drop 3 s else drop 2 s)
      else if b = 10 \<and> INT_MAX_STR_DIGITS < length (filter (\<lambda>c. c \<noteq> CHR ''_'') s) then None
      else digits_value b s)"

text \<open>\<open>None\<close> where \<open>int\<close> raises \<open>ValueError\<close>.\<close>

definition int_base :: "nat \<Rightarrow> string \<Rightarrow> int option" where
  "int_base b s =
     (let t = strip_chars int_space s
      in if take 1 t = ''-'' then map_option (\<lambda>n. - int n) (unsigned_value b (tl t))
         else map_option int (unsigned_value b (if take 1 t = ''+'' then tl t else t)))"

end
