(* ===== verification/Uuids.thy ===== *)
theory Uuids
  imports Int_Text
begin

text \<open>
  \<open>uuid.UUID\<close> of the standard library as session IDs use it: parsing the text of a UUID, with the
  decorations \<open>UUID\<close> removes and what \<open>int(text, 16)\<close> accepts, and printing it. The lemma
  \<open>canonical_uuid_iff\<close> says which texts are printed as themselves.
\<close>

section \<open>Parsing\<close>

text \<open>\<open>text.replace(part, "")\<close> of a non-empty part.\<close>

function remove_text :: "string \<Rightarrow> string \<Rightarrow> string" where
  "remove_text part s =
     (if part = [] \<or> s = [] then s
      else if take (length part) s = part then remove_text part (drop (length part) s)
      else hd s # remove_text part (tl s))"
  by pat_completeness auto

termination
  by (relation "measure (\<lambda>(part, s). length s)") auto

declare remove_text.simps [simp del]

text \<open>\<open>UUID(text).int\<close>; \<open>None\<close> where the constructor raises \<open>ValueError\<close>.\<close>

definition uuid_int :: "string \<Rightarrow> int option" where
  "uuid_int text =
     (let s = strip_chars (\<lambda>c. c \<in> set ''{}'') (remove_text ''uuid:'' (remove_text ''urn:'' text));
          h = remove_text ''-'' s
      in if length h \<noteq> 32 then None
         else case int_base 16 h of
             None \<Rightarrow> None
           | Some i \<Rightarrow> if 0 \<le> i \<and> i < 2 ^ 128 then Some i else None)"

section \<open>Printing\<close>

definition HEX_DIGITS :: string where
  "HEX_DIGITS = ''0123456789abcdef''"

fun hex_text :: "nat \<Rightarrow> nat \<Rightarrow> string" where
  "hex_text 0 n = []"
| "hex_text (Suc k) n = hex_text k (n div 16) @ [HEX_DIGITS ! (n mod 16)]"

definition dashed :: "string \<Rightarrow> string" where
  "dashed h =
     take 8 h @ ''-'' @ take 4 (drop 8 h) @ ''-'' @ take 4 (drop 12 h) @ ''-'' @ take 4 (drop 16 h)
       @ ''-'' @ drop 20 h"

definition uuid_text :: "int \<Rightarrow> string" where
  "uuid_text i = dashed (hex_text 32 (nat i))"

text \<open>\<open>str(UUID(s)) == s\<close>, where a text that is not a UUID raises.\<close>

definition canonical_uuid :: "string \<Rightarrow> bool" where
  "canonical_uuid s \<longleftrightarrow> (case uuid_int s of None \<Rightarrow> False | Some i \<Rightarrow> uuid_text i = s)"

section \<open>The canonical texts\<close>

lemma length_hex_digits [simp]: "length HEX_DIGITS = 16"
  by (simp add: HEX_DIGITS_def)

lemma hex_digit_values: "map hex_digit HEX_DIGITS = map Some [0..<16]"
  by code_simp

lemma hex_digit_nth [simp]: "d < 16 \<Longrightarrow> hex_digit (HEX_DIGITS ! d) = Some d"
  using arg_cong [OF hex_digit_values, of "\<lambda>xs. xs ! d"] by simp

lemma hex_digitE:
  assumes "c \<in> set HEX_DIGITS"
  obtains d where "d < 16" "hex_digit c = Some d" "HEX_DIGITS ! d = c"
  using assms by (metis hex_digit_nth in_set_conv_nth length_hex_digits)

lemma length_hex_text [simp]: "length (hex_text k n) = k"
  by (induction k arbitrary: n) simp_all

lemma set_hex_text: "set (hex_text k n) \<subseteq> set HEX_DIGITS"
  by (induction k arbitrary: n) (auto intro!: nth_mem)

text \<open>The value of digits, and that printing gives them back.\<close>

definition hex_value :: "nat \<Rightarrow> string \<Rightarrow> nat" where
  "hex_value n h = foldl (\<lambda>v c. 16 * v + the (hex_digit c)) n h"

lemma more_digits_hex: "set h \<subseteq> set HEX_DIGITS \<Longrightarrow> more_digits 16 n h = Some (hex_value n h)"
  by (induction h arbitrary: n) (auto simp: hex_value_def digit_in_def elim!: hex_digitE)

lemma digits_value_hex: "set h \<subseteq> set HEX_DIGITS \<Longrightarrow> h \<noteq> [] \<Longrightarrow> digits_value 16 h = Some (hex_value 0 h)"
  by (cases h) (auto simp: digits_value_def digit_in_def more_digits_hex hex_value_def elim!: hex_digitE)

lemma hex_text_value: "set h \<subseteq> set HEX_DIGITS \<Longrightarrow> hex_text (length h) (hex_value 0 h) = h"
  by (induction h rule: rev_induct) (auto simp: hex_value_def elim!: hex_digitE)

lemma hex_value_bound: "set h \<subseteq> set HEX_DIGITS \<Longrightarrow> hex_value 0 h < 16 ^ length h"
  by (induction h rule: rev_induct) (auto simp: hex_value_def elim!: hex_digitE)

text \<open>None of the decorations occurs in hexadecimal digits and dashes.\<close>

lemma remove_absent: "c \<in> set part \<Longrightarrow> c \<notin> set s \<Longrightarrow> remove_text part s = s"
proof (induction s)
  case (Cons x xs)
  then have "take (length part) (x # xs) \<noteq> part" by (metis in_set_takeD)
  with Cons show ?case by (simp add: remove_text.simps [of part "x # xs"])
qed (simp add: remove_text.simps)

lemma remove_dash: "remove_text [c] s = filter (\<lambda>x. x \<noteq> c) s"
  by (induction s) (simp_all add: remove_text.simps [of "[c]"])

lemma strip_absent: "\<forall>c \<in> set s. \<not> p c \<Longrightarrow> strip_chars p s = s"
proof -
  have none: "\<forall>c \<in> set t. \<not> p c \<Longrightarrow> dropWhile p t = t" for t by (cases t) simp_all
  show "\<forall>c \<in> set s. \<not> p c \<Longrightarrow> strip_chars p s = s" by (simp add: strip_chars_def none)
qed

lemma set_dashed: "set (dashed h) \<subseteq> insert (CHR ''-'') (set h)"
  by (auto simp: dashed_def dest: in_set_takeD in_set_dropD)

lemma filter_dashed:
  assumes "CHR ''-'' \<notin> set h"
  shows "filter (\<lambda>c. c \<noteq> CHR ''-'') (dashed h) = h"
proof -
  have keep: "filter (\<lambda>c. c \<noteq> CHR ''-'') t = t" if "set t \<subseteq> set h" for t
    using that assms by (auto simp: filter_id_conv)
  have parts: "set (take i (drop j h)) \<subseteq> set h" "set (drop j h) \<subseteq> set h" "set (take i h) \<subseteq> set h" for i j
    by (auto dest: in_set_takeD in_set_dropD)
  have join: "take i (drop j h) @ drop (i + j) h = drop j h" for i j
    by (metis append_take_drop_id drop_drop)
  have "filter (\<lambda>c. c \<noteq> CHR ''-'') (dashed h)
      = take 8 h @ take 4 (drop 8 h) @ take 4 (drop 12 h) @ take 4 (drop 16 h) @ drop 20 h"
    by (simp add: dashed_def keep parts)
  also have "\<dots> = h"
    using join [of 4 16] join [of 4 12] join [of 4 8] append_take_drop_id [of 8 h] by simp
  finally show ?thesis .
qed

lemma plain_digits:
  "CHR ''-'' \<notin> set HEX_DIGITS" "CHR ''u'' \<notin> set HEX_DIGITS" "CHR ''+'' \<notin> set HEX_DIGITS"
  "CHR ''x'' \<notin> set HEX_DIGITS" "CHR ''X'' \<notin> set HEX_DIGITS"
  "\<forall>c \<in> set HEX_DIGITS. \<not> int_space c" "\<forall>c \<in> set HEX_DIGITS. c \<notin> set ''{}''"
  by (simp_all add: HEX_DIGITS_def int_space_def)

lemma int_base_hex:
  assumes "set h \<subseteq> set HEX_DIGITS" and "h \<noteq> []"
  shows "int_base 16 h = Some (int (hex_value 0 h))"
proof -
  have strip: "strip_chars int_space h = h"
    using assms(1) plain_digits(6) by (intro strip_absent) blast
  have head: "take 1 h \<noteq> [c]" if "c \<notin> set HEX_DIGITS" for c
    using assms that by (cases h) auto
  have "take 2 h \<noteq> [a, x]" if "x \<notin> set HEX_DIGITS" for a x
    using assms(1) that in_set_takeD [of x 2 h] by auto
  then have "unsigned_value 16 h = Some (hex_value 0 h)"
    using plain_digits(4,5) by (auto simp: unsigned_value_def digits_value_hex assms)
  then show ?thesis using head plain_digits(1,3) by (simp add: int_base_def strip)
qed

text \<open>A text is the text of the UUID it names exactly when it is 32 lowercase digits in the five groups.\<close>

lemma canonical_uuid_iff:
  "canonical_uuid s \<longleftrightarrow>
     (let h = filter (\<lambda>c. c \<noteq> CHR ''-'') s
      in length h = 32 \<and> set h \<subseteq> set HEX_DIGITS \<and> s = dashed h)"
proof
  assume "canonical_uuid s"
  then obtain i where s: "s = uuid_text i" by (auto simp: canonical_uuid_def split: option.splits)
  let ?h = "hex_text 32 (nat i)"
  have "filter (\<lambda>c. c \<noteq> CHR ''-'') s = ?h"
    using set_hex_text [of 32 "nat i"] plain_digits(1) unfolding s uuid_text_def by (intro filter_dashed) blast
  then show "let h = filter (\<lambda>c. c \<noteq> CHR ''-'') s
      in length h = 32 \<and> set h \<subseteq> set HEX_DIGITS \<and> s = dashed h"
    using set_hex_text [of 32 "nat i"] by (simp add: s uuid_text_def)
next
  define h where "h = filter (\<lambda>c. c \<noteq> CHR ''-'') s"
  assume "let h = filter (\<lambda>c. c \<noteq> CHR ''-'') s
      in length h = 32 \<and> set h \<subseteq> set HEX_DIGITS \<and> s = dashed h"
  then have h: "length h = 32" "set h \<subseteq> set HEX_DIGITS" and s: "s = dashed h" by (simp_all add: h_def Let_def)
  have chars: "set s \<subseteq> insert (CHR ''-'') (set HEX_DIGITS)" using set_dashed [of h] h(2) s by blast
  then have u: "CHR ''u'' \<notin> set s" using plain_digits(2) by auto
  have "remove_text ''urn:'' s = s" "remove_text ''uuid:'' s = s"
    by (rule remove_absent [OF _ u], simp)+
  moreover have "strip_chars (\<lambda>c. c \<in> set ''{}'') s = s"
    using chars plain_digits(7) by (intro strip_absent) auto
  moreover have "remove_text ''-'' s = h" by (simp add: remove_dash h_def)
  moreover have "hex_value 0 h < 2 ^ 128" using hex_value_bound [OF h(2)] by (simp add: h(1))
  moreover have "int_base 16 h = Some (int (hex_value 0 h))" using h by (intro int_base_hex) auto
  ultimately have "uuid_int s = Some (int (hex_value 0 h))"
    by (simp add: uuid_int_def Let_def h(1) del: set_simps)
  moreover have "hex_text 32 (hex_value 0 h) = h" using hex_text_value [OF h(2)] by (simp add: h(1))
  ultimately show "canonical_uuid s" by (simp add: canonical_uuid_def uuid_text_def s)
qed

lemma canonical_uuid_length: "canonical_uuid s \<Longrightarrow> length s = 36"
  by (auto simp: canonical_uuid_def uuid_text_def dashed_def split: option.splits)

lemma canonical_uuid_nonempty: "canonical_uuid s \<Longrightarrow> s \<noteq> []"
  by (auto dest: canonical_uuid_length)

end
