(* ===== verification/Session_Format.thy ===== *)
theory Session_Format
  imports Sha256 Uuids
begin

text \<open>
  The on-disk format of a recorded session: the header of the frame file (\<open>session/format.py\<close>) and
  the manifest with its validation and its dictionary form (\<open>session/models.py\<close>). A manifest file is
  represented by the value \<open>json.loads\<close> reads from it, so that writing and reading back a manifest is
  \<open>to_dict\<close> followed by \<open>from_dict\<close>. Messages that print arbitrary JSON values leave the printed value out.
\<close>

section \<open>The frame-file header\<close>

abbreviation (input) SESSION_FORMAT_VERSION :: int where
  "SESSION_FORMAT_VERSION \<equiv> 1"

abbreviation (input) SESSION_FORMAT_VERSION_CALIBRATION :: int where
  "SESSION_FORMAT_VERSION_CALIBRATION \<equiv> 2"

definition SESSION_FILE_MAGIC :: bytes where
  "SESSION_FILE_MAGIC = [0x54, 0x4E, 0x53, 0x52]"

abbreviation (input) SESSION_FILE_HEADER_SIZE :: nat where
  "SESSION_FILE_HEADER_SIZE \<equiv> 8"

definition supported_version :: "int \<Rightarrow> bool" where
  "supported_version v \<longleftrightarrow> v \<in> {SESSION_FORMAT_VERSION, SESSION_FORMAT_VERSION_CALIBRATION}"

definition encode_session_header :: "int \<Rightarrow> bytes result" where
  "encode_session_header version =
     (if \<not> supported_version version
        then raise Session_Version_Error (''unsupported session frame version '' @ str_int version)
      else Inr (SESSION_FILE_MAGIC @ be_bytes 1 version @ [0, 0, 0]))"

definition decode_session_header :: "bytes \<Rightarrow> int result" where
  "decode_session_header data =
     (if length data \<noteq> SESSION_FILE_HEADER_SIZE
        then raise Session_Format_Error
          (''session frame header requires '' @ str_int 8 @ '' bytes, got '' @ str_int (int (length data)))
      else
        let magic = take 4 data; version = be_value (take 1 (drop 4 data)); reserved = drop 5 data
        in if magic \<noteq> SESSION_FILE_MAGIC
             then raise Session_Format_Error (''invalid session frame magic '' @ py_repr_bytes magic)
           else if \<not> supported_version version
             then raise Session_Version_Error (''unsupported session frame version '' @ str_int version)
           else if reserved \<noteq> [0, 0, 0]
             then raise Session_Format_Error ''session frame header reserved bytes must be zero''
           else Inr version)"

definition header_bytes :: "int \<Rightarrow> bytes" where
  "header_bytes version = SESSION_FILE_MAGIC @ [word_of_int version, 0, 0, 0]"

lemma encode_header_ok: "supported_version v \<Longrightarrow> encode_session_header v = Inr (header_bytes v)"
  by (auto simp: encode_session_header_def header_bytes_def supported_version_def)

lemma length_header_bytes [simp]: "length (header_bytes v) = SESSION_FILE_HEADER_SIZE"
  by (simp add: header_bytes_def SESSION_FILE_MAGIC_def)

lemma decode_header_bytes: "supported_version v \<Longrightarrow> decode_session_header (header_bytes v) = Inr v"
  by (auto simp: decode_session_header_def header_bytes_def SESSION_FILE_MAGIC_def supported_version_def
      be_value_def)

lemma decode_header_Inr:
  assumes "decode_session_header data = Inr v"
  shows "data = header_bytes v \<and> supported_version v"
proof -
  have len: "length data = 8" and m: "take 4 data = SESSION_FILE_MAGIC" and sv: "supported_version v"
    and v: "v = be_value (take 1 (drop 4 data))" and r: "drop 5 data = [0, 0, 0]"
    using assms by (auto simp: decode_session_header_def Let_def split: if_splits)
  have "take 1 (drop 4 data) = be_bytes 1 v"
    using be_bytes_value [of "take 1 (drop 4 data)" 1] v len by simp
  also have "\<dots> = [word_of_int v]" using sv by (auto simp: supported_version_def)
  finally have "drop 4 data = [word_of_int v, 0, 0, 0]"
    using r append_take_drop_id [of 1 "drop 4 data"] by simp
  with m sv show ?thesis
    using append_take_drop_id [of 4 data] by (metis header_bytes_def)
qed

section \<open>JSON values and typed access\<close>

datatype json_value = J_Scalar py_value | J_List "json_value list" | J_Object "(string, json_value) dict"

type_synonym json_object = "(string, json_value) dict"

definition json_item :: "json_object \<Rightarrow> string \<Rightarrow> json_value result" where
  "json_item obj key = (case dict_get obj key of None \<Rightarrow> raise Key_Error (py_repr key) | Some v \<Rightarrow> Inr v)"

definition json_string :: "json_object \<Rightarrow> string \<Rightarrow> string result" where
  "json_string obj key =
     rbind (json_item obj key) (\<lambda>item.
       case item of
         J_Scalar (Py_Str s) \<Rightarrow>
           if s = [] then raise Type_Error (key @ '' must be a non-empty string'') else Inr s
       | _ \<Rightarrow> raise Type_Error (key @ '' must be a non-empty string''))"

definition optional_string :: "json_object \<Rightarrow> string \<Rightarrow> string option result" where
  "optional_string obj key =
     rbind (json_item obj key) (\<lambda>item.
       case item of
         J_Scalar Py_None \<Rightarrow> Inr None
       | J_Scalar (Py_Str s) \<Rightarrow> Inr (Some s)
       | _ \<Rightarrow> raise Type_Error (key @ '' must be a string or null''))"

definition nonnegative_integer :: "json_object \<Rightarrow> string \<Rightarrow> int result" where
  "nonnegative_integer obj key =
     rbind (json_item obj key) (\<lambda>item.
       case item of
         J_Scalar (Py_Int i) \<Rightarrow>
           if i < 0 then raise Type_Error (key @ '' must be a non-negative integer'') else Inr i
       | _ \<Rightarrow> raise Type_Error (key @ '' must be a non-negative integer''))"

definition positive_integer :: "json_object \<Rightarrow> string \<Rightarrow> int result" where
  "positive_integer obj key =
     rbind (nonnegative_integer obj key) (\<lambda>i.
       if i = 0 then raise Type_Error (key @ '' must be a positive integer'') else Inr i)"

definition optional_nonnegative_integer :: "json_object \<Rightarrow> string \<Rightarrow> int option result" where
  "optional_nonnegative_integer obj key =
     rbind (json_item obj key) (\<lambda>item.
       if item = J_Scalar Py_None then Inr None
       else rbind (nonnegative_integer obj key) (\<lambda>i. Inr (Some i)))"

definition sha_format :: "string \<Rightarrow> bool" where
  "sha_format s \<longleftrightarrow> length s = 64 \<and> set s \<subseteq> set ''0123456789abcdef''"

definition json_hash :: "json_object \<Rightarrow> string \<Rightarrow> string result" where
  "json_hash obj key =
     rbind (json_string obj key) (\<lambda>s.
       if \<not> sha_format s then raise Type_Error (key @ '' must be a lowercase SHA-256 hex digest'')
       else Inr s)"

definition optional_hash :: "json_object \<Rightarrow> string \<Rightarrow> string option result" where
  "optional_hash obj key =
     rbind (json_item obj key) (\<lambda>item.
       if item = J_Scalar Py_None then Inr None
       else rbind (json_hash obj key) (\<lambda>s. Inr (Some s)))"

section \<open>The manifest\<close>

definition SESSION_FORMAT_NAME :: string where
  "SESSION_FORMAT_NAME = ''tuneros.raw_can_session''"

definition REFERENCE_VEHICLE_PROFILE_ID :: string where
  "REFERENCE_VEHICLE_PROFILE_ID = ''bmw-e90-335i-n54-2010-manual''"

definition SYNTHETIC_CAN_NETWORK :: string where
  "SYNTHETIC_CAN_NETWORK = ''TunerOS synthetic Classic CAN''"

datatype session_status = RECORDING | COMPLETE | INCOMPLETE

fun session_status_value :: "session_status \<Rightarrow> string" where
  "session_status_value RECORDING = ''recording''"
| "session_status_value COMPLETE = ''complete''"
| "session_status_value INCOMPLETE = ''incomplete''"

definition session_status_of :: "json_value \<Rightarrow> session_status result" where
  "session_status_of v =
     (case find (\<lambda>s. v = J_Scalar (Py_Str (session_status_value s))) [RECORDING, COMPLETE, INCOMPLETE] of
        Some s \<Rightarrow> Inr s
      | None \<Rightarrow> raise Value_Error ''not a valid SessionStatus'')"

record session_manifest =
  mf_format_name :: string
  mf_format_version :: int
  mf_session_id :: string
  mf_created_at_utc :: string
  mf_name :: "string option"
  mf_scenario :: "string option"
  mf_vehicle_profile_id :: string
  mf_can_network :: string
  mf_dbc_name :: string
  mf_dbc_sha256 :: string
  mf_frames_sha256 :: "string option"
  mf_status :: session_status
  mf_failure_reason :: "string option"
  mf_frame_count :: int
  mf_first_timestamp_microseconds :: "int option"
  mf_last_timestamp_microseconds :: "int option"
  mf_duration_microseconds :: int
  mf_calibration_id :: "string option"
  mf_calibration_revision :: "int option"

definition json_str :: "string \<Rightarrow> json_value" where
  "json_str s = J_Scalar (Py_Str s)"

definition json_int :: "int \<Rightarrow> json_value" where
  "json_int i = J_Scalar (Py_Int i)"

definition json_opt :: "('a \<Rightarrow> json_value) \<Rightarrow> 'a option \<Rightarrow> json_value" where
  "json_opt f v = (case v of None \<Rightarrow> J_Scalar Py_None | Some x \<Rightarrow> f x)"

text \<open>\<open>asdict\<close>, and the dictionary of a version 1 manifest without the calibration fields.\<close>

definition manifest_asdict :: "session_manifest \<Rightarrow> json_object" where
  "manifest_asdict m =
     [(''format_name'', json_str (mf_format_name m)),
      (''format_version'', json_int (mf_format_version m)),
      (''session_id'', json_str (mf_session_id m)),
      (''created_at_utc'', json_str (mf_created_at_utc m)),
      (''name'', json_opt json_str (mf_name m)),
      (''scenario'', json_opt json_str (mf_scenario m)),
      (''vehicle_profile_id'', json_str (mf_vehicle_profile_id m)),
      (''can_network'', json_str (mf_can_network m)),
      (''dbc_name'', json_str (mf_dbc_name m)),
      (''dbc_sha256'', json_str (mf_dbc_sha256 m)),
      (''frames_sha256'', json_opt json_str (mf_frames_sha256 m)),
      (''status'', json_str (session_status_value (mf_status m))),
      (''failure_reason'', json_opt json_str (mf_failure_reason m)),
      (''frame_count'', json_int (mf_frame_count m)),
      (''first_timestamp_microseconds'', json_opt json_int (mf_first_timestamp_microseconds m)),
      (''last_timestamp_microseconds'', json_opt json_int (mf_last_timestamp_microseconds m)),
      (''duration_microseconds'', json_int (mf_duration_microseconds m)),
      (''calibration_id'', json_opt json_str (mf_calibration_id m)),
      (''calibration_revision'', json_opt json_int (mf_calibration_revision m))]"

definition calibration_fields :: "string list" where
  "calibration_fields = [''calibration_id'', ''calibration_revision'']"

definition manifest_to_dict :: "session_manifest \<Rightarrow> json_object" where
  "manifest_to_dict m =
     (if mf_format_version m = SESSION_FORMAT_VERSION
      then filter (\<lambda>(k, v). k \<notin> set calibration_fields) (manifest_asdict m)
      else manifest_asdict m)"

definition manifest_fields :: "string list" where
  "manifest_fields =
     [''format_name'', ''format_version'', ''session_id'', ''created_at_utc'', ''name'', ''scenario'',
      ''vehicle_profile_id'', ''can_network'', ''dbc_name'', ''dbc_sha256'', ''frames_sha256'', ''status'',
      ''failure_reason'', ''frame_count'', ''first_timestamp_microseconds'',
      ''last_timestamp_microseconds'', ''duration_microseconds'', ''calibration_id'',
      ''calibration_revision'']"

definition expected_fields :: "int \<Rightarrow> string set" where
  "expected_fields version =
     (if version = SESSION_FORMAT_VERSION then set manifest_fields - set calibration_fields
      else set manifest_fields)"

subsection \<open>Validation\<close>

definition check_timestamps :: "session_manifest \<Rightarrow> unit result" where
  "check_timestamps m =
     (if mf_frame_count m = 0 then
        if mf_first_timestamp_microseconds m \<noteq> None \<or> mf_last_timestamp_microseconds m \<noteq> None
          then raise Session_Format_Error ''empty session timestamps must be null''
        else if mf_duration_microseconds m \<noteq> 0
          then raise Session_Format_Error ''empty session duration must be zero''
        else Inr ()
      else (case (mf_first_timestamp_microseconds m, mf_last_timestamp_microseconds m) of
          (Some t0, Some t1) \<Rightarrow>
            if t1 < t0 then raise Session_Format_Error ''last timestamp precedes first timestamp''
            else if mf_duration_microseconds m \<noteq> t1 - t0
              then raise Session_Format_Error ''session duration does not match timestamps''
            else Inr ()
        | _ \<Rightarrow> raise Session_Format_Error ''non-empty session timestamps cannot be null''))"

definition check_status :: "session_manifest \<Rightarrow> unit result" where
  "check_status m =
     (case mf_status m of
        RECORDING \<Rightarrow>
          if mf_frames_sha256 m \<noteq> None \<or> mf_failure_reason m \<noteq> None
          then raise Session_Format_Error ''recording session cannot have a hash or failure reason''
          else Inr ()
      | COMPLETE \<Rightarrow>
          if mf_frames_sha256 m = None
            then raise Session_Format_Error ''complete session requires frames_sha256''
          else if mf_failure_reason m \<noteq> None
            then raise Session_Format_Error ''complete session cannot have a failure reason''
          else Inr ()
      | INCOMPLETE \<Rightarrow>
          if mf_frames_sha256 m = None \<or> mf_failure_reason m \<in> {None, Some ''''}
          then raise Session_Format_Error ''incomplete session requires a hash and failure reason''
          else Inr ())"

definition check_calibration :: "session_manifest \<Rightarrow> unit result" where
  "check_calibration m =
     (if mf_format_version m = SESSION_FORMAT_VERSION then
        if mf_calibration_id m \<noteq> None \<or> mf_calibration_revision m \<noteq> None
        then raise Session_Format_Error ''version 1 sessions cannot contain calibration metadata''
        else Inr ()
      else if mf_calibration_id m \<in> {None, Some ''''} \<or> mf_calibration_revision m = None
        then raise Session_Format_Error ''version 2 sessions require calibration provenance''
      else Inr ())"

definition validate_consistency :: "session_manifest \<Rightarrow> unit result" where
  "validate_consistency m =
     (if \<not> canonical_uuid (mf_session_id m)
      then raise Session_Format_Error ''session_id must be a canonical UUID''
      else rbind (check_timestamps m) (\<lambda>_.
           rbind (check_status m) (\<lambda>_. check_calibration m)))"

text \<open>The constructor call inside \<open>try\<close>, its arguments in order.\<close>

definition manifest_of_object :: "int \<Rightarrow> json_object \<Rightarrow> session_manifest result" where
  "manifest_of_object version obj =
     rbind (json_string obj ''session_id'') (\<lambda>session_id.
     rbind (json_string obj ''created_at_utc'') (\<lambda>created.
     rbind (optional_string obj ''name'') (\<lambda>name.
     rbind (optional_string obj ''scenario'') (\<lambda>scenario.
     rbind (json_string obj ''vehicle_profile_id'') (\<lambda>vehicle.
     rbind (json_string obj ''can_network'') (\<lambda>network.
     rbind (json_string obj ''dbc_name'') (\<lambda>dbc_name.
     rbind (json_hash obj ''dbc_sha256'') (\<lambda>dbc_sha.
     rbind (optional_hash obj ''frames_sha256'') (\<lambda>frames_sha.
     rbind (rbind (json_item obj ''status'') session_status_of) (\<lambda>status.
     rbind (optional_string obj ''failure_reason'') (\<lambda>reason.
     rbind (nonnegative_integer obj ''frame_count'') (\<lambda>count.
     rbind (optional_nonnegative_integer obj ''first_timestamp_microseconds'') (\<lambda>first.
     rbind (optional_nonnegative_integer obj ''last_timestamp_microseconds'') (\<lambda>last.
     rbind (nonnegative_integer obj ''duration_microseconds'') (\<lambda>duration.
     rbind (if version = SESSION_FORMAT_VERSION then Inr None
            else rbind (json_string obj ''calibration_id'') (\<lambda>s. Inr (Some s))) (\<lambda>calibration.
     rbind (if version = SESSION_FORMAT_VERSION then Inr None
            else rbind (positive_integer obj ''calibration_revision'') (\<lambda>i. Inr (Some i))) (\<lambda>revision.
       Inr \<lparr>mf_format_name = SESSION_FORMAT_NAME, mf_format_version = version,
            mf_session_id = session_id, mf_created_at_utc = created, mf_name = name,
            mf_scenario = scenario, mf_vehicle_profile_id = vehicle, mf_can_network = network,
            mf_dbc_name = dbc_name, mf_dbc_sha256 = dbc_sha, mf_frames_sha256 = frames_sha,
            mf_status = status, mf_failure_reason = reason, mf_frame_count = count,
            mf_first_timestamp_microseconds = first, mf_last_timestamp_microseconds = last,
            mf_duration_microseconds = duration, mf_calibration_id = calibration,
            mf_calibration_revision = revision\<rparr>)))))))))))))))))"

definition declared_version :: "json_object \<Rightarrow> int option" where
  "declared_version obj =
     (case dict_get obj ''format_version'' of
        Some (J_Scalar (Py_Int v)) \<Rightarrow> if supported_version v then Some v else None
      | _ \<Rightarrow> None)"

definition manifest_from_dict :: "json_value \<Rightarrow> session_manifest result" where
  "manifest_from_dict value =
     (case value of
        J_Object obj \<Rightarrow>
          (case declared_version obj of
             None \<Rightarrow> raise Session_Version_Error ''unsupported session format version''
           | Some version \<Rightarrow>
               if set (dict_keys obj) \<noteq> expected_fields version
                 then raise Session_Format_Error ''session manifest fields mismatch''
               else if dict_get obj ''format_name'' \<noteq> Some (json_str SESSION_FORMAT_NAME)
                 then raise Session_Format_Error ''unsupported session format''
               else (case manifest_of_object version obj of
                       Inl e \<Rightarrow>
                         if catches Type_Error e \<or> catches Value_Error e
                         then raise Session_Format_Error (''invalid session manifest: '' @ exn_message e)
                         else Inl e
                     | Inr m \<Rightarrow> rbind (validate_consistency m) (\<lambda>_. Inr m)))
      | _ \<Rightarrow> raise Session_Format_Error ''session manifest must be a JSON object'')"

section \<open>Round trip of a manifest\<close>

definition wf_manifest :: "session_manifest \<Rightarrow> bool" where
  "wf_manifest m \<longleftrightarrow> mf_format_name m = SESSION_FORMAT_NAME \<and> supported_version (mf_format_version m)
     \<and> mf_session_id m \<noteq> [] \<and> mf_created_at_utc m \<noteq> [] \<and> mf_vehicle_profile_id m \<noteq> []
     \<and> mf_can_network m \<noteq> [] \<and> mf_dbc_name m \<noteq> [] \<and> sha_format (mf_dbc_sha256 m)
     \<and> (\<forall>s. mf_frames_sha256 m = Some s \<longrightarrow> sha_format s)
     \<and> 0 \<le> mf_frame_count m \<and> 0 \<le> mf_duration_microseconds m
     \<and> (\<forall>t. mf_first_timestamp_microseconds m = Some t \<longrightarrow> 0 \<le> t)
     \<and> (\<forall>t. mf_last_timestamp_microseconds m = Some t \<longrightarrow> 0 \<le> t)
     \<and> (if mf_format_version m = 1 then mf_calibration_id m = None \<and> mf_calibration_revision m = None
        else (\<exists>s. mf_calibration_id m = Some s \<and> s \<noteq> [])
          \<and> (\<exists>i. mf_calibration_revision m = Some i \<and> 0 < i))
     \<and> validate_consistency m = Inr ()"

lemma map_of_filter_key: "map_of (filter (\<lambda>(k, v). P k) al) k = (if P k then map_of al k else None)"
  by (induction al) auto

lemma get_to_dict:
  "dict_get (manifest_to_dict m) k =
     (if mf_format_version m = 1 \<and> k \<in> set calibration_fields then None
      else dict_get (manifest_asdict m) k)"
  by (simp add: manifest_to_dict_def map_of_filter_key)

lemma get_asdict [simp]:
  "dict_get (manifest_asdict m) ''format_name'' = Some (json_str (mf_format_name m))"
  "dict_get (manifest_asdict m) ''format_version'' = Some (json_int (mf_format_version m))"
  "dict_get (manifest_asdict m) ''session_id'' = Some (json_str (mf_session_id m))"
  "dict_get (manifest_asdict m) ''created_at_utc'' = Some (json_str (mf_created_at_utc m))"
  "dict_get (manifest_asdict m) ''name'' = Some (json_opt json_str (mf_name m))"
  "dict_get (manifest_asdict m) ''scenario'' = Some (json_opt json_str (mf_scenario m))"
  "dict_get (manifest_asdict m) ''vehicle_profile_id'' = Some (json_str (mf_vehicle_profile_id m))"
  "dict_get (manifest_asdict m) ''can_network'' = Some (json_str (mf_can_network m))"
  "dict_get (manifest_asdict m) ''dbc_name'' = Some (json_str (mf_dbc_name m))"
  "dict_get (manifest_asdict m) ''dbc_sha256'' = Some (json_str (mf_dbc_sha256 m))"
  "dict_get (manifest_asdict m) ''frames_sha256'' = Some (json_opt json_str (mf_frames_sha256 m))"
  "dict_get (manifest_asdict m) ''status'' = Some (json_str (session_status_value (mf_status m)))"
  "dict_get (manifest_asdict m) ''failure_reason'' = Some (json_opt json_str (mf_failure_reason m))"
  "dict_get (manifest_asdict m) ''frame_count'' = Some (json_int (mf_frame_count m))"
  "dict_get (manifest_asdict m) ''first_timestamp_microseconds'' =
     Some (json_opt json_int (mf_first_timestamp_microseconds m))"
  "dict_get (manifest_asdict m) ''last_timestamp_microseconds'' =
     Some (json_opt json_int (mf_last_timestamp_microseconds m))"
  "dict_get (manifest_asdict m) ''duration_microseconds'' = Some (json_int (mf_duration_microseconds m))"
  "dict_get (manifest_asdict m) ''calibration_id'' = Some (json_opt json_str (mf_calibration_id m))"
  "dict_get (manifest_asdict m) ''calibration_revision'' = Some (json_opt json_int (mf_calibration_revision m))"
  by (simp_all add: manifest_asdict_def)

lemma keys_to_dict: "set (dict_keys (manifest_to_dict m)) = expected_fields (mf_format_version m)"
proof -
  have all: "dict_keys (manifest_asdict m) = manifest_fields"
    by (simp add: manifest_asdict_def manifest_fields_def)
  have "set (dict_keys (filter (\<lambda>(k, v). k \<notin> set calibration_fields) al))
      = set (dict_keys al) - set calibration_fields" for al :: json_object
    by (induction al) auto
  then show ?thesis unfolding manifest_to_dict_def expected_fields_def all [symmetric] by simp
qed

lemma typed_access:
  "dict_get obj k = Some (json_str s) \<Longrightarrow> s \<noteq> [] \<Longrightarrow> json_string obj k = Inr s"
  "dict_get obj k = Some (json_str s) \<Longrightarrow> sha_format s \<Longrightarrow> json_hash obj k = Inr s"
  "dict_get obj k = Some (json_opt json_str so) \<Longrightarrow> optional_string obj k = Inr so"
  "dict_get obj k = Some (json_int i) \<Longrightarrow> 0 \<le> i \<Longrightarrow> nonnegative_integer obj k = Inr i"
  "dict_get obj k = Some (json_int i) \<Longrightarrow> 0 < i \<Longrightarrow> positive_integer obj k = Inr i"
  "dict_get obj k = Some (json_opt json_int io) \<Longrightarrow> (\<forall>i. io = Some i \<longrightarrow> 0 \<le> i) \<Longrightarrow>
     optional_nonnegative_integer obj k = Inr io"
  "dict_get obj k = Some (json_opt json_str so) \<Longrightarrow> (\<forall>s. so = Some s \<longrightarrow> sha_format s) \<Longrightarrow>
     optional_hash obj k = Inr so"
  by (cases so; cases io; force simp: json_string_def json_hash_def optional_string_def
      nonnegative_integer_def positive_integer_def optional_nonnegative_integer_def optional_hash_def
      json_item_def json_str_def json_int_def json_opt_def sha_format_def)+

lemma session_status_of_value [simp]: "session_status_of (json_str (session_status_value s)) = Inr s"
  by (cases s) (simp_all add: session_status_of_def json_str_def)

lemma not_calibration_fields [simp]:
  "''session_id'' \<notin> set calibration_fields" "''created_at_utc'' \<notin> set calibration_fields"
  "''name'' \<notin> set calibration_fields" "''scenario'' \<notin> set calibration_fields"
  "''vehicle_profile_id'' \<notin> set calibration_fields" "''can_network'' \<notin> set calibration_fields"
  "''dbc_name'' \<notin> set calibration_fields" "''dbc_sha256'' \<notin> set calibration_fields"
  "''frames_sha256'' \<notin> set calibration_fields" "''status'' \<notin> set calibration_fields"
  "''failure_reason'' \<notin> set calibration_fields" "''frame_count'' \<notin> set calibration_fields"
  "''first_timestamp_microseconds'' \<notin> set calibration_fields"
  "''last_timestamp_microseconds'' \<notin> set calibration_fields"
  "''duration_microseconds'' \<notin> set calibration_fields"
  "''format_name'' \<notin> set calibration_fields" "''format_version'' \<notin> set calibration_fields"
  by (simp_all add: calibration_fields_def)

lemma manifest_of_to_dict:
  assumes "wf_manifest m"
  shows "manifest_of_object (mf_format_version m) (manifest_to_dict m) = Inr m"
proof -
  let ?d = "manifest_to_dict m"
  have str: "json_string ?d ''session_id'' = Inr (mf_session_id m)"
    "json_string ?d ''created_at_utc'' = Inr (mf_created_at_utc m)"
    "json_string ?d ''vehicle_profile_id'' = Inr (mf_vehicle_profile_id m)"
    "json_string ?d ''can_network'' = Inr (mf_can_network m)"
    "json_string ?d ''dbc_name'' = Inr (mf_dbc_name m)"
    "json_hash ?d ''dbc_sha256'' = Inr (mf_dbc_sha256 m)"
    "optional_hash ?d ''frames_sha256'' = Inr (mf_frames_sha256 m)"
    using assms by (simp_all add: wf_manifest_def typed_access get_to_dict)
  moreover have opt: "optional_string ?d ''name'' = Inr (mf_name m)"
    "optional_string ?d ''scenario'' = Inr (mf_scenario m)"
    "optional_string ?d ''failure_reason'' = Inr (mf_failure_reason m)"
    "json_item ?d ''status'' = Inr (json_str (session_status_value (mf_status m)))"
    by (simp_all add: typed_access get_to_dict json_item_def)
  moreover have int: "nonnegative_integer ?d ''frame_count'' = Inr (mf_frame_count m)"
    "nonnegative_integer ?d ''duration_microseconds'' = Inr (mf_duration_microseconds m)"
    "optional_nonnegative_integer ?d ''first_timestamp_microseconds'' = Inr (mf_first_timestamp_microseconds m)"
    "optional_nonnegative_integer ?d ''last_timestamp_microseconds'' = Inr (mf_last_timestamp_microseconds m)"
    using assms by (simp_all add: wf_manifest_def typed_access get_to_dict)
  moreover have "(if mf_format_version m = 1 then Inr None
      else rbind (json_string ?d ''calibration_id'') (\<lambda>s. Inr (Some s))) = Inr (mf_calibration_id m)"
    and "(if mf_format_version m = 1 then Inr None
      else rbind (positive_integer ?d ''calibration_revision'') (\<lambda>i. Inr (Some i))) = Inr (mf_calibration_revision m)"
    using assms by (auto simp: wf_manifest_def typed_access get_to_dict json_opt_def split: if_splits)
  ultimately show ?thesis
    using assms by (simp add: manifest_of_object_def wf_manifest_def)
qed

lemma manifest_roundtrip:
  assumes "wf_manifest m"
  shows "manifest_from_dict (J_Object (manifest_to_dict m)) = Inr m"
proof -
  have "declared_version (manifest_to_dict m) = Some (mf_format_version m)"
    and "dict_get (manifest_to_dict m) ''format_name'' = Some (json_str SESSION_FORMAT_NAME)"
    using assms by (simp_all add: wf_manifest_def declared_version_def get_to_dict json_int_def)
  then show ?thesis
    using manifest_of_to_dict [OF assms] assms keys_to_dict [of m]
    by (simp add: manifest_from_dict_def wf_manifest_def del: set_map)
qed

subsection \<open>What a manifest that was read satisfies\<close>

lemma json_string_Inr: "json_string obj k = Inr s \<Longrightarrow> s \<noteq> []"
proof -
  assume "json_string obj k = Inr s"
  then obtain v where "(case v of
         J_Scalar (Py_Str s) \<Rightarrow>
           if s = [] then raise Type_Error (k @ '' must be a non-empty string'') else Inr s
       | _ \<Rightarrow> raise Type_Error (k @ '' must be a non-empty string'')) = Inr s"
    unfolding json_string_def rbind_eq_Inr by blast
  then show ?thesis
    by (cases v; cases "case v of J_Scalar x \<Rightarrow> x | _ \<Rightarrow> Py_None") (simp_all split: if_splits)
qed

lemma json_hash_Inr: "json_hash obj k = Inr s \<Longrightarrow> sha_format s"
  unfolding json_hash_def rbind_eq_Inr by (elim exE conjE) (simp split: if_splits)

lemma nonnegative_integer_Inr: "nonnegative_integer obj k = Inr i \<Longrightarrow> 0 \<le> i"
proof -
  assume "nonnegative_integer obj k = Inr i"
  then obtain v where "(case v of
         J_Scalar (Py_Int i) \<Rightarrow>
           if i < 0 then raise Type_Error (k @ '' must be a non-negative integer'') else Inr i
       | _ \<Rightarrow> raise Type_Error (k @ '' must be a non-negative integer'')) = Inr i"
    unfolding nonnegative_integer_def rbind_eq_Inr by blast
  then show ?thesis
    by (cases v; cases "case v of J_Scalar x \<Rightarrow> x | _ \<Rightarrow> Py_None") (simp_all split: if_splits)
qed

lemma positive_integer_Inr: "positive_integer obj k = Inr i \<Longrightarrow> 0 < i"
  unfolding positive_integer_def rbind_eq_Inr
  by (elim exE conjE, drule nonnegative_integer_Inr) (simp split: if_splits)

lemma optional_integer_Inr:
  "optional_nonnegative_integer obj k = Inr io \<Longrightarrow> \<forall>i. io = Some i \<longrightarrow> 0 \<le> i"
  unfolding optional_nonnegative_integer_def rbind_eq_Inr
  by (elim exE conjE) (auto simp: rbind_eq_Inr split: if_splits dest: nonnegative_integer_Inr)

lemma optional_hash_Inr: "optional_hash obj k = Inr so \<Longrightarrow> \<forall>s. so = Some s \<longrightarrow> sha_format s"
  unfolding optional_hash_def rbind_eq_Inr
  by (elim exE conjE) (auto simp: rbind_eq_Inr split: if_splits dest: json_hash_Inr)

lemma manifest_of_object_wf:
  assumes "manifest_of_object v obj = Inr m" and "supported_version v" and "validate_consistency m = Inr ()"
  shows "wf_manifest m"
proof -
  have cal: "if v = 1 then cal = None else \<exists>s. cal = Some s \<and> s \<noteq> []"
    if "(if v = 1 then Inr None else rbind (json_string obj k) (\<lambda>s. Inr (Some s))) = Inr cal" for k cal
    using that json_string_Inr by (auto simp: rbind_eq_Inr split: if_splits)
  have rev: "if v = 1 then r = None else \<exists>i. r = Some i \<and> 0 < i"
    if "(if v = 1 then Inr None else rbind (positive_integer obj k) (\<lambda>i. Inr (Some i))) = Inr r" for k r
    using that positive_integer_Inr by (auto simp: rbind_eq_Inr split: if_splits)
  show ?thesis
    using assms(1) unfolding manifest_of_object_def rbind_eq_Inr [where y = m]
    apply (elim exE conjE)
    apply (drule json_string_Inr json_hash_Inr nonnegative_integer_Inr optional_integer_Inr
        optional_hash_Inr cal rev)+
    using assms(2,3) by (auto simp: wf_manifest_def)
qed

lemma manifest_from_dict_Inr:
  assumes "manifest_from_dict v = Inr m"
  shows "\<exists>obj version. v = J_Object obj \<and> declared_version obj = Some version
    \<and> manifest_of_object version obj = Inr m \<and> validate_consistency m = Inr ()"
proof -
  from assms obtain obj where v: "v = J_Object obj" by (cases v) (auto simp: manifest_from_dict_def)
  from assms obtain version where d: "declared_version obj = Some version"
    by (cases "declared_version obj") (auto simp: manifest_from_dict_def v)
  show ?thesis
  proof (cases "manifest_of_object version obj")
    case (Inl e)
    with assms show ?thesis by (simp add: manifest_from_dict_def v d split: if_splits)
  next
    case (Inr m')
    with assms show ?thesis
      by (cases "validate_consistency m'") (simp_all add: manifest_from_dict_def v d split: if_splits)
  qed
qed

lemma declared_version_supported: "declared_version obj = Some version \<Longrightarrow> supported_version version"
proof -
  assume d: "declared_version obj = Some version"
  then obtain v where "dict_get obj ''format_version'' = Some v"
    by (cases "dict_get obj ''format_version''") (simp_all add: declared_version_def)
  with d show ?thesis
    by (cases v; cases "case v of J_Scalar x \<Rightarrow> x | _ \<Rightarrow> Py_None")
      (simp_all add: declared_version_def split: if_splits)
qed

lemma manifest_from_dict_wf: "manifest_from_dict v = Inr m \<Longrightarrow> wf_manifest m"
  using manifest_from_dict_Inr manifest_of_object_wf declared_version_supported by blast

lemma validate_consistency_error:
  "validate_consistency m = Inl e \<Longrightarrow> exn_class e = Session_Format_Error"
  by (cases "mf_status m"; cases "mf_first_timestamp_microseconds m"; cases "mf_last_timestamp_microseconds m")
    (auto simp: validate_consistency_def check_timestamps_def check_status_def check_calibration_def
      rbind_def split: if_splits)

end
