(* ===== verification/Session_Recorder.thy ===== *)
theory Session_Recorder
  imports Session_Format Dbc_Decoder
begin

text \<open>
  The session recorder (\<open>session/recorder.py\<close>): session names, the directory of one session as the
  recorder's file operations leave it, and the life cycle of a recorder. Every file operation may
  fail with an \<open>OSError\<close>; which ones do is the argument \<open>io\<close> of the operations, so that the lemmas
  hold for every pattern of failures. The temporary file of an interrupted manifest write and the
  directories' own existence checks are not represented.
\<close>

section \<open>Session names\<close>

text \<open>White space of \<open>str.split\<close> and \<open>str.strip\<close> among the first 256 code points.\<close>

definition is_space :: "char \<Rightarrow> bool" where
  "is_space c \<longleftrightarrow> (of_char c :: nat) \<in> {9, 10, 11, 12, 13, 28, 29, 30, 31, 32, 133, 160}"

abbreviation not_space :: "char \<Rightarrow> bool" where
  "not_space c \<equiv> \<not> is_space c"

function py_split :: "string \<Rightarrow> string list" where
  "py_split s =
     (case dropWhile is_space s of
        [] \<Rightarrow> []
      | c # cs \<Rightarrow> (c # takeWhile not_space cs) # py_split (dropWhile not_space cs))"
  by pat_completeness auto

termination py_split
proof (relation "measure length")
  fix s c and cs :: string
  assume "dropWhile is_space s = c # cs"
  then have "length cs < length s"
    using length_dropWhile_le [of is_space s] by simp
  then show "(dropWhile not_space cs, s) \<in> measure length"
    using length_dropWhile_le [of not_space cs] by simp
qed simp

declare py_split.simps [simp del]

definition py_strip :: "string \<Rightarrow> string" where
  "py_strip s = rev (dropWhile is_space (rev (dropWhile is_space s)))"

definition normalize_session_name :: "string option \<Rightarrow> string option result" where
  "normalize_session_name name =
     (case name of
        None \<Rightarrow> Inr None
      | Some s \<Rightarrow>
          let normalized = join_space (py_split s)
          in if normalized = [] then raise Value_Error ''session name cannot be empty''
             else if length normalized > 120
               then raise Value_Error ''session name cannot exceed 120 characters''
             else if \<exists>c \<in> set normalized. (of_char c :: nat) < 32
               then raise Value_Error ''session name cannot contain control characters''
             else Inr (Some normalized))"

subsection \<open>The normal form of a name\<close>

lemma is_space_blank [simp]: "is_space (CHR '' '')"
  by (simp add: is_space_def)

definition word_list :: "string list \<Rightarrow> bool" where
  "word_list ws \<longleftrightarrow> (\<forall>w \<in> set ws. w \<noteq> [] \<and> (\<forall>c \<in> set w. not_space c))"

lemma py_split_Cons:
  "dropWhile is_space s = c # cs \<Longrightarrow>
     py_split s = (c # takeWhile not_space cs) # py_split (dropWhile not_space cs)"
  unfolding py_split.simps [of s] by simp

lemma py_split_blanks: "dropWhile is_space s = [] \<Longrightarrow> py_split s = []"
  unfolding py_split.simps [of s] by (simp del: dropWhile_eq_Nil_conv)

lemma word_list_Cons: "word_list (w # ws) \<longleftrightarrow> w \<noteq> [] \<and> (\<forall>c \<in> set w. not_space c) \<and> word_list ws"
  by (auto simp: word_list_def)

lemma word_list_split: "word_list (py_split s)"
proof (induction s rule: py_split.induct)
  case (1 s)
  show ?case
  proof (cases "dropWhile is_space s")
    case (Cons c cs)
    then have "not_space c" by (metis hd_dropWhile list.distinct(1) list.sel(1))
    moreover have "\<forall>x \<in> set (takeWhile not_space cs). not_space x" by (auto dest: set_takeWhileD)
    ultimately show ?thesis
      using 1 [OF Cons] by (simp add: py_split_Cons [OF Cons] word_list_Cons)
  next
    case Nil
    show ?thesis unfolding py_split_blanks [OF Nil] by (simp add: word_list_def)
  qed
qed

lemma split_word:
  assumes "w \<noteq> []" and "\<forall>c \<in> set w. not_space c" and "rest = [] \<or> is_space (hd rest)"
  shows "py_split (w @ rest) = w # py_split rest"
proof -
  obtain c cs where w: "w = c # cs" using assms(1) by (cases w) auto
  have d: "dropWhile is_space (w @ rest) = c # (cs @ rest)" using assms(2) by (simp add: w)
  have "takeWhile not_space rest = []" and "dropWhile not_space rest = rest"
    using assms(3) by (cases rest; simp)+
  then have "takeWhile not_space (cs @ rest) = cs" and "dropWhile not_space (cs @ rest) = rest"
    using assms(2) by (simp_all add: w)
  then show ?thesis unfolding py_split_Cons [OF d] by (simp add: w)
qed

lemma py_split_Nil [simp]: "py_split [] = []"
  by (simp add: py_split.simps)

lemma py_split_blank: "py_split (CHR '' '' # s) = py_split s"
  by (simp add: py_split.simps [of "CHR '' '' # s"] py_split.simps [of s])

lemma split_join: "word_list ws \<Longrightarrow> py_split (join_space ws) = ws"
proof (induction ws rule: join_space.induct)
  case (2 w)
  then show ?case using split_word [of w "[]"] by (simp add: word_list_def)
next
  case (3 w v ws)
  then show ?case
    using split_word [of w "CHR '' '' # join_space (v # ws)"] by (simp add: word_list_def py_split_blank)
qed simp

lemma join_space_eq_Nil: "word_list ws \<Longrightarrow> join_space ws = [] \<longleftrightarrow> ws = []"
  by (induction ws rule: join_space.induct) (auto simp: word_list_def)

lemma join_space_chars: "word_list ws \<Longrightarrow> c \<in> set (join_space ws) \<Longrightarrow> is_space c \<Longrightarrow> c = CHR '' ''"
  by (induction ws rule: join_space.induct) (auto simp: word_list_def)

section \<open>The session directory and its file operations\<close>

datatype io_outcome = Io_Ok | Io_Fails nat

datatype io_call =
  Make_Partial | Open_Frames | Write_Frames | Finish_Frames | Write_Manifest | Publish | Write_Failure

type_synonym io = "io_call \<Rightarrow> io_outcome"

record artifact =
  art_manifest :: "json_object option"
  art_frames :: "bytes option"

record session_disk =
  disk_partial :: "artifact option"
  disk_final :: "artifact option"

abbreviation io_failed :: "io_outcome \<Rightarrow> bool" where
  "io_failed outcome \<equiv> outcome \<noteq> Io_Ok"

definition with_partial :: "(artifact \<Rightarrow> artifact) \<Rightarrow> session_disk \<Rightarrow> session_disk" where
  "with_partial f d = d\<lparr>disk_partial := map_option f (disk_partial d)\<rparr>"

text \<open>
  A write that fails may have brought a prefix of its bytes to the file, a failed flush may have lost
  all but a prefix of the file; the manifest is replaced as a whole or not at all.
\<close>

definition append_frames :: "bytes \<Rightarrow> session_disk \<Rightarrow> session_disk" where
  "append_frames b = with_partial (\<lambda>a. a\<lparr>art_frames := map_option (\<lambda>old. old @ b) (art_frames a)\<rparr>)"

definition keep_frames :: "nat \<Rightarrow> session_disk \<Rightarrow> session_disk" where
  "keep_frames n = with_partial (\<lambda>a. a\<lparr>art_frames := map_option (take n) (art_frames a)\<rparr>)"

text \<open>\<open>json.dumps\<close> with \<open>sort_keys\<close>: the object that reading the file back gives.\<close>

definition sort_keys :: "json_object \<Rightarrow> json_object" where
  "sort_keys obj = sort_key fst obj"

definition write_manifest_atomic ::
  "io_outcome \<Rightarrow> session_manifest \<Rightarrow> session_disk \<Rightarrow> unit result \<times> session_disk" where
  "write_manifest_atomic outcome m d =
     (if io_failed outcome then (raise OS_Error ''manifest'', d)
      else (Inr (), with_partial (\<lambda>a. a\<lparr>art_manifest := Some (sort_keys (manifest_to_dict m))\<rparr>) d))"

definition publish_partial :: "session_disk \<Rightarrow> session_disk" where
  "publish_partial d = \<lparr>disk_partial = None, disk_final = disk_partial d\<rparr>"

section \<open>The recorder\<close>

record session_recorder =
  sr_manifest :: session_manifest
  sr_hashed :: bytes
  sr_closed :: bool
  sr_disk :: session_disk

text \<open>
  The arguments of the constructor: the text of the session's UUID, the creation time in UTC (absent
  for a time without a zone, which the constructor refuses) and the rest as given.
\<close>

record recorder_request =
  rq_identifier :: string
  rq_created_at_utc :: "string option"
  rq_name :: "string option"
  rq_scenario :: "string option"
  rq_dbc_name :: string
  rq_dbc_sha256 :: "string option"
  rq_calibration_id :: "string option"
  rq_calibration_revision :: "int option"

definition check_calibration_arguments :: "recorder_request \<Rightarrow> unit result" where
  "check_calibration_arguments rq =
     (if (rq_calibration_id rq = None) \<noteq> (rq_calibration_revision rq = None)
        then raise Value_Error ''calibration ID and revision must be supplied together''
      else if rq_calibration_id rq \<noteq> None
          \<and> (rq_calibration_id rq = Some '''' \<or> rq_calibration_revision rq = Some 0)
        then raise Value_Error ''calibration provenance requires a non-empty ID and positive revision''
      else Inr ())"

definition recorder_version :: "recorder_request \<Rightarrow> int" where
  "recorder_version rq =
     (if rq_calibration_id rq = None then SESSION_FORMAT_VERSION else SESSION_FORMAT_VERSION_CALIBRATION)"

definition initial_manifest ::
  "bytes \<Rightarrow> recorder_request \<Rightarrow> string \<Rightarrow> session_manifest result" where
  "initial_manifest resource rq created =
     rbind (normalize_session_name (rq_name rq)) (\<lambda>name.
     rbind (normalize_session_name (rq_scenario rq)) (\<lambda>scenario.
       Inr \<lparr>mf_format_name = SESSION_FORMAT_NAME, mf_format_version = recorder_version rq,
            mf_session_id = rq_identifier rq, mf_created_at_utc = created, mf_name = name,
            mf_scenario = scenario, mf_vehicle_profile_id = REFERENCE_VEHICLE_PROFILE_ID,
            mf_can_network = SYNTHETIC_CAN_NETWORK, mf_dbc_name = rq_dbc_name rq,
            mf_dbc_sha256 =
              (case rq_dbc_sha256 rq of
                 None \<Rightarrow> authoritative_dbc_sha256 resource
               | Some s \<Rightarrow> if s = [] then authoritative_dbc_sha256 resource else s),
            mf_frames_sha256 = None, mf_status = RECORDING, mf_failure_reason = None,
            mf_frame_count = 0, mf_first_timestamp_microseconds = None,
            mf_last_timestamp_microseconds = None, mf_duration_microseconds = 0,
            mf_calibration_id = rq_calibration_id rq,
            mf_calibration_revision = rq_calibration_revision rq\<rparr>))"

definition empty_artifact :: artifact where
  "empty_artifact = \<lparr>art_manifest = None, art_frames = None\<rparr>"

text \<open>The file operations of the constructor once its arguments are accepted.\<close>

definition start_recording ::
  "io \<Rightarrow> session_manifest \<Rightarrow> session_disk \<Rightarrow> session_recorder result \<times> session_disk" where
  "start_recording io m d =
     (if io_failed (io Open_Frames) then (raise OS_Error ''frames'', d)
      else
        let d1 = with_partial (\<lambda>a. a\<lparr>art_frames := Some []\<rparr>) d
        in (case encode_session_header (mf_format_version m) of
              Inl e \<Rightarrow> (Inl e, d1)
            | Inr header \<Rightarrow>
                (case io Write_Frames of
                   Io_Fails n \<Rightarrow> (raise OS_Error ''frames'', append_frames (take n header) d1)
                 | Io_Ok \<Rightarrow>
                     (case write_manifest_atomic (io Write_Manifest) m (append_frames header d1) of
                        (Inl e, d2) \<Rightarrow> (Inl e, d2)
                      | (Inr _, d2) \<Rightarrow>
                          (Inr \<lparr>sr_manifest = m, sr_hashed = header, sr_closed = False, sr_disk = d2\<rparr>,
                           d2)))))"

definition make_recorder ::
  "bytes \<Rightarrow> io \<Rightarrow> recorder_request \<Rightarrow> session_disk \<Rightarrow> session_recorder result \<times> session_disk" where
  "make_recorder resource io rq d =
     (case rq_created_at_utc rq of
        None \<Rightarrow> (raise Value_Error ''created_at_utc must be timezone-aware'', d)
      | Some created \<Rightarrow>
          if disk_partial d \<noteq> None \<or> disk_final d \<noteq> None
            then (raise Session_Recording_Error (''session '' @ rq_identifier rq @ '' already exists''), d)
          else if io_failed (io Make_Partial) then (raise OS_Error ''mkdir'', d)
          else
            let d1 = d\<lparr>disk_partial := Some empty_artifact\<rparr>
            in (case rbind (check_calibration_arguments rq) (\<lambda>_. initial_manifest resource rq created) of
                  Inl e \<Rightarrow> (Inl e, d1)
                | Inr m \<Rightarrow> start_recording io m d1))"

definition recorder_recording :: "session_recorder \<Rightarrow> bool" where
  "recorder_recording r \<longleftrightarrow> \<not> sr_closed r \<and> mf_status (sr_manifest r) = RECORDING"

definition count_frame :: "raw_can_frame \<Rightarrow> session_manifest \<Rightarrow> session_manifest" where
  "count_frame f m =
     (let t0 = (case mf_first_timestamp_microseconds m of None \<Rightarrow> timestamp_microseconds f | Some t \<Rightarrow> t)
      in m\<lparr>mf_frame_count := mf_frame_count m + 1,
           mf_first_timestamp_microseconds := Some t0,
           mf_last_timestamp_microseconds := Some (timestamp_microseconds f),
           mf_duration_microseconds := timestamp_microseconds f - t0\<rparr>)"

definition precedes :: "raw_can_frame \<Rightarrow> int option \<Rightarrow> bool" where
  "precedes f previous = (case previous of None \<Rightarrow> False | Some t \<Rightarrow> timestamp_microseconds f < t)"

definition recorder_record ::
  "io \<Rightarrow> session_recorder \<Rightarrow> raw_can_frame \<Rightarrow> unit result \<times> session_recorder" where
  "recorder_record io r f =
     (if \<not> recorder_recording r
        then (raise Session_Recording_Error ''session recorder is not recording'', r)
      else if precedes f (mf_last_timestamp_microseconds (sr_manifest r))
        then (raise Session_Recording_Error
               (''raw frame timestamp '' @ str_int (timestamp_microseconds f) @ '' precedes ''
                 @ str_int (the (mf_last_timestamp_microseconds (sr_manifest r)))), r)
      else (case encode_raw_can_record f of
              Inl e \<Rightarrow> (Inl e, r)
            | Inr encoded \<Rightarrow>
                (case io Write_Frames of
                   Io_Fails n \<Rightarrow>
                     (raise Session_Recording_Error ''failed writing raw session frame'',
                      r\<lparr>sr_disk := append_frames (take n encoded) (sr_disk r)\<rparr>)
                 | Io_Ok \<Rightarrow>
                     (Inr (),
                      r\<lparr>sr_disk := append_frames encoded (sr_disk r), sr_hashed := sr_hashed r @ encoded,
                        sr_manifest := count_frame f (sr_manifest r)\<rparr>))))"

definition finish_stream :: "io \<Rightarrow> session_recorder \<Rightarrow> unit result \<times> session_recorder" where
  "finish_stream io r =
     (case io Finish_Frames of
        Io_Ok \<Rightarrow> (Inr (), r\<lparr>sr_closed := True\<rparr>)
      | Io_Fails n \<Rightarrow>
          (raise Session_Recording_Error ''failed finalizing raw session frame file'',
           r\<lparr>sr_closed := True, sr_disk := keep_frames n (sr_disk r)\<rparr>))"

definition publishing_failed :: string where
  "publishing_failed = ''failed publishing completed session artifact''"

definition recorder_complete ::
  "io \<Rightarrow> session_recorder \<Rightarrow> session_manifest result \<times> session_recorder" where
  "recorder_complete io r =
     (if \<not> recorder_recording r
        then (raise Session_Recording_Error ''session recorder cannot be completed'', r)
      else (case finish_stream io r of
              (Inl e, r1) \<Rightarrow> (Inl e, r1)
            | (Inr _, r1) \<Rightarrow>
                let complete = (sr_manifest r1)\<lparr>mf_frames_sha256 := Some (hexdigest (sr_hashed r1)),
                                                mf_status := COMPLETE\<rparr>;
                    (written, d1) = write_manifest_atomic (io Write_Manifest) complete (sr_disk r1)
                in if written = Inr () \<and> \<not> io_failed (io Publish)
                   then (Inr complete, r1\<lparr>sr_disk := publish_partial d1, sr_manifest := complete\<rparr>)
                   else
                     let failed = complete\<lparr>mf_status := INCOMPLETE,
                                           mf_failure_reason := Some publishing_failed\<rparr>;
                         d2 = snd (write_manifest_atomic (io Write_Failure) failed d1)
                     in (raise Session_Recording_Error publishing_failed,
                         r1\<lparr>sr_disk := d2, sr_manifest := failed\<rparr>)))"

definition recorder_abort ::
  "io \<Rightarrow> session_recorder \<Rightarrow> string \<Rightarrow> session_manifest result \<times> session_recorder" where
  "recorder_abort io r reason =
     (if sr_closed r then (Inr (sr_manifest r), r)
      else (case finish_stream io r of
              (Inl e, r1) \<Rightarrow> (Inl e, r1)
            | (Inr _, r1) \<Rightarrow>
                let short = take 500 (py_strip reason);
                    safe_reason = (if short = [] then ''recording failed'' else short);
                    m = (sr_manifest r1)\<lparr>mf_frames_sha256 := Some (hexdigest (sr_hashed r1)),
                          mf_status := INCOMPLETE, mf_failure_reason := Some safe_reason\<rparr>;
                    r2 = r1\<lparr>sr_manifest := m\<rparr>
                in (case write_manifest_atomic (io Write_Manifest) m (sr_disk r2) of
                      (Inl e, _) \<Rightarrow> (Inl e, r2)
                    | (Inr _, d) \<Rightarrow> (Inr m, r2\<lparr>sr_disk := d\<rparr>))))"

definition recorder_close :: "io \<Rightarrow> session_recorder \<Rightarrow> unit result \<times> session_recorder" where
  "recorder_close io r =
     (if sr_closed r then (Inr (), r)
      else map_prod (\<lambda>v. rbind v (\<lambda>_. Inr ())) id
             (recorder_abort io r ''recording closed before normal gateway completion''))"

text \<open>Leaving the \<open>with\<close> block, normally or with an exception whose text is given.\<close>

definition recorder_exit :: "io \<Rightarrow> session_recorder \<Rightarrow> string option \<Rightarrow> unit result \<times> session_recorder" where
  "recorder_exit io r exception =
     map_prod (\<lambda>v. rbind v (\<lambda>_. Inr ())) id
       (case exception of None \<Rightarrow> recorder_complete io r | Some text \<Rightarrow> recorder_abort io r text)"

definition artifact_path_final :: "session_recorder \<Rightarrow> bool" where
  "artifact_path_final r \<longleftrightarrow> mf_status (sr_manifest r) = COMPLETE"

end
