(* ===== verification/Session_Recording.thy ===== *)
theory Session_Recording
  imports Session_Recorder
begin

text \<open>
  What a recorder keeps, whatever file operations fail: the invariant ties the manifest, the hashed
  bytes and the files to the list of frames whose recording returned, every operation preserves it,
  and so does every run of operations. The manifest of a published session is well formed.
\<close>

section \<open>What a recorder keeps\<close>

definition stream_file :: "int \<Rightarrow> raw_can_frame list \<Rightarrow> bytes" where
  "stream_file v fs = header_bytes v @ concat (map record_bytes fs)"

text \<open>The manifest with the counts of a list of frames.\<close>

definition with_counts :: "raw_can_frame list \<Rightarrow> session_manifest \<Rightarrow> session_manifest" where
  "with_counts fs m =
     m\<lparr>mf_frame_count := int (length fs),
       mf_first_timestamp_microseconds := (if fs = [] then None else Some (timestamp_microseconds (hd fs))),
       mf_last_timestamp_microseconds := (if fs = [] then None else Some (timestamp_microseconds (last fs))),
       mf_duration_microseconds :=
         (if fs = [] then 0 else timestamp_microseconds (last fs) - timestamp_microseconds (hd fs))\<rparr>"

definition sealed :: "session_manifest \<Rightarrow> raw_can_frame list \<Rightarrow> session_status \<Rightarrow> string option \<Rightarrow> session_manifest"
  where
  "sealed m fs st reason =
     (with_counts fs m)
       \<lparr>mf_frames_sha256 := Some (hexdigest (stream_file (mf_format_version m) fs)),
        mf_status := st, mf_failure_reason := reason\<rparr>"

definition fresh_manifest :: "session_manifest \<Rightarrow> bool" where
  "fresh_manifest m \<longleftrightarrow> mf_status m = RECORDING \<and> mf_failure_reason m = None \<and> mf_frames_sha256 m = None
     \<and> mf_frame_count m = 0 \<and> mf_first_timestamp_microseconds m = None
     \<and> mf_last_timestamp_microseconds m = None \<and> mf_duration_microseconds m = 0
     \<and> supported_version (mf_format_version m)"

text \<open>
  \<open>m\<close> is the manifest the recorder started with, \<open>fs\<close> the frames whose recording returned; \<open>intact\<close>
  tells that no write to the frame file has failed.
\<close>

definition rec_inv :: "session_manifest \<Rightarrow> bool \<Rightarrow> raw_can_frame list \<Rightarrow> session_recorder \<Rightarrow> bool" where
  "rec_inv m intact fs r \<longleftrightarrow>
     fresh_manifest m \<and> list_all encodable fs \<and> sorted (map timestamp_microseconds fs)
     \<and> sr_hashed r = stream_file (mf_format_version m) fs
     \<and> (case mf_status (sr_manifest r) of
          RECORDING \<Rightarrow> sr_manifest r = with_counts fs m \<and> disk_final (sr_disk r) = None
            \<and> (\<not> sr_closed r \<longrightarrow> (\<exists>a b. disk_partial (sr_disk r) = Some a \<and> art_frames a = Some b
                 \<and> (intact \<longrightarrow> b = stream_file (mf_format_version m) fs)))
        | COMPLETE \<Rightarrow> sr_manifest r = sealed m fs COMPLETE None \<and> sr_closed r
            \<and> (\<exists>a. disk_final (sr_disk r) = Some a \<and> art_manifest a = Some (sort_keys (manifest_to_dict (sr_manifest r)))
                 \<and> (intact \<longrightarrow> art_frames a = Some (stream_file (mf_format_version m) fs)))
        | INCOMPLETE \<Rightarrow> (\<exists>reason. sr_manifest r = sealed m fs INCOMPLETE (Some reason) \<and> reason \<noteq> [])
            \<and> sr_closed r \<and> disk_final (sr_disk r) = None)"

lemma stream_file_snoc: "stream_file v (fs @ [f]) = stream_file v fs @ record_bytes f"
  by (simp add: stream_file_def)

lemma count_frame_with_counts [simp]: "count_frame f (with_counts fs m) = with_counts (fs @ [f]) m"
  by (cases fs) (simp_all add: count_frame_def with_counts_def Let_def)

lemma with_counts_simps [simp]:
  "mf_status (with_counts fs m) = mf_status m" "mf_format_version (with_counts fs m) = mf_format_version m"
  "mf_last_timestamp_microseconds (with_counts fs m) =
     (if fs = [] then None else Some (timestamp_microseconds (last fs)))"
  by (simp_all add: with_counts_def)

lemma sealed_status [simp]: "mf_status (sealed m fs st reason) = st"
  by (simp add: sealed_def)

lemma disk_simps [simp]:
  "disk_final (with_partial g d) = disk_final d"
  "disk_partial (with_partial g d) = map_option g (disk_partial d)"
  "disk_final (append_frames b d) = disk_final d" "disk_final (keep_frames n d) = disk_final d"
  by (simp_all add: with_partial_def append_frames_def keep_frames_def)

lemma disk_final_manifest [simp]: "disk_final (snd (write_manifest_atomic outcome m d)) = disk_final d"
  by (simp add: write_manifest_atomic_def)

lemma sorted_map_snoc:
  "sorted (map timestamp_microseconds fs) \<Longrightarrow>
     \<not> precedes f (if fs = [] then None else Some (timestamp_microseconds (last fs))) \<Longrightarrow>
     sorted (map timestamp_microseconds (fs @ [f]))"
  by (induction fs rule: rev_induct) (auto simp: precedes_def sorted_append)

lemma rec_inv_weaken: "rec_inv m intact fs r \<Longrightarrow> (i \<Longrightarrow> intact) \<Longrightarrow> rec_inv m i fs r"
  unfolding rec_inv_def by (cases "mf_status (sr_manifest r)") auto

lemma rec_inv_recording:
  "rec_inv m intact fs r \<Longrightarrow> recorder_recording r \<Longrightarrow>
     sr_manifest r = with_counts fs m \<and> disk_final (sr_disk r) = None \<and> \<not> sr_closed r
     \<and> (\<exists>a b. disk_partial (sr_disk r) = Some a \<and> art_frames a = Some b
          \<and> (intact \<longrightarrow> b = stream_file (mf_format_version m) fs))"
  unfolding rec_inv_def recorder_recording_def by (cases "mf_status (sr_manifest r)") auto

lemma recorder_record_inv:
  assumes inv: "rec_inv m intact fs r" and "wf_frame f" and rec: "recorder_record io r f = (res, r')"
  shows "rec_inv m (intact \<and> io Write_Frames = Io_Ok) (if isl res then fs else fs @ [f]) r'"
proof (cases "isl res \<and> r' = r")
  case True
  then show ?thesis using rec_inv_weaken [OF inv] by simp
next
  case False
  then have live: "recorder_recording r"
    and ord: "\<not> precedes f (mf_last_timestamp_microseconds (sr_manifest r))"
    using rec by (auto simp: recorder_record_def split: if_splits)
  with rec False obtain b where enc: "encode_raw_can_record f = Inr b"
    by (cases "encode_raw_can_record f") (auto simp: recorder_record_def)
  note b = encode_Inr [OF assms(2) enc]
  note keep = rec_inv_recording [OF inv live]
  show ?thesis
  proof (cases "io Write_Frames")
    case (Io_Fails n)
    then have "isl res" and "r' = r\<lparr>sr_disk := append_frames (take n b) (sr_disk r)\<rparr>"
      using rec live ord enc by (auto simp: recorder_record_def)
    then show ?thesis using inv keep Io_Fails
      by (auto simp: rec_inv_def fresh_manifest_def append_frames_def)
  next
    case Io_Ok
    then have "\<not> isl res" and "r' = r\<lparr>sr_disk := append_frames b (sr_disk r), sr_hashed := sr_hashed r @ b,
        sr_manifest := count_frame f (sr_manifest r)\<rparr>"
      using rec live ord enc by (auto simp: recorder_record_def)
    then show ?thesis
      using inv keep b ord sorted_map_snoc [of fs f]
      by (auto simp: rec_inv_def fresh_manifest_def stream_file_snoc append_frames_def with_partial_def)
  qed
qed

lemma seal:
  assumes "rec_inv m intact fs r"
  shows "(with_counts fs m)\<lparr>mf_frames_sha256 := Some (hexdigest (sr_hashed r)), mf_status := COMPLETE\<rparr>
      = sealed m fs COMPLETE None"
    and "(with_counts fs m)\<lparr>mf_frames_sha256 := Some (hexdigest (sr_hashed r)), mf_status := st,
       mf_failure_reason := reason\<rparr> = sealed m fs st reason"
  using assms by (simp_all add: sealed_def rec_inv_def with_counts_def fresh_manifest_def)

lemma finish_stream_inv:
  "rec_inv m intact fs r \<Longrightarrow> recorder_recording r \<Longrightarrow> finish_stream io r = (res, r') \<Longrightarrow>
     rec_inv m intact fs r' \<and> sr_manifest r' = sr_manifest r \<and> sr_closed r'
     \<and> (res = Inr () \<longrightarrow> sr_disk r' = sr_disk r)"
  using rec_inv_recording [of m intact fs r]
  by (auto simp: finish_stream_def rec_inv_def fresh_manifest_def split: io_outcome.splits)

lemma finish_stream_ok: "finish_stream io r = (Inr u, r') \<Longrightarrow> r' = r\<lparr>sr_closed := True\<rparr>"
  by (auto simp: finish_stream_def split: io_outcome.splits)

lemma reseal [simp]:
  "(sealed m fs st0 reason0)\<lparr>mf_status := st, mf_failure_reason := reason\<rparr> = sealed m fs st reason"
  by (simp add: sealed_def)

definition completed :: "session_manifest \<Rightarrow> artifact \<Rightarrow> artifact" where
  "completed m a = a\<lparr>art_manifest := Some (sort_keys (manifest_to_dict m))\<rparr>"

lemma recorder_complete_cases:
  assumes inv: "rec_inv m intact fs r" and live: "recorder_recording r"
    and res: "recorder_complete io r = (res, r')"
  obtains (unfinished) e where "finish_stream io r = (Inl e, r')" and "res = Inl e"
  | (published) a where "disk_partial (sr_disk r) = Some a" and "res = Inr (sealed m fs COMPLETE None)"
      and "r' = r\<lparr>sr_closed := True, sr_manifest := sealed m fs COMPLETE None,
        sr_disk := \<lparr>disk_partial = None, disk_final = Some (completed (sealed m fs COMPLETE None) a)\<rparr>\<rparr>"
  | (unpublished) d where "disk_final d = None"
      and "res = raise Session_Recording_Error publishing_failed"
      and "r' = r\<lparr>sr_closed := True, sr_manifest := sealed m fs INCOMPLETE (Some publishing_failed), sr_disk := d\<rparr>"
proof (cases "finish_stream io r")
  case (Pair f r1)
  show ?thesis
  proof (cases f)
    case (Inl e)
    with res live Pair show ?thesis by (intro unfinished) (auto simp: recorder_complete_def)
  next
    case (Inr u)
    note r1 = finish_stream_ok [OF Pair [unfolded Inr]]
    obtain a where keep: "sr_manifest r = with_counts fs m" "disk_final (sr_disk r) = None"
      "disk_partial (sr_disk r) = Some a"
      using rec_inv_recording [OF inv live] by auto
    note facts = recorder_complete_def live Pair Inr r1 seal [OF inv] keep write_manifest_atomic_def Let_def
    show ?thesis
    proof (cases "io Write_Manifest = Io_Ok \<and> io Publish = Io_Ok")
      case True
      with res show ?thesis
        by (intro published [OF keep(3)]) (auto simp: facts completed_def publish_partial_def with_partial_def)
    next
      case False
      with res have "res = raise Session_Recording_Error publishing_failed" by (auto simp: facts split: if_splits)
      moreover have "r' = r\<lparr>sr_closed := True, sr_manifest := sealed m fs INCOMPLETE (Some publishing_failed),
          sr_disk := sr_disk r'\<rparr>" and "disk_final (sr_disk r') = None"
        using res False by (auto simp: facts split: if_splits)
      ultimately show ?thesis by (intro unpublished)
    qed
  qed
qed

lemma rec_inv_incomplete:
  "rec_inv m intact fs r \<Longrightarrow> sr_hashed r' = sr_hashed r \<Longrightarrow>
     sr_manifest r' = sealed m fs INCOMPLETE (Some reason) \<Longrightarrow> reason \<noteq> [] \<Longrightarrow> sr_closed r' \<Longrightarrow>
     disk_final (sr_disk r') = None \<Longrightarrow> rec_inv m intact fs r'"
  unfolding rec_inv_def by auto

lemma recorder_complete_inv:
  assumes inv: "rec_inv m intact fs r" and res: "recorder_complete io r = (res, r')"
  shows "rec_inv m intact fs r'"
proof (cases "recorder_recording r")
  case live: True
  note keep = rec_inv_recording [OF inv live]
  from inv live res show ?thesis
  proof (cases rule: recorder_complete_cases)
    case (unfinished e)
    then show ?thesis using finish_stream_inv [OF inv live] by blast
  next
    case (published a)
    with inv keep show ?thesis by (auto simp: rec_inv_def completed_def fresh_manifest_def)
  next
    case (unpublished d)
    then show ?thesis
      by (intro rec_inv_incomplete [OF inv, of _ publishing_failed]) (simp_all add: publishing_failed_def)
  qed
qed (use inv res in \<open>simp add: recorder_complete_def\<close>)

lemma recorder_abort_inv:
  assumes inv: "rec_inv m intact fs r" and res: "recorder_abort io r reason = (res, r')"
  shows "rec_inv m intact fs r'"
proof (cases "sr_closed r")
  case False
  then have live: "recorder_recording r"
    using inv unfolding rec_inv_def recorder_recording_def
    by (cases "mf_status (sr_manifest r)") auto
  note keep = rec_inv_recording [OF inv live]
  show ?thesis
  proof (cases "finish_stream io r")
    case (Pair f r1)
    show ?thesis
    proof (cases f)
      case (Inl e)
      with res False Pair finish_stream_inv [OF inv live Pair] show ?thesis
        by (simp add: recorder_abort_def)
    next
      case (Inr u)
      note r1 = finish_stream_ok [OF Pair [unfolded Inr]]
      let ?reason = "if take 500 (py_strip reason) = [] then ''recording failed'' else take 500 (py_strip reason)"
      have "sr_manifest r' = sealed m fs INCOMPLETE (Some ?reason)" and "?reason \<noteq> []" and "sr_closed r'"
        and "sr_hashed r' = sr_hashed r" and "disk_final (sr_disk r') = None"
        using res False Pair Inr keep seal [OF inv]
        by (auto simp: recorder_abort_def r1 Let_def write_manifest_atomic_def split: if_splits)
      then show ?thesis by (intro rec_inv_incomplete [OF inv])
    qed
  qed
qed (use inv res in \<open>simp add: recorder_abort_def\<close>)

section \<open>Runs of a recorder\<close>

datatype recorder_op =
  Op_Record raw_can_frame | Op_Complete | Op_Abort string | Op_Close | Op_Exit "string option"

definition recorder_step :: "session_recorder \<Rightarrow> io \<times> recorder_op \<Rightarrow> raw_can_frame list \<times> session_recorder" where
  "recorder_step r step =
     (case step of (io, oper) \<Rightarrow>
       (case oper of
          Op_Record f \<Rightarrow> (case recorder_record io r f of (res, r') \<Rightarrow> (if isl res then [] else [f], r'))
        | Op_Complete \<Rightarrow> ([], snd (recorder_complete io r))
        | Op_Abort reason \<Rightarrow> ([], snd (recorder_abort io r reason))
        | Op_Close \<Rightarrow> ([], snd (recorder_close io r))
        | Op_Exit exception \<Rightarrow> ([], snd (recorder_exit io r exception))))"

text \<open>The recorder after a run and the frames whose recording returned.\<close>

fun recorder_run ::
  "session_recorder \<Rightarrow> (io \<times> recorder_op) list \<Rightarrow> session_recorder \<times> raw_can_frame list" where
  "recorder_run r [] = (r, [])"
| "recorder_run r (step # steps) =
     (case recorder_step r step of (fs, r1) \<Rightarrow>
       (case recorder_run r1 steps of (r2, gs) \<Rightarrow> (r2, fs @ gs)))"

fun step_frames :: "io \<times> recorder_op \<Rightarrow> raw_can_frame list" where
  "step_frames (_, Op_Record f) = [f]"
| "step_frames _ = []"

definition writes_succeed :: "(io \<times> recorder_op) list \<Rightarrow> bool" where
  "writes_succeed steps = list_all (\<lambda>(io, _). io Write_Frames = Io_Ok) steps"

lemma recorder_step_inv:
  assumes "rec_inv m intact fs r" and "list_all wf_frame (step_frames step)"
  shows "case recorder_step r step of (gs, r') \<Rightarrow>
    rec_inv m (intact \<and> fst step Write_Frames = Io_Ok) (fs @ gs) r'"
proof (cases step)
  case (Pair io oper)
  have weaker: "rec_inv m intact fs r' \<Longrightarrow> rec_inv m (intact \<and> io Write_Frames = Io_Ok) fs r'" for r'
    by (erule rec_inv_weaken) simp
  have abort: "rec_inv m intact fs (snd (recorder_abort io r reason))" for reason
    using recorder_abort_inv [OF assms(1)] by (cases "recorder_abort io r reason") simp
  have complete: "rec_inv m intact fs (snd (recorder_complete io r))"
    using recorder_complete_inv [OF assms(1)] by (cases "recorder_complete io r") simp
  show ?thesis
  proof (cases oper)
    case (Op_Record f)
    then show ?thesis
      using recorder_record_inv [OF assms(1), of f io] assms(2) Pair
      by (cases "recorder_record io r f") (auto simp: recorder_step_def)
  next
    case Op_Close
    then show ?thesis
      using weaker [OF abort] weaker [OF assms(1)] Pair by (simp add: recorder_step_def recorder_close_def)
  next
    case (Op_Exit exception)
    then show ?thesis
      using weaker [OF abort] weaker [OF complete] Pair
      by (cases exception) (simp_all add: recorder_step_def recorder_exit_def)
  qed (use weaker [OF abort] weaker [OF complete] Pair in \<open>simp_all add: recorder_step_def\<close>)
qed

lemma recorder_run_inv:
  "rec_inv m intact fs r \<Longrightarrow> list_all (\<lambda>s. list_all wf_frame (step_frames s)) steps \<Longrightarrow>
     recorder_run r steps = (r', gs) \<Longrightarrow> rec_inv m (intact \<and> writes_succeed steps) (fs @ gs) r'"
proof (induction steps arbitrary: r intact fs gs)
  case Nil
  then show ?case by (simp add: writes_succeed_def)
next
  case (Cons step steps)
  obtain ks r1 where st: "recorder_step r step = (ks, r1)" by fastforce
  obtain r2 ls where run: "recorder_run r1 steps = (r2, ls)" by fastforce
  have r1: "rec_inv m (intact \<and> fst step Write_Frames = Io_Ok) (fs @ ks) r1"
    using recorder_step_inv [OF Cons.prems(1), of step] Cons.prems(2) st by simp
  have "gs = ks @ ls" and "r' = r2" using Cons.prems(3) st run by auto
  then show ?case
    using Cons.IH [OF r1 _ run [folded \<open>r' = r2\<close>]] Cons.prems(2)
    by (cases step) (simp add: writes_succeed_def conj_assoc)
qed

section \<open>How a recording starts\<close>

definition wf_request :: "recorder_request \<Rightarrow> bool" where
  "wf_request rq \<longleftrightarrow> canonical_uuid (rq_identifier rq) \<and> rq_created_at_utc rq \<noteq> Some []
     \<and> rq_dbc_name rq \<noteq> [] \<and> (\<forall>s. rq_dbc_sha256 rq = Some s \<longrightarrow> s = [] \<or> sha_format s)
     \<and> (\<forall>i. rq_calibration_revision rq = Some i \<longrightarrow> 0 \<le> i)"

definition wf_identity :: "session_manifest \<Rightarrow> bool" where
  "wf_identity m \<longleftrightarrow> mf_format_name m = SESSION_FORMAT_NAME \<and> supported_version (mf_format_version m)
     \<and> canonical_uuid (mf_session_id m) \<and> mf_created_at_utc m \<noteq> [] \<and> mf_vehicle_profile_id m \<noteq> []
     \<and> mf_can_network m \<noteq> [] \<and> mf_dbc_name m \<noteq> [] \<and> sha_format (mf_dbc_sha256 m)
     \<and> (if mf_format_version m = 1 then mf_calibration_id m = None \<and> mf_calibration_revision m = None
        else (\<exists>s. mf_calibration_id m = Some s \<and> s \<noteq> [])
          \<and> (\<exists>i. mf_calibration_revision m = Some i \<and> 0 < i))"

lemma hexdigest_format: "sha_format (hexdigest b)"
  unfolding sha_format_def using length_hexdigest set_hexdigest by blast

lemma initial_manifest_Inr:
  assumes "initial_manifest resource rq created = Inr m"
  shows "fresh_manifest m \<and> mf_format_version m = recorder_version rq
    \<and> mf_calibration_revision m = rq_calibration_revision rq"
  using assms
  by (auto simp: initial_manifest_def rbind_eq_Inr fresh_manifest_def recorder_version_def supported_version_def)

lemma initial_manifest_identity:
  assumes "initial_manifest resource rq created = Inr m" and "wf_request rq"
    and "rq_created_at_utc rq = Some created" and "check_calibration_arguments rq = Inr ()"
  shows "wf_identity m"
proof -
  have "sha_format (mf_dbc_sha256 m)"
    using assms(1,2) hexdigest_format
    by (auto simp: initial_manifest_def rbind_eq_Inr wf_request_def authoritative_dbc_sha256_def
        split: option.splits if_splits)
  moreover have "if recorder_version rq = 1 then rq_calibration_id rq = None \<and> rq_calibration_revision rq = None
      else (\<exists>s. rq_calibration_id rq = Some s \<and> s \<noteq> []) \<and> (\<exists>i. rq_calibration_revision rq = Some i \<and> 0 < i)"
    using assms(2,4)
    by (cases "rq_calibration_id rq"; cases "rq_calibration_revision rq")
      (auto simp: check_calibration_arguments_def recorder_version_def wf_request_def split: if_splits)
  ultimately show ?thesis
    using assms(1-3) initial_manifest_Inr [OF assms(1)]
    by (auto simp: initial_manifest_def rbind_eq_Inr wf_identity_def wf_request_def fresh_manifest_def
        REFERENCE_VEHICLE_PROFILE_ID_def SYNTHETIC_CAN_NETWORK_def)
qed

lemma start_recording_inv:
  assumes "start_recording io m d = (Inr r, d')" and "fresh_manifest m" and "disk_final d = None"
    and "disk_partial d \<noteq> None"
  shows "rec_inv m True [] r \<and> sr_manifest r = m \<and> sr_disk r = d' \<and> \<not> sr_closed r"
proof -
  have v: "supported_version (mf_format_version m)" using assms(2) by (simp add: fresh_manifest_def)
  have "with_counts [] m = m" using assms(2) by (simp add: fresh_manifest_def with_counts_def)
  then show ?thesis
    using assms v
    by (auto simp: start_recording_def encode_header_ok rec_inv_def stream_file_def write_manifest_atomic_def
        fresh_manifest_def append_frames_def Let_def split: io_outcome.splits if_splits)
qed

lemma make_recorder_inv:
  assumes "make_recorder resource io rq d = (Inr r, d')"
  shows "rec_inv (sr_manifest r) True [] r \<and> sr_disk r = d' \<and> recorder_recording r \<and> (wf_request rq \<longrightarrow> wf_identity (sr_manifest r))"
proof -
  from assms obtain created where c: "rq_created_at_utc rq = Some created"
    by (cases "rq_created_at_utc rq") (simp_all add: make_recorder_def)
  from assms c obtain m where m: "check_calibration_arguments rq = Inr ()"
    "initial_manifest resource rq created = Inr m"
    and s: "start_recording io m (d\<lparr>disk_partial := Some empty_artifact\<rparr>) = (Inr r, d')"
    and none: "disk_final d = None"
    by (auto simp: make_recorder_def rbind_def Let_def split: sum.splits if_splits)
  note f = initial_manifest_Inr [OF m(2)]
  from start_recording_inv [OF s] f none
  have "rec_inv m True [] r \<and> sr_manifest r = m \<and> sr_disk r = d' \<and> \<not> sr_closed r" by simp
  then show ?thesis
    using initial_manifest_identity [OF m(2) _ c m(1)] f by (auto simp: recorder_recording_def fresh_manifest_def)
qed

lemma sealed_wf:
  assumes "wf_identity m" and "list_all encodable fs" and "sorted (map timestamp_microseconds fs)"
  shows "wf_manifest (sealed m fs COMPLETE None)"
proof -
  have id: "mf_session_id m \<noteq> []" using assms(1) by (auto simp: wf_identity_def canonical_uuid_nonempty)
  have ts: "check_timestamps (sealed m fs COMPLETE None) = Inr ()"
    and pos: "0 \<le> mf_duration_microseconds (sealed m fs COMPLETE None)"
    and first: "fs \<noteq> [] \<longrightarrow> 0 \<le> timestamp_microseconds (hd fs)"
    and last: "fs \<noteq> [] \<longrightarrow> 0 \<le> timestamp_microseconds (last fs)"
    using assms(2,3)
    by (atomize (full), cases fs)
      (auto simp: check_timestamps_def sealed_def with_counts_def encodable_def wf_frame_def
        dest: bspec [OF _ last_in_set])
  have fields: "mf_frame_count (sealed m fs COMPLETE None) = int (length fs)"
    "mf_calibration_id (sealed m fs COMPLETE None) = mf_calibration_id m"
    by (simp_all add: sealed_def with_counts_def)
  have "check_status (sealed m fs COMPLETE None) = Inr ()"
    by (simp add: check_status_def sealed_def with_counts_def)
  moreover have "check_calibration (sealed m fs COMPLETE None) = Inr ()"
    using assms(1)
    by (cases "mf_format_version m = 1") (auto simp: check_calibration_def sealed_def with_counts_def wf_identity_def)
  ultimately have "validate_consistency (sealed m fs COMPLETE None) = Inr ()"
    using assms(1) ts by (simp add: validate_consistency_def wf_identity_def sealed_def with_counts_def)
  then show ?thesis
    using assms(1) id pos first last hexdigest_format
    unfolding wf_manifest_def by (simp add: wf_identity_def sealed_def with_counts_def)
qed

end
