(* ===== verification/Session_Reader.thy ===== *)
theory Session_Reader
  imports Session_Recording
begin

text \<open>
  The session reader (\<open>session/reader.py\<close>, \<open>read_manifest\<close> of \<open>session/format.py\<close>). A stored session is
  what reading its two files gives: the outcome of reading and parsing the manifest, and the content
  of the frame file. \<open>validate_integrity\<close> and the generator \<open>frames\<close> are two loops in the source and
  two functions here; the lemmas show that they agree, that they accept exactly the files that a
  header and records in time order make up, and that they yield the frames of that file.
\<close>

section \<open>Opening a stored session\<close>

record stored_session =
  st_manifest :: "json_value result"
  st_frames :: "bytes option"

definition read_manifest :: "json_value result \<Rightarrow> session_manifest result" where
  "read_manifest text =
     (case text of
        Inl e \<Rightarrow>
          if catches File_Not_Found_Error e then raise Session_Format_Error ''session manifest is missing''
          else if catches OS_Error e \<or> catches Json_Decode_Error e
            then raise Session_Format_Error ''session manifest is not valid JSON''
          else Inl e
      | Inr value \<Rightarrow> manifest_from_dict value)"

record session_reader =
  rd_manifest :: session_manifest
  rd_frames :: "bytes option"

definition open_reader :: "stored_session \<Rightarrow> string option \<Rightarrow> session_reader result" where
  "open_reader st expected_dbc_sha256 =
     rbind (read_manifest (st_manifest st)) (\<lambda>m.
       if mf_status m \<noteq> COMPLETE
         then raise Session_Integrity_Error
           (''session '' @ mf_session_id m @ '' is '' @ session_status_value (mf_status m) @ '', not complete'')
       else if expected_dbc_sha256 \<noteq> None \<and> expected_dbc_sha256 \<noteq> Some (mf_dbc_sha256 m)
         then raise Session_Dbc_Mismatch_Error
           ''recorded DBC SHA-256 does not match the installed authoritative DBC''
       else Inr \<lparr>rd_manifest = m, rd_frames = st_frames st\<rparr>)"

section \<open>The two loops over the frame file\<close>

text \<open>The local variables of both loops, with the bytes fed to the hasher.\<close>

record scan =
  sc_count :: int
  sc_first :: "int option"
  sc_last :: "int option"
  sc_hashed :: bytes

definition decode_record :: "bytes \<Rightarrow> raw_can_frame result" where
  "decode_record data =
     (case decode_raw_can_record data of
        Inl e \<Rightarrow> if catches Raw_Can_Record_Error e then raise Session_Format_Error (exn_message e) else Inl e
      | Inr f \<Rightarrow> Inr f)"

text \<open>The body of the loop on a nonempty record: the frame and the updated variables.\<close>

definition scan_record :: "bytes \<Rightarrow> scan \<Rightarrow> (raw_can_frame \<times> scan) result" where
  "scan_record data s =
     (if length data \<noteq> RAW_CAN_RECORD_SIZE
        then raise Session_Integrity_Error
          (''truncated raw frame record: got '' @ str_int (int (length data)) @ '' of ''
            @ str_int 19 @ '' bytes'')
      else
        rbind (decode_record data) (\<lambda>f.
          if precedes f (sc_last s)
            then raise Session_Integrity_Error ''raw frame timestamps are not nondecreasing''
          else Inr (f, \<lparr>sc_count = sc_count s + 1,
                       sc_first = (case sc_first s of None \<Rightarrow> Some (timestamp_microseconds f) | t \<Rightarrow> t),
                       sc_last = Some (timestamp_microseconds f), sc_hashed = sc_hashed s @ data\<rparr>)))"

function validate_loop :: "bytes \<Rightarrow> scan \<Rightarrow> scan result" where
  "validate_loop stream s =
     (if stream = [] then Inr s
      else (case scan_record (take RAW_CAN_RECORD_SIZE stream) s of
              Inl e \<Rightarrow> Inl e
            | Inr (_, s') \<Rightarrow> validate_loop (drop RAW_CAN_RECORD_SIZE stream) s'))"
  by pat_completeness auto

termination validate_loop
  by (relation "measure (\<lambda>(stream, _). length stream)") auto

text \<open>The generator: the frames it yields and what ends it.\<close>

function frames_loop :: "bytes \<Rightarrow> scan \<Rightarrow> raw_can_frame list \<times> scan result" where
  "frames_loop stream s =
     (if stream = [] then ([], Inr s)
      else (case scan_record (take RAW_CAN_RECORD_SIZE stream) s of
              Inl e \<Rightarrow> ([], Inl e)
            | Inr (f, s') \<Rightarrow>
                (case frames_loop (drop RAW_CAN_RECORD_SIZE stream) s' of
                   (fs, end) \<Rightarrow> (f # fs, end))))"
  by pat_completeness auto

termination frames_loop
  by (relation "measure (\<lambda>(stream, _). length stream)") auto

declare validate_loop.simps [simp del] frames_loop.simps [simp del]

definition scan_header :: "session_reader \<Rightarrow> (bytes \<times> scan) result" where
  "scan_header rd =
     (case rd_frames rd of
        None \<Rightarrow> raise Session_Format_Error ''session frames.bin is missing''
      | Some content \<Rightarrow>
          let header = take SESSION_FILE_HEADER_SIZE content
          in rbind (decode_session_header header) (\<lambda>version.
               if version \<noteq> mf_format_version (rd_manifest rd)
                 then raise Session_Version_Error
                   ''session frame version does not match manifest format version''
               else Inr (drop SESSION_FILE_HEADER_SIZE content,
                         \<lparr>sc_count = 0, sc_first = None, sc_last = None, sc_hashed = header\<rparr>)))"

definition validate_manifest_timestamps :: "session_manifest \<Rightarrow> int option \<Rightarrow> int option \<Rightarrow> unit result" where
  "validate_manifest_timestamps m t0 t1 =
     (if t0 \<noteq> mf_first_timestamp_microseconds m
        then raise Session_Integrity_Error ''manifest first timestamp does not match frame file''
      else if t1 \<noteq> mf_last_timestamp_microseconds m
        then raise Session_Integrity_Error ''manifest last timestamp does not match frame file''
      else Inr ())"

definition scan_end :: "session_manifest \<Rightarrow> scan \<Rightarrow> unit result" where
  "scan_end m s =
     (if sc_count s \<noteq> mf_frame_count m
        then raise Session_Integrity_Error
          (''manifest frame count '' @ str_int (mf_frame_count m) @ '' does not match file count ''
            @ str_int (sc_count s))
      else
        rbind (validate_manifest_timestamps m (sc_first s) (sc_last s)) (\<lambda>_.
          if Some (hexdigest (sc_hashed s)) \<noteq> mf_frames_sha256 m
            then raise Session_Integrity_Error ''session frame-file SHA-256 mismatch''
          else Inr ()))"

definition validate_integrity :: "session_reader \<Rightarrow> unit result" where
  "validate_integrity rd =
     rbind (scan_header rd) (\<lambda>(stream, s).
     rbind (validate_loop stream s) (scan_end (rd_manifest rd)))"

definition reader_frames :: "session_reader \<Rightarrow> raw_can_frame list \<times> exn option" where
  "reader_frames rd =
     (case scan_header rd of
        Inl e \<Rightarrow> ([], Some e)
      | Inr (stream, s) \<Rightarrow>
          (case frames_loop stream s of
             (fs, Inl e) \<Rightarrow> (fs, Some e)
           | (fs, Inr s') \<Rightarrow>
               (fs, case scan_end (rd_manifest rd) s' of Inl e \<Rightarrow> Some e | Inr _ \<Rightarrow> None)))"

section \<open>The loops agree\<close>

lemma loops_agree: "snd (frames_loop stream s) = validate_loop stream s"
proof (induction stream s rule: validate_loop.induct)
  case (1 stream s)
  then show ?case
    by (auto simp: frames_loop.simps [of stream] validate_loop.simps [of stream]
        split: sum.splits prod.splits)
qed

lemma reader_frames_end:
  "snd (reader_frames rd) = (case validate_integrity rd of Inl e \<Rightarrow> Some e | Inr _ \<Rightarrow> None)"
proof (cases "scan_header rd")
  case (Inr p)
  obtain stream s where p: "p = (stream, s)" by fastforce
  show ?thesis
    using loops_agree [of stream s]
    by (cases "frames_loop stream s"; cases "snd (frames_loop stream s)")
      (auto simp: reader_frames_def validate_integrity_def Inr p)
qed (simp add: reader_frames_def validate_integrity_def)

section \<open>What the reader accepts\<close>

text \<open>Frames paired with the bytes they were decoded from.\<close>

definition advance :: "scan \<Rightarrow> raw_can_frame \<times> bytes \<Rightarrow> scan" where
  "advance s p =
     \<lparr>sc_count = sc_count s + 1,
      sc_first = (case sc_first s of None \<Rightarrow> Some (timestamp_microseconds (fst p)) | t \<Rightarrow> t),
      sc_last = Some (timestamp_microseconds (fst p)), sc_hashed = sc_hashed s @ snd p\<rparr>"

fun scannable :: "int option \<Rightarrow> (raw_can_frame \<times> bytes) list \<Rightarrow> bool" where
  "scannable t [] = True"
| "scannable t (p # ps) \<longleftrightarrow> decode_raw_can_record (snd p) = Inr (fst p) \<and> \<not> precedes (fst p) t
     \<and> scannable (Some (timestamp_microseconds (fst p))) ps"

lemma decode_record_Inr: "decode_record data = Inr f \<longleftrightarrow> decode_raw_can_record data = Inr f"
  by (auto simp: decode_record_def split: sum.splits)

lemma scan_record_Inr:
  "scan_record data s = Inr (f, s') \<longleftrightarrow>
     decode_raw_can_record data = Inr f \<and> \<not> precedes f (sc_last s) \<and> s' = advance s (f, data)"
  by (cases "sc_first s") (auto simp: scan_record_def rbind_eq_Inr decode_record_Inr advance_def dest: decode_length)

lemma frames_loop_Nil [simp]: "frames_loop [] s = ([], Inr s)"
  by (simp add: frames_loop.simps)

lemma frames_loop_record:
  "length data = RAW_CAN_RECORD_SIZE \<Longrightarrow> scan_record data s = Inr (f, s') \<Longrightarrow>
     frames_loop (data @ stream) s = map_prod (Cons f) id (frames_loop stream s')"
  by (auto simp: frames_loop.simps [of "data @ stream"] map_prod_def split: prod.splits)

lemma frames_loop_complete:
  "scannable (sc_last s) ps \<Longrightarrow>
     frames_loop (concat (map snd ps)) s = (map fst ps, Inr (foldl advance s ps))"
proof (induction ps arbitrary: s)
  case (Cons p ps)
  obtain f data where p: "p = (f, data)" by fastforce
  with Cons.prems have d: "decode_raw_can_record data = Inr f" and "\<not> precedes f (sc_last s)" by auto
  then have "scan_record data s = Inr (f, advance s p)" by (simp add: scan_record_Inr p)
  with frames_loop_record [OF decode_length [OF d] this] Cons p show ?case by (simp add: advance_def)
qed simp

lemma frames_loop_sound:
  "frames_loop stream s = (fs, Inr s') \<Longrightarrow>
     \<exists>ps. stream = concat (map snd ps) \<and> fs = map fst ps \<and> scannable (sc_last s) ps"
proof (induction stream s arbitrary: fs s' rule: frames_loop.induct)
  case (1 stream s)
  show ?case
  proof (cases "stream = []")
    case False
    with "1.prems" obtain f s1 gs where sc: "scan_record (take RAW_CAN_RECORD_SIZE stream) s = Inr (f, s1)"
      and rest: "frames_loop (drop RAW_CAN_RECORD_SIZE stream) s1 = (gs, Inr s')" and fs: "fs = f # gs"
      by (auto simp: frames_loop.simps [of stream] split: sum.splits prod.splits)
    from "1.IH" [OF False sc _ rest] obtain ps where
      "drop RAW_CAN_RECORD_SIZE stream = concat (map snd ps)" "gs = map fst ps" "scannable (sc_last s1) ps"
      by auto
    then show ?thesis
      using sc fs append_take_drop_id [of RAW_CAN_RECORD_SIZE stream]
      by (intro exI [of _ "(f, take RAW_CAN_RECORD_SIZE stream) # ps"]) (auto simp: scan_record_Inr advance_def)
  qed (use "1.prems" in \<open>auto intro: exI [of _ "[]"]\<close>)
qed

lemma sc_advance:
  "sc_count (foldl advance s ps) = sc_count s + int (length ps)"
  "sc_first (foldl advance s ps) =
     (case sc_first s of Some t \<Rightarrow> Some t
      | None \<Rightarrow> if ps = [] then None else Some (timestamp_microseconds (fst (hd ps))))"
  "sc_last (foldl advance s ps) =
     (if ps = [] then sc_last s else Some (timestamp_microseconds (fst (last ps))))"
  "sc_hashed (foldl advance s ps) = sc_hashed s @ concat (map snd ps)"
  by (induction ps arbitrary: s) (auto simp: advance_def split: option.splits)

lemma scannable_iff:
  "scannable t ps \<longleftrightarrow> list_all (\<lambda>p. decode_raw_can_record (snd p) = Inr (fst p)) ps
     \<and> sorted (map (timestamp_microseconds \<circ> fst) ps)
     \<and> (\<forall>p \<in> set ps. \<not> precedes (fst p) t)"
proof (induction ps arbitrary: t)
  case (Cons p ps)
  have "\<not> precedes (fst q) t"
    if "\<not> precedes (fst p) t" and "\<not> precedes (fst q) (Some (timestamp_microseconds (fst p)))" for q
    using that by (auto simp: precedes_def split: option.splits)
  with Cons.IH [of "Some (timestamp_microseconds (fst p))"] show ?case
    by (cases t) (auto simp: precedes_def not_less)
qed simp

text \<open>The manifest counts what the file holds, and the hash is that of the file.\<close>

definition manifest_describes :: "session_manifest \<Rightarrow> raw_can_frame list \<Rightarrow> bytes \<Rightarrow> bool" where
  "manifest_describes m fs content \<longleftrightarrow> mf_frame_count m = int (length fs)
     \<and> mf_first_timestamp_microseconds m = (if fs = [] then None else Some (timestamp_microseconds (hd fs)))
     \<and> mf_last_timestamp_microseconds m = (if fs = [] then None else Some (timestamp_microseconds (last fs)))
     \<and> mf_frames_sha256 m = Some (hexdigest content)"

definition file_holds :: "session_reader \<Rightarrow> (raw_can_frame \<times> bytes) list \<Rightarrow> bool" where
  "file_holds rd ps \<longleftrightarrow>
     (\<exists>content. rd_frames rd = Some content
       \<and> supported_version (mf_format_version (rd_manifest rd))
       \<and> content = header_bytes (mf_format_version (rd_manifest rd)) @ concat (map snd ps)
       \<and> list_all (\<lambda>p. decode_raw_can_record (snd p) = Inr (fst p)) ps
       \<and> sorted (map (timestamp_microseconds \<circ> fst) ps)
       \<and> manifest_describes (rd_manifest rd) (map fst ps) content)"

lemma scan_header_Inr:
  "scan_header rd = Inr (stream, s) \<longleftrightarrow>
     supported_version (mf_format_version (rd_manifest rd))
     \<and> rd_frames rd = Some (header_bytes (mf_format_version (rd_manifest rd)) @ stream)
     \<and> s = \<lparr>sc_count = 0, sc_first = None, sc_last = None,
           sc_hashed = header_bytes (mf_format_version (rd_manifest rd))\<rparr>"
  (is "?l \<longleftrightarrow> ?r")
proof
  assume ?l
  then obtain content where c: "rd_frames rd = Some content"
    and d: "decode_session_header (take 8 content) = Inr (mf_format_version (rd_manifest rd))"
    and s: "stream = drop 8 content" "s = \<lparr>sc_count = 0, sc_first = None, sc_last = None, sc_hashed = take 8 content\<rparr>"
    by (auto simp: scan_header_def rbind_eq_Inr Let_def split: option.splits if_splits)
  from decode_header_Inr [OF d] have "take 8 content = header_bytes (mf_format_version (rd_manifest rd))"
    and "supported_version (mf_format_version (rd_manifest rd))" by auto
  then show ?r using c s append_take_drop_id [of 8 content] by metis
next
  assume ?r
  then show ?l by (simp add: scan_header_def decode_header_bytes)
qed

lemma scan_end_Inr:
  "scan_end m s = Inr () \<longleftrightarrow> sc_count s = mf_frame_count m \<and> sc_first s = mf_first_timestamp_microseconds m
     \<and> sc_last s = mf_last_timestamp_microseconds m \<and> mf_frames_sha256 m = Some (hexdigest (sc_hashed s))"
  by (auto simp: scan_end_def validate_manifest_timestamps_def)

lemma file_holds_frames: "file_holds rd ps \<Longrightarrow> reader_frames rd = (map fst ps, None)"
proof -
  assume h: "file_holds rd ps"
  let ?v = "mf_format_version (rd_manifest rd)"
  let ?s = "\<lparr>sc_count = 0, sc_first = None, sc_last = None, sc_hashed = header_bytes ?v\<rparr>"
  from h have "scan_header rd = Inr (concat (map snd ps), ?s)"
    by (auto simp: file_holds_def scan_header_Inr)
  moreover have "scannable (sc_last ?s) ps"
    using h by (simp add: file_holds_def scannable_iff precedes_def)
  moreover have "scan_end (rd_manifest rd) (foldl advance ?s ps) = Inr ()"
    using h by (auto simp: file_holds_def manifest_describes_def scan_end_Inr sc_advance hd_map last_map)
  ultimately show ?thesis by (simp add: reader_frames_def frames_loop_complete)
qed

lemma frames_file_holds:
  assumes "reader_frames rd = (fs, None)"
  shows "\<exists>ps. file_holds rd ps \<and> fs = map fst ps"
proof -
  from assms obtain stream s where h: "scan_header rd = Inr (stream, s)"
    by (cases "scan_header rd") (auto simp: reader_frames_def)
  from assms h obtain s' where l: "frames_loop stream s = (fs, Inr s')"
    and e: "scan_end (rd_manifest rd) s' = Inr ()"
    by (auto simp: reader_frames_def split: prod.splits sum.splits)
  from frames_loop_sound [OF l] obtain ps where ps: "stream = concat (map snd ps)" "fs = map fst ps"
    "scannable (sc_last s) ps" by blast
  with l frames_loop_complete [OF ps(3)] have "s' = foldl advance s ps" by simp
  with h e ps have "file_holds rd ps"
    by (auto simp: file_holds_def manifest_describes_def scan_header_Inr scan_end_Inr sc_advance scannable_iff hd_map last_map)
  with ps(2) show ?thesis by blast
qed

lemma validates_iff: "validate_integrity rd = Inr () \<longleftrightarrow> (\<exists>ps. file_holds rd ps)"
proof
  assume "validate_integrity rd = Inr ()"
  then have "reader_frames rd = (fst (reader_frames rd), None)"
    using reader_frames_end [of rd] by (simp add: prod_eq_iff)
  then show "\<exists>ps. file_holds rd ps" using frames_file_holds by blast
next
  assume "\<exists>ps. file_holds rd ps"
  then have "snd (reader_frames rd) = None" using file_holds_frames by fastforce
  then show "validate_integrity rd = Inr ()"
    using reader_frames_end [of rd] by (cases "validate_integrity rd") auto
qed

end
