(* ===== verification/Session_Properties.thy ===== *)
theory Session_Properties
  imports Session_Reader
begin

text \<open>
  The properties of session files: header and manifest codecs, session names, what a recorder
  publishes and what the reader accepts, with the concrete sessions that meet their hypotheses.
\<close>

section \<open>Manifests on disk\<close>

lemma map_of_sort_key: "distinct (dict_keys d) \<Longrightarrow> dict_get (sort_key fst d) = dict_get d"
  by (rule map_of_inject_set [THEN iffD2])
    (simp_all add: distinct_map inj_on_def distinct_insort)

lemma manifest_from_dict_cong:
  assumes "dict_get obj = dict_get obj'"
  shows "manifest_from_dict (J_Object obj) = manifest_from_dict (J_Object obj')"
proof -
  have "set (dict_keys obj) = set (dict_keys obj')" using assms by (metis dom_map_of_conv_image_fst set_map)
  then show ?thesis
    using assms
    unfolding manifest_from_dict_def manifest_of_object_def declared_version_def json_string_def json_item_def
      optional_string_def nonnegative_integer_def positive_integer_def optional_nonnegative_integer_def
      json_hash_def optional_hash_def json_value.case
    by (simp only:)
qed

lemma distinct_to_dict: "distinct (dict_keys (manifest_to_dict m))"
proof -
  have "distinct (dict_keys (manifest_asdict m))" by (simp add: manifest_asdict_def)
  then show ?thesis unfolding manifest_to_dict_def by (simp add: distinct_map_filter)
qed

lemma manifest_file_roundtrip:
  "wf_manifest m \<Longrightarrow> manifest_from_dict (J_Object (sort_keys (manifest_to_dict m))) = Inr m"
  using manifest_from_dict_cong [OF map_of_sort_key [OF distinct_to_dict, of m]] manifest_roundtrip
  by (simp add: sort_keys_def)

text \<open>What reading the files of an artifact gives.\<close>

definition stored :: "artifact \<Rightarrow> stored_session" where
  "stored a =
     \<lparr>st_manifest =
        (case art_manifest a of
           None \<Rightarrow> raise File_Not_Found_Error ''manifest.json''
         | Some obj \<Rightarrow> Inr (J_Object obj)),
      st_frames = art_frames a\<rparr>"

text \<open>The header decoder accepts exactly the eight bytes that the encoder makes for a supported
  version, and gives that version.\<close>

theorem session_header_exact:
  "decode_session_header data = Inr v \<longleftrightarrow> encode_session_header v = Inr data"
proof
  assume "decode_session_header data = Inr v"
  from decode_header_Inr [OF this] show "encode_session_header v = Inr data" by (simp add: encode_header_ok)
next
  assume e: "encode_session_header v = Inr data"
  then have "supported_version v" by (auto simp: encode_session_header_def split: if_splits)
  with e decode_header_bytes [of v] show "decode_session_header data = Inr v"
    by (simp add: encode_header_ok)
qed

text \<open>C34: every manifest that is read, from whatever JSON value, is consistent, and writing it to disk and
  reading it back gives the same manifest.\<close>

theorem read_manifest_roundtrip:
  assumes "read_manifest content = Inr m"
  shows "read_manifest (Inr (J_Object (sort_keys (manifest_to_dict m)))) = Inr m
    \<and> validate_consistency m = Inr () \<and> mf_format_version m \<in> {1, 2} \<and> canonical_uuid (mf_session_id m)
    \<and> 0 \<le> mf_frame_count m \<and> (mf_status m = COMPLETE \<longrightarrow> (\<exists>h. mf_frames_sha256 m = Some h \<and> sha_format h))"
proof -
  from assms have "manifest_from_dict (projr content) = Inr m"
    by (cases content) (auto simp: read_manifest_def split: if_splits)
  then have wf: "wf_manifest m" by (rule manifest_from_dict_wf)
  then have "validate_consistency m = Inr ()" by (simp add: wf_manifest_def)
  moreover from this have "canonical_uuid (mf_session_id m)" and "check_status m = Inr ()"
    by (auto simp: validate_consistency_def rbind_eq_Inr split: if_splits)
  ultimately show ?thesis
    using wf manifest_file_roundtrip [OF wf]
    by (auto simp: read_manifest_def wf_manifest_def supported_version_def check_status_def split: if_splits)
qed

section \<open>A concrete session\<close>

definition all_ok :: io where
  "all_ok = (\<lambda>_. Io_Ok)"

definition no_artifacts :: session_disk where
  "no_artifacts = \<lparr>disk_partial = None, disk_final = None\<rparr>"

definition sample_request :: recorder_request where
  "sample_request =
     \<lparr>rq_identifier = ''01234567-89ab-cdef-0123-456789abcdef'', rq_created_at_utc = Some ''2026-01-01T00:00:00Z'',
      rq_name = Some ''  cold   start '', rq_scenario = None, rq_dbc_name = ''tuneros_simulation.dbc'',
      rq_dbc_sha256 = Some LEGACY_PHASE_8A_DBC_SHA256, rq_calibration_id = None, rq_calibration_revision = None\<rparr>"

definition sample_frames :: "raw_can_frame list" where
  "sample_frames =
     [\<lparr>arbitration_id = 1282, payload = [1, 2, 3], timestamp_microseconds = 2500\<rparr>,
      \<lparr>arbitration_id = 1280, payload = [], timestamp_microseconds = 2600\<rparr>]"

definition sample_steps :: "(io \<times> recorder_op) list" where
  "sample_steps = map (\<lambda>f. (all_ok, Op_Record f)) sample_frames @ [(all_ok, Op_Complete)]"

definition sample_recorder :: session_recorder where
  "sample_recorder = projr (fst (make_recorder [] all_ok sample_request no_artifacts))"

lemma legacy_sha_format: "sha_format LEGACY_PHASE_8A_DBC_SHA256"
  by (simp add: sha_format_def LEGACY_PHASE_8A_DBC_SHA256_def)

lemma sample_request_wf: "wf_request sample_request"
  using legacy_sha_format
  by (simp add: wf_request_def sample_request_def canonical_uuid_iff dashed_def HEX_DIGITS_def)

lemma sample_name: "normalize_session_name (Some ''  cold   start '') = Inr (Some ''cold start'')"
  by (simp add: normalize_session_name_def py_split.simps is_space_def)

lemma sample_recorder_made:
  "make_recorder [] all_ok sample_request no_artifacts = (Inr sample_recorder, sr_disk sample_recorder)"
proof -
  have "\<exists>r d. make_recorder [] all_ok sample_request no_artifacts = (Inr r, d)"
    using sample_name
    by (simp add: make_recorder_def sample_request_def no_artifacts_def all_ok_def check_calibration_arguments_def
        initial_manifest_def normalize_session_name_def recorder_version_def start_recording_def
        encode_header_ok supported_version_def write_manifest_atomic_def Let_def LEGACY_PHASE_8A_DBC_SHA256_def)
  then obtain r d where "make_recorder [] all_ok sample_request no_artifacts = (Inr r, d)" by blast
  with make_recorder_inv [OF this] show ?thesis by (simp add: sample_recorder_def)
qed

lemma sample_recorder_inv: "rec_inv (sr_manifest sample_recorder) True [] sample_recorder"
  and sample_identity: "wf_identity (sr_manifest sample_recorder)"
  using make_recorder_inv [OF sample_recorder_made] sample_request_wf by auto

lemma sample_frames_wf: "list_all encodable sample_frames" "sorted (map timestamp_microseconds sample_frames)"
  "list_all wf_frame sample_frames"
  by (simp_all add: sample_frames_def encodable_def wf_frame_def)

text \<open>Recording and completing without failures is what the life cycle of a good session is.\<close>

lemma record_ok:
  assumes inv: "rec_inv m True fs r" and "recorder_recording r" and "encodable f"
    and "fs \<noteq> [] \<longrightarrow> timestamp_microseconds (last fs) \<le> timestamp_microseconds f"
  shows "\<exists>r'. recorder_step r (all_ok, Op_Record f) = ([f], r') \<and> rec_inv m True (fs @ [f]) r' \<and> recorder_recording r'"
proof -
  note keep = rec_inv_recording [OF inv assms(2)]
  have "\<not> precedes f (mf_last_timestamp_microseconds (sr_manifest r))"
    using keep assms(4) by (auto simp: precedes_def)
  then obtain r' where r: "recorder_record all_ok r f = (Inr (), r')"
      "sr_closed r' = sr_closed r" "mf_status (sr_manifest r') = mf_status (sr_manifest r)"
    using assms(2,3) encode_ok [OF assms(3)]
    by (auto simp: recorder_record_def all_ok_def count_frame_def Let_def)
  moreover have "rec_inv m True (fs @ [f]) r'"
    using recorder_record_inv [OF inv _ r(1)] assms(3) by (simp add: encodable_def all_ok_def)
  ultimately show ?thesis using assms(2) by (simp add: recorder_step_def recorder_recording_def)
qed

lemma complete_ok:
  assumes inv: "rec_inv m True fs r" and live: "recorder_recording r"
  shows "\<exists>r' a. recorder_step r (all_ok, Op_Complete) = ([], r') \<and> disk_final (sr_disk r') = Some a"
proof -
  obtain res r' where c: "recorder_complete all_ok r = (res, r')" by fastforce
  from inv live c show ?thesis
  proof (cases rule: recorder_complete_cases)
    case (published a)
    then show ?thesis by (auto simp: recorder_step_def c)
  next
    case (unpublished d)
    then show ?thesis
      using c live
      by (auto simp: recorder_complete_def finish_stream_def all_ok_def write_manifest_atomic_def Let_def)
  qed (simp add: finish_stream_def all_ok_def)
qed

lemma sample_run:
  "\<exists>r a. recorder_run sample_recorder sample_steps = (r, sample_frames) \<and> disk_final (sr_disk r) = Some a"
proof -
  let ?m = "sr_manifest sample_recorder"
  obtain f g where fg: "sample_frames = [f, g]" "encodable f" "encodable g"
      "timestamp_microseconds f \<le> timestamp_microseconds g"
    using sample_frames_wf by (simp add: sample_frames_def)
  have "recorder_recording sample_recorder" using make_recorder_inv [OF sample_recorder_made] by simp
  from record_ok [OF sample_recorder_inv this fg(2)] obtain r1 where
    r1: "recorder_step sample_recorder (all_ok, Op_Record f) = ([f], r1)" "rec_inv ?m True [f] r1"
      "recorder_recording r1" by auto
  from record_ok [OF r1(2,3) fg(3)] fg(4) obtain r2 where
    r2: "recorder_step r1 (all_ok, Op_Record g) = ([g], r2)" "rec_inv ?m True [f, g] r2"
      "recorder_recording r2" by auto
  from complete_ok [OF r2(2,3)] show ?thesis
    using r1(1) r2(1) by (auto simp: sample_steps_def fg(1))
qed

lemma sample_steps_wf:
  "list_all (\<lambda>s. list_all wf_frame (step_frames s)) sample_steps" "writes_succeed sample_steps"
  using sample_frames_wf(3) by (simp_all add: sample_steps_def sample_frames_def writes_succeed_def all_ok_def)

theorem session_header_exact_witness:
  "decode_session_header [0x54, 0x4E, 0x53, 0x52, 2, 0, 0, 0] = Inr 2"
  unfolding session_header_exact by (simp add: encode_session_header_def supported_version_def SESSION_FILE_MAGIC_def)

lemma published_manifest:
  assumes "rec_inv m intact fs r" and "wf_identity m" and "disk_final (sr_disk r) = Some a"
  shows "mf_status (sr_manifest r) = COMPLETE \<and> wf_manifest (sr_manifest r)
    \<and> sr_manifest r = sealed m fs COMPLETE None
    \<and> art_manifest a = Some (sort_keys (manifest_to_dict (sr_manifest r)))
    \<and> (intact \<longrightarrow> art_frames a = Some (stream_file (mf_format_version m) fs))"
proof -
  have "mf_status (sr_manifest r) = COMPLETE"
    using assms(1,3) unfolding rec_inv_def by (cases "mf_status (sr_manifest r)") auto
  with assms sealed_wf [OF assms(2)] show ?thesis by (auto simp: rec_inv_def)
qed

lemma open_published:
  assumes "rec_inv m intact fs r" and "wf_identity m" and "disk_final (sr_disk r) = Some a"
    and "expected = None \<or> expected = Some (mf_dbc_sha256 m)"
  shows "open_reader (stored a) expected = Inr \<lparr>rd_manifest = sr_manifest r, rd_frames = art_frames a\<rparr>"
proof -
  note p = published_manifest [OF assms(1-3)]
  have "mf_dbc_sha256 (sr_manifest r) = mf_dbc_sha256 m"
    using p by (simp add: sealed_def with_counts_def)
  then show ?thesis
    using p assms(4) manifest_file_roundtrip [of "sr_manifest r"]
    by (auto simp: open_reader_def stored_def read_manifest_def)
qed

lemma stream_file_holds:
  assumes "supported_version (mf_format_version m)" and "list_all encodable fs"
    and "sorted (map timestamp_microseconds fs)"
  shows "file_holds \<lparr>rd_manifest = sealed m fs COMPLETE None,
      rd_frames = Some (stream_file (mf_format_version m) fs)\<rparr> (map (\<lambda>f. (f, record_bytes f)) fs)"
  using assms decode_record_bytes
  by (auto simp: file_holds_def manifest_describes_def sealed_def with_counts_def stream_file_def comp_def list_all_iff)

text \<open>A published recording opens, validates and yields the recorded frames.\<close>

lemma recording_reads_back:
  assumes inv: "rec_inv m True fs r" and id: "wf_identity m" and fin: "disk_final (sr_disk r) = Some a"
    and exp: "expected = None \<or> expected = Some (mf_dbc_sha256 m)"
  shows "\<exists>rd. open_reader (stored a) expected = Inr rd
    \<and> rd_manifest rd = sr_manifest r \<and> validate_integrity rd = Inr () \<and> reader_frames rd = (fs, None)"
proof -
  let ?rd = "\<lparr>rd_manifest = sr_manifest r, rd_frames = art_frames a\<rparr>"
  have "file_holds ?rd (map (\<lambda>f. (f, record_bytes f)) fs)"
    using published_manifest [OF inv id fin] stream_file_holds [of m fs] inv id
    by (simp add: rec_inv_def wf_identity_def)
  then have "validate_integrity ?rd = Inr ()" and "reader_frames ?rd = (fs, None)"
    using validates_iff file_holds_frames by (auto simp: comp_def)
  then show ?thesis using open_published [OF inv id fin exp] by simp
qed

text \<open>C26: whatever file operations fail, as long as no write to the frame file does: if a run of recorder
  operations published the session, the reader opens it, its manifest is the recorder's, its integrity
  check passes and it yields exactly the frames whose recording returned, in order.\<close>

theorem published_session_reads_back:
  assumes "make_recorder resource io rq d = (Inr r0, d0)" and "wf_request rq"
    and "recorder_run r0 steps = (r, fs)" and "list_all (\<lambda>s. list_all wf_frame (step_frames s)) steps"
    and "writes_succeed steps" and "disk_final (sr_disk r) = Some a"
  shows "\<exists>rd. open_reader (stored a) (Some (mf_dbc_sha256 (sr_manifest r0))) = Inr rd
    \<and> rd_manifest rd = sr_manifest r \<and> validate_integrity rd = Inr () \<and> reader_frames rd = (fs, None)"
proof -
  let ?m = "sr_manifest r0"
  from make_recorder_inv [OF assms(1)] assms(2)
  have inv0: "rec_inv ?m True [] r0" and id: "wf_identity ?m" by auto
  have inv: "rec_inv ?m True fs r" using recorder_run_inv [OF inv0 assms(4,3)] assms(5) by simp
  from recording_reads_back [OF inv id assms(6)] show ?thesis by simp
qed

theorem published_session_reads_back_witness:
  "\<exists>a rd. open_reader (stored a) (Some (mf_dbc_sha256 (sr_manifest sample_recorder))) = Inr rd
     \<and> validate_integrity rd = Inr () \<and> reader_frames rd = (sample_frames, None)"
proof -
  obtain r a where run: "recorder_run sample_recorder sample_steps = (r, sample_frames)"
    and fin: "disk_final (sr_disk r) = Some a" using sample_run by blast
  from published_session_reads_back [OF sample_recorder_made sample_request_wf run sample_steps_wf fin]
  show ?thesis by blast
qed

lemma closed_step: "sr_closed r \<Longrightarrow> recorder_step r s = ([], r)"
  by (cases s)
    (auto simp: recorder_step_def recorder_recording_def recorder_record_def recorder_complete_def
      recorder_abort_def recorder_close_def recorder_exit_def split: recorder_op.splits option.splits)

lemma closed_run: "sr_closed r \<Longrightarrow> recorder_run r steps = (r, [])"
  by (induction steps) (simp_all add: closed_step)

lemma rec_inv_counts:
  "rec_inv m intact fs r \<Longrightarrow> mf_frame_count (sr_manifest r) = int (length fs)
    \<and> mf_first_timestamp_microseconds (sr_manifest r) =
        (if fs = [] then None else Some (timestamp_microseconds (hd fs)))
    \<and> mf_last_timestamp_microseconds (sr_manifest r) =
        (if fs = [] then None else Some (timestamp_microseconds (last fs)))
    \<and> (disk_final (sr_disk r) \<noteq> None \<longleftrightarrow> mf_status (sr_manifest r) = COMPLETE)
    \<and> (mf_status (sr_manifest r) = RECORDING \<or> sr_closed r)"
  unfolding rec_inv_def
  by (cases "mf_status (sr_manifest r)") (auto simp: sealed_def with_counts_def)



text \<open>C32: the integrity check and the frame generator agree: the check raises exactly what ends the
  generator; it passes exactly when the frame file is the header of the manifest's version followed by
  records in time order that decode to the frames the generator yields, with the counts, timestamps and
  hash of the manifest.\<close>

theorem reader_accepts_exactly:
  "case validate_integrity rd of
     Inl e \<Rightarrow> snd (reader_frames rd) = Some e \<and> (\<nexists>ps. file_holds rd ps)
   | Inr _ \<Rightarrow> snd (reader_frames rd) = None
       \<and> (\<exists>records. rd_frames rd =
              Some (header_bytes (mf_format_version (rd_manifest rd)) @ concat records)
            \<and> mapM decode_raw_can_record records = Inr (fst (reader_frames rd))
            \<and> sorted (map timestamp_microseconds (fst (reader_frames rd)))
            \<and> manifest_describes (rd_manifest rd) (fst (reader_frames rd)) (the (rd_frames rd)))"
proof (cases "validate_integrity rd")
  case (Inl e)
  with reader_frames_end [of rd] validates_iff [of rd] show ?thesis by simp
next
  case (Inr u)
  then obtain ps where h: "file_holds rd ps" using validates_iff [of rd] by auto
  note f = file_holds_frames [OF h]
  have "mapM decode_raw_can_record (map snd ps) = Inr (map fst ps)"
    using h by (simp add: file_holds_def mapM_eq_Inr list_all2_map1 list_all2_map2 list_all2_same list_all_iff)
  then show ?thesis using h f Inr by (auto simp: file_holds_def intro!: exI [of _ "map snd ps"])
qed

text \<open>A session name is refused exactly when it has no words, is too long or has a control character
  in it; otherwise its words are kept, single blanks between them, and normalizing again changes
  nothing.\<close>

theorem session_name_normal_form:
  "case normalize_session_name (Some s) of
     Inl e \<Rightarrow> exn_class e = Value_Error \<and> (py_split s = [] \<or> 120 < length (join_space (py_split s))
       \<or> (\<exists>c \<in> set (join_space (py_split s)). (of_char c :: nat) < 32))
   | Inr name \<Rightarrow> (\<exists>n. name = Some n \<and> n \<noteq> [] \<and> length n \<le> 120 \<and> py_split n = py_split s
       \<and> (\<forall>c. c \<in> set n \<longrightarrow> 32 \<le> (of_char c :: nat) \<and> (is_space c \<longrightarrow> c = CHR '' ''))
       \<and> normalize_session_name (Some n) = Inr (Some n))"
proof -
  note w = word_list_split [of s]
  let ?n = "join_space (py_split s)"
  have "py_split ?n = py_split s" by (rule split_join [OF w])
  then show ?thesis
    using join_space_eq_Nil [OF w] join_space_chars [OF w]
    by (auto simp: normalize_session_name_def Let_def not_less)
qed

theorem session_name_normal_form_witness:
  "normalize_session_name (Some ''  cold   start '') = Inr (Some ''cold start'')
     \<and> normalize_session_name (Some ''cold start'') = Inr (Some ''cold start'')"
  using session_name_normal_form [of "''  cold   start ''"] by (auto simp: sample_name)

theorem reader_accepts_exactly_witness:
  "\<exists>rd. validate_integrity rd = Inr () \<and> reader_frames rd = (sample_frames, None)
     \<and> mf_frame_count (rd_manifest rd) = 2"
proof -
  let ?m = "sr_manifest sample_recorder"
  let ?rd = "\<lparr>rd_manifest = sealed ?m sample_frames COMPLETE None,
    rd_frames = Some (stream_file (mf_format_version ?m) sample_frames)\<rparr>"
  have "file_holds ?rd (map (\<lambda>f. (f, record_bytes f)) sample_frames)"
    using stream_file_holds sample_identity sample_frames_wf(1,2) by (simp add: wf_identity_def)
  then have "validate_integrity ?rd = Inr ()" and f: "fst (reader_frames ?rd) = sample_frames"
    using validates_iff file_holds_frames by (auto simp: comp_def)
  with reader_accepts_exactly [of ?rd] have "reader_frames ?rd = (sample_frames, None)"
    by (auto simp: prod_eq_iff)
  moreover have "mf_frame_count (rd_manifest ?rd) = 2"
    by (simp add: sealed_def with_counts_def sample_frames_def)
  ultimately show ?thesis using \<open>validate_integrity ?rd = Inr ()\<close> by blast
qed

theorem read_manifest_roundtrip_witness:
  "\<exists>m. read_manifest (Inr (J_Object (sort_keys (manifest_to_dict m)))) = Inr m \<and> mf_frame_count m = 2"
proof -
  let ?m = "sealed (sr_manifest sample_recorder) sample_frames COMPLETE None"
  have "wf_manifest ?m" using sealed_wf sample_identity sample_frames_wf(1,2) by blast
  then have "read_manifest (Inr (J_Object (manifest_to_dict ?m))) = Inr ?m"
    by (simp add: read_manifest_def manifest_roundtrip)
  from read_manifest_roundtrip [OF this] show ?thesis
    by (intro exI [of _ ?m]) (simp add: sealed_def with_counts_def sample_frames_def)
qed

section \<open>Sessions that cannot be read back\<close>

lemma concat_records_length:
  "list_all (\<lambda>p. decode_raw_can_record (snd p) = Inr (fst p)) ps \<Longrightarrow>
     length (concat (map snd ps)) = RAW_CAN_RECORD_SIZE * length ps"
  by (induction ps) (auto dest: decode_length)

lemma length_stream_file:
  "list_all encodable fs \<Longrightarrow> length (stream_file v fs) = 8 + RAW_CAN_RECORD_SIZE * length fs"
  by (induction fs) (auto simp: stream_file_def encodable_def length_record_bytes)


lemma make_recorder_manifest:
  assumes "make_recorder resource io rq d = (Inr r, d')"
  shows "\<exists>created. initial_manifest resource rq created = Inr (sr_manifest r)
    \<and> check_calibration_arguments rq = Inr ()"
proof -
  from assms obtain created where "rq_created_at_utc rq = Some created"
    by (cases "rq_created_at_utc rq") (simp_all add: make_recorder_def)
  with assms obtain m where "check_calibration_arguments rq = Inr ()" "initial_manifest resource rq created = Inr m"
    and "start_recording io m (d\<lparr>disk_partial := Some empty_artifact\<rparr>) = (Inr r, d')"
    by (auto simp: make_recorder_def rbind_def Let_def split: sum.splits if_splits)
  moreover from this(3) have "sr_manifest r = m"
    by (auto simp: start_recording_def Let_def split: sum.splits io_outcome.splits prod.splits if_splits)
  ultimately show ?thesis by blast
qed

lemma negative_revision_refused:
  assumes "mf_format_version m = 2" and "mf_calibration_revision m = Some i" and "i < 0"
  shows "\<exists>e. manifest_from_dict (J_Object (sort_keys (manifest_to_dict m))) = Inl e"
proof (rule ccontr)
  let ?d = "sort_keys (manifest_to_dict m)"
  have get: "dict_get ?d k = dict_get (manifest_asdict m) k" for k
    using map_of_sort_key [OF distinct_to_dict, of m] get_to_dict [of m k] assms(1) by (simp add: sort_keys_def)
  assume "\<nexists>e. manifest_from_dict (J_Object ?d) = Inl e"
  then obtain m' where "manifest_from_dict (J_Object ?d) = Inr m'"
    by (cases "manifest_from_dict (J_Object ?d)") auto
  from manifest_from_dict_Inr [OF this] obtain version where
    v: "declared_version ?d = Some version" and o: "manifest_of_object version ?d = Inr m'" by auto
  have "version = 2" using v assms(1) by (simp add: declared_version_def get json_int_def split: if_splits)
  with o obtain j where "positive_integer ?d ''calibration_revision'' = Inr j"
    by (auto simp: manifest_of_object_def rbind_eq_Inr)
  then show False
    using assms(2,3) by (simp add: positive_integer_def nonnegative_integer_def json_item_def get json_opt_def
        json_int_def)
qed

text \<open>C36: a negative calibration revision passes the constructor's check for a positive one; whatever such a
  session records, no artifact it publishes can be opened.\<close>

theorem negative_revision_is_unreadable:
  assumes "make_recorder resource io rq d = (Inr r0, d0)"
    and "recorder_run r0 steps = (r, fs)" and "list_all (\<lambda>s. list_all wf_frame (step_frames s)) steps"
    and "disk_final (sr_disk r) = Some a"
    and "rq_calibration_revision rq = Some i" and "i < 0"
  shows "\<exists>e. open_reader (stored a) expected = Inl e"
proof -
  let ?m = "sr_manifest r0"
  from make_recorder_manifest [OF assms(1)] obtain created where
    init: "initial_manifest resource rq created = Inr ?m" "check_calibration_arguments rq = Inr ()" by blast
  have "recorder_version rq = 2"
    using init(2) assms(5)
    by (auto simp: check_calibration_arguments_def recorder_version_def split: if_splits)
  with initial_manifest_Inr [OF init(1)] assms(5)
  have m: "mf_format_version ?m = 2" "mf_calibration_revision ?m = Some i" by simp_all
  from make_recorder_inv [OF assms(1)] recorder_run_inv [OF _ assms(3,2)]
  have inv: "rec_inv ?m (writes_succeed steps) fs r" by fastforce
  with rec_inv_counts [OF inv] assms(4)
  have "art_manifest a = Some (sort_keys (manifest_to_dict (sealed ?m fs COMPLETE None)))"
    by (auto simp: rec_inv_def)
  moreover have "mf_format_version (sealed ?m fs COMPLETE None) = 2"
    "mf_calibration_revision (sealed ?m fs COMPLETE None) = Some i"
    using m by (simp_all add: sealed_def with_counts_def)
  ultimately show ?thesis
    using negative_revision_refused [OF _ _ assms(6)]
    by (fastforce simp: open_reader_def stored_def read_manifest_def)
qed


definition negative_request :: recorder_request where
  "negative_request =
     sample_request\<lparr>rq_calibration_id := Some ''stage1'', rq_calibration_revision := Some (- 1)\<rparr>"

lemma negative_recorder_made:
  "\<exists>r d. make_recorder [] all_ok negative_request no_artifacts = (Inr r, d)"
  using sample_name
  by (simp add: make_recorder_def sample_request_def negative_request_def no_artifacts_def all_ok_def
      check_calibration_arguments_def initial_manifest_def normalize_session_name_def recorder_version_def
      start_recording_def encode_header_ok supported_version_def write_manifest_atomic_def Let_def
      LEGACY_PHASE_8A_DBC_SHA256_def)

theorem negative_revision_is_unreadable_witness:
  "\<exists>r d r' a. make_recorder [] all_ok negative_request no_artifacts = (Inr r, d)
     \<and> recorder_run r [(all_ok, Op_Complete)] = (r', []) \<and> disk_final (sr_disk r') = Some a
     \<and> (\<exists>e. open_reader (stored a) None = Inl e)"
proof -
  obtain r d where made: "make_recorder [] all_ok negative_request no_artifacts = (Inr r, d)"
    using negative_recorder_made by blast
  from make_recorder_inv [OF made] have "rec_inv (sr_manifest r) True [] r" "recorder_recording r" by auto
  from complete_ok [OF this] obtain r' a where
    run: "recorder_run r [(all_ok, Op_Complete)] = (r', [])" and fin: "disk_final (sr_disk r') = Some a" by auto
  from negative_revision_is_unreadable [OF made run _ fin, of "- 1" None] have "\<exists>e. open_reader (stored a) None = Inl e"
    by (simp add: negative_request_def)
  with made run fin show ?thesis by blast
qed

end
