(* ===== verification/Session_Store.thy ===== *)
theory Session_Store
  imports Session_Properties "HOL-Library.Product_Lexorder"
begin

text \<open>
  The catalog of stored sessions (\<open>session/catalog.py\<close>). The session root is the list of its directory
  entries, each with its name, whether it resolves to a place directly inside the root, whether it is
  a directory, and what reading its files gives; a root that does not exist is \<open>None\<close>.
\<close>

section \<open>The session root\<close>

record root_entry =
  re_name :: string
  re_contained :: bool
  re_is_dir :: bool
  re_session :: stored_session

type_synonym session_root = "root_entry list option"

definition ARTIFACT_SUFFIX :: string where
  "ARTIFACT_SUFFIX = ''.tuneros''"

text \<open>\<open>glob("*.tuneros")\<close>, and \<open>Path.stem\<close> of such a name.\<close>

definition has_suffix :: "string \<Rightarrow> bool" where
  "has_suffix name \<longleftrightarrow> 8 \<le> length name \<and> drop (length name - 8) name = ARTIFACT_SUFFIX"

definition path_stem :: "string \<Rightarrow> string" where
  "path_stem name = (if length name \<le> 8 then name else take (length name - 8) name)"

definition canonical_id :: "string \<Rightarrow> string result" where
  "canonical_id session_id =
     (case uuid_int session_id of
        None \<Rightarrow> raise Key_Error (py_repr ''invalid session ID'')
      | Some identifier \<Rightarrow>
          let canonical = uuid_text identifier
          in if canonical \<noteq> session_id
               then raise Key_Error (py_repr ''session ID must use canonical UUID form'')
             else Inr canonical)"

definition contained_artifact :: "root_entry \<Rightarrow> root_entry result" where
  "contained_artifact entry =
     (if re_contained entry then Inr entry
      else raise Key_Error
        (py_repr ''session artifact must remain inside the configured session root''))"

definition validate_manifest_id :: "session_reader \<Rightarrow> string \<Rightarrow> unit result" where
  "validate_manifest_id rd artifact_id =
     (if mf_session_id (rd_manifest rd) \<noteq> artifact_id
      then raise Session_Integrity_Error ''manifest session ID does not match artifact directory''
      else Inr ())"

definition compatibility :: "bytes \<Rightarrow> session_manifest \<Rightarrow> bool" where
  "compatibility resource m = is_supported_dbc_sha256 resource (mf_dbc_sha256 m)"

section \<open>Listing and opening sessions\<close>

definition checked_reader :: "stored_session \<Rightarrow> session_reader result" where
  "checked_reader st =
     rbind (open_reader st None) (\<lambda>rd. rbind (validate_integrity rd) (\<lambda>_. Inr rd))"

text \<open>One turn of the loop: nothing for an entry that is skipped, else its manifest.\<close>

definition list_entry :: "root_entry \<Rightarrow> session_manifest list result" where
  "list_entry entry =
     (case rbind (contained_artifact entry) (\<lambda>_. canonical_id (path_stem (re_name entry))) of
        Inl e \<Rightarrow> if catches Key_Error e then Inr [] else Inl e
      | Inr artifact_id \<Rightarrow>
          rbind (checked_reader (re_session entry)) (\<lambda>rd.
          rbind (validate_manifest_id rd artifact_id) (\<lambda>_. Inr [rd_manifest rd])))"

definition listing_key :: "session_manifest \<Rightarrow> string \<times> string" where
  "listing_key m = (mf_created_at_utc m, mf_session_id m)"

definition store_list :: "session_root \<Rightarrow> session_manifest list result" where
  "store_list dir =
     (case dir of
        None \<Rightarrow> Inr []
      | Some entries \<Rightarrow>
          rbind (mapM list_entry (sort_key re_name (filter (\<lambda>x. has_suffix (re_name x)) entries)))
            (\<lambda>found. Inr (rev (sort_key listing_key (rev (concat found))))))"

definition root_entries :: "session_root \<Rightarrow> root_entry list" where
  "root_entries dir = (case dir of None \<Rightarrow> [] | Some entries \<Rightarrow> entries)"

definition unknown_session :: "string \<Rightarrow> exn" where
  "unknown_session canonical = Exn Key_Error (py_repr (''unknown session '' @ canonical))"

definition store_reader :: "bytes \<Rightarrow> session_root \<Rightarrow> string \<Rightarrow> bool \<Rightarrow> session_reader result" where
  "store_reader resource dir session_id require_compatible_dbc =
     rbind (canonical_id session_id) (\<lambda>canonical.
       case find (\<lambda>x. re_name x = canonical @ ARTIFACT_SUFFIX) (root_entries dir) of
         None \<Rightarrow> Inl (unknown_session canonical)
       | Some entry \<Rightarrow>
           rbind (contained_artifact entry) (\<lambda>_.
             if \<not> re_is_dir entry then Inl (unknown_session canonical)
             else rbind (checked_reader (re_session entry)) (\<lambda>rd.
               if require_compatible_dbc \<and> \<not> compatibility resource (rd_manifest rd)
                 then raise Session_Dbc_Mismatch_Error
                   ''recorded DBC SHA-256 is not compatible with the installed authoritative DBC''
               else rbind (validate_manifest_id rd canonical) (\<lambda>_. Inr rd))))"

section \<open>Names of artifacts\<close>

lemma canonical_id_eq:
  "canonical_id i =
     (if canonical_uuid i then Inr i
      else raise Key_Error (py_repr (if uuid_int i = None then ''invalid session ID''
        else ''session ID must use canonical UUID form'')))"
  by (simp add: canonical_id_def canonical_uuid_def Let_def split: option.splits)

lemma suffix_name: "has_suffix name \<Longrightarrow> 8 < length name \<Longrightarrow> name = path_stem name @ ARTIFACT_SUFFIX"
  using append_take_drop_id [of "length name - 8" name] by (simp add: has_suffix_def path_stem_def)

lemma stem_of_id [simp]: "canonical_uuid i \<Longrightarrow> path_stem (i @ ARTIFACT_SUFFIX) = i"
  by (auto simp: path_stem_def canonical_uuid_nonempty ARTIFACT_SUFFIX_def)

lemma suffix_of_id [simp]: "has_suffix (i @ ARTIFACT_SUFFIX)"
  by (simp add: has_suffix_def ARTIFACT_SUFFIX_def)

lemma canonical_stem_name:
  "has_suffix name \<Longrightarrow> canonical_uuid (path_stem name) \<Longrightarrow> name = path_stem name @ ARTIFACT_SUFFIX"
  by (rule suffix_name) (auto simp: path_stem_def dest: canonical_uuid_length split: if_splits)

text \<open>
  A file system: no two entries have the same name, and nothing can be read below an entry that is
  not a directory.
\<close>

definition wf_root :: "session_root \<Rightarrow> bool" where
  "wf_root dir \<longleftrightarrow> distinct (map re_name (root_entries dir))
     \<and> (\<forall>x \<in> set (root_entries dir). \<not> re_is_dir x \<longrightarrow> isl (st_manifest (re_session x)))"

lemma find_entry:
  assumes "wf_root dir" and "x \<in> set (root_entries dir)"
  shows "find (\<lambda>y. re_name y = re_name x) (root_entries dir) = Some x"
proof -
  have "distinct (map re_name xs) \<Longrightarrow> x \<in> set xs \<Longrightarrow> find (\<lambda>y. re_name y = re_name x) xs = Some x" for xs
    by (induction xs) (auto simp: image_iff)
  with assms show ?thesis by (simp add: wf_root_def)
qed

definition entry_reader :: "root_entry \<Rightarrow> session_reader \<Rightarrow> bool" where
  "entry_reader x rd \<longleftrightarrow> re_contained x \<and> canonical_uuid (path_stem (re_name x))
     \<and> checked_reader (re_session x) = Inr rd \<and> mf_session_id (rd_manifest rd) = path_stem (re_name x)"

lemma list_entry_Inr:
  "list_entry x = Inr ms \<Longrightarrow>
     (if re_contained x \<and> canonical_uuid (path_stem (re_name x))
      then \<exists>rd. entry_reader x rd \<and> ms = [rd_manifest rd] else ms = [])"
  by (auto simp: list_entry_def contained_artifact_def canonical_id_eq rbind_def entry_reader_def
      validate_manifest_id_def split: sum.splits if_splits)

lemma checked_reader_dir: "checked_reader (re_session x) = Inr rd \<Longrightarrow> \<not> isl (st_manifest (re_session x))"
  by (cases "st_manifest (re_session x)")
    (auto simp: checked_reader_def rbind_eq_Inr open_reader_def read_manifest_def split: if_splits)

lemma store_reader_entry:
  assumes "wf_root dir" and "x \<in> set (root_entries dir)" and "has_suffix (re_name x)" and "entry_reader x rd"
  shows "store_reader resource dir (mf_session_id (rd_manifest rd)) False = Inr rd"
proof -
  let ?i = "path_stem (re_name x)"
  have i: "canonical_uuid ?i" "mf_session_id (rd_manifest rd) = ?i" "re_contained x"
    "checked_reader (re_session x) = Inr rd" using assms(4) by (simp_all add: entry_reader_def)
  have "re_is_dir x" using checked_reader_dir [OF i(4)] assms(1,2) by (auto simp: wf_root_def)
  moreover have "find (\<lambda>y. re_name y = ?i @ ARTIFACT_SUFFIX) (root_entries dir) = Some x"
    using find_entry [OF assms(1,2)] canonical_stem_name [OF assms(3) i(1)] by simp
  ultimately show ?thesis
    using i by (simp add: store_reader_def canonical_id_eq contained_artifact_def validate_manifest_id_def)
qed

lemma store_reader_Inr:
  assumes "store_reader resource dir i c = Inr rd"
  shows "\<exists>x \<in> set (root_entries dir). has_suffix (re_name x) \<and> path_stem (re_name x) = i \<and> re_is_dir x
    \<and> entry_reader x rd \<and> (c \<longrightarrow> compatibility resource (rd_manifest rd))"
proof -
  from assms have i: "canonical_uuid i" by (auto simp: store_reader_def canonical_id_eq split: if_splits)
  from assms i obtain x where f: "find (\<lambda>x. re_name x = i @ ARTIFACT_SUFFIX) (root_entries dir) = Some x"
    by (auto simp: store_reader_def canonical_id_eq split: option.splits)
  then have x: "x \<in> set (root_entries dir)" "re_name x = i @ ARTIFACT_SUFFIX" by (auto simp: find_Some_iff)
  have "re_contained x \<and> re_is_dir x \<and> checked_reader (re_session x) = Inr rd
      \<and> mf_session_id (rd_manifest rd) = i \<and> (c \<longrightarrow> compatibility resource (rd_manifest rd))"
    using assms i f
    by (auto simp: store_reader_def canonical_id_eq contained_artifact_def rbind_eq_Inr
        validate_manifest_id_def split: if_splits)
  then show ?thesis using x i by (intro bexI [of _ x]) (simp_all add: entry_reader_def)
qed

section \<open>What the listing holds\<close>

definition listed :: "root_entry \<Rightarrow> bool" where
  "listed x \<longleftrightarrow> re_contained x \<and> canonical_uuid (path_stem (re_name x))"

lemma listing_ids:
  "mapM list_entry xs = Inr found \<Longrightarrow>
     map mf_session_id (concat found) = map (\<lambda>x. path_stem (re_name x)) (filter listed xs)"
proof (induction xs arbitrary: found)
  case (Cons x xs)
  then obtain ms rest where x: "list_entry x = Inr ms" and rest: "mapM list_entry xs = Inr rest"
    and found: "found = ms # rest" by (auto simp: rbind_eq_Inr)
  from list_entry_Inr [OF x] have "map mf_session_id ms = (if listed x then [path_stem (re_name x)] else [])"
    by (auto simp: listed_def entry_reader_def split: if_splits)
  with Cons.IH [OF rest] show ?case by (simp add: found)
qed simp

lemma listing_members:
  "mapM list_entry xs = Inr found \<Longrightarrow>
     m \<in> set (concat found) \<longleftrightarrow> (\<exists>x \<in> set xs. \<exists>rd. entry_reader x rd \<and> rd_manifest rd = m)"
proof (induction xs arbitrary: found)
  case (Cons x xs)
  then obtain ms rest where x: "list_entry x = Inr ms" and rest: "mapM list_entry xs = Inr rest"
    and found: "found = ms # rest" by (auto simp: rbind_eq_Inr)
  have "m \<in> set ms \<longleftrightarrow> (\<exists>rd. entry_reader x rd \<and> rd_manifest rd = m)"
    using list_entry_Inr [OF x] by (auto simp: entry_reader_def split: if_splits)
  with Cons.IH [OF rest] show ?case by (auto simp: found)
qed simp

lemma listed_ids_distinct:
  "distinct (map re_name xs) \<Longrightarrow> \<forall>x \<in> set xs. has_suffix (re_name x) \<Longrightarrow>
     distinct (map (\<lambda>x. path_stem (re_name x)) (filter listed xs))"
proof (induction xs)
  case (Cons x xs)
  have "path_stem (re_name x) \<noteq> path_stem (re_name y)" if "y \<in> set xs" "listed x" "listed y" for y
  proof
    assume "path_stem (re_name x) = path_stem (re_name y)"
    then have "re_name x = re_name y"
      using canonical_stem_name [of "re_name x"] canonical_stem_name [of "re_name y"] that Cons.prems(2)
      by (simp add: listed_def)
    then show False using Cons.prems(1) that(1) by auto
  qed
  with Cons show ?case by auto
qed simp

lemma store_list_Inr:
  assumes "store_list dir = Inr ms"
  shows "\<exists>found. mapM list_entry (sort_key re_name (filter (\<lambda>x. has_suffix (re_name x)) (root_entries dir)))
      = Inr found \<and> ms = rev (sort_key listing_key (rev (concat found)))"
proof (cases dir)
  case None
  with assms show ?thesis by (simp add: store_list_def root_entries_def)
next
  case (Some entries)
  from assms show ?thesis
    unfolding store_list_def Some option.case root_entries_def rbind_eq_Inr by (elim exE conjE) simp
qed

text \<open>C33: the listing of a session root is newest first and has no session twice; it holds exactly the
  manifests that opening their own ID gives when the database check is off.\<close>

theorem session_listing_exact:
  assumes "wf_root dir" and "store_list dir = Inr ms"
  shows "sorted (rev (map listing_key ms)) \<and> distinct (map mf_session_id ms)
    \<and> (\<forall>m. m \<in> set ms \<longleftrightarrow>
         (\<exists>rd. store_reader resource dir (mf_session_id m) False = Inr rd \<and> rd_manifest rd = m))"
proof -
  let ?xs = "sort_key re_name (filter (\<lambda>x. has_suffix (re_name x)) (root_entries dir))"
  obtain found where f: "mapM list_entry ?xs = Inr found"
    and ms: "ms = rev (sort_key listing_key (rev (concat found)))"
    using store_list_Inr [OF assms(2)] by blast
  have "distinct (map re_name ?xs)"
    using assms(1) by (simp add: wf_root_def distinct_map inj_on_def distinct_filter)
  then have "distinct (map mf_session_id (concat found))"
    unfolding listing_ids [OF f] by (rule listed_ids_distinct) simp
  then have "distinct (map mf_session_id ms)" by (simp add: ms distinct_map)
  moreover have "m \<in> set ms \<longleftrightarrow>
      (\<exists>rd. store_reader resource dir (mf_session_id m) False = Inr rd \<and> rd_manifest rd = m)" for m
  proof
    assume "m \<in> set ms"
    then obtain x rd where "x \<in> set ?xs" "entry_reader x rd" "rd_manifest rd = m"
      using listing_members [OF f] by (auto simp: ms)
    then show "\<exists>rd. store_reader resource dir (mf_session_id m) False = Inr rd \<and> rd_manifest rd = m"
      using store_reader_entry [OF assms(1)] by auto
  next
    assume "\<exists>rd. store_reader resource dir (mf_session_id m) False = Inr rd \<and> rd_manifest rd = m"
    then show "m \<in> set ms" using store_reader_Inr listing_members [OF f] by (fastforce simp: ms)
  qed
  moreover have "sorted (rev (map listing_key ms))" by (simp add: ms rev_map)
  ultimately show ?thesis by blast
qed

definition sample_dir :: "artifact \<Rightarrow> session_root" where
  "sample_dir a =
     Some [\<lparr>re_name = ''01234567-89ab-cdef-0123-456789abcdef.tuneros'', re_contained = True, re_is_dir = True,
            re_session = stored a\<rparr>,
           \<lparr>re_name = ''notes.txt'', re_contained = True, re_is_dir = False,
            re_session = \<lparr>st_manifest = raise OS_Error [], st_frames = None\<rparr>\<rparr>]"

lemma initial_manifest_id: "initial_manifest resource rq created = Inr m \<Longrightarrow> mf_session_id m = rq_identifier rq"
  by (auto simp: initial_manifest_def rbind_eq_Inr)

lemma sample_artifact:
  "\<exists>a rd. open_reader (stored a) None = Inr rd \<and> validate_integrity rd = Inr ()
     \<and> mf_session_id (rd_manifest rd) = ''01234567-89ab-cdef-0123-456789abcdef'' \<and> \<not> isl (st_manifest (stored a))"
proof -
  let ?m = "sr_manifest sample_recorder"
  obtain r a where run: "recorder_run sample_recorder sample_steps = (r, sample_frames)"
    and fin: "disk_final (sr_disk r) = Some a" using sample_run by blast
  have inv: "rec_inv ?m True sample_frames r"
    using recorder_run_inv [OF sample_recorder_inv sample_steps_wf(1) run] sample_steps_wf(2) by simp
  note p = published_manifest [OF inv sample_identity fin]
  have "file_holds \<lparr>rd_manifest = sr_manifest r, rd_frames = art_frames a\<rparr>
      (map (\<lambda>f. (f, record_bytes f)) sample_frames)"
    using p stream_file_holds [of ?m sample_frames] inv sample_identity
    by (simp add: rec_inv_def wf_identity_def)
  then have "validate_integrity \<lparr>rd_manifest = sr_manifest r, rd_frames = art_frames a\<rparr> = Inr ()"
    using validates_iff by blast
  moreover have "mf_session_id ?m = rq_identifier sample_request"
    using make_recorder_manifest [OF sample_recorder_made] initial_manifest_id by blast
  moreover have "mf_session_id (sr_manifest r) = mf_session_id ?m"
    using p by (simp add: sealed_def with_counts_def)
  moreover have "\<not> isl (st_manifest (stored a))" using p by (simp add: stored_def)
  ultimately show ?thesis
    using open_published [OF inv sample_identity fin, of None]
    by (intro exI [of _ a] exI [of _ "\<lparr>rd_manifest = sr_manifest r, rd_frames = art_frames a\<rparr>"])
      (simp add: sample_request_def)
qed

lemma sample_listing:
  assumes "open_reader (stored a) None = Inr rd" and "validate_integrity rd = Inr ()"
    and "mf_session_id (rd_manifest rd) = ''01234567-89ab-cdef-0123-456789abcdef''"
  shows "store_list (sample_dir a) = Inr [rd_manifest rd]"
proof -
  have "canonical_uuid ''01234567-89ab-cdef-0123-456789abcdef''" by (simp add: canonical_uuid_iff dashed_def HEX_DIGITS_def)
  then show ?thesis
    using assms
    by (simp add: store_list_def sample_dir_def has_suffix_def ARTIFACT_SUFFIX_def list_entry_def
        contained_artifact_def path_stem_def canonical_id_eq checked_reader_def validate_manifest_id_def)
qed

theorem session_listing_exact_witness:
  "\<exists>a m rd. store_list (sample_dir a) = Inr [m] \<and> rd_manifest rd = m
     \<and> store_reader [] (sample_dir a) (mf_session_id m) False = Inr rd"
proof -
  obtain a rd where a: "open_reader (stored a) None = Inr rd" "validate_integrity rd = Inr ()"
    "mf_session_id (rd_manifest rd) = ''01234567-89ab-cdef-0123-456789abcdef''" "\<not> isl (st_manifest (stored a))"
    using sample_artifact by blast
  have "wf_root (sample_dir a)" by (simp add: wf_root_def sample_dir_def root_entries_def)
  with session_listing_exact [OF this sample_listing [OF a(1-3)], of "[]"]
  obtain rd' where "store_reader [] (sample_dir a) (mf_session_id (rd_manifest rd)) False = Inr rd'"
    "rd_manifest rd' = rd_manifest rd" by force
  with sample_listing [OF a(1-3)] show ?thesis by blast
qed

end
