(* ===== verification/Session_Replay.thy ===== *)
theory Session_Replay
  imports Session_Reader Diag_Runs Can_Explorer
begin

text \<open>
  The decoding pipeline that live telemetry and session replay share, and \<open>replay_session\<close>
  (\<open>session/replay.py\<close>): each raw frame goes to the explorer, its decoded form to the telemetry
  engine, and a snapshot of that engine to the diagnostic engine. \<open>resource\<close> is the packaged database
  file and \<open>msg_decode\<close> the frame decoder of the \<open>canmatrix\<close> package.
\<close>

record pipeline =
  pl_explorer :: can_explorer
  pl_engine :: telemetry_engine
  pl_diagnostics :: diagnostic_engine

text \<open>The body of the replay loop; what an operation did before a later one raised stays.\<close>

definition observe_telemetry :: "pipeline \<Rightarrow> unit result \<times> pipeline" where
  "observe_telemetry p =
     (case telemetry_snapshot_of (pl_engine p) None of
        Inl ex \<Rightarrow> (Inl ex, p)
      | Inr sn \<Rightarrow>
          (case diagnostic_ingest (pl_diagnostics p) sn of
             (Inl ex, d) \<Rightarrow> (Inl ex, p\<lparr>pl_diagnostics := d\<rparr>)
           | (Inr _, d) \<Rightarrow> (Inr (), p\<lparr>pl_diagnostics := d\<rparr>)))"

definition replay_frame ::
  "msg_decoder \<Rightarrow> dbc_decoder \<Rightarrow> pipeline \<Rightarrow> raw_can_frame \<Rightarrow> unit result \<times> pipeline" where
  "replay_frame msg_decode decoder p f =
     (case explorer_ingest msg_decode (pl_explorer p) f of
        (Inl ex, x) \<Rightarrow> (Inl ex, p\<lparr>pl_explorer := x\<rparr>)
      | (Inr _, x) \<Rightarrow>
          let p1 = p\<lparr>pl_explorer := x\<rparr>
          in (case decode_frame msg_decode decoder f of
                Inl ex \<Rightarrow> (Inl ex, p1)
              | Inr decoded \<Rightarrow>
                  (case telemetry_ingest (pl_engine p1) decoded of
                     (Inl ex, e) \<Rightarrow> (Inl ex, p1\<lparr>pl_engine := e\<rparr>)
                   | (Inr _, e) \<Rightarrow> observe_telemetry (p1\<lparr>pl_engine := e\<rparr>))))"

fun replay_frames ::
  "msg_decoder \<Rightarrow> dbc_decoder \<Rightarrow> pipeline \<Rightarrow> raw_can_frame list \<Rightarrow> unit result \<times> pipeline" where
  "replay_frames msg_decode decoder p [] = (Inr (), p)"
| "replay_frames msg_decode decoder p (f # fs) =
     (case replay_frame msg_decode decoder p f of
        (Inl ex, p1) \<Rightarrow> (Inl ex, p1)
      | (Inr _, p1) \<Rightarrow> replay_frames msg_decode decoder p1 fs)"

record session_replay_result =
  rr_snapshot :: telemetry_snapshot
  rr_statistics :: telemetry_statistics
  rr_pipeline :: pipeline

text \<open>
  The engines a replay starts from. The decoder and the explorer are the ones given, or the ones the
  caller's defaults make.
\<close>

definition replay_start :: "dbc_decoder \<Rightarrow> can_explorer \<Rightarrow> py_value \<Rightarrow> pipeline result" where
  "replay_start decoder explorer history_capacity =
     rbind (make_signal_catalog (dec_metadata decoder)) (\<lambda>catalog.
     rbind (make_telemetry_engine catalog history_capacity) (\<lambda>e.
     rbind (create_default_diagnostic_catalog catalog) (\<lambda>rules.
     rbind (make_diagnostic_engine rules (Py_Int DEFAULT_DIAGNOSTIC_EVENT_CAPACITY)) (\<lambda>d.
       Inr \<lparr>pl_explorer = explorer_reset explorer, pl_engine = e, pl_diagnostics = d\<rparr>))))"

definition replay_session ::
  "msg_decoder \<Rightarrow> bytes \<Rightarrow> session_reader \<Rightarrow> dbc_decoder \<Rightarrow> can_explorer \<Rightarrow> py_value
     \<Rightarrow> session_replay_result result" where
  "replay_session msg_decode resource rd decoder explorer history_capacity =
     (if \<not> is_supported_dbc_sha256 resource (mf_dbc_sha256 (rd_manifest rd))
        then raise Session_Dbc_Mismatch_Error
          ''recorded DBC SHA-256 is not compatible with the installed authoritative DBC''
      else
        rbind (validate_integrity rd) (\<lambda>_.
        rbind (replay_start decoder explorer history_capacity) (\<lambda>p0.
          case reader_frames rd of (fs, ending) \<Rightarrow>
            (case replay_frames msg_decode decoder p0 fs of
               (Inl ex, _) \<Rightarrow> Inl ex
             | (Inr _, p) \<Rightarrow>
                 (case ending of
                    Some ex \<Rightarrow> Inl ex
                  | None \<Rightarrow>
                      rbind (telemetry_snapshot_of (pl_engine p) None) (\<lambda>sn.
                        Inr \<lparr>rr_snapshot = sn, rr_statistics = telemetry_statistics_of (pl_engine p),
                             rr_pipeline = p\<rparr>))))))"

lemma replay_frames_append:
  "replay_frames msg_decode decoder p (fs @ gs) =
     (case replay_frames msg_decode decoder p fs of
        (Inl ex, p1) \<Rightarrow> (Inl ex, p1)
      | (Inr _, p1) \<Rightarrow> replay_frames msg_decode decoder p1 gs)"
  by (induction fs arbitrary: p) (auto split: prod.splits sum.splits)

text \<open>A session that validates replays exactly the frames its file holds.\<close>

lemma replay_session_frames:
  assumes "validate_integrity rd = Inr ()" and "reader_frames rd = (fs, None)"
    and "is_supported_dbc_sha256 resource (mf_dbc_sha256 (rd_manifest rd))"
    and "replay_start decoder explorer cap = Inr p0"
    and "replay_frames msg_decode decoder p0 fs = (Inr (), p)"
    and "telemetry_snapshot_of (pl_engine p) None = Inr sn"
  shows "replay_session msg_decode resource rd decoder explorer cap =
    Inr \<lparr>rr_snapshot = sn, rr_statistics = telemetry_statistics_of (pl_engine p), rr_pipeline = p\<rparr>"
  using assms by (simp add: replay_session_def)

end
