(* ===== verification/Pipeline_Total.thy ===== *)
theory Pipeline_Total
  imports Session_Replay Diag_Properties
begin

text \<open>
  The decoding pipeline on the packaged database never raises: the decoder, the signal catalog built
  from its metadata, the telemetry engine, its snapshots and the default diagnostic rules fit together
  for every frame of the database, in time order. The one hypothesis on code outside the repository is
  that \<open>canmatrix\<close> decodes a payload of the frame's size to one value per signal, in signal order.
\<close>

section \<open>Frames of the packaged database\<close>

definition faithful_decoder :: "msg_decoder \<Rightarrow> bool" where
  "faithful_decoder msg_decode \<longleftrightarrow>
     (\<forall>m \<in> set simulation_dbc. \<forall>b. int (length b) = frame_size m \<longrightarrow>
        (\<exists>vals. msg_decode m b = Inr vals \<and> dict_keys vals = map sig_name (frame_signals m)))"

definition bus_frame :: "raw_can_frame \<Rightarrow> bool" where
  "bus_frame f \<longleftrightarrow> (\<exists>m \<in> set simulation_dbc. frame_id m = arbitration_id f \<and> frame_size m = payload_length f)"

text \<open>The type of a decoded signal follows from its name.\<close>

definition typed_value :: "string \<Rightarrow> signal_value \<Rightarrow> bool" where
  "typed_value name v \<longleftrightarrow> (if name = ''EngineRunning'' then \<exists>b. v = Py_Bool b else \<exists>x. v = Py_Float x)"

lemma signal_of_value_typed: "typed_value name (signal_of_value name v)"
  by (simp add: typed_value_def signal_of_value_def)

lemma simulation_signals_distinct: "m \<in> set simulation_dbc \<Longrightarrow> distinct (map sig_name (frame_signals m))"
  by (auto simp: simulation_dbc_def dme_frame_def dsig_def)

lemma simulation_lookup:
  "dict_get (dec_frames_by_id simulation_decoder) i = Some m \<longleftrightarrow> m \<in> set simulation_dbc \<and> frame_id m = i"
  by (rule decoder_lookup [OF make_simulation_decoder]) (simp add: simulation_dbc_ids)

lemma decode_simulation:
  assumes "faithful_decoder msg_decode" and "m \<in> set simulation_dbc" and "frame_id m = arbitration_id f"
    and "frame_size m = payload_length f"
  shows "\<exists>df. decode_frame msg_decode simulation_decoder f = Inr df \<and> df_arbitration_id df = frame_id m
    \<and> df_message_name df = frame_name m \<and> df_timestamp_microseconds df = timestamp_microseconds f
    \<and> dict_keys (df_signals df) = map sig_name (frame_signals m)
    \<and> (\<forall>(n, v) \<in> set (df_signals df). typed_value n v)"
proof -
  from assms obtain vals where v: "msg_decode m (payload f) = Inr vals"
    and k: "dict_keys vals = map sig_name (frame_signals m)"
    unfolding faithful_decoder_def payload_length_def by metis
  let ?d = "map (\<lambda>(n, v). (n, signal_of_value n v)) vals"
  have keys: "dict_keys ?d = map sig_name (frame_signals m)"
    using k by (simp add: comp_def case_prod_beta)
  then have "dict_of ?d = ?d"
    using simulation_signals_distinct [OF assms(2)] dict_of_distinct by metis
  moreover have "\<forall>(n, v) \<in> set ?d. typed_value n v" using signal_of_value_typed by auto
  ultimately show ?thesis
    using assms(2-4) v keys simulation_lookup [of "arbitration_id f" m]
    by (auto simp: decode_frame_def make_decoded_can_frame_def)
qed

section \<open>Telemetry accepts every decoded frame\<close>

lemma simulation_catalog_signal:
  assumes "m \<in> set simulation_dbc" and "s \<in> set (frame_signals m)"
  shows "\<exists>d. dict_get (cat_definitions_by_key simulation_catalog) (Signal_Key (frame_name m) (sig_name s)) = Some d"
  using simulation_catalog_get [of "Signal_Key (frame_name m) (sig_name s)"] assms
  by (auto simp: catalog_get_def simulation_keys)

lemma simulation_catalog_message:
  assumes "m \<in> set simulation_dbc"
  shows "\<exists>mm. dict_get (cat_messages_by_id simulation_catalog) (frame_id m) = Some mm
    \<and> mm_message_name mm = frame_name m"
proof -
  from assms have "\<exists>mm \<in> set simulation_metadata. mm_arbitration_id mm = frame_id m \<and> mm_message_name mm = frame_name m"
    by (force simp: simulation_metadata_eq)
  then show ?thesis
    using make_catalog_catalogued [OF make_simulation_catalog] by (auto simp: catalogued_def map_of_keyed_Some)
qed

lemma definitions_simulation:
  assumes "m \<in> set simulation_dbc" and "df_arbitration_id df = frame_id m" and "df_message_name df = frame_name m"
    and "dict_keys (df_signals df) = map sig_name (frame_signals m)"
  shows "\<exists>ds. definitions_for_frame simulation_catalog df = Inr ds"
proof -
  obtain mm where "dict_get (cat_messages_by_id simulation_catalog) (frame_id m) = Some mm"
    "mm_message_name mm = frame_name m" using simulation_catalog_message [OF assms(1)] by blast
  moreover have "\<exists>ds. mapM (frame_signal_definition simulation_catalog (frame_name m)) (map sig_name ss) = Inr ds"
    if "set ss \<subseteq> set (frame_signals m)" for ss
    using that simulation_catalog_signal [OF assms(1)]
    by (induction ss) (fastforce simp: frame_signal_definition_def)+
  ultimately show ?thesis using assms(2-4) by (simp add: definitions_for_frame_def)
qed

lemma typed_telemetry: "typed_value n v \<Longrightarrow> telemetry_typed v"
  by (auto simp: typed_value_def split: if_splits)

lemma telemetry_accepts:
  assumes "te_catalog e = simulation_catalog" and "definitions_for_frame simulation_catalog df = Inr ds"
    and "\<forall>(n, v) \<in> set (df_signals df). typed_value n v"
    and "\<forall>t. te_latest_timestamp_microseconds e = Some t \<longrightarrow> t \<le> df_timestamp_microseconds df"
  shows "\<exists>ss e'. telemetry_ingest e df = (Inr ss, e')"
proof -
  have "check_order e df = Inr ()" using assms(4) by (auto simp: check_order_def split: option.splits)
  moreover have "length ds = length (df_signals df)"
    using definitions_for_frame_Inr [OF assms(2)] by (auto dest: list_all2_lengthD)
  moreover have "telemetry_typed v" if "v \<in> snd ` set (df_signals df)" for v
    using that assms(3) typed_telemetry by fastforce
  ultimately have "\<exists>ss. frame_samples e df = Inr ss"
    using assms(1,2)
    by (auto simp: frame_samples_def zip_strict_def Let_def make_sample_def dest!: set_zip_rightD)
  then show ?thesis by (auto simp: telemetry_ingest_def Let_def)
qed

definition typed_latest :: "telemetry_engine \<Rightarrow> bool" where
  "typed_latest e \<longleftrightarrow>
     (\<forall>k s. dict_get (te_latest e) k = Some s \<longrightarrow> typed_value (key_signal_name k) (ss_value s))"

definition typed_samples :: "signal_sample list \<Rightarrow> bool" where
  "typed_samples ss \<longleftrightarrow> (\<forall>s \<in> set ss. typed_value (key_signal_name (ss_key s)) (ss_value s))"

lemma typed_samples_ingest:
  assumes "represents e l" and ing: "telemetry_ingest e df = (Inr ss, e')"
    and "\<forall>(n, v) \<in> set (df_signals df). typed_value n v"
  shows "typed_samples ss" and "length ss = length (df_signals df)"
proof -
  have wf: "wf_catalog (te_catalog e)" using assms(1) by (simp add: represents_def)
  have ok: "frame_ok (te_catalog e) (te_next_frame_sequence e) (df, ss)"
    by (rule frame_samples_Inr(1) [OF telemetry_ingest_Inr(1) [OF ing] wf])
  show len: "length ss = length (df_signals df)" using ok by (auto simp: frame_ok_def dest: map_eq_imp_length_eq)
  have "typed_value (key_signal_name (ss_key s)) (ss_value s)" if "s \<in> set ss" for s
  proof -
    from that obtain i where i: "i < length ss" "s = ss ! i" by (auto simp: in_set_conv_nth)
    have "ss_key s = Signal_Key (df_message_name df) (fst (df_signals df ! i))"
      using ok i len by (auto simp: frame_ok_def list_eq_iff_nth_eq)
    moreover have "ss_value s = snd (df_signals df ! i)"
      using ok i len by (auto simp: frame_ok_def list_eq_iff_nth_eq)
    moreover have "df_signals df ! i \<in> set (df_signals df)" using i len by simp
    ultimately show ?thesis using assms(3) by (auto simp: case_prod_beta)
  qed
  then show "typed_samples ss" by (simp add: typed_samples_def)
qed

lemma typed_latest_ingest:
  assumes "typed_latest e" and "represents e l" and ing: "telemetry_ingest e df = (Inr ss, e')"
    and "\<forall>(n, v) \<in> set (df_signals df). typed_value n v"
  shows "typed_latest e'"
proof -
  have new: "\<forall>s \<in> set ss. typed_value (key_signal_name (ss_key s)) (ss_value s)"
    using typed_samples_ingest(1) [OF assms(2-4)] by (simp add: typed_samples_def)
  show ?thesis
    unfolding typed_latest_def
  proof (intro allI impI)
    fix k s assume "dict_get (te_latest e') k = Some s"
    then have get: "dict_get (foldl (\<lambda>d s. dict_set (ss_key s) s d) (te_latest e) ss) k = Some s"
      by (simp add: telemetry_ingest_Inr(2) [OF ing])
    show "typed_value (key_signal_name k) (ss_value s)"
    proof (cases "filter (\<lambda>s. ss_key s = k) (rev ss)")
      case Nil
      with get assms(1) show ?thesis by (simp add: latest_fold typed_latest_def)
    next
      case (Cons s' rest)
      then have "s' \<in> set (filter (\<lambda>s. ss_key s = k) (rev ss))" by simp
      then have "s' \<in> set ss" and "ss_key s' = k" by simp_all
      moreover have "s = s'" using get Cons by (simp add: latest_fold)
      ultimately show ?thesis using new by blast
    qed
  qed
qed

section \<open>The default rules accept every snapshot\<close>

lemma default_signal_kinds:
  assumes "r \<in> set default_rules"
  shows "\<forall>k \<in> set (numeric_signals (rule_condition r)). key_signal_name k \<noteq> ''EngineRunning''"
    and "\<forall>k \<in> set (boolean_signals (rule_condition r)). key_signal_name k = ''EngineRunning''"
  using assms by (auto simp: default_rules_def default_signal_defs)

definition typed_snapshot :: "telemetry_snapshot \<Rightarrow> bool" where
  "typed_snapshot sn \<longleftrightarrow> sn_last_frame_sequence sn \<noteq> None
     \<and> (\<forall>k s. dict_get (sn_samples sn) k = Some s \<longrightarrow> typed_value (key_signal_name k) (ss_value s))"

lemma default_evaluate_total:
  assumes "r \<in> set default_rules" and "typed_snapshot sn" and "inputs_are_fresh r sn"
  shows "\<exists>c. evaluate (rule_condition r) sn active = Inr c"
proof (rule evaluate_total)
  have req: "\<exists>s. dict_get (sn_samples sn) k = Some s \<and> typed_value (key_signal_name k) (ss_value s)"
    if "k \<in> set (numeric_signals (rule_condition r)) \<union> set (boolean_signals (rule_condition r))" for k
  proof -
    have "k \<in> set (dd_required_signals (rule_definition r))"
      using default_rules_durations assms(1) that by blast
    then have "dict_get (sn_samples sn) k \<noteq> None" using assms(3) by (auto simp: inputs_are_fresh_def list_all_iff)
    then show ?thesis using assms(2) by (auto simp: typed_snapshot_def)
  qed
  show "\<forall>k \<in> set (numeric_signals (rule_condition r)). float_typed sn k"
    using req default_signal_kinds(1) [OF assms(1)] by (fastforce simp: float_typed_def typed_value_def)
  show "\<forall>k \<in> set (boolean_signals (rule_condition r)). bool_typed sn k"
    using req default_signal_kinds(2) [OF assms(1)] by (fastforce simp: bool_typed_def typed_value_def)
  show "has_comparands (rule_condition r)" using default_rules_durations assms(1) by blast
qed

lemma capture_total:
  "typed_snapshot sn \<Longrightarrow> \<exists>ff. first_freeze_frame r sn t st = Inr ff"
  by (auto simp: first_freeze_frame_def capture_freeze_frame_def typed_snapshot_def split: option.splits)

lemma handle_violation_total:
  assumes inv: "rule_inv t r st" and rec: "rs_recovery_started st = None" and "typed_snapshot sn"
  shows "fst (handle_violation r sn t st) = Inr ()"
proof (cases "is_active st")
  case False
  obtain st1 ns where nv: "note_violation r t st = (st1, ns)" by force
  from note_violation_ok [OF inv False rec nv]
  obtain s where "status_of st1 = Some PENDING" and s: "rs_condition_started st1 = Some s" by auto
  then obtain d where d: "rs_dtc st1 = Some d" by (auto simp: status_of_def)
  from capture_total [OF assms(3)] obtain ff where "first_freeze_frame r sn t st1 = Inr ff" by blast
  then have "fst (confirm_if_due r sn t st1) = Inr ()" by (simp add: confirm_if_due_cases [OF d s])
  then show ?thesis using False nv by (auto simp: handle_violation_def split: prod.splits)
qed (simp add: handle_violation_def)

lemma evaluate_rule_total:
  assumes "rule_inv now r st" and "now \<le> t" and "r \<in> set default_rules" and "typed_snapshot sn"
  shows "fst (evaluate_rule r sn t st) = Inr ()"
proof (cases "inputs_are_fresh r sn")
  case True
  from default_evaluate_total [OF assms(3,4) True] obtain c where
    c: "evaluate (rule_condition r) sn (is_active st) = Inr c" by blast
  show ?thesis
  proof (cases c)
    case VIOLATION
    have "rule_inv t r (st\<lparr>rs_recovery_started := None\<rparr>)"
      by (rule clear_recovery_inv [OF rule_inv_mono [OF assms(1,2)]])
    from handle_violation_total [OF this _ assms(4)] show ?thesis
      using True c VIOLATION by (simp add: evaluate_rule_def)
  next
    case NORMAL
    then show ?thesis using True c by (simp add: evaluate_rule_def split: prod.splits)
  qed
qed (simp add: evaluate_rule_def)

lemma engine_rules_total:
  assumes "diag_inv e full" and "de_observation_timestamp e = Some t" and "typed_snapshot sn"
    and "set rs \<subseteq> set (dc_rules (de_catalog e))" and "set rs \<subseteq> set default_rules"
  shows "\<exists>evs. fst (engine_rules sn t rs e) = Inr evs"
  using assms
proof (induction rs arbitrary: e full)
  case (Cons r rs)
  have r: "r \<in> set (dc_rules (de_catalog e))" using Cons.prems(4) by simp
  obtain st where get: "dict_get (de_states e) (rule_code r) = Some st"
    and tr: "tracked (Some t) full r st"
    by (rule diag_inv_rule [OF Cons.prems(1) r]) (simp add: Cons.prems(2))
  have "fst (evaluate_rule r sn t st) = Inr ()"
    using evaluate_rule_total [of t r st t sn] tr Cons.prems(3,5) by (simp add: tracked_def state_ok_def)
  then obtain st' ns where "evaluate_rule r sn t st = (Inr (), st', ns)"
    by (cases "evaluate_rule r sn t st") auto
  then obtain evs e1 where step: "engine_rule_step sn t r e = (Inr evs, e1)"
    by (auto simp: engine_rule_step_def rule_state_of_def get Let_def)
  from engine_rule_step_extends [OF Cons.prems(1,2) r step]
  have "diag_inv e1 (full @ evs)" and "de_observation_timestamp e1 = Some t"
    and "de_catalog e1 = de_catalog e" by (auto simp: extends_def)
  from Cons.IH [OF this(1,2) Cons.prems(3)] this(3) Cons.prems(4,5)
  obtain rest where "fst (engine_rules sn t rs e1) = Inr rest" by auto
  then show ?case using step by (auto split: prod.splits)
qed simp

lemma diagnostics_accept:
  assumes "diag_inv d full" and "dc_rules (de_catalog d) = default_rules" and "typed_snapshot sn"
    and "sn_observation_timestamp_microseconds sn = Some t"
    and "\<forall>t0. de_observation_timestamp d = Some t0 \<longrightarrow> t0 \<le> t"
  shows "\<exists>evs d'. diagnostic_ingest d sn = (Inr evs, d') \<and> diag_inv d' (full @ evs)
    \<and> de_catalog d' = de_catalog d \<and> de_observation_timestamp d' = Some t"
proof -
  let ?d = "d\<lparr>de_observation_timestamp := Some t, de_latest_telemetry_frame_sequence := sn_last_frame_sequence sn\<rparr>"
  from engine_rules_total [OF diag_inv_observe [OF assms(1,5)] _ assms(3), where rs = "dc_rules (de_catalog d)"] assms(2)
  obtain evs where "fst (engine_rules sn t (dc_rules (de_catalog d)) ?d) = Inr evs" by auto
  then obtain d' where rules: "engine_rules sn t (dc_rules (de_catalog d)) ?d = (Inr evs, d')"
    by (cases "engine_rules sn t (dc_rules (de_catalog d)) ?d") auto
  then have ing: "diagnostic_ingest d sn = (Inr evs, d')"
    using assms(4,5) by (auto simp: diagnostic_ingest_def split: option.splits)
  with diagnostic_ingest_extends [OF assms(1) ing] have "diag_inv d' (full @ evs)" "de_catalog d' = de_catalog d"
    by (auto simp: extends_def)
  moreover have "de_observation_timestamp d' = Some t"
    using diagnostic_clock.accepted_advances [OF ing] assms(4) by simp
  ultimately show ?thesis using ing by blast
qed

section \<open>The explorer decodes every frame of the database\<close>

definition simulation_explorer :: "can_explorer \<Rightarrow> bool" where
  "simulation_explorer x \<longleftrightarrow> ce_decoder x = simulation_decoder
     \<and> ce_metadata_by_id x = dict_of (map (\<lambda>m. (mm_arbitration_id m, m)) simulation_metadata)"

lemma make_simulation_explorer: "make_can_explorer simulation_decoder v = Inr x \<Longrightarrow> simulation_explorer x"
  by (auto simp: make_can_explorer_def simulation_explorer_def simulation_metadata_def split: if_splits)

lemma simulation_explorer_reset [simp]: "simulation_explorer (explorer_reset x) = simulation_explorer x"
  by (simp add: simulation_explorer_def explorer_reset_def)

lemma simulation_metadata_lookup:
  assumes "m \<in> set simulation_dbc"
  shows "\<exists>mm. dict_get (dict_of (map (\<lambda>m. (mm_arbitration_id m, m)) simulation_metadata)) (frame_id m) = Some mm
    \<and> mm_signals mm = map signal_metadata (frame_signals m)"
proof -
  let ?kv = "map (\<lambda>m. (mm_arbitration_id m, m)) simulation_metadata"
  have keys: "dict_keys ?kv = map frame_id simulation_dbc"
    by (simp add: simulation_metadata_eq comp_def)
  have dist: "distinct (dict_keys ?kv)" unfolding keys simulation_dbc_ids by simp
  obtain mm where "mm \<in> set simulation_metadata" "mm_arbitration_id mm = frame_id m"
    "mm_signals mm = map signal_metadata (frame_signals m)"
    using assms unfolding simulation_metadata_eq by (fastforce simp: image_iff)
  then have "dict_get ?kv (frame_id m) = Some mm" using dist by (force intro!: map_of_is_SomeI)
  then show ?thesis
    using dict_of_distinct [OF dist] \<open>mm_signals mm = _\<close> by simp
qed

lemma annotate_simulation:
  assumes "faithful_decoder msg_decode" and "bus_frame f" and "simulation_explorer x"
  shows "\<exists>mm ss. annotate msg_decode x f = Inr (Some mm, DECODED, None, ss)"
proof -
  from assms(2) obtain m where m: "m \<in> set simulation_dbc" "frame_id m = arbitration_id f"
    "frame_size m = payload_length f" by (auto simp: bus_frame_def)
  from decode_simulation [OF assms(1) m] obtain df where
    df: "decode_frame msg_decode simulation_decoder f = Inr df"
    and keys: "dict_keys (df_signals df) = map sig_name (frame_signals m)" by blast
  from simulation_metadata_lookup [OF m(1)] obtain mm where
    mm: "dict_get (ce_metadata_by_id x) (arbitration_id f) = Some mm"
    and sigs: "mm_signals mm = map signal_metadata (frame_signals m)"
    using assms(3) m(2) by (auto simp: simulation_explorer_def)
  have "\<exists>v. dict_get (df_signals df) (sm_signal_name s) = Some v" if "s \<in> set (mm_signals mm)" for s
  proof -
    have "sm_signal_name s \<in> set (dict_keys (df_signals df))"
      using that by (auto simp: keys sigs signal_metadata_def)
    then show ?thesis by (metis map_of_eq_None_iff not_None_eq set_map)
  qed
  then have "\<exists>w. explorer_signal (df_signals df) s = Inr w" if "s \<in> set (mm_signals mm)" for s
    using that by (fastforce simp: explorer_signal_def)
  then obtain g where "\<And>s. s \<in> set (mm_signals mm) \<Longrightarrow> explorer_signal (df_signals df) s = Inr (g s)" by metis
  then have "mapM (explorer_signal (df_signals df)) (mm_signals mm) = Inr (map g (mm_signals mm))"
    by (rule mapM_total)
  then show ?thesis
    using df mm assms(3) by (simp add: annotate_def simulation_explorer_def)
qed

lemma explorer_ingest_keeps:
  "explorer_ingest msg_decode x f = (v, x') \<Longrightarrow> simulation_explorer x' = simulation_explorer x"
  by (auto simp: explorer_ingest_def simulation_explorer_def store_explorer_frame_def Let_def
      split: sum.splits prod.splits)

section \<open>The pipeline over a run of frames\<close>

definition pl_ok ::
  "telemetry_log \<Rightarrow> diagnostic_event list \<Rightarrow> can_explorer_frame list \<Rightarrow> pipeline \<Rightarrow> bool" where
  "pl_ok l evs xs p \<longleftrightarrow> explored (pl_explorer p) xs \<and> simulation_explorer (pl_explorer p)
     \<and> (\<forall>x \<in> set xs. ef_decode_status x = DECODED)
     \<and> represents (pl_engine p) l \<and> te_catalog (pl_engine p) = simulation_catalog
     \<and> typed_latest (pl_engine p)
     \<and> diag_inv (pl_diagnostics p) evs \<and> dc_rules (de_catalog (pl_diagnostics p)) = default_rules
     \<and> de_observation_timestamp (pl_diagnostics p) = te_latest_timestamp_microseconds (pl_engine p)"

lemma explorer_step:
  assumes "pl_ok l evs xs p" and "faithful_decoder msg_decode" and "bus_frame f"
  shows "\<exists>x e. explorer_ingest msg_decode (pl_explorer p) f = (Inr x, e)
    \<and> ef_raw_frame x = f \<and> pl_ok l evs (xs @ [x]) (p\<lparr>pl_explorer := e\<rparr>)"
proof -
  have exp: "explored (pl_explorer p) xs" and sim: "simulation_explorer (pl_explorer p)"
    using assms(1) by (simp_all add: pl_ok_def)
  from annotate_simulation [OF assms(2,3) sim] obtain mm ss where
    ann: "annotate msg_decode (pl_explorer p) f = Inr (Some mm, DECODED, None, ss)" by blast
  let ?x = "explorer_frame (ce_next_sequence (pl_explorer p)) f (Some mm, DECODED, None, ss)"
  from explorer_ingest_explored [OF exp, of msg_decode f] ann obtain e where
    ing: "explorer_ingest msg_decode (pl_explorer p) f = (Inr ?x, e)" and "explored e (xs @ [?x])" by auto
  moreover have "ef_decode_status ?x = DECODED" by (simp add: explorer_frame_def)
  ultimately show ?thesis
    using assms(1) explorer_ingest_keeps [OF ing] by (auto simp: pl_ok_def)
qed

lemma observe_step:
  assumes "pl_ok l evs xs p" and ing: "telemetry_ingest (pl_engine p) df = (Inr ss, e)"
    and typed: "\<forall>(n, v) \<in> set (df_signals df). typed_value n v"
  shows "\<exists>evs' d. observe_telemetry (p\<lparr>pl_engine := e\<rparr>) = (Inr (), p\<lparr>pl_engine := e, pl_diagnostics := d\<rparr>)
    \<and> pl_ok (l @ [(df, ss)]) (evs @ evs') xs (p\<lparr>pl_engine := e, pl_diagnostics := d\<rparr>)"
proof -
  have rep: "represents (pl_engine p) l" and ty: "typed_latest (pl_engine p)"
    and inv: "diag_inv (pl_diagnostics p) evs"
    and rules: "dc_rules (de_catalog (pl_diagnostics p)) = default_rules"
    and clock: "de_observation_timestamp (pl_diagnostics p) = te_latest_timestamp_microseconds (pl_engine p)"
    using assms(1) by (simp_all add: pl_ok_def)
  have rep': "represents e (l @ [(df, ss)])" by (rule represents_ingest [OF rep ing])
  have ty': "typed_latest e" by (rule typed_latest_ingest [OF ty rep ing typed])
  let ?t = "df_timestamp_microseconds df"
  have now: "te_latest_timestamp_microseconds e = Some ?t"
    by (rule telemetry_clock.accepted_advances [OF ing refl])
  have cat: "te_catalog e = te_catalog (pl_engine p)" using telemetry_ingest_Inr(2) [OF ing] by simp
  from represents_snapshot [OF rep'] obtain sn where snap: "telemetry_snapshot_of e None = Inr sn"
    and smp: "sn_samples sn = te_latest e"
    and obs: "sn_observation_timestamp_microseconds sn = Some ?t"
    and seq: "sn_last_frame_sequence sn = te_last_frame_sequence e" using now by auto
  have "typed_snapshot sn"
    using ty' rep' by (simp add: typed_snapshot_def typed_latest_def smp seq represents_def)
  moreover have "\<forall>t0. de_observation_timestamp (pl_diagnostics p) = Some t0 \<longrightarrow> t0 \<le> ?t"
    using telemetry_clock.accepted_ordered [OF ing refl] clock by simp
  ultimately obtain evs' d where "diagnostic_ingest (pl_diagnostics p) sn = (Inr evs', d)"
    and "diag_inv d (evs @ evs')" and "de_catalog d = de_catalog (pl_diagnostics p)"
    and "de_observation_timestamp d = Some ?t"
    using diagnostics_accept [OF inv rules _ obs] by blast
  then show ?thesis
    using assms(1) snap rep' ty' now cat
    by (intro exI [of _ evs'] exI [of _ d]) (simp add: observe_telemetry_def pl_ok_def)
qed

lemma replay_frame_total:
  assumes ok: "pl_ok l evs xs p" and dec: "faithful_decoder msg_decode" and bus: "bus_frame f"
    and time: "\<forall>t. te_latest_timestamp_microseconds (pl_engine p) = Some t \<longrightarrow> t \<le> timestamp_microseconds f"
  shows "\<exists>p' df ss evs' x. replay_frame msg_decode simulation_decoder p f = (Inr (), p')
    \<and> decode_frame msg_decode simulation_decoder f = Inr df \<and> ef_raw_frame x = f
    \<and> pl_ok (l @ [(df, ss)]) (evs @ evs') (xs @ [x]) p'
    \<and> te_latest_timestamp_microseconds (pl_engine p') = Some (timestamp_microseconds f)"
proof -
  from explorer_step [OF ok dec bus] obtain x e where
    xi: "explorer_ingest msg_decode (pl_explorer p) f = (Inr x, e)" "ef_raw_frame x = f"
    and ok1: "pl_ok l evs (xs @ [x]) (p\<lparr>pl_explorer := e\<rparr>)" by blast
  from bus obtain m where m: "m \<in> set simulation_dbc" "frame_id m = arbitration_id f"
    "frame_size m = payload_length f" by (auto simp: bus_frame_def)
  from decode_simulation [OF dec m] obtain df where
    df: "decode_frame msg_decode simulation_decoder f = Inr df"
    and meta: "df_arbitration_id df = frame_id m" "df_message_name df = frame_name m"
    and stamp: "df_timestamp_microseconds df = timestamp_microseconds f"
    and keys: "dict_keys (df_signals df) = map sig_name (frame_signals m)"
    and typed: "\<forall>(n, v) \<in> set (df_signals df). typed_value n v" by blast
  obtain ds where ds: "definitions_for_frame simulation_catalog df = Inr ds"
    using definitions_simulation [OF m(1) meta keys] by blast
  have "te_catalog (pl_engine p) = simulation_catalog" using ok by (simp add: pl_ok_def)
  from telemetry_accepts [OF this ds typed] time stamp obtain ss e1 where
    ing: "telemetry_ingest (pl_engine (p\<lparr>pl_explorer := e\<rparr>)) df = (Inr ss, e1)" by auto
  from observe_step [OF ok1 ing typed] obtain evs' d where
    obs: "observe_telemetry (p\<lparr>pl_explorer := e, pl_engine := e1\<rparr>)
        = (Inr (), p\<lparr>pl_explorer := e, pl_engine := e1, pl_diagnostics := d\<rparr>)"
    and ok2: "pl_ok (l @ [(df, ss)]) (evs @ evs') (xs @ [x])
        (p\<lparr>pl_explorer := e, pl_engine := e1, pl_diagnostics := d\<rparr>)" by auto
  moreover have "te_latest_timestamp_microseconds e1 = Some (timestamp_microseconds f)"
    using telemetry_clock.accepted_advances [OF ing refl] stamp by simp
  moreover have "telemetry_ingest (pl_engine p) df = (Inr ss, e1)" using ing by simp
  ultimately show ?thesis
    using xi df by (simp add: replay_frame_def Let_def) blast
qed

lemma replay_frames_total:
  assumes "pl_ok l evs xs p" and "faithful_decoder msg_decode" and "\<forall>f \<in> set fs. bus_frame f"
    and "sorted (map timestamp_microseconds fs)"
    and "\<forall>f \<in> set fs. \<forall>t. te_latest_timestamp_microseconds (pl_engine p) = Some t \<longrightarrow> t \<le> timestamp_microseconds f"
  shows "\<exists>p' ds evs' ys. replay_frames msg_decode simulation_decoder p fs = (Inr (), p')
    \<and> map (decode_frame msg_decode simulation_decoder) fs = map (Inr \<circ> fst) ds
    \<and> map ef_raw_frame ys = fs \<and> pl_ok (l @ ds) (evs @ evs') (xs @ ys) p'"
  using assms
proof (induction fs arbitrary: l evs xs p)
  case Nil
  then show ?case
    by (intro exI [of _ p] exI [of _ "[]"]) simp
next
  case (Cons f fs)
  have "bus_frame f" and "\<forall>t. te_latest_timestamp_microseconds (pl_engine p) = Some t \<longrightarrow> t \<le> timestamp_microseconds f"
    using Cons.prems(3,5) by simp_all
  from replay_frame_total [OF Cons.prems(1,2) this] obtain p1 df ss evs1 x where
    step: "replay_frame msg_decode simulation_decoder p f = (Inr (), p1)"
    and df: "decode_frame msg_decode simulation_decoder f = Inr df" and x: "ef_raw_frame x = f"
    and ok1: "pl_ok (l @ [(df, ss)]) (evs @ evs1) (xs @ [x]) p1"
    and now: "te_latest_timestamp_microseconds (pl_engine p1) = Some (timestamp_microseconds f)" by blast
  have "\<forall>f \<in> set fs. bus_frame f" and "sorted (map timestamp_microseconds fs)"
    and "\<forall>f \<in> set fs. \<forall>t. te_latest_timestamp_microseconds (pl_engine p1) = Some t \<longrightarrow> t \<le> timestamp_microseconds f"
    using Cons.prems(3,4) now by simp_all
  from Cons.IH [OF ok1 Cons.prems(2) this] obtain p' ds evs' ys where
    "replay_frames msg_decode simulation_decoder p1 fs = (Inr (), p')"
    "map (decode_frame msg_decode simulation_decoder) fs = map (Inr \<circ> fst) ds"
    "map ef_raw_frame ys = fs" "pl_ok ((l @ [(df, ss)]) @ ds) ((evs @ evs1) @ evs') ((xs @ [x]) @ ys) p'"
    by blast
  then show ?case
    using step df x
    by (intro exI [of _ p'] exI [of _ "(df, ss) # ds"] exI [of _ "evs1 @ evs'"] exI [of _ "x # ys"]) simp
qed

text \<open>A replay on the packaged database starts from empty engines.\<close>

lemma replay_start_ok:
  assumes "simulation_explorer x" and "0 < ce_capacity x"
    and start: "replay_start simulation_decoder x cap = Inr p"
  shows "pl_ok [] [] [] p \<and> te_latest_timestamp_microseconds (pl_engine p) = None"
proof -
  obtain cat where cat: "create_default_diagnostic_catalog simulation_catalog = Inr cat"
    and rules: "dc_rules cat = default_rules" using default_catalog_accepted by blast
  then have wf: "wf_diag_catalog cat"
    by (auto simp: create_default_diagnostic_catalog_def intro: make_diagnostic_catalog_wf)
  obtain e where e: "make_telemetry_engine simulation_catalog cap = Inr e"
    and d: "\<exists>d. make_diagnostic_engine cat (Py_Int DEFAULT_DIAGNOSTIC_EVENT_CAPACITY) = Inr d
      \<and> p = \<lparr>pl_explorer = explorer_reset x, pl_engine = e, pl_diagnostics = d\<rparr>"
    using start make_simulation_catalog cat
    by (auto simp: replay_start_def rbind_eq_Inr simulation_metadata_def [symmetric])
  then obtain d where d: "make_diagnostic_engine cat (Py_Int DEFAULT_DIAGNOSTIC_EVENT_CAPACITY) = Inr d"
    and p: "p = \<lparr>pl_explorer = explorer_reset x, pl_engine = e, pl_diagnostics = d\<rparr>" by blast
  have "explored (explorer_reset x) []"
    using assms(2) by (simp add: explored_def explorer_reset_def tallied_def tally_def)
  moreover have "represents e []" by (rule represents_make [OF e wf_simulation_catalog])
  moreover have "te_catalog e = simulation_catalog" "te_latest e = []"
    "te_latest_timestamp_microseconds e = None"
    using e by (auto simp: make_telemetry_engine_def split: if_splits)
  moreover have "diag_inv d [] \<and> de_catalog d = cat" by (rule make_diagnostic_engine_inv [OF d wf])
  moreover have "de_observation_timestamp d = None"
    using d by (auto simp: make_diagnostic_engine_def diagnostic_reset_def)
  ultimately show ?thesis
    using assms(1) rules by (simp add: pl_ok_def p typed_latest_def)
qed

section \<open>Properties\<close>

text \<open>C30: on the packaged database the pipeline is total: whatever frames of the database arrive in
  time order, explorer, decoder, telemetry engine and default diagnostic rules accept all of them
  without raising; every frame reaches the explorer decoded and the telemetry engine exactly once, and
  the three clocks agree on the last timestamp.\<close>

theorem pipeline_is_total:
  assumes "faithful_decoder msg_decode" and "make_can_explorer simulation_decoder v = Inr x"
    and "replay_start simulation_decoder x cap = Inr p" and "\<forall>f \<in> set fs. bus_frame f"
    and "sorted (map timestamp_microseconds fs)"
  shows "\<exists>p'. replay_frames msg_decode simulation_decoder p fs = (Inr (), p')
    \<and> te_total_frames (pl_engine p') = int (length fs)
    \<and> cs_total_frame_count (explorer_statistics (pl_explorer p')) = int (length fs)
    \<and> map ef_raw_frame (ce_frames (pl_explorer p')) = last_n (nat (ce_capacity (pl_explorer p'))) fs
    \<and> (\<forall>y \<in> set (ce_frames (pl_explorer p')). ef_decode_status y = DECODED)
    \<and> te_latest_timestamp_microseconds (pl_engine p') = map_option timestamp_microseconds (last_opt fs)
    \<and> de_observation_timestamp (pl_diagnostics p') = map_option timestamp_microseconds (last_opt fs)"
proof -
  have "simulation_explorer x" and "0 < ce_capacity x"
    using make_simulation_explorer [OF assms(2)] make_can_explorer_explored [OF assms(2)]
    by (simp_all add: explored_def)
  from replay_start_ok [OF this assms(3)] have ok: "pl_ok [] [] [] p"
    and none: "te_latest_timestamp_microseconds (pl_engine p) = None" by simp_all
  from replay_frames_total [OF ok assms(1,4,5)] none obtain p' ds evs ys where
    run: "replay_frames msg_decode simulation_decoder p fs = (Inr (), p')"
    and ds: "map (decode_frame msg_decode simulation_decoder) fs = map (Inr \<circ> fst) ds"
    and ys: "map ef_raw_frame ys = fs" and ok': "pl_ok ds evs ys p'" by auto
  have len: "length ds = length fs" using ds by (metis length_map)
  have exp: "ce_frames (pl_explorer p') = last_n (nat (ce_capacity (pl_explorer p'))) ys"
    and seq: "ce_next_sequence (pl_explorer p') = int (length ys)"
    using ok' by (auto simp: pl_ok_def explored_def)
  have stamps: "map (df_timestamp_microseconds \<circ> fst) ds = map timestamp_microseconds fs"
    using ds len decode_frame_timestamp by (auto simp: list_eq_iff_nth_eq)
  then have "map_option (df_timestamp_microseconds \<circ> fst) (last_opt ds) = map_option timestamp_microseconds (last_opt fs)"
    using len by (cases fs rule: rev_cases; cases ds rule: rev_cases) (auto simp: last_opt_def)
  moreover have "te_latest_timestamp_microseconds (pl_engine p') = map_option (df_timestamp_microseconds \<circ> fst) (last_opt ds)"
    "te_total_frames (pl_engine p') = int (length ds)"
    "de_observation_timestamp (pl_diagnostics p') = te_latest_timestamp_microseconds (pl_engine p')"
    "\<forall>y \<in> set ys. ef_decode_status y = DECODED"
    using ok' by (simp_all add: pl_ok_def represents_def)
  moreover have "length ys = length fs" using ys by auto
  moreover have "map ef_raw_frame (ce_frames (pl_explorer p')) = last_n (nat (ce_capacity (pl_explorer p'))) fs"
    unfolding exp ys [symmetric] by (simp add: last_n_def drop_map)
  moreover have "set (ce_frames (pl_explorer p')) \<subseteq> set ys" unfolding exp by (rule set_last_n_subset)
  ultimately show ?thesis
    using run len seq by (intro exI [of _ p']) (auto simp: explorer_statistics_def Let_def)
qed

definition zero_decoder :: msg_decoder where
  "zero_decoder m b = Inr (map (\<lambda>s. (sig_name s, \<lparr>raw_value = 0, phys_value = 0\<rparr>)) (frame_signals m))"

lemma zero_decoder: "faithful_decoder zero_decoder"
  by (auto simp: faithful_decoder_def zero_decoder_def comp_def)

definition bus_sample :: "raw_can_frame list" where
  "bus_sample =
     [\<lparr>arbitration_id = 1280, payload = replicate 5 0, timestamp_microseconds = 10\<rparr>,
      \<lparr>arbitration_id = 1312, payload = replicate 3 0, timestamp_microseconds = 10\<rparr>,
      \<lparr>arbitration_id = 1280, payload = replicate 5 0, timestamp_microseconds = 20\<rparr>]"

definition simulation_explorer_of :: "int \<Rightarrow> can_explorer" where
  "simulation_explorer_of n = projr (make_can_explorer simulation_decoder (Py_Int n))"

lemma simulation_explorer_of:
  "0 < n \<Longrightarrow> make_can_explorer simulation_decoder (Py_Int n) = Inr (simulation_explorer_of n)"
  by (simp add: simulation_explorer_of_def make_can_explorer_def)

lemma replay_start_total:
  "0 < n \<Longrightarrow> \<exists>p. replay_start simulation_decoder x (Py_Int n) = Inr p"
  using make_simulation_catalog default_catalog_accepted
  by (auto simp: replay_start_def simulation_metadata_def make_telemetry_engine_def make_diagnostic_engine_def)

lemma bus_sample: "\<forall>f \<in> set bus_sample. bus_frame f"
  by (simp add: bus_sample_def bus_frame_def simulation_dbc_def dme_frame_def payload_length_def)

theorem pipeline_is_total_witness:
  "\<exists>p p'. replay_start simulation_decoder (simulation_explorer_of 2) (Py_Int 2) = Inr p
     \<and> replay_frames zero_decoder simulation_decoder p bus_sample = (Inr (), p')
     \<and> te_total_frames (pl_engine p') = 3
     \<and> te_latest_timestamp_microseconds (pl_engine p') = Some 20"
proof -
  obtain p where p: "replay_start simulation_decoder (simulation_explorer_of 2) (Py_Int 2) = Inr p"
    using replay_start_total [of 2] by auto
  have "sorted (map timestamp_microseconds bus_sample)" by (simp add: bus_sample_def)
  from pipeline_is_total [OF zero_decoder simulation_explorer_of [of 2] p bus_sample this]
  show ?thesis using p by (auto simp: bus_sample_def last_opt_def)
qed

end
