(* ===== verification/Service_Broadcast.thy ===== *)
theory Service_Broadcast
  imports Telemetry_Engine Can_Explorer "HOL-Library.Sublist"
begin

text \<open>
  Event delivery of the telemetry service (\<open>telemetry/service.py\<close>): the events, one client's bounded
  subscription, and the broadcaster. The functions follow the methods; the step relation takes them
  apart at their locks, so that the publishing worker, the client's event loop and a closing client
  interleave as the threads do. Publishing is serialised: every caller of \<open>publish\<close> holds the service
  lock.
\<close>

section \<open>Events\<close>

datatype telemetry_service_state = STOPPED | CONNECTING | RUNNING | COMPLETED | FAILED

datatype telemetry_source_mode = LIVE | REPLAY

record telemetry_update =
  tu_timestamp_microseconds :: int
  tu_frame_sequence :: int
  tu_arbitration_id :: int
  tu_message_name :: string
  tu_source_ecu :: string
  tu_samples :: "signal_sample list"
  tu_freshness :: "signal_freshness list"

record telemetry_service_state_update =
  su_state :: telemetry_service_state
  su_error :: "string option"

record can_explorer_update =
  cu_frame :: can_explorer_frame
  cu_statistics :: can_explorer_statistics
  cu_message_statistics :: can_message_statistics

datatype service_event =
    Telemetry_Event telemetry_update
  | State_Event telemetry_service_state_update
  | Can_Event can_explorer_update

datatype subscriber_item = Event_Item service_event | Subscriber_Closed string

section \<open>A subscription\<close>

text \<open>
  \<open>sub_loop\<close> holds the callbacks that \<open>call_soon_threadsafe\<close> has handed to the client's event loop and
  that have not run; a closed loop refuses further ones with \<open>RuntimeError\<close>.
\<close>

datatype loop_callback = Deliver service_event | Deliver_Closed string

record subscription =
  sub_capacity :: int
  sub_queue :: "subscriber_item list"
  sub_active :: bool
  sub_outstanding :: int
  sub_loop :: "loop_callback list"
  sub_loop_closed :: bool

definition make_subscription :: "int \<Rightarrow> subscription" where
  "make_subscription capacity =
     \<lparr>sub_capacity = capacity, sub_queue = [], sub_active = True, sub_outstanding = 0,
      sub_loop = [], sub_loop_closed = False\<rparr>"

definition call_soon :: "loop_callback \<Rightarrow> subscription \<Rightarrow> subscription result" where
  "call_soon c s =
     (if sub_loop_closed s then raise Runtime_Error ''Event loop is closed''
      else Inr (s\<lparr>sub_loop := sub_loop s @ [c]\<rparr>))"

text \<open>\<open>put_nowait\<close> of a queue with \<open>maxsize\<close>; a maximal size of zero or less means unbounded.\<close>

definition put_nowait :: "subscriber_item \<Rightarrow> subscription \<Rightarrow> subscription result" where
  "put_nowait x s =
     (if 0 < sub_capacity s \<and> sub_capacity s \<le> int (length (sub_queue s)) then raise Queue_Full ''''
      else Inr (s\<lparr>sub_queue := sub_queue s @ [x]\<rparr>))"

text \<open>The locked section of \<open>_schedule\<close>.\<close>

datatype reservation = Ignored | Overflow | Reserved

definition sub_reserve :: "subscription \<Rightarrow> reservation \<times> subscription" where
  "sub_reserve s =
     (if \<not> sub_active s then (Ignored, s)
      else if sub_capacity s \<le> sub_outstanding s then (Overflow, s)
      else (Reserved, s\<lparr>sub_outstanding := sub_outstanding s + 1\<rparr>))"

definition sub_deactivate :: "string option \<Rightarrow> subscription \<Rightarrow> subscription" where
  "sub_deactivate reason s =
     (if \<not> sub_active s then s
      else
        let s1 = s\<lparr>sub_active := False, sub_outstanding := 0\<rparr>
        in (case reason of
              None \<Rightarrow> s1
            | Some r \<Rightarrow> (case call_soon (Deliver_Closed r) s1 of Inl _ \<Rightarrow> s1 | Inr s2 \<Rightarrow> s2)))"

text \<open>The callbacks, and the two halves of \<open>receive\<close>: taking the item, then releasing its place.\<close>

definition sub_deliver :: "service_event \<Rightarrow> subscription \<Rightarrow> subscription result" where
  "sub_deliver event s = (if \<not> sub_active s then Inr s else put_nowait (Event_Item event) s)"

definition sub_deliver_closed :: "string \<Rightarrow> subscription \<Rightarrow> subscription result" where
  "sub_deliver_closed reason s = put_nowait (Subscriber_Closed reason) (s\<lparr>sub_queue := []\<rparr>)"

definition sub_take :: "subscription \<Rightarrow> (subscriber_item \<times> subscription) option" where
  "sub_take s = (case sub_queue s of [] \<Rightarrow> None | x # rest \<Rightarrow> Some (x, s\<lparr>sub_queue := rest\<rparr>))"

definition sub_release :: "subscriber_item \<Rightarrow> subscription \<Rightarrow> subscription" where
  "sub_release x s =
     (case x of
        Subscriber_Closed _ \<Rightarrow> s
      | Event_Item _ \<Rightarrow>
          if sub_active s then s\<lparr>sub_outstanding := sub_outstanding s - 1\<rparr> else s)"

definition sub_receive :: "subscription \<Rightarrow> (subscriber_item \<times> subscription) option" where
  "sub_receive s = map_option (\<lambda>(x, s1). (x, sub_release x s1)) (sub_take s)"

section \<open>The broadcaster\<close>

text \<open>
  \<open>bc_subscriptions\<close> keeps every subscription a client may still hold; \<open>bc_members\<close> are those in the
  broadcaster's set (their order is not observable: a publish treats each on its own).
\<close>

record broadcaster =
  bc_queue_capacity :: int
  bc_subscriptions :: "(nat, subscription) dict"
  bc_members :: "nat list"
  bc_next :: nat

definition make_broadcaster :: "int \<Rightarrow> broadcaster" where
  "make_broadcaster capacity =
     \<lparr>bc_queue_capacity = capacity, bc_subscriptions = [], bc_members = [], bc_next = 0\<rparr>"

definition subscriber_count :: "broadcaster \<Rightarrow> int" where
  "subscriber_count b = int (length (bc_members b))"

definition bc_subscribe :: "broadcaster \<Rightarrow> nat \<times> broadcaster" where
  "bc_subscribe b =
     (bc_next b,
      b\<lparr>bc_subscriptions := dict_set (bc_next b) (make_subscription (bc_queue_capacity b)) (bc_subscriptions b),
        bc_members := bc_members b @ [bc_next b], bc_next := bc_next b + 1\<rparr>)"

definition bc_update :: "nat \<Rightarrow> (subscription \<Rightarrow> subscription) \<Rightarrow> broadcaster \<Rightarrow> broadcaster" where
  "bc_update i f b =
     (case dict_get (bc_subscriptions b) i of
        None \<Rightarrow> b
      | Some s \<Rightarrow> b\<lparr>bc_subscriptions := dict_set i (f s) (bc_subscriptions b)\<rparr>)"

definition bc_remove :: "nat \<Rightarrow> broadcaster \<Rightarrow> broadcaster" where
  "bc_remove i b = b\<lparr>bc_members := filter (\<lambda>j. j \<noteq> i) (bc_members b)\<rparr>"

definition bc_unsubscribe :: "nat \<Rightarrow> broadcaster \<Rightarrow> broadcaster" where
  "bc_unsubscribe i b = bc_update i (sub_deactivate None) (bc_remove i b)"

definition disconnect_slow_subscriber :: "nat \<Rightarrow> broadcaster \<Rightarrow> broadcaster" where
  "disconnect_slow_subscriber i b =
     (if i \<notin> set (bc_members b) then b
      else bc_update i (sub_deactivate (Some ''slow_client'')) (bc_remove i b))"

definition bc_schedule :: "service_event \<Rightarrow> broadcaster \<Rightarrow> nat \<Rightarrow> broadcaster" where
  "bc_schedule event b i =
     (case dict_get (bc_subscriptions b) i of
        None \<Rightarrow> b
      | Some s \<Rightarrow>
          (case sub_reserve s of
             (Ignored, _) \<Rightarrow> b
           | (Overflow, _) \<Rightarrow> disconnect_slow_subscriber i b
           | (Reserved, s1) \<Rightarrow>
               (case call_soon (Deliver event) s1 of
                  Inr s2 \<Rightarrow> bc_update i (\<lambda>_. s2) b
                | Inl _ \<Rightarrow> bc_unsubscribe i (bc_update i (\<lambda>_. s1) b))))"

definition bc_publish :: "service_event \<Rightarrow> broadcaster \<Rightarrow> broadcaster" where
  "bc_publish event b = foldl (bc_schedule event) b (bc_members b)"

section \<open>One client under interleaving\<close>

text \<open>
  The publisher is between \<open>_schedule\<close> calls, has reserved a place and not yet posted the event, has
  seen an overflow, or has been refused by a closed loop; the loop thread is between callbacks, is
  about to put an event it found the subscription active for, or has taken an item out of the queue.
\<close>

datatype publisher_phase = Quiet | Posting service_event | Dropping | Leaving service_event

datatype loop_phase = Idle | Putting service_event | Taken subscriber_item | Crashed exn

text \<open>\<open>cl_offered\<close> and \<open>cl_received\<close> record the events a place was reserved for and the items handed out.\<close>

record client =
  cl_sub :: subscription
  cl_member :: bool
  cl_publisher :: publisher_phase
  cl_loop :: loop_phase
  cl_offered :: "service_event list"
  cl_received :: "subscriber_item list"

definition new_client :: "int \<Rightarrow> client" where
  "new_client capacity =
     \<lparr>cl_sub = make_subscription capacity, cl_member = True, cl_publisher = Quiet, cl_loop = Idle,
      cl_offered = [], cl_received = []\<rparr>"

inductive client_step :: "client \<Rightarrow> client \<Rightarrow> bool" where
  reserve:
    "cl_publisher c = Quiet \<Longrightarrow> sub_reserve (cl_sub c) = (Reserved, s) \<Longrightarrow>
     client_step c (c\<lparr>cl_sub := s, cl_publisher := Posting e, cl_offered := cl_offered c @ [e]\<rparr>)"
| overflow:
    "cl_publisher c = Quiet \<Longrightarrow> sub_reserve (cl_sub c) = (Overflow, s) \<Longrightarrow>
     client_step c (c\<lparr>cl_publisher := Dropping\<rparr>)"
| post:
    "cl_publisher c = Posting e \<Longrightarrow> call_soon (Deliver e) (cl_sub c) = Inr s \<Longrightarrow>
     client_step c (c\<lparr>cl_sub := s, cl_publisher := Quiet\<rparr>)"
| refused:
    "cl_publisher c = Posting e \<Longrightarrow> call_soon (Deliver e) (cl_sub c) = Inl ex \<Longrightarrow>
     client_step c (c\<lparr>cl_publisher := Leaving e\<rparr>)"
| drop_slow:
    "cl_publisher c = Dropping \<Longrightarrow> cl_member c \<Longrightarrow>
     client_step c (c\<lparr>cl_sub := sub_deactivate (Some ''slow_client'') (cl_sub c), cl_member := False,
                     cl_publisher := Quiet\<rparr>)"
| drop_gone:
    "cl_publisher c = Dropping \<Longrightarrow> \<not> cl_member c \<Longrightarrow> client_step c (c\<lparr>cl_publisher := Quiet\<rparr>)"
| leave:
    "cl_publisher c = Leaving e \<Longrightarrow>
     client_step c (c\<lparr>cl_sub := sub_deactivate None (cl_sub c), cl_member := False,
                     cl_publisher := Quiet\<rparr>)"
| start_delivery:
    "cl_loop c = Idle \<Longrightarrow> sub_loop (cl_sub c) = Deliver e # rest \<Longrightarrow> sub_active (cl_sub c) \<Longrightarrow>
     client_step c (c\<lparr>cl_sub := (cl_sub c)\<lparr>sub_loop := rest\<rparr>, cl_loop := Putting e\<rparr>)"
| skip_delivery:
    "cl_loop c = Idle \<Longrightarrow> sub_loop (cl_sub c) = Deliver e # rest \<Longrightarrow> \<not> sub_active (cl_sub c) \<Longrightarrow>
     client_step c (c\<lparr>cl_sub := (cl_sub c)\<lparr>sub_loop := rest\<rparr>\<rparr>)"
| put:
    "cl_loop c = Putting e \<Longrightarrow> put_nowait (Event_Item e) (cl_sub c) = Inr s \<Longrightarrow>
     client_step c (c\<lparr>cl_sub := s, cl_loop := Idle\<rparr>)"
| put_full:
    "cl_loop c = Putting e \<Longrightarrow> put_nowait (Event_Item e) (cl_sub c) = Inl ex \<Longrightarrow>
     client_step c (c\<lparr>cl_loop := Crashed ex\<rparr>)"
| deliver_closed:
    "cl_loop c = Idle \<Longrightarrow> sub_loop (cl_sub c) = Deliver_Closed r # rest \<Longrightarrow>
     sub_deliver_closed r ((cl_sub c)\<lparr>sub_loop := rest\<rparr>) = Inr s \<Longrightarrow> client_step c (c\<lparr>cl_sub := s\<rparr>)"
| closed_full:
    "cl_loop c = Idle \<Longrightarrow> sub_loop (cl_sub c) = Deliver_Closed r # rest \<Longrightarrow>
     sub_deliver_closed r ((cl_sub c)\<lparr>sub_loop := rest\<rparr>) = Inl ex \<Longrightarrow>
     client_step c (c\<lparr>cl_loop := Crashed ex\<rparr>)"
| take_item:
    "cl_loop c = Idle \<Longrightarrow> sub_take (cl_sub c) = Some (x, s) \<Longrightarrow>
     client_step c (c\<lparr>cl_sub := s, cl_loop := Taken x, cl_received := cl_received c @ [x]\<rparr>)"
| release_item:
    "cl_loop c = Taken x \<Longrightarrow>
     client_step c (c\<lparr>cl_sub := sub_release x (cl_sub c), cl_loop := Idle\<rparr>)"
| client_close:
    "client_step c (c\<lparr>cl_sub := sub_deactivate None (cl_sub c), cl_member := False\<rparr>)"
| loop_close:
    "client_step c (c\<lparr>cl_sub := (cl_sub c)\<lparr>sub_loop_closed := True\<rparr>\<rparr>)"

abbreviation client_steps :: "client \<Rightarrow> client \<Rightarrow> bool" where
  "client_steps \<equiv> client_step\<^sup>*\<^sup>*"

section \<open>The invariant of a client\<close>

fun item_events :: "subscriber_item list \<Rightarrow> service_event list" where
  "item_events [] = []"
| "item_events (Event_Item e # xs) = e # item_events xs"
| "item_events (Subscriber_Closed r # xs) = item_events xs"

fun posted_events :: "loop_callback list \<Rightarrow> service_event list" where
  "posted_events [] = []"
| "posted_events (Deliver e # cs) = e # posted_events cs"
| "posted_events (Deliver_Closed r # cs) = posted_events cs"

fun posted_closings :: "loop_callback list \<Rightarrow> string list" where
  "posted_closings [] = []"
| "posted_closings (Deliver e # cs) = posted_closings cs"
| "posted_closings (Deliver_Closed r # cs) = r # posted_closings cs"

definition only_events :: "subscriber_item list \<Rightarrow> bool" where
  "only_events xs \<longleftrightarrow> xs = map Event_Item (item_events xs)"

lemma item_events_append [simp]: "item_events (xs @ ys) = item_events xs @ item_events ys"
  by (induction xs rule: item_events.induct) simp_all

lemma posted_append [simp]:
  "posted_events (cs @ ds) = posted_events cs @ posted_events ds"
  "posted_closings (cs @ ds) = posted_closings cs @ posted_closings ds"
  by (induction cs rule: posted_events.induct; simp)+

lemma length_posted: "length cs = length (posted_events cs) + length (posted_closings cs)"
  by (induction cs rule: posted_events.induct) simp_all

lemma only_events_simps [simp]:
  "only_events []" "only_events (Event_Item e # xs) = only_events xs"
  "\<not> only_events (Subscriber_Closed r # xs)"
proof -
  show "\<not> only_events (Subscriber_Closed r # xs)"
    by (cases "item_events xs") (simp_all add: only_events_def)
qed (simp_all add: only_events_def)

lemma only_events_append [simp]: "only_events (xs @ ys) \<longleftrightarrow> only_events xs \<and> only_events ys"
  by (induction xs rule: item_events.induct) simp_all

lemma only_events_length: "only_events xs \<Longrightarrow> length xs = length (item_events xs)"
  by (metis only_events_def length_map)

fun putting :: "loop_phase \<Rightarrow> service_event list" where
  "putting (Putting e) = [e]"
| "putting _ = []"

fun unreleased :: "loop_phase \<Rightarrow> service_event list" where
  "unreleased (Taken (Event_Item e)) = [e]"
| "unreleased _ = []"

fun posting :: "publisher_phase \<Rightarrow> service_event list" where
  "posting (Posting e) = [e]"
| "posting (Leaving e) = [e]"
| "posting _ = []"

text \<open>While the subscription is active nothing is lost: every offered event is on its way, in order,
  and the counter of outstanding deliveries counts exactly the places in use.\<close>

definition in_flight :: "client \<Rightarrow> bool" where
  "in_flight c \<longleftrightarrow> only_events (cl_received c) \<and> only_events (sub_queue (cl_sub c))
     \<and> posted_closings (sub_loop (cl_sub c)) = []
     \<and> cl_offered c = item_events (cl_received c) @ item_events (sub_queue (cl_sub c))
         @ putting (cl_loop c) @ posted_events (sub_loop (cl_sub c)) @ posting (cl_publisher c)
     \<and> sub_outstanding (cl_sub c) = int (length (unreleased (cl_loop c)) + length (sub_queue (cl_sub c))
         + length (putting (cl_loop c)) + length (sub_loop (cl_sub c)) + length (posting (cl_publisher c)))
     \<and> sub_outstanding (cl_sub c) \<le> sub_capacity (cl_sub c)"

abbreviation slow :: subscriber_item where
  "slow \<equiv> Subscriber_Closed ''slow_client''"

text \<open>Where the one closing notice is: posted at most, in the otherwise empty queue, or handed out.\<close>

definition closing :: "client \<Rightarrow> bool" where
  "closing c \<longleftrightarrow>
     (let q = sub_queue (cl_sub c); p = posted_closings (sub_loop (cl_sub c)); r = cl_received c
      in only_events r \<and> only_events q \<and> (p = [] \<or> p = [''slow_client''])
         \<or> only_events r \<and> q = [slow] \<and> putting (cl_loop c) = [] \<and> p = []
         \<or> (\<exists>rs. r = rs @ [slow] \<and> only_events rs) \<and> q = [] \<and> putting (cl_loop c) = [] \<and> p = [])"

definition abandoned :: "client \<Rightarrow> bool" where
  "abandoned c \<longleftrightarrow> sub_outstanding (cl_sub c) = 0 \<and> closing c
     \<and> prefix (item_events (cl_received c) @ item_events (sub_queue (cl_sub c)) @ putting (cl_loop c)) (cl_offered c)"

definition client_inv :: "client \<Rightarrow> bool" where
  "client_inv c \<longleftrightarrow> 0 < sub_capacity (cl_sub c) \<and> (\<forall>ex. cl_loop c \<noteq> Crashed ex)
     \<and> int (length (sub_queue (cl_sub c)) + length (putting (cl_loop c))) \<le> sub_capacity (cl_sub c)
     \<and> cl_member c = sub_active (cl_sub c)
     \<and> (if sub_active (cl_sub c) then in_flight c else abandoned c)"

lemma new_client_inv: "0 < cap \<Longrightarrow> client_inv (new_client cap)"
  by (simp add: client_inv_def new_client_def make_subscription_def in_flight_def)

lemma deactivate_inv:
  assumes "client_inv c" and "reason = None \<or> reason = Some ''slow_client''"
  shows "client_inv (c\<lparr>cl_sub := sub_deactivate reason (cl_sub c), cl_member := False, cl_publisher := p\<rparr>)"
proof (cases "sub_active (cl_sub c)")
  case False
  then show ?thesis
    using assms(1) by (simp add: client_inv_def sub_deactivate_def abandoned_def closing_def)
next
  case True
  then have fly: "in_flight c" using assms(1) by (simp add: client_inv_def)
  let ?c = "c\<lparr>cl_sub := sub_deactivate reason (cl_sub c), cl_member := False, cl_publisher := p\<rparr>"
  have "sub_queue (cl_sub ?c) = sub_queue (cl_sub c)" "sub_capacity (cl_sub ?c) = sub_capacity (cl_sub c)"
    "\<not> sub_active (cl_sub ?c)" "sub_outstanding (cl_sub ?c) = 0"
    "posted_closings (sub_loop (cl_sub ?c)) = [] \<or> posted_closings (sub_loop (cl_sub ?c)) = [''slow_client'']"
    using True fly assms(2)
    by (auto simp: sub_deactivate_def call_soon_def in_flight_def Let_def split: option.splits)
  then show ?thesis
    using assms(1) fly True
    by (simp add: client_inv_def abandoned_def closing_def in_flight_def prefix_def Let_def)
qed

lemmas client_inv_defs = client_inv_def in_flight_def abandoned_def closing_def

lemma client_step_inv: "client_step c c' \<Longrightarrow> client_inv c \<Longrightarrow> client_inv c'"
proof (induction rule: client_step.induct)
  case (reserve c s e)
  then show ?case by (auto simp: sub_reserve_def client_inv_defs split: if_splits)
next
  case (overflow c s)
  then show ?case by (auto simp: sub_reserve_def client_inv_defs split: if_splits)
next
  case (post c e s)
  then show ?case by (auto simp: call_soon_def client_inv_defs Let_def split: if_splits)
next
  case (refused c e ex)
  then show ?case by (auto simp: client_inv_defs)
next
  case (drop_slow c)
  then show ?case using deactivate_inv [of c "Some ''slow_client''" Quiet] by simp
next
  case (drop_gone c)
  then show ?case by (auto simp: client_inv_defs)
next
  case (leave c e)
  then show ?case using deactivate_inv [of c None Quiet] by simp
next
  case (start_delivery c e rest)
  then show ?case by (auto simp: client_inv_defs)
next
  case (skip_delivery c e rest)
  then show ?case by (auto simp: client_inv_defs Let_def)
next
  case (put c e s)
  then show ?case by (auto simp: client_inv_defs put_nowait_def Let_def split: if_splits)
next
  case (put_full c e ex)
  then show ?case by (auto simp: client_inv_def put_nowait_def split: if_splits)
next
  case (deliver_closed c r rest s)
  then show ?case by (auto simp: client_inv_defs sub_deliver_closed_def put_nowait_def Let_def prefix_def split: if_splits)
next
  case (closed_full c r rest ex)
  then show ?case by (auto simp: client_inv_def sub_deliver_closed_def put_nowait_def split: if_splits)
next
  case (take_item c x s)
  then show ?case by (cases x) (auto simp: client_inv_defs sub_take_def Let_def split: list.splits)
next
  case (release_item c x)
  then show ?case by (cases x) (auto simp: client_inv_defs sub_release_def Let_def)
next
  case (client_close c)
  then show ?case using deactivate_inv [of c None "cl_publisher c"] by simp
next
  case (loop_close c)
  then show ?case by (auto simp: client_inv_defs Let_def)
qed

lemma client_steps_inv: "client_steps c c' \<Longrightarrow> client_inv c \<Longrightarrow> client_inv c'"
  by (induction rule: rtranclp_induct) (auto intro: client_step_inv)

lemma client_steps_capacity: "client_steps c c' \<Longrightarrow> sub_capacity (cl_sub c') = sub_capacity (cl_sub c)"
proof (induction rule: rtranclp_induct)
  case (step c' c'')
  from step(2) have "sub_capacity (cl_sub c'') = sub_capacity (cl_sub c')"
    by (cases rule: client_step.cases)
      (auto simp: sub_reserve_def call_soon_def sub_deactivate_def put_nowait_def sub_deliver_closed_def
        sub_take_def sub_release_def Let_def split: if_splits option.splits list.splits subscriber_item.splits)
  with step(3) show ?case by simp
qed simp

section \<open>Publishing is a run of steps\<close>

text \<open>
  What a broadcaster's \<open>publish\<close> does to one of its members is a run of the steps above, from a quiet
  publisher to a quiet publisher.
\<close>

definition client_of :: "broadcaster \<Rightarrow> nat \<Rightarrow> subscription \<Rightarrow> client \<Rightarrow> bool" where
  "client_of b i s c \<longleftrightarrow> dict_get (bc_subscriptions b) i = Some s \<and> cl_sub c = s
     \<and> cl_member c = (i \<in> set (bc_members b)) \<and> cl_publisher c = Quiet"

lemma bc_update_get [simp]:
  "dict_get (bc_subscriptions (bc_update i f b)) j =
     (if j = i then map_option f (dict_get (bc_subscriptions b) i) else dict_get (bc_subscriptions b) j)"
  by (simp add: bc_update_def split: option.splits)

lemma bc_update_members [simp]: "bc_members (bc_update i f b) = bc_members b"
  by (simp add: bc_update_def split: option.splits)

lemma bc_remove_simps [simp]:
  "bc_subscriptions (bc_remove i b) = bc_subscriptions b"
  "set (bc_members (bc_remove i b)) = set (bc_members b) - {i}"
  by (auto simp: bc_remove_def)

lemma two_steps: "client_step a b \<Longrightarrow> client_step b c \<Longrightarrow> client_steps a c"
  by (blast intro: converse_rtranclp_into_rtranclp r_into_rtranclp)

lemma three_steps: "client_step a b \<Longrightarrow> client_step b c \<Longrightarrow> client_step c d \<Longrightarrow> client_steps a d"
  by (blast intro: converse_rtranclp_into_rtranclp two_steps)

lemma schedule_is_steps:
  assumes "client_of b i s c" and "i \<in> set (bc_members b)"
  shows "\<exists>s' c'. client_of (bc_schedule event b i) i s' c' \<and> client_steps c c'
    \<and> cl_offered c' = cl_offered c @ (if fst (sub_reserve s) = Reserved then [event] else [])
    \<and> cl_received c' = cl_received c \<and> cl_loop c' = cl_loop c"
proof -
  have get: "dict_get (bc_subscriptions b) i = Some s" and sub: "cl_sub c = s" and q: "cl_publisher c = Quiet"
    and mem: "cl_member c" using assms by (auto simp: client_of_def)
  obtain r s1 where r: "sub_reserve s = (r, s1)" by force
  show ?thesis
  proof (cases r)
    case Ignored
    then show ?thesis
      using assms r get by (intro exI [of _ s] exI [of _ c]) (simp add: bc_schedule_def)
  next
    case Overflow
    let ?c1 = "c\<lparr>cl_publisher := Dropping\<rparr>"
    let ?c2 = "?c1\<lparr>cl_sub := sub_deactivate (Some ''slow_client'') (cl_sub ?c1), cl_member := False,
      cl_publisher := Quiet\<rparr>"
    have "client_step c ?c1" using q r Overflow sub by (intro client_step.overflow) simp_all
    moreover have "client_step ?c1 ?c2" using mem by (intro client_step.drop_slow) simp_all
    ultimately have "client_steps c ?c2" by (rule two_steps)
    then show ?thesis
      using r Overflow get sub assms(2)
      by (intro exI [of _ "sub_deactivate (Some ''slow_client'') s"] exI [of _ ?c2])
        (simp add: bc_schedule_def disconnect_slow_subscriber_def client_of_def)
  next
    case Reserved
    let ?c1 = "c\<lparr>cl_sub := s1, cl_publisher := Posting event, cl_offered := cl_offered c @ [event]\<rparr>"
    have s1: "client_step c ?c1" using q r Reserved sub by (intro client_step.reserve) simp_all
    show ?thesis
    proof (cases "call_soon (Deliver event) s1")
      case (Inr s2)
      let ?c2 = "?c1\<lparr>cl_sub := s2, cl_publisher := Quiet\<rparr>"
      have "client_step ?c1 ?c2" using Inr by (intro client_step.post [where e = event]) simp_all
      with s1 have "client_steps c ?c2" by (rule two_steps)
      then show ?thesis
        using r Reserved Inr get assms(2) mem
        by (intro exI [of _ s2] exI [of _ ?c2]) (simp add: bc_schedule_def client_of_def)
    next
      case (Inl ex)
      let ?c2 = "?c1\<lparr>cl_publisher := Leaving event\<rparr>"
      let ?c3 = "?c2\<lparr>cl_sub := sub_deactivate None (cl_sub ?c2), cl_member := False, cl_publisher := Quiet\<rparr>"
      have s2: "client_step ?c1 ?c2" using Inl by (intro client_step.refused [where e = event]) simp_all
      have "client_step ?c2 ?c3" by (rule client_step.leave [where e = event]) simp
      with s1 s2 have "client_steps c ?c3" by (rule three_steps)
      then show ?thesis
        using r Reserved Inl get
        by (intro exI [of _ "sub_deactivate None s1"] exI [of _ ?c3])
          (simp add: bc_schedule_def bc_unsubscribe_def client_of_def)
    qed
  qed
qed

section \<open>Properties\<close>


text \<open>A run of three publishes to a client of capacity two that never receives.\<close>

definition state_event :: "telemetry_service_state \<Rightarrow> service_event" where
  "state_event st = State_Event \<lparr>su_state = st, su_error = None\<rparr>"

definition one_subscriber :: broadcaster where
  "one_subscriber = snd (bc_subscribe (make_broadcaster 1))"

lemma one_subscriber: "client_of one_subscriber 0 (make_subscription 1) (new_client 1)"
  by (simp add: one_subscriber_def bc_subscribe_def make_broadcaster_def client_of_def new_client_def)


end
