(* ===== verification/Telemetry_Service.thy ===== *)
theory Telemetry_Service
  imports Service_Broadcast Session_Replay Session_Recording
begin

text \<open>
  The telemetry service (\<open>telemetry/service.py\<close>): its configuration, its construction, the operations
  its callers use, and the two worker threads taken apart at their locks. \<open>worker\<close> is the worker's
  program counter; an operation of another thread may happen between any two of its steps. The clients'
  event loops only touch the broadcasters.
\<close>

section \<open>Configuration\<close>

abbreviation (input) DEFAULT_GATEWAY_HOST :: string where "DEFAULT_GATEWAY_HOST \<equiv> ''127.0.0.1''"

abbreviation (input) DEFAULT_GATEWAY_PORT :: int where "DEFAULT_GATEWAY_PORT \<equiv> 45800"

abbreviation (input) DEFAULT_SUBSCRIBER_QUEUE_CAPACITY :: int where
  "DEFAULT_SUBSCRIBER_QUEUE_CAPACITY \<equiv> 256"

abbreviation (input) DEFAULT_REPLAY_SUBSCRIBER_QUEUE_CAPACITY :: int where
  "DEFAULT_REPLAY_SUBSCRIBER_QUEUE_CAPACITY \<equiv> 65536"

abbreviation (input) DEFAULT_CAN_SUBSCRIBER_QUEUE_CAPACITY :: int where
  "DEFAULT_CAN_SUBSCRIBER_QUEUE_CAPACITY \<equiv> 32768"

abbreviation (input) DEFAULT_CAN_REPLAY_SUBSCRIBER_QUEUE_CAPACITY :: int where
  "DEFAULT_CAN_REPLAY_SUBSCRIBER_QUEUE_CAPACITY \<equiv> 65536"

record telemetry_service_config =
  cf_gateway_host :: py_value
  cf_gateway_port :: py_value
  cf_history_capacity :: py_value
  cf_subscriber_queue_capacity :: py_value
  cf_replay_subscriber_queue_capacity :: py_value
  cf_can_explorer_capacity :: py_value
  cf_can_subscriber_queue_capacity :: py_value
  cf_can_replay_subscriber_queue_capacity :: py_value
  cf_diagnostic_event_capacity :: py_value
  cf_gateway_connect_timeout_seconds :: py_value

definition default_service_config :: telemetry_service_config where
  "default_service_config =
     \<lparr>cf_gateway_host = Py_Str DEFAULT_GATEWAY_HOST, cf_gateway_port = Py_Int DEFAULT_GATEWAY_PORT,
      cf_history_capacity = Py_Int DEFAULT_HISTORY_CAPACITY,
      cf_subscriber_queue_capacity = Py_Int DEFAULT_SUBSCRIBER_QUEUE_CAPACITY,
      cf_replay_subscriber_queue_capacity = Py_Int DEFAULT_REPLAY_SUBSCRIBER_QUEUE_CAPACITY,
      cf_can_explorer_capacity = Py_Int DEFAULT_CAN_EXPLORER_CAPACITY,
      cf_can_subscriber_queue_capacity = Py_Int DEFAULT_CAN_SUBSCRIBER_QUEUE_CAPACITY,
      cf_can_replay_subscriber_queue_capacity = Py_Int DEFAULT_CAN_REPLAY_SUBSCRIBER_QUEUE_CAPACITY,
      cf_diagnostic_event_capacity = Py_Int DEFAULT_DIAGNOSTIC_EVENT_CAPACITY,
      cf_gateway_connect_timeout_seconds = Py_Float (Finite 10)\<rparr>"

definition validate_positive_integer :: "string \<Rightarrow> py_value \<Rightarrow> int option \<Rightarrow> unit result" where
  "validate_positive_integer name v maximum =
     (if not_plain_int v then raise Type_Error (name @ '' must be an integer'')
      else if int_value v \<le> 0 \<or> (case maximum of None \<Rightarrow> False | Some m \<Rightarrow> m < int_value v)
        then raise Value_Error
          (name @ '' must be''
            @ (case maximum of None \<Rightarrow> '' positive'' | Some m \<Rightarrow> '' in [1, '' @ str_int m @ '']''))
      else Inr ())"

text \<open>\<open>math.isfinite\<close> of an integer converts it to a float first.\<close>

definition timeout_ok :: "py_value \<Rightarrow> bool result" where
  "timeout_ok v =
     (case v of
        Py_Int i \<Rightarrow> rbind (float_of_int i) (\<lambda>_. Inr (0 < i))
      | Py_Float x \<Rightarrow> Inr (case x of Finite q \<Rightarrow> 0 < q | _ \<Rightarrow> False)
      | _ \<Rightarrow> Inr False)"

definition validate_service_config :: "telemetry_service_config \<Rightarrow> unit result" where
  "validate_service_config c =
     rbind (case cf_gateway_host c of
              Py_Str s \<Rightarrow> if s = [] then raise Value_Error ''gateway_host cannot be empty'' else Inr ()
            | _ \<Rightarrow> raise Type_Error ''gateway_host must be a string'') (\<lambda>_.
     rbind (validate_positive_integer ''gateway_port'' (cf_gateway_port c) (Some 65535)) (\<lambda>_.
     rbind (validate_positive_integer ''history_capacity'' (cf_history_capacity c) None) (\<lambda>_.
     rbind (validate_positive_integer ''subscriber_queue_capacity'' (cf_subscriber_queue_capacity c) None) (\<lambda>_.
     rbind (validate_positive_integer ''replay_subscriber_queue_capacity''
              (cf_replay_subscriber_queue_capacity c) None) (\<lambda>_.
     rbind (validate_positive_integer ''can_explorer_capacity'' (cf_can_explorer_capacity c) None) (\<lambda>_.
     rbind (validate_positive_integer ''can_subscriber_queue_capacity''
              (cf_can_subscriber_queue_capacity c) None) (\<lambda>_.
     rbind (validate_positive_integer ''can_replay_subscriber_queue_capacity''
              (cf_can_replay_subscriber_queue_capacity c) None) (\<lambda>_.
     rbind (validate_positive_integer ''diagnostic_event_capacity'' (cf_diagnostic_event_capacity c) None) (\<lambda>_.
     rbind (timeout_ok (cf_gateway_connect_timeout_seconds c)) (\<lambda>ok.
       if ok then Inr ()
       else raise Value_Error ''gateway_connect_timeout_seconds must be positive''))))))))))"

section \<open>State\<close>

text \<open>
  Where a worker is. A gateway worker connects, then for each frame records, explores and decodes it;
  when the stream ends it completes the recording, when anything raises it aborts it, and it always
  runs its \<open>finally\<close> block. A replay worker waits for its start, then explores and decodes.
\<close>

datatype worker =
    Gateway_Connecting | Gateway_Streaming
  | Gateway_Record raw_can_frame | Gateway_Explore raw_can_frame | Gateway_Decode raw_can_frame
  | Gateway_Completing | Gateway_Completed
  | Gateway_Failing exn | Gateway_Failed string | Gateway_Cleanup
  | Replay_Waiting | Replay_Streaming
  | Replay_Explore raw_can_frame | Replay_Decode raw_can_frame
  | Replay_Completed | Replay_Failed exn
  | Worker_Done

record telemetry_service =
  ts_config :: telemetry_service_config
  ts_decoder :: dbc_decoder
  ts_pipeline :: pipeline
  ts_recorder :: "session_recorder option"
  ts_broadcaster :: broadcaster
  ts_can_broadcaster :: broadcaster
  ts_state :: telemetry_service_state
  ts_state_transitions :: "telemetry_service_state list"
  ts_last_error :: "string option"
  ts_worker :: "worker option"
  ts_client :: bool
  ts_stop_requested :: bool
  ts_live_started_once :: bool
  ts_source_mode :: telemetry_source_mode
  ts_source_session_id :: "string option"
  ts_source_session_name :: "string option"
  ts_replay_start :: bool

text \<open>\<open>_is_alive\<close> of the worker thread.\<close>

definition worker_alive :: "telemetry_service \<Rightarrow> bool" where
  "worker_alive s \<longleftrightarrow> (case ts_worker s of None \<Rightarrow> False | Some w \<Rightarrow> w \<noteq> Worker_Done)"

definition source_active :: "telemetry_service \<Rightarrow> bool" where
  "source_active s \<longleftrightarrow> ts_state s \<in> {CONNECTING, RUNNING}"

section \<open>Construction\<close>

definition diagnostic_catalog_for :: "bool \<Rightarrow> signal_catalog \<Rightarrow> diagnostic_catalog result" where
  "diagnostic_catalog_for injected catalog =
     (case create_default_diagnostic_catalog catalog of
        Inr c \<Rightarrow> Inr c
      | Inl ex \<Rightarrow>
          if catches Telemetry_Schema_Error ex \<and> injected then make_diagnostic_catalog [] catalog
          else Inl ex)"

definition service_engine ::
  "telemetry_service_config \<Rightarrow> dbc_decoder \<Rightarrow> telemetry_engine option \<Rightarrow> telemetry_engine result" where
  "service_engine c decoder engine =
     (case engine of
        None \<Rightarrow>
          rbind (make_signal_catalog (dec_metadata decoder)) (\<lambda>catalog.
            make_telemetry_engine catalog (cf_history_capacity c))
      | Some e \<Rightarrow>
          if te_history_capacity e \<noteq> int_value (cf_history_capacity c)
          then raise Value_Error ''injected engine history capacity must match service configuration''
          else Inr e)"

definition service_explorer ::
  "telemetry_service_config \<Rightarrow> dbc_decoder \<Rightarrow> can_explorer option \<Rightarrow> can_explorer result" where
  "service_explorer c decoder explorer =
     (case explorer of
        None \<Rightarrow> make_can_explorer decoder (cf_can_explorer_capacity c)
      | Some x \<Rightarrow>
          if ce_capacity x \<noteq> int_value (cf_can_explorer_capacity c)
          then raise Value_Error ''injected CAN explorer capacity must match service configuration''
          else Inr x)"

definition service_diagnostics ::
  "telemetry_service_config \<Rightarrow> bool \<Rightarrow> signal_catalog \<Rightarrow> diagnostic_engine option
     \<Rightarrow> diagnostic_engine result" where
  "service_diagnostics c injected catalog diagnostics =
     (case diagnostics of
        None \<Rightarrow>
          rbind (diagnostic_catalog_for injected catalog) (\<lambda>rules.
            make_diagnostic_engine rules (cf_diagnostic_event_capacity c))
      | Some d \<Rightarrow>
          if de_event_capacity d \<noteq> int_value (cf_diagnostic_event_capacity c)
          then raise Value_Error
            ''injected diagnostic event capacity must match service configuration''
          else Inr d)"

definition make_telemetry_service ::
  "telemetry_service_config \<Rightarrow> dbc_decoder \<Rightarrow> telemetry_engine option \<Rightarrow> session_recorder option
     \<Rightarrow> can_explorer option \<Rightarrow> diagnostic_engine option \<Rightarrow> telemetry_service result" where
  "make_telemetry_service c decoder engine recorder explorer diagnostics =
     rbind (service_engine c decoder engine) (\<lambda>e.
     rbind (service_explorer c decoder explorer) (\<lambda>x.
     rbind (service_diagnostics c (engine \<noteq> None) (te_catalog e) diagnostics) (\<lambda>d.
       Inr \<lparr>ts_config = c, ts_decoder = decoder,
            ts_pipeline = \<lparr>pl_explorer = x, pl_engine = e, pl_diagnostics = d\<rparr>,
            ts_recorder = recorder,
            ts_broadcaster = make_broadcaster (int_value (cf_subscriber_queue_capacity c)),
            ts_can_broadcaster = make_broadcaster (int_value (cf_can_subscriber_queue_capacity c)),
            ts_state = STOPPED, ts_state_transitions = [STOPPED], ts_last_error = None,
            ts_worker = None, ts_client = False, ts_stop_requested = False,
            ts_live_started_once = False, ts_source_mode = LIVE, ts_source_session_id = None,
            ts_source_session_name = None, ts_replay_start = False\<rparr>)))"

section \<open>Transitions and ingestion\<close>

definition transition_locked ::
  "telemetry_service_state \<Rightarrow> string option \<Rightarrow> telemetry_service \<Rightarrow> telemetry_service" where
  "transition_locked state error s =
     (let update = State_Event \<lparr>su_state = state, su_error = error\<rparr>
      in s\<lparr>ts_state := state, ts_last_error := error,
           ts_state_transitions := ts_state_transitions s @ [state],
           ts_broadcaster := bc_publish update (ts_broadcaster s),
           ts_can_broadcaster := bc_publish update (ts_can_broadcaster s)\<rparr>)"

definition ingest_can_explorer ::
  "msg_decoder \<Rightarrow> telemetry_service \<Rightarrow> raw_can_frame \<Rightarrow> can_explorer_update result \<times> telemetry_service" where
  "ingest_can_explorer msg_decode s f =
     (case explorer_ingest msg_decode (pl_explorer (ts_pipeline s)) f of
        (Inl ex, x) \<Rightarrow> (Inl ex, s\<lparr>ts_pipeline := (ts_pipeline s)\<lparr>pl_explorer := x\<rparr>\<rparr>)
      | (Inr frame, x) \<Rightarrow>
          let s1 = s\<lparr>ts_pipeline := (ts_pipeline s)\<lparr>pl_explorer := x\<rparr>\<rparr>
          in (case explorer_message_statistic x (arbitration_id f) of
                Inl ex \<Rightarrow> (Inl ex, s1)
              | Inr ms \<Rightarrow>
                  let update = \<lparr>cu_frame = frame, cu_statistics = explorer_statistics x,
                                cu_message_statistics = ms\<rparr>
                  in (Inr update,
                      s1\<lparr>ts_can_broadcaster := bc_publish (Can_Event update) (ts_can_broadcaster s1)\<rparr>)))"

definition sample_status :: "telemetry_engine \<Rightarrow> signal_sample \<Rightarrow> signal_freshness result" where
  "sample_status e sample =
     rbind (telemetry_freshness e (ss_key sample) None) (\<lambda>st.
       case st of
         None \<Rightarrow> raise Assertion_Error ''an accepted telemetry sample must have freshness''
       | Some v \<Rightarrow> Inr v)"

definition make_telemetry_update ::
  "decoded_can_frame \<Rightarrow> signal_sample list \<Rightarrow> signal_freshness list \<Rightarrow> telemetry_update result" where
  "make_telemetry_update f samples freshness =
     (case samples of
        [] \<Rightarrow> raise Lookup_Error ''tuple index out of range''
      | x # _ \<Rightarrow>
          Inr \<lparr>tu_timestamp_microseconds = df_timestamp_microseconds f,
               tu_frame_sequence = ss_frame_sequence x, tu_arbitration_id = df_arbitration_id f,
               tu_message_name = df_message_name f, tu_source_ecu = ss_source_ecu x,
               tu_samples = samples, tu_freshness = freshness\<rparr>)"

definition ingest_decoded ::
  "telemetry_service \<Rightarrow> decoded_can_frame \<Rightarrow> telemetry_update result \<times> telemetry_service" where
  "ingest_decoded s f =
     (if df_signals f = []
        then (raise Telemetry_Schema_Error ''decoded telemetry frames must contain at least one signal'', s)
      else (case telemetry_ingest (pl_engine (ts_pipeline s)) f of
              (Inl ex, e) \<Rightarrow> (Inl ex, s\<lparr>ts_pipeline := (ts_pipeline s)\<lparr>pl_engine := e\<rparr>\<rparr>)
            | (Inr samples, e) \<Rightarrow>
                let s1 = s\<lparr>ts_pipeline := (ts_pipeline s)\<lparr>pl_engine := e\<rparr>\<rparr>
                in (case rbind (mapM (sample_status e) samples) (make_telemetry_update f samples) of
                      Inl ex \<Rightarrow> (Inl ex, s1)
                    | Inr update \<Rightarrow>
                        (case observe_telemetry (ts_pipeline s1) of
                           (Inl ex, p) \<Rightarrow> (Inl ex, s1\<lparr>ts_pipeline := p\<rparr>)
                         | (Inr _, p) \<Rightarrow>
                             (Inr update,
                              s1\<lparr>ts_pipeline := p,
                                 ts_broadcaster := bc_publish (Telemetry_Event update) (ts_broadcaster s1)\<rparr>)))))"

section \<open>Starting and stopping\<close>

definition service_start :: "telemetry_service \<Rightarrow> unit result \<times> telemetry_service" where
  "service_start s =
     (if ts_live_started_once s
        then (raise Runtime_Error ''TelemetryService instances cannot be restarted'', s)
      else if source_active s then (raise Runtime_Error ''a telemetry source is already active'', s)
      else
        let p = ts_pipeline s;
            s1 = s\<lparr>ts_live_started_once := True, ts_source_mode := LIVE,
                   ts_source_session_id := None, ts_source_session_name := None,
                   ts_pipeline := p\<lparr>pl_explorer := explorer_reset (pl_explorer p),
                                     pl_diagnostics := diagnostic_reset (pl_diagnostics p)\<rparr>,
                   ts_stop_requested := False\<rparr>
        in (Inr (), (transition_locked CONNECTING None s1)\<lparr>ts_worker := Some Gateway_Connecting\<rparr>))"

definition pipeline_reset :: "pipeline \<Rightarrow> pipeline" where
  "pipeline_reset p =
     \<lparr>pl_explorer = explorer_reset (pl_explorer p), pl_engine = telemetry_reset (pl_engine p),
      pl_diagnostics = diagnostic_reset (pl_diagnostics p)\<rparr>"

definition service_start_replay ::
  "string \<Rightarrow> string option \<Rightarrow> bool \<Rightarrow> telemetry_service \<Rightarrow> unit result \<times> telemetry_service" where
  "service_start_replay session_id session_name wait_for_subscriber s =
     (if source_active s then (raise Runtime_Error ''a telemetry source is already active'', s)
      else if worker_alive s
        then (raise Runtime_Error ''previous telemetry source worker is still active'', s)
      else if subscriber_count (ts_broadcaster s) \<noteq> 0 \<or> subscriber_count (ts_can_broadcaster s) \<noteq> 0
        then (raise Runtime_Error ''replay requires all previous subscribers to close'', s)
      else
        let c = ts_config s;
            s1 = s\<lparr>ts_broadcaster := make_broadcaster (int_value (cf_replay_subscriber_queue_capacity c)),
                   ts_can_broadcaster :=
                     make_broadcaster (int_value (cf_can_replay_subscriber_queue_capacity c)),
                   ts_stop_requested := False, ts_pipeline := pipeline_reset (ts_pipeline s),
                   ts_last_error := None, ts_source_mode := REPLAY,
                   ts_source_session_id := Some session_id, ts_source_session_name := session_name,
                   ts_replay_start := \<not> wait_for_subscriber\<rparr>
        in (Inr (), (transition_locked RUNNING None s1)\<lparr>ts_worker := Some Replay_Waiting\<rparr>))"

text \<open>\<open>stop\<close> signals the worker, closes its connection, joins it and then takes the lock again.\<close>

definition stop_request :: "telemetry_service \<Rightarrow> telemetry_service" where
  "stop_request s = s\<lparr>ts_stop_requested := True, ts_replay_start := True\<rparr>"

definition stop_join :: "telemetry_service \<Rightarrow> unit result \<times> telemetry_service" where
  "stop_join s =
     (if worker_alive s
        then (raise Runtime_Error ''telemetry gateway worker did not stop within timeout'', s)
      else
        let s1 = s\<lparr>ts_client := False, ts_worker := None\<rparr>
        in (Inr (), if ts_state s1 \<noteq> STOPPED then transition_locked STOPPED None s1 else s1))"

definition reached_state :: "telemetry_service \<Rightarrow> telemetry_service_state \<Rightarrow> bool" where
  "reached_state s expected \<longleftrightarrow> expected \<in> set (ts_state_transitions s)"

section \<open>Reads\<close>

record telemetry_service_status =
  st_state :: telemetry_service_state
  st_last_error :: "string option"
  st_statistics :: telemetry_statistics
  st_source_mode :: telemetry_source_mode

definition gateway_connected :: "telemetry_service_status \<Rightarrow> bool" where
  "gateway_connected st \<longleftrightarrow> st_source_mode st = LIVE \<and> st_state st = RUNNING"

record telemetry_source_status =
  so_mode :: telemetry_source_mode
  so_session_id :: "string option"
  so_session_name :: "string option"
  so_recording :: bool
  so_recorded_frame_count :: int

definition service_status :: "telemetry_service \<Rightarrow> telemetry_service_status" where
  "service_status s =
     \<lparr>st_state = ts_state s, st_last_error = ts_last_error s,
      st_statistics = telemetry_statistics_of (pl_engine (ts_pipeline s)),
      st_source_mode = ts_source_mode s\<rparr>"

definition source_status :: "telemetry_service \<Rightarrow> telemetry_source_status" where
  "source_status s =
     \<lparr>so_mode = ts_source_mode s, so_session_id = ts_source_session_id s,
      so_session_name = ts_source_session_name s,
      so_recording = (case ts_recorder s of None \<Rightarrow> False | Some r \<Rightarrow> recorder_recording r),
      so_recorded_frame_count =
        (case ts_recorder s of None \<Rightarrow> 0 | Some r \<Rightarrow> mf_frame_count (sr_manifest r))\<rparr>"

definition service_snapshot :: "telemetry_service \<Rightarrow> telemetry_snapshot result" where
  "service_snapshot s = telemetry_snapshot_of (pl_engine (ts_pipeline s)) None"

definition service_latest ::
  "telemetry_service \<Rightarrow> signal_key \<Rightarrow> (signal_sample option \<times> signal_freshness option) result" where
  "service_latest s k =
     rbind (telemetry_latest (pl_engine (ts_pipeline s)) k) (\<lambda>x.
     rbind (telemetry_freshness (pl_engine (ts_pipeline s)) k None) (\<lambda>st. Inr (x, st)))"

definition service_history ::
  "telemetry_service \<Rightarrow> signal_key \<Rightarrow> int option \<Rightarrow> signal_sample list result" where
  "service_history s k limit =
     rbind (telemetry_history (pl_engine (ts_pipeline s)) k) (\<lambda>h.
       Inr (case limit of None \<Rightarrow> h | Some n \<Rightarrow> slice_last n h))"

definition service_statistics :: "telemetry_service \<Rightarrow> telemetry_statistics" where
  "service_statistics s = telemetry_statistics_of (pl_engine (ts_pipeline s))"

definition can_frames ::
  "telemetry_service \<Rightarrow> py_value \<Rightarrow> int option \<Rightarrow> string option \<Rightarrow> string option
     \<Rightarrow> can_explorer_frame list result" where
  "can_frames s = explorer_frames (pl_explorer (ts_pipeline s))"

definition can_frame :: "telemetry_service \<Rightarrow> int \<Rightarrow> can_explorer_frame option" where
  "can_frame s = explorer_frame_at (pl_explorer (ts_pipeline s))"

definition can_statistics :: "telemetry_service \<Rightarrow> can_explorer_statistics" where
  "can_statistics s = explorer_statistics (pl_explorer (ts_pipeline s))"

definition can_message_statistics_of :: "telemetry_service \<Rightarrow> can_message_statistics list result" where
  "can_message_statistics_of s = explorer_message_statistics (pl_explorer (ts_pipeline s))"

definition can_snapshot :: "telemetry_service \<Rightarrow> py_value \<Rightarrow> can_explorer_snapshot result" where
  "can_snapshot s = explorer_snapshot_of (pl_explorer (ts_pipeline s))"

definition service_diagnostic_snapshot :: "telemetry_service \<Rightarrow> diagnostic_snapshot result" where
  "service_diagnostic_snapshot s = diagnostic_snapshot_of (pl_diagnostics (ts_pipeline s))"

definition service_dtcs ::
  "telemetry_service \<Rightarrow> diagnostic_status option \<Rightarrow> diagnostic_trouble_code list result" where
  "service_dtcs s = diagnostic_dtcs (pl_diagnostics (ts_pipeline s))"

definition service_dtc :: "telemetry_service \<Rightarrow> string \<Rightarrow> diagnostic_trouble_code option result" where
  "service_dtc s = diagnostic_dtc (pl_diagnostics (ts_pipeline s))"

definition service_events :: "telemetry_service \<Rightarrow> py_value \<Rightarrow> diagnostic_event list result" where
  "service_events s = diagnostic_events (pl_diagnostics (ts_pipeline s))"

definition service_freeze_frame ::
  "telemetry_service \<Rightarrow> string \<Rightarrow> diagnostic_freeze_frame option result" where
  "service_freeze_frame s = diagnostic_freeze_frame_of (pl_diagnostics (ts_pipeline s))"

section \<open>Clearing and subscribing\<close>

definition clear_diagnostic ::
  "telemetry_service \<Rightarrow> string \<Rightarrow> diagnostic_trouble_code result \<times> telemetry_service" where
  "clear_diagnostic s code =
     (case diagnostic_clear (pl_diagnostics (ts_pipeline s)) code of
        (v, d) \<Rightarrow> (v, s\<lparr>ts_pipeline := (ts_pipeline s)\<lparr>pl_diagnostics := d\<rparr>\<rparr>))"

text \<open>A new subscriber of a replay lets the replay begin.\<close>

definition release_replay :: "telemetry_service \<Rightarrow> telemetry_service" where
  "release_replay s = (if ts_source_mode s = REPLAY then s\<lparr>ts_replay_start := True\<rparr> else s)"

definition service_subscribe ::
  "telemetry_service \<Rightarrow> (nat \<times> telemetry_snapshot \<times> telemetry_service_status) result \<times> telemetry_service"
  where
  "service_subscribe s =
     (case bc_subscribe (ts_broadcaster s) of (i, b) \<Rightarrow>
        let s1 = s\<lparr>ts_broadcaster := b\<rparr>
        in (case service_snapshot s1 of
              Inl ex \<Rightarrow> (Inl ex, s1)
            | Inr sn \<Rightarrow> (Inr (i, sn, service_status s1), release_replay s1)))"

definition service_subscribe_can ::
  "telemetry_service \<Rightarrow> py_value
     \<Rightarrow> (nat \<times> can_explorer_snapshot \<times> telemetry_service_status \<times> telemetry_source_status) result
        \<times> telemetry_service" where
  "service_subscribe_can s frame_limit =
     (case bc_subscribe (ts_can_broadcaster s) of (i, b) \<Rightarrow>
        let s1 = s\<lparr>ts_can_broadcaster := b\<rparr>
        in (case can_snapshot s1 frame_limit of
              Inl ex \<Rightarrow> (Inl ex, s1)
            | Inr sn \<Rightarrow> (Inr (i, sn, service_status s1, source_status s1), release_replay s1)))"

section \<open>The workers\<close>

text \<open>What the world hands a worker: the outcome of connecting, or what its frame iterator does.\<close>

datatype world = Connected | Frame raw_can_frame | Stream_End | Raised exn

definition go :: "worker \<Rightarrow> telemetry_service \<Rightarrow> telemetry_service" where
  "go w s = s\<lparr>ts_worker := Some w\<rparr>"

text \<open>
  An uncaught exception in a \<open>finally\<close> block ends the thread; \<open>_client\<close> then keeps the closed client.
\<close>

definition stop_reason :: "bool \<Rightarrow> string" where
  "stop_reason requested =
     (if requested then ''recording stopped before normal gateway completion''
      else ''recording ended without normal gateway completion'')"

definition gateway_cleanup :: "io \<Rightarrow> telemetry_service \<Rightarrow> telemetry_service" where
  "gateway_cleanup io s =
     (case ts_recorder s of
        None \<Rightarrow> go Worker_Done (s\<lparr>ts_client := False\<rparr>)
      | Some r \<Rightarrow>
          if recorder_recording r then
            (case recorder_abort io r (stop_reason (ts_stop_requested s)) of
               (Inl _, r1) \<Rightarrow> go Worker_Done (s\<lparr>ts_recorder := Some r1\<rparr>)
             | (Inr _, r1) \<Rightarrow> go Worker_Done (s\<lparr>ts_recorder := Some r1, ts_client := False\<rparr>))
          else go Worker_Done (s\<lparr>ts_client := False\<rparr>))"

definition gateway_failing :: "io \<Rightarrow> exn \<Rightarrow> telemetry_service \<Rightarrow> telemetry_service" where
  "gateway_failing io error s =
     (case ts_recorder s of
        None \<Rightarrow> go (Gateway_Failed (exn_message error)) s
      | Some r \<Rightarrow>
          (case recorder_abort io r (exn_message error) of
             (Inr _, r1) \<Rightarrow> go (Gateway_Failed (exn_message error)) (s\<lparr>ts_recorder := Some r1\<rparr>)
           | (Inl recording_error, r1) \<Rightarrow>
               go (Gateway_Failed (exn_message error @ ''; recording finalization failed: ''
                     @ exn_message recording_error)) (s\<lparr>ts_recorder := Some r1\<rparr>)))"

definition gateway_completing :: "io \<Rightarrow> telemetry_service \<Rightarrow> telemetry_service" where
  "gateway_completing io s =
     (case ts_recorder s of
        None \<Rightarrow> go Gateway_Completed s
      | Some r \<Rightarrow>
          (case recorder_complete io r of
             (Inl ex, r1) \<Rightarrow> go (Gateway_Failing ex) (s\<lparr>ts_recorder := Some r1\<rparr>)
           | (Inr _, r1) \<Rightarrow> go Gateway_Completed (s\<lparr>ts_recorder := Some r1\<rparr>)))"

definition gateway_next :: "raw_can_frame \<Rightarrow> telemetry_service \<Rightarrow> telemetry_service" where
  "gateway_next f s =
     (if ts_stop_requested s then go Gateway_Cleanup s
      else case ts_recorder s of None \<Rightarrow> go (Gateway_Explore f) s | Some _ \<Rightarrow> go (Gateway_Record f) s)"

definition gateway_record :: "io \<Rightarrow> raw_can_frame \<Rightarrow> telemetry_service \<Rightarrow> telemetry_service" where
  "gateway_record io f s =
     (case ts_recorder s of
        None \<Rightarrow> go (Gateway_Explore f) s
      | Some r \<Rightarrow>
          (case recorder_record io r f of
             (Inl ex, r1) \<Rightarrow> go (Gateway_Failing ex) (s\<lparr>ts_recorder := Some r1\<rparr>)
           | (Inr _, r1) \<Rightarrow> go (Gateway_Explore f) (s\<lparr>ts_recorder := Some r1\<rparr>)))"

text \<open>The two calls that both workers make for a frame, with where they go next or on an exception.\<close>

definition explore_frame ::
  "msg_decoder \<Rightarrow> raw_can_frame \<Rightarrow> worker \<Rightarrow> (exn \<Rightarrow> worker) \<Rightarrow> telemetry_service \<Rightarrow> telemetry_service" where
  "explore_frame msg_decode f continue failed s =
     (case ingest_can_explorer msg_decode s f of (Inl ex, s1) \<Rightarrow> go (failed ex) s1 | (Inr _, s1) \<Rightarrow> go continue s1)"

definition decode_into_telemetry ::
  "msg_decoder \<Rightarrow> raw_can_frame \<Rightarrow> worker \<Rightarrow> (exn \<Rightarrow> worker) \<Rightarrow> telemetry_service \<Rightarrow> telemetry_service" where
  "decode_into_telemetry msg_decode f continue failed s =
     (case decode_frame msg_decode (ts_decoder s) f of
        Inl ex \<Rightarrow> go (failed ex) s
      | Inr decoded \<Rightarrow>
          (case ingest_decoded s decoded of (Inl ex, s1) \<Rightarrow> go (failed ex) s1 | (Inr _, s1) \<Rightarrow> go continue s1))"

text \<open>A locked transition that a requested stop suppresses.\<close>

definition unless_stopped ::
  "telemetry_service_state \<Rightarrow> string option \<Rightarrow> telemetry_service \<Rightarrow> telemetry_service" where
  "unless_stopped state error s =
     (if ts_stop_requested s then s else transition_locked state error s)"

definition gateway_connect :: "telemetry_service \<Rightarrow> telemetry_service" where
  "gateway_connect s =
     (let s1 = s\<lparr>ts_client := True\<rparr>
      in if ts_stop_requested s1 then go Gateway_Cleanup s1
         else go Gateway_Streaming (transition_locked RUNNING None s1))"

text \<open>One step of the worker; \<open>None\<close> where it waits for something else.\<close>

fun worker_step ::
  "msg_decoder \<Rightarrow> io \<Rightarrow> world \<Rightarrow> worker \<Rightarrow> telemetry_service \<Rightarrow> telemetry_service option" where
  "worker_step md io Connected Gateway_Connecting s = Some (gateway_connect s)"
| "worker_step md io (Raised ex) Gateway_Connecting s = Some (go (Gateway_Failing ex) s)"
| "worker_step md io (Frame f) Gateway_Streaming s = Some (gateway_next f s)"
| "worker_step md io Stream_End Gateway_Streaming s = Some (go Gateway_Completing s)"
| "worker_step md io (Raised ex) Gateway_Streaming s = Some (go (Gateway_Failing ex) s)"
| "worker_step md io w (Gateway_Record f) s = Some (gateway_record io f s)"
| "worker_step md io w (Gateway_Explore f) s =
     Some (explore_frame md f (Gateway_Decode f) Gateway_Failing s)"
| "worker_step md io w (Gateway_Decode f) s =
     Some (decode_into_telemetry md f Gateway_Streaming Gateway_Failing s)"
| "worker_step md io w Gateway_Completing s = Some (gateway_completing io s)"
| "worker_step md io w Gateway_Completed s =
     Some (go Gateway_Cleanup (unless_stopped COMPLETED None s))"
| "worker_step md io w (Gateway_Failing ex) s = Some (gateway_failing io ex s)"
| "worker_step md io w (Gateway_Failed failure) s =
     Some (go Gateway_Cleanup (unless_stopped FAILED (Some failure) s))"
| "worker_step md io w Gateway_Cleanup s = Some (gateway_cleanup io s)"
| "worker_step md io w Replay_Waiting s =
     (if \<not> ts_replay_start s then None
      else Some (go (if ts_stop_requested s then Worker_Done else Replay_Streaming) s))"
| "worker_step md io (Frame f) Replay_Streaming s =
     Some (go (if ts_stop_requested s then Worker_Done else Replay_Explore f) s)"
| "worker_step md io Stream_End Replay_Streaming s = Some (go Replay_Completed s)"
| "worker_step md io (Raised ex) Replay_Streaming s = Some (go (Replay_Failed ex) s)"
| "worker_step md io w (Replay_Explore f) s =
     Some (explore_frame md f (Replay_Decode f) Replay_Failed s)"
| "worker_step md io w (Replay_Decode f) s =
     Some (decode_into_telemetry md f Replay_Streaming Replay_Failed s)"
| "worker_step md io w Replay_Completed s = Some (go Worker_Done (unless_stopped COMPLETED None s))"
| "worker_step md io w (Replay_Failed ex) s =
     Some (go Worker_Done (unless_stopped FAILED (Some (exn_message ex)) s))"
| "worker_step md io w wk s = None"

end
