(* ===== verification/Service_Runs.thy ===== *)
theory Service_Runs
  imports Telemetry_Service Session_Properties
begin

text \<open>
  The telemetry service as a transition system: any operation of any thread between two steps of the
  worker, file errors and client event loops included. The invariant ties the worker's program counter
  to the service state and the recorder.
\<close>

section \<open>Steps\<close>

inductive service_step :: "msg_decoder \<Rightarrow> telemetry_service \<Rightarrow> telemetry_service \<Rightarrow> bool" for md where
  start: "service_step md s (snd (service_start s))"
| start_replay: "service_step md s (snd (service_start_replay i n w s))"
| request_stop: "service_step md s (stop_request s)"
| join: "service_step md s (snd (stop_join s))"
| clear: "service_step md s (snd (clear_diagnostic s code))"
| subscribe: "service_step md s (snd (service_subscribe s))"
| subscribe_can: "service_step md s (snd (service_subscribe_can s limit))"
| clients: "service_step md s (s\<lparr>ts_broadcaster := b, ts_can_broadcaster := b'\<rparr>)"
| work: "ts_worker s = Some w \<Longrightarrow> worker_step md io x w s = Some s' \<Longrightarrow> service_step md s s'"

abbreviation service_steps :: "msg_decoder \<Rightarrow> telemetry_service \<Rightarrow> telemetry_service \<Rightarrow> bool" where
  "service_steps md \<equiv> (service_step md)\<^sup>*\<^sup>*"

section \<open>What ingestion leaves alone\<close>

text \<open>The fields that decide what the service does next, apart from the pipeline and the broadcasters.\<close>

type_synonym control_view =
  "dbc_decoder \<times> session_recorder option \<times> telemetry_service_state \<times> telemetry_service_state list
     \<times> string option \<times> bool \<times> bool \<times> telemetry_source_mode"

definition control :: "telemetry_service \<Rightarrow> control_view" where
  "control s = (ts_decoder s, ts_recorder s, ts_state s, ts_state_transitions s, ts_last_error s,
     ts_stop_requested s, ts_live_started_once s, ts_source_mode s)"

lemma control_eq:
  "control s' = control s \<longleftrightarrow> ts_decoder s' = ts_decoder s \<and> ts_recorder s' = ts_recorder s
     \<and> ts_state s' = ts_state s \<and> ts_state_transitions s' = ts_state_transitions s
     \<and> ts_last_error s' = ts_last_error s \<and> ts_stop_requested s' = ts_stop_requested s
     \<and> ts_live_started_once s' = ts_live_started_once s \<and> ts_source_mode s' = ts_source_mode s"
  by (auto simp: control_def)

lemma ingest_can_explorer_control:
  "ingest_can_explorer md s f = (v, s') \<Longrightarrow> control s' = control s"
  by (auto simp: ingest_can_explorer_def control_def Let_def split: prod.splits sum.splits)

lemma ingest_decoded_control:
  "ingest_decoded s f = (v, s') \<Longrightarrow> control s' = control s"
  by (auto simp: ingest_decoded_def control_def Let_def split: prod.splits sum.splits if_splits)

lemma go_simps [simp]: "ts_worker (go w s) = Some w" "control (go w s) = control s"
  by (simp_all add: go_def control_def)

lemma explore_frame_control:
  "control (explore_frame md f w h s) = control s
     \<and> (ts_worker (explore_frame md f w h s) = Some w \<or> (\<exists>ex. ts_worker (explore_frame md f w h s) = Some (h ex)))"
  by (auto simp: explore_frame_def dest: ingest_can_explorer_control split: prod.splits sum.splits)

lemma decode_into_telemetry_control:
  "control (decode_into_telemetry md f w h s) = control s
     \<and> (ts_worker (decode_into_telemetry md f w h s) = Some w
        \<or> (\<exists>ex. ts_worker (decode_into_telemetry md f w h s) = Some (h ex)))"
  by (auto simp: decode_into_telemetry_def dest: ingest_decoded_control split: prod.splits sum.splits)

section \<open>The recorder ends with the worker\<close>

lemma abort_not_recording: "recorder_abort io r reason = (v, r') \<Longrightarrow> \<not> recorder_recording r'"
  by (auto simp: recorder_abort_def recorder_recording_def finish_stream_def Let_def
      split: if_splits io_outcome.splits prod.splits sum.splits)

lemma complete_not_recording: "recorder_complete io r = (Inr m, r') \<Longrightarrow> \<not> recorder_recording r'"
  by (auto simp: recorder_complete_def recorder_recording_def finish_stream_def Let_def
      split: if_splits io_outcome.splits prod.splits sum.splits)

section \<open>The invariant\<close>

definition allowed :: "telemetry_service_state \<Rightarrow> telemetry_service_state \<Rightarrow> bool" where
  "allowed a b \<longleftrightarrow>
     (case b of
        CONNECTING \<Rightarrow> a \<in> {STOPPED, COMPLETED, FAILED}
      | RUNNING \<Rightarrow> a \<noteq> RUNNING
      | COMPLETED \<Rightarrow> a = RUNNING
      | FAILED \<Rightarrow> a \<in> {CONNECTING, RUNNING}
      | STOPPED \<Rightarrow> a \<noteq> STOPPED)"

lemma allowed_simps [simp]:
  "allowed a CONNECTING \<longleftrightarrow> a \<in> {STOPPED, COMPLETED, FAILED}" "allowed a RUNNING \<longleftrightarrow> a \<noteq> RUNNING"
  "allowed a COMPLETED \<longleftrightarrow> a = RUNNING" "allowed a FAILED \<longleftrightarrow> a \<in> {CONNECTING, RUNNING}"
  "allowed a STOPPED \<longleftrightarrow> a \<noteq> STOPPED"
  by (simp_all add: allowed_def)

definition history_ok :: "telemetry_service \<Rightarrow> bool" where
  "history_ok s \<longleftrightarrow> ts_state_transitions s \<noteq> [] \<and> hd (ts_state_transitions s) = STOPPED
     \<and> last (ts_state_transitions s) = ts_state s
     \<and> successively allowed (ts_state_transitions s)
     \<and> count_list (ts_state_transitions s) CONNECTING = (if ts_live_started_once s then 1 else 0)
     \<and> (ts_last_error s \<noteq> None \<longleftrightarrow> ts_state s = FAILED)"

text \<open>The states a worker's position allows, and whether it is the gateway worker still holding a recording.\<close>

fun phase_states :: "worker \<Rightarrow> telemetry_service_state set" where
  "phase_states Gateway_Connecting = {CONNECTING}"
| "phase_states (Gateway_Failing _) = {CONNECTING, RUNNING}"
| "phase_states (Gateway_Failed _) = {CONNECTING, RUNNING}"
| "phase_states Gateway_Cleanup = UNIV"
| "phase_states Worker_Done = UNIV"
| "phase_states _ = {RUNNING}"

fun is_gateway :: "worker \<Rightarrow> bool" where
  "is_gateway Worker_Done = False"
| "is_gateway Replay_Waiting = False"
| "is_gateway Replay_Streaming = False"
| "is_gateway (Replay_Explore _) = False"
| "is_gateway (Replay_Decode _) = False"
| "is_gateway Replay_Completed = False"
| "is_gateway (Replay_Failed _) = False"
| "is_gateway _ = True"

fun may_record :: "worker \<Rightarrow> bool" where
  "may_record Gateway_Completed = False"
| "may_record (Gateway_Failed _) = False"
| "may_record w = is_gateway w"

definition phase_ok :: "worker option \<Rightarrow> telemetry_service_state \<Rightarrow> bool \<Rightarrow> bool" where
  "phase_ok wk st live \<longleftrightarrow>
     (case wk of None \<Rightarrow> st = STOPPED | Some w \<Rightarrow> st \<in> phase_states w \<and> (is_gateway w \<longrightarrow> live))"

definition finalised :: "worker option \<Rightarrow> session_recorder option \<Rightarrow> bool \<Rightarrow> bool" where
  "finalised wk recorder live \<longleftrightarrow>
     (live \<longrightarrow> (case wk of None \<Rightarrow> True | Some w \<Rightarrow> \<not> may_record w) \<longrightarrow>
          (case recorder of None \<Rightarrow> True | Some r \<Rightarrow> \<not> recorder_recording r))"

definition service_inv :: "telemetry_service \<Rightarrow> bool" where
  "service_inv s \<longleftrightarrow> history_ok s \<and> phase_ok (ts_worker s) (ts_state s) (ts_live_started_once s)
     \<and> finalised (ts_worker s) (ts_recorder s) (ts_live_started_once s)"

lemma history_ok_control: "control s' = control s \<Longrightarrow> history_ok s' = history_ok s"
  by (simp add: history_ok_def control_eq)

lemma history_ok_go [simp]: "history_ok (go w s) = history_ok s"
  by (rule history_ok_control) simp

lemma go_fields [simp]:
  "ts_state (go w s) = ts_state s" "ts_recorder (go w s) = ts_recorder s"
  "ts_live_started_once (go w s) = ts_live_started_once s" "ts_stop_requested (go w s) = ts_stop_requested s"
  by (simp_all add: go_def)

lemma service_inv_control:
  assumes "service_inv s" and "control s' = control s" and "ts_worker s' = ts_worker s"
  shows "service_inv s'"
  using assms history_ok_control [OF assms(2)] by (simp add: service_inv_def control_eq)

lemma service_inv_moves:
  assumes "service_inv s" and "control s' = control s" and "ts_worker s = Some w" and "ts_worker s' = Some w'"
    and "phase_states w \<subseteq> phase_states w'" and "is_gateway w' \<longrightarrow> is_gateway w"
    and "may_record w \<longrightarrow> may_record w'"
  shows "service_inv s'"
  using assms history_ok_control [OF assms(2)]
  by (auto simp: service_inv_def control_eq phase_ok_def finalised_def)

lemma history_ok_transition:
  assumes "history_ok s" and "allowed (ts_state s) st" and "(error \<noteq> None) = (st = FAILED)"
    and "st \<noteq> CONNECTING"
  shows "history_ok (transition_locked st error s)"
  using assms by (auto simp: history_ok_def transition_locked_def Let_def successively_append_iff)

lemma transition_fields [simp]:
  "ts_state (transition_locked st error s) = st" "ts_worker (transition_locked st error s) = ts_worker s"
  "ts_recorder (transition_locked st error s) = ts_recorder s"
  "ts_live_started_once (transition_locked st error s) = ts_live_started_once s"
  "ts_stop_requested (transition_locked st error s) = ts_stop_requested s"
  by (simp_all add: transition_locked_def Let_def)

lemma history_ok_started:
  assumes "history_ok s" and "\<not> ts_live_started_once s" and "\<not> source_active s"
    and "ts_state s' = ts_state s" and "ts_state_transitions s' = ts_state_transitions s"
    and "ts_live_started_once s'"
  shows "history_ok (transition_locked CONNECTING None s')"
  using assms
  by (cases "ts_state s")
    (auto simp: history_ok_def transition_locked_def Let_def successively_append_iff source_active_def)

lemma start_inv: "service_inv s \<Longrightarrow> service_inv (snd (service_start s))"
proof -
  assume inv: "service_inv s"
  show ?thesis
  proof (cases "ts_live_started_once s \<or> source_active s")
    case True
    then show ?thesis using inv by (auto simp: service_start_def)
  next
    case False
    define s1 where "s1 = s\<lparr>ts_live_started_once := True, ts_source_mode := LIVE,
      ts_source_session_id := None, ts_source_session_name := None,
      ts_pipeline := (ts_pipeline s)\<lparr>pl_explorer := explorer_reset (pl_explorer (ts_pipeline s)),
        pl_diagnostics := diagnostic_reset (pl_diagnostics (ts_pipeline s))\<rparr>, ts_stop_requested := False\<rparr>"
    have "history_ok (transition_locked CONNECTING None s1)"
      by (rule history_ok_started [of s]) (use inv False in \<open>simp_all add: service_inv_def s1_def\<close>)
    moreover have "snd (service_start s) = go Gateway_Connecting (transition_locked CONNECTING None s1)"
      using False by (simp add: service_start_def s1_def go_def Let_def)
    moreover have "ts_live_started_once s1" by (simp add: s1_def)
    ultimately show ?thesis
      by (simp add: service_inv_def phase_ok_def finalised_def)
  qed
qed

lemma start_replay_inv: "service_inv s \<Longrightarrow> service_inv (snd (service_start_replay i n w s))"
proof -
  assume inv: "service_inv s"
  show ?thesis
  proof (cases "fst (service_start_replay i n w s) = Inr ()")
    case False
    then show ?thesis using inv by (auto simp: service_start_replay_def Let_def split: if_splits)
  next
    case True
    then have act: "\<not> source_active s" and dead: "\<not> worker_alive s"
      by (auto simp: service_start_replay_def Let_def split: if_splits)
    define s1 where "s1 = s\<lparr>ts_broadcaster := make_broadcaster (int_value (cf_replay_subscriber_queue_capacity (ts_config s))),
      ts_can_broadcaster := make_broadcaster (int_value (cf_can_replay_subscriber_queue_capacity (ts_config s))),
      ts_stop_requested := False, ts_pipeline := pipeline_reset (ts_pipeline s),
      ts_last_error := None, ts_source_mode := REPLAY,
      ts_source_session_id := Some i, ts_source_session_name := n, ts_replay_start := \<not> w\<rparr>"
    have eq: "snd (service_start_replay i n w s) = go Replay_Waiting (transition_locked RUNNING None s1)"
      using True by (auto simp: service_start_replay_def s1_def go_def Let_def split: if_splits)
    have "history_ok (transition_locked RUNNING None s1)"
      using inv act
      by (auto simp: service_inv_def history_ok_def transition_locked_def Let_def successively_append_iff
          source_active_def s1_def)
    moreover have "\<not> recorder_recording r" if "ts_live_started_once s" "ts_recorder s = Some r" for r
      using inv dead that by (auto simp: service_inv_def finalised_def worker_alive_def split: option.splits)
    ultimately show ?thesis
      unfolding eq by (auto simp: service_inv_def phase_ok_def finalised_def s1_def split: option.splits)
  qed
qed

lemma stop_join_inv: "service_inv s \<Longrightarrow> service_inv (snd (stop_join s))"
proof -
  assume inv: "service_inv s"
  show ?thesis
  proof (cases "worker_alive s")
    case True
    then show ?thesis using inv by (simp add: stop_join_def)
  next
    case False
    let ?s1 = "s\<lparr>ts_client := False, ts_worker := None\<rparr>"
    have h: "history_ok ?s1" using inv by (simp add: service_inv_def history_ok_def)
    have "\<not> recorder_recording r" if "ts_live_started_once s" "ts_recorder s = Some r" for r
      using inv False that by (auto simp: service_inv_def finalised_def worker_alive_def split: option.splits)
    then show ?thesis
      using False h history_ok_transition [OF h, of STOPPED None]
      by (auto simp: stop_join_def Let_def service_inv_def phase_ok_def finalised_def split: option.splits)
  qed
qed

lemma unless_stopped_inv:
  assumes "service_inv s" and "ts_worker s = Some w" and "ts_state s \<in> {CONNECTING, RUNNING}"
    and "allowed (ts_state s) st" and "st = COMPLETED \<and> error = None \<or> st = FAILED \<and> error \<noteq> None"
    and "\<not> may_record w" and "w' = Worker_Done \<or> w' = Gateway_Cleanup \<and> is_gateway w"
  shows "service_inv (go w' (unless_stopped st error s))"
proof -
  let ?s = "unless_stopped st error s"
  have "history_ok ?s"
    using assms(1,4,5) history_ok_transition [of s st error]
    by (auto simp: unless_stopped_def service_inv_def)
  then have "history_ok (go w' ?s)" by simp
  moreover have "ts_recorder ?s = ts_recorder s" "ts_live_started_once ?s = ts_live_started_once s"
    by (simp_all add: unless_stopped_def)
  ultimately show ?thesis
    using assms(1,2,6,7) by (auto simp: service_inv_def phase_ok_def finalised_def)
qed

text \<open>Steps that change the recorder: the worker moves on, and stops recording when its place says so.\<close>

lemma recorder_move_inv:
  assumes inv: "service_inv s" and w: "ts_worker s = Some w"
    and s': "s' = go w' (s\<lparr>ts_recorder := r, ts_client := c\<rparr>)"
    and "phase_states w \<subseteq> phase_states w'" and "is_gateway w"
    and "\<not> may_record w' \<Longrightarrow> \<forall>q. r = Some q \<longrightarrow> \<not> recorder_recording q"
  shows "service_inv s'"
proof -
  have "history_ok (s\<lparr>ts_recorder := r, ts_client := c\<rparr>) = history_ok s" by (simp add: history_ok_def)
  then show ?thesis
    unfolding s' using inv w assms(4-6)
    by (auto simp: service_inv_def phase_ok_def finalised_def split: option.splits)
qed

lemma gateway_record_inv:
  assumes "service_inv s" and "ts_worker s = Some (Gateway_Record f)"
  shows "service_inv (gateway_record io f s)"
proof (cases "ts_recorder s")
  case None
  then show ?thesis
    using assms by (auto simp: gateway_record_def intro: service_inv_moves)
next
  case (Some r)
  obtain v r1 where r: "recorder_record io r f = (v, r1)" by force
  show ?thesis
    by (rule recorder_move_inv [OF assms, where r = "Some r1" and c = "ts_client s"
          and w' = "case v of Inl ex \<Rightarrow> Gateway_Failing ex | Inr _ \<Rightarrow> Gateway_Explore f"])
      (use Some r in \<open>auto simp: gateway_record_def split: sum.splits\<close>)
qed

lemma gateway_completing_inv:
  assumes "service_inv s" and "ts_worker s = Some Gateway_Completing"
  shows "service_inv (gateway_completing io s)"
proof (cases "ts_recorder s")
  case None
  then show ?thesis
    by (intro recorder_move_inv [OF assms, where r = None and c = "ts_client s" and w' = Gateway_Completed])
      (auto simp: gateway_completing_def go_def)
next
  case (Some r)
  obtain v r1 where r: "recorder_complete io r = (v, r1)" by force
  show ?thesis
    by (rule recorder_move_inv [OF assms, where r = "Some r1" and c = "ts_client s"
          and w' = "case v of Inl ex \<Rightarrow> Gateway_Failing ex | Inr _ \<Rightarrow> Gateway_Completed"])
      (use Some r complete_not_recording in \<open>auto simp: gateway_completing_def split: sum.splits\<close>)
qed

lemma gateway_failing_inv:
  assumes "service_inv s" and "ts_worker s = Some (Gateway_Failing ex)"
  shows "service_inv (gateway_failing io ex s)"
proof (cases "ts_recorder s")
  case None
  then show ?thesis
    by (intro recorder_move_inv [OF assms, where r = None and c = "ts_client s"
          and w' = "Gateway_Failed (exn_message ex)"])
      (auto simp: gateway_failing_def go_def)
next
  case (Some r)
  obtain v r1 where r: "recorder_abort io r (exn_message ex) = (v, r1)" by force
  show ?thesis
    by (rule recorder_move_inv [OF assms, where r = "Some r1" and c = "ts_client s"
          and w' = "Gateway_Failed (case v of Inr _ \<Rightarrow> exn_message ex | Inl e \<Rightarrow>
              exn_message ex @ ''; recording finalization failed: '' @ exn_message e)"])
      (use Some r abort_not_recording [OF r] in \<open>auto simp: gateway_failing_def split: sum.splits\<close>)
qed

lemma gateway_cleanup_inv:
  assumes "service_inv s" and "ts_worker s = Some Gateway_Cleanup"
  shows "service_inv (gateway_cleanup io s)"
proof (cases "\<exists>r. ts_recorder s = Some r \<and> recorder_recording r")
  case False
  then have "gateway_cleanup io s = go Worker_Done (s\<lparr>ts_recorder := ts_recorder s, ts_client := False\<rparr>)"
    by (auto simp: gateway_cleanup_def split: option.splits)
  then show ?thesis
    by (rule recorder_move_inv [OF assms]) (use False in auto)
next
  case True
  then obtain r where Some: "ts_recorder s = Some r" and rec: "recorder_recording r" by blast
  obtain v r1 where r: "recorder_abort io r (stop_reason (ts_stop_requested s)) = (v, r1)" by force
  show ?thesis
    by (rule recorder_move_inv [OF assms, where r = "Some r1" and w' = Worker_Done
          and c = "case v of Inl _ \<Rightarrow> ts_client s | Inr _ \<Rightarrow> False"])
      (use Some rec r abort_not_recording [OF r] in \<open>auto simp: gateway_cleanup_def split: sum.splits\<close>)
qed

lemma gateway_connect_inv:
  assumes "service_inv s" and "ts_worker s = Some Gateway_Connecting"
  shows "service_inv (gateway_connect s)"
proof -
  let ?s1 = "s\<lparr>ts_client := True\<rparr>"
  have h: "history_ok ?s1" and live: "ts_live_started_once s" and st: "ts_state s = CONNECTING"
    using assms by (simp_all add: service_inv_def history_ok_def phase_ok_def)
  then show ?thesis
    using history_ok_transition [OF h, of RUNNING None]
    by (auto simp: gateway_connect_def Let_def service_inv_def phase_ok_def finalised_def)
qed

lemma frame_calls_inv:
  assumes "service_inv s" and "ts_worker s = Some w"
    and "phase_states w \<subseteq> phase_states w'" and "is_gateway w' = is_gateway w" and "may_record w' = may_record w"
    and "\<And>ex. phase_states w \<subseteq> phase_states (h ex) \<and> is_gateway (h ex) = is_gateway w \<and> may_record (h ex) = may_record w"
  shows "service_inv (explore_frame md f w' h s) \<and> service_inv (decode_into_telemetry md f w' h s)"
proof -
  note e = explore_frame_control [of md f w' h s] and d = decode_into_telemetry_control [of md f w' h s]
  have "service_inv s'" if "control s' = control s \<and> (ts_worker s' = Some w' \<or> (\<exists>ex. ts_worker s' = Some (h ex)))" for s'
    using that
  proof (elim conjE disjE exE)
    assume c: "control s' = control s" and "ts_worker s' = Some w'"
    then show ?thesis by (rule service_inv_moves [OF assms(1) _ assms(2)]) (use assms in auto)
  next
    fix ex assume c: "control s' = control s" and "ts_worker s' = Some (h ex)"
    then show ?thesis by (rule service_inv_moves [OF assms(1) _ assms(2)]) (use assms in auto)
  qed
  with e d show ?thesis by blast
qed

lemma go_inv:
  assumes "service_inv s" and "ts_worker s = Some w" and "phase_states w \<subseteq> phase_states w'"
    and "is_gateway w' \<longrightarrow> is_gateway w" and "may_record w \<longrightarrow> may_record w'"
  shows "service_inv (go w' s)"
  by (rule service_inv_moves [OF assms(1) _ assms(2)]) (use assms in auto)

lemma worker_step_inv:
  assumes "service_inv s" and w: "ts_worker s = Some w" and step: "worker_step md io x w s = Some s'"
  shows "service_inv s'"
proof (cases w)
  case Gateway_Connecting
  then show ?thesis using assms gateway_connect_inv [of s] by (cases x) (auto intro: go_inv)
next
  case Gateway_Streaming
  then show ?thesis
    using assms by (cases x) (auto simp: gateway_next_def intro: go_inv split: option.splits if_splits)
next
  case (Gateway_Record f)
  then show ?thesis using assms gateway_record_inv [of s f io] by simp
next
  case (Gateway_Explore f)
  then show ?thesis
    using assms frame_calls_inv [of s w "Gateway_Decode f" Gateway_Failing md f] by auto
next
  case (Gateway_Decode f)
  then show ?thesis
    using assms frame_calls_inv [of s w Gateway_Streaming Gateway_Failing md f] by auto
next
  case Gateway_Completing
  then show ?thesis using assms gateway_completing_inv [of s io] by simp
next
  case Gateway_Completed
  then show ?thesis
    using assms unless_stopped_inv [of s w COMPLETED None Gateway_Cleanup]
    by (auto simp: service_inv_def phase_ok_def)
next
  case (Gateway_Failing ex)
  then show ?thesis using assms gateway_failing_inv [of s ex io] by simp
next
  case (Gateway_Failed failure)
  then show ?thesis
    using assms unless_stopped_inv [of s w FAILED "Some failure" Gateway_Cleanup]
    by (auto simp: service_inv_def phase_ok_def)
next
  case Gateway_Cleanup
  then show ?thesis using assms gateway_cleanup_inv [of s io] by simp
next
  case Replay_Waiting
  then show ?thesis using assms by (auto intro: go_inv split: if_splits)
next
  case Replay_Streaming
  then show ?thesis using assms by (cases x) (auto intro: go_inv split: if_splits)
next
  case (Replay_Explore f)
  then show ?thesis
    using assms frame_calls_inv [of s w "Replay_Decode f" Replay_Failed md f] by auto
next
  case (Replay_Decode f)
  then show ?thesis
    using assms frame_calls_inv [of s w Replay_Streaming Replay_Failed md f] by auto
next
  case Replay_Completed
  then show ?thesis
    using assms unless_stopped_inv [of s w COMPLETED None Worker_Done]
    by (auto simp: service_inv_def phase_ok_def)
next
  case (Replay_Failed ex)
  then show ?thesis
    using assms unless_stopped_inv [of s w FAILED "Some (exn_message ex)" Worker_Done]
    by (auto simp: service_inv_def phase_ok_def)
next
  case Worker_Done
  then show ?thesis using step by simp
qed

lemma service_step_inv: "service_step md s s' \<Longrightarrow> service_inv s \<Longrightarrow> service_inv s'"
proof (induction rule: service_step.induct)
  case (start s)
  then show ?case by (rule start_inv)
next
  case (start_replay s i n w)
  then show ?case by (rule start_replay_inv)
next
  case (request_stop s)
  then show ?case by (simp add: service_inv_def history_ok_def stop_request_def)
next
  case (join s)
  then show ?case by (rule stop_join_inv)
next
  case (clear s code)
  then show ?case
    by (auto intro: service_inv_control simp: clear_diagnostic_def control_def split: prod.splits)
next
  case (subscribe s)
  then show ?case
    by (auto intro!: service_inv_control [of s] simp: service_subscribe_def release_replay_def control_def Let_def
        split: prod.splits sum.splits)
next
  case (subscribe_can s limit)
  then show ?case
    by (auto intro!: service_inv_control [of s] simp: service_subscribe_can_def release_replay_def control_def Let_def
        split: prod.splits sum.splits)
next
  case (clients s b b')
  then show ?case by (simp add: service_inv_def history_ok_def)
next
  case (work s w io x s')
  then show ?case using worker_step_inv by blast
qed

lemma service_steps_inv: "service_steps md s s' \<Longrightarrow> service_inv s \<Longrightarrow> service_inv s'"
  by (induction rule: rtranclp_induct) (auto intro: service_step_inv)

lemma make_telemetry_service_inv: "make_telemetry_service c dec e r x d = Inr s \<Longrightarrow> service_inv s"
  by (auto simp: make_telemetry_service_def rbind_eq_Inr service_inv_def history_ok_def phase_ok_def
      finalised_def)

section \<open>Properties\<close>


text \<open>C27: once the live source was started, a recorder is never left recording when no worker is alive: however
  the worker ended (normal end, an exception, a requested stop, a failing disk), the recording was
  completed or aborted, and the source status says so.\<close>

theorem recording_ends_with_worker:
  assumes "make_telemetry_service c decoder engine recorder explorer diagnostics = Inr s0"
    and "service_steps md s0 s" and "ts_live_started_once s" and "\<not> worker_alive s"
  shows "\<not> so_recording (source_status s)
    \<and> (\<forall>r. ts_recorder s = Some r \<longrightarrow> \<not> recorder_recording r)"
proof -
  have inv: "service_inv s" by (rule service_steps_inv [OF assms(2) make_telemetry_service_inv [OF assms(1)]])
  then have "finalised (ts_worker s) (ts_recorder s) True" using assms(3) by (simp add: service_inv_def)
  moreover have "ts_worker s = None \<or> ts_worker s = Some Worker_Done"
    using assms(4) by (auto simp: worker_alive_def split: option.splits)
  ultimately have "case ts_recorder s of None \<Rightarrow> True | Some r \<Rightarrow> \<not> recorder_recording r"
    by (auto simp: finalised_def)
  then show ?thesis by (auto simp: source_status_def split: option.splits)
qed

subsection \<open>A run whose gateway refuses the connection\<close>

definition sample_service :: "session_recorder option \<Rightarrow> telemetry_service" where
  "sample_service r = projr (make_telemetry_service default_service_config simulation_decoder None r None None)"

lemma sample_service:
  "make_telemetry_service default_service_config simulation_decoder None r None None = Inr (sample_service r)"
proof -
  obtain cat where "create_default_diagnostic_catalog simulation_catalog = Inr cat"
    using default_catalog_accepted by blast
  then have "\<exists>s. make_telemetry_service default_service_config simulation_decoder None r None None = Inr s"
    using make_simulation_catalog
    by (simp add: make_telemetry_service_def service_engine_def service_explorer_def service_diagnostics_def
        diagnostic_catalog_for_def default_service_config_def make_telemetry_engine_def make_can_explorer_def
        make_diagnostic_engine_def simulation_metadata_def)
  then show ?thesis by (auto simp: sample_service_def)
qed

lemma make_telemetry_service_fields:
  "make_telemetry_service c dec e r x d = Inr s \<Longrightarrow>
     ts_recorder s = r \<and> ts_state s = STOPPED \<and> ts_state_transitions s = [STOPPED]
     \<and> \<not> ts_live_started_once s \<and> ts_decoder s = dec \<and> ts_worker s = None \<and> ts_config s = c"
  by (auto simp: make_telemetry_service_def rbind_eq_Inr)

lemma sample_service_fields:
  "ts_recorder (sample_service r) = r" "ts_state (sample_service r) = STOPPED"
  "ts_state_transitions (sample_service r) = [STOPPED]" "\<not> ts_live_started_once (sample_service r)"
  using make_telemetry_service_fields [OF sample_service [of r]] by simp_all

definition refused_connection :: exn where
  "refused_connection = Exn Gateway_Connection_Error ''connection refused''"

text \<open>The steps of a worker whose connection is refused, while a client's stop is not requested.\<close>

definition refused_run :: "io \<Rightarrow> telemetry_service \<Rightarrow> telemetry_service" where
  "refused_run io s =
     (let s1 = gateway_failing io refused_connection (go (Gateway_Failing refused_connection) (snd (service_start s)));
          failure = (case ts_worker s1 of Some (Gateway_Failed f) \<Rightarrow> f | _ \<Rightarrow> '''')
      in gateway_cleanup io (go Gateway_Cleanup (unless_stopped FAILED (Some failure) s1)))"

lemma gateway_failing_worker: "\<exists>f. ts_worker (gateway_failing io ex s) = Some (Gateway_Failed f)"
proof (cases "ts_recorder s")
  case (Some r)
  obtain v r1 where "recorder_abort io r (exn_message ex) = (v, r1)" by force
  with Some show ?thesis by (cases v) (simp_all add: gateway_failing_def)
qed (simp add: gateway_failing_def)

lemma refused_run_steps:
  assumes "\<not> ts_live_started_once s" and "\<not> source_active s"
  shows "service_steps md s (refused_run io s)"
proof -
  let ?a = "snd (service_start s)"
  let ?b = "go (Gateway_Failing refused_connection) ?a"
  let ?c = "gateway_failing io refused_connection ?b"
  have "service_step md s ?a" by (rule service_step.start)
  moreover have "service_step md ?a ?b"
    by (rule service_step.work [where w = Gateway_Connecting and x = "Raised refused_connection"])
      (use assms in \<open>simp_all add: service_start_def Let_def\<close>)
  moreover have "service_step md ?b ?c"
    by (rule service_step.work [where w = "Gateway_Failing refused_connection" and io = io and x = Stream_End]) simp_all
  moreover obtain f where f: "ts_worker ?c = Some (Gateway_Failed f)"
    using gateway_failing_worker by blast
  let ?d = "go Gateway_Cleanup (unless_stopped FAILED (Some f) ?c)"
  have "service_step md ?c ?d"
    by (rule service_step.work [OF f, where x = Stream_End]) simp
  moreover have "service_step md ?d (gateway_cleanup io ?d)"
    by (rule service_step.work [where w = Gateway_Cleanup and io = io and x = Stream_End]) simp_all
  moreover have "refused_run io s = gateway_cleanup io ?d" using f by (simp add: refused_run_def Let_def)
  ultimately show ?thesis by (metis converse_rtranclp_into_rtranclp r_into_rtranclp)
qed

lemma refused_run_end:
  assumes "\<not> ts_live_started_once s" and "\<not> source_active s"
  shows "ts_live_started_once (refused_run io s) \<and> ts_worker (refused_run io s) = Some Worker_Done
    \<and> ts_state (refused_run io s) = FAILED"
  using assms
  by (auto simp: refused_run_def gateway_cleanup_def gateway_failing_def unless_stopped_def service_start_def
      Let_def go_def transition_locked_def split: option.splits prod.splits sum.splits)


theorem recording_ends_with_worker_witness:
  "\<exists>s r. service_steps (\<lambda>_ _. Inr []) (sample_service (Some sample_recorder)) s
     \<and> ts_recorder s = Some r \<and> \<not> recorder_recording r"
proof -
  let ?s = "sample_service (Some sample_recorder)"
  have idle: "\<not> ts_live_started_once ?s" "\<not> source_active ?s"
    by (simp_all add: sample_service_fields source_active_def)
  note run = refused_run_steps [OF idle, of "\<lambda>_ _. Inr []" all_ok]
  have alive: "\<not> worker_alive (refused_run all_ok ?s)"
    using refused_run_end [OF idle, of all_ok] by (simp add: worker_alive_def)
  have "\<exists>r. ts_recorder (refused_run all_ok ?s) = Some r"
    using sample_service_fields(1) [of "Some sample_recorder"] idle
    by (auto simp: refused_run_def gateway_cleanup_def gateway_failing_def unless_stopped_def service_start_def
        Let_def go_def transition_locked_def split: option.splits prod.splits sum.splits)
  then obtain r where r: "ts_recorder (refused_run all_ok ?s) = Some r" by blast
  with recording_ends_with_worker [OF sample_service run _ alive] refused_run_end [OF idle, of all_ok] run
  show ?thesis by blast
qed

end
