(* ===== verification/Live_Replay.thy ===== *)
theory Live_Replay
  imports Service_Runs
begin

text \<open>
  What a worker that is not stopped computes: the live worker and the replay worker run the replay loop
  on the service's pipeline, and the live worker's recording holds exactly the frames it processed. So a
  recorded session replays to the state the live source had reached.
\<close>

section \<open>Runs of the worker alone\<close>

definition taken :: "world \<Rightarrow> worker \<Rightarrow> raw_can_frame list" where
  "taken x w =
     (case x of Frame f \<Rightarrow> (if w = Gateway_Streaming \<or> w = Replay_Streaming then [f] else []) | _ \<Rightarrow> [])"

text \<open>The frames the worker took from its source, and the service after its steps.\<close>

fun worker_run ::
  "msg_decoder \<Rightarrow> (io \<times> world) list \<Rightarrow> telemetry_service \<Rightarrow> (raw_can_frame list \<times> telemetry_service) option"
  where
  "worker_run md [] s = Some ([], s)"
| "worker_run md ((io, x) # ins) s =
     (case ts_worker s of
        None \<Rightarrow> None
      | Some w \<Rightarrow>
          (case worker_step md io x w s of
             None \<Rightarrow> None
           | Some s1 \<Rightarrow> map_option (\<lambda>(fs, s2). (taken x w @ fs, s2)) (worker_run md ins s1)))"

section \<open>The frame calls on the pipeline\<close>

lemma ingest_can_explorer_pipeline:
  assumes "ingest_can_explorer md s f = (Inr u, s')"
  shows "\<exists>x. explorer_ingest md (pl_explorer (ts_pipeline s)) f = (Inr x, pl_explorer (ts_pipeline s'))
    \<and> ts_pipeline s' = (ts_pipeline s)\<lparr>pl_explorer := pl_explorer (ts_pipeline s')\<rparr>"
  using assms by (auto simp: ingest_can_explorer_def Let_def split: prod.splits sum.splits)

lemma ingest_decoded_pipeline:
  assumes "ingest_decoded s f = (Inr u, s')"
  shows "\<exists>ss e. telemetry_ingest (pl_engine (ts_pipeline s)) f = (Inr ss, e)
    \<and> observe_telemetry ((ts_pipeline s)\<lparr>pl_engine := e\<rparr>) = (Inr (), ts_pipeline s')"
proof -
  have "df_signals f \<noteq> []" using assms by (auto simp: ingest_decoded_def)
  obtain v e where ing: "telemetry_ingest (pl_engine (ts_pipeline s)) f = (v, e)" by force
  with assms \<open>df_signals f \<noteq> []\<close> obtain ss where v: "v = Inr ss"
    by (cases v) (auto simp: ingest_decoded_def)
  obtain w p where obs: "observe_telemetry ((ts_pipeline s)\<lparr>pl_engine := e\<rparr>) = (w, p)" by force
  from assms \<open>df_signals f \<noteq> []\<close> ing v obs have "w = Inr ()" and "ts_pipeline s' = p"
    by (auto simp: ingest_decoded_def Let_def split: sum.splits)
  with ing v obs show ?thesis by auto
qed

lemma frame_calls_are_replay_frame:
  assumes "explorer_ingest md (pl_explorer q) f = (Inr x, e)" and "ts_pipeline s = q\<lparr>pl_explorer := e\<rparr>"
    and "decode_frame md (ts_decoder s) f = Inr df" and "ingest_decoded s df = (Inr u, s')"
  shows "replay_frame md (ts_decoder s) q f = (Inr (), ts_pipeline s')"
  using ingest_decoded_pipeline [OF assms(4)] assms(1-3) by (auto simp: replay_frame_def Let_def)

lemma replay_frames_snoc:
  "replay_frames md dec p fs = (Inr (), q) \<Longrightarrow> replay_frame md dec q f = (Inr (), q') \<Longrightarrow>
     replay_frames md dec p (fs @ [f]) = (Inr (), q')"
  by (simp add: replay_frames_append)

section \<open>What each place of the worker knows\<close>

definition reached :: "msg_decoder \<Rightarrow> dbc_decoder \<Rightarrow> pipeline \<Rightarrow> raw_can_frame list \<Rightarrow> pipeline \<Rightarrow> bool" where
  "reached md dec p0 fs p \<longleftrightarrow> replay_frames md dec p0 fs = (Inr (), p)"

definition explored_next ::
  "msg_decoder \<Rightarrow> dbc_decoder \<Rightarrow> pipeline \<Rightarrow> raw_can_frame list \<Rightarrow> raw_can_frame \<Rightarrow> pipeline \<Rightarrow> bool" where
  "explored_next md dec p0 fs f p \<longleftrightarrow>
     (\<exists>gs q x. fs = gs @ [f] \<and> reached md dec p0 gs q
        \<and> explorer_ingest md (pl_explorer q) f = (Inr x, pl_explorer p)
        \<and> p = q\<lparr>pl_explorer := pl_explorer p\<rparr>)"

definition pending_next ::
  "msg_decoder \<Rightarrow> dbc_decoder \<Rightarrow> pipeline \<Rightarrow> raw_can_frame list \<Rightarrow> raw_can_frame \<Rightarrow> pipeline \<Rightarrow> bool" where
  "pending_next md dec p0 fs f p \<longleftrightarrow> (\<exists>gs. fs = gs @ [f] \<and> reached md dec p0 gs p)"

fun pipeline_place ::
  "msg_decoder \<Rightarrow> dbc_decoder \<Rightarrow> pipeline \<Rightarrow> raw_can_frame list \<Rightarrow> pipeline \<Rightarrow> bool \<Rightarrow> worker \<Rightarrow> bool" where
  "pipeline_place md dec p0 fs p done (Gateway_Record f) = (\<not> done \<and> pending_next md dec p0 fs f p)"
| "pipeline_place md dec p0 fs p done (Gateway_Explore f) = (\<not> done \<and> pending_next md dec p0 fs f p)"
| "pipeline_place md dec p0 fs p done (Replay_Explore f) = (\<not> done \<and> pending_next md dec p0 fs f p)"
| "pipeline_place md dec p0 fs p done (Gateway_Decode f) = (\<not> done \<and> explored_next md dec p0 fs f p)"
| "pipeline_place md dec p0 fs p done (Replay_Decode f) = (\<not> done \<and> explored_next md dec p0 fs f p)"
| "pipeline_place md dec p0 fs p done (Gateway_Failing ex) = (\<not> done)"
| "pipeline_place md dec p0 fs p done (Gateway_Failed e) = (\<not> done)"
| "pipeline_place md dec p0 fs p done (Replay_Failed ex) = (\<not> done)"
| "pipeline_place md dec p0 fs p done Gateway_Cleanup = (done \<longrightarrow> reached md dec p0 fs p)"
| "pipeline_place md dec p0 fs p done Worker_Done = (done \<longrightarrow> reached md dec p0 fs p)"
| "pipeline_place md dec p0 fs p done w = (\<not> done \<and> reached md dec p0 fs p)"

definition pipeline_ok ::
  "msg_decoder \<Rightarrow> pipeline \<Rightarrow> raw_can_frame list \<Rightarrow> telemetry_service \<Rightarrow> bool" where
  "pipeline_ok md p0 fs s \<longleftrightarrow>
     (\<exists>w. ts_worker s = Some w
        \<and> pipeline_place md (ts_decoder s) p0 fs (ts_pipeline s) (ts_state s = COMPLETED) w)"

lemma explore_place:
  assumes "pending_next md (ts_decoder s) p0 fs f (ts_pipeline s)" and "ts_state s \<noteq> COMPLETED"
    and "w' = Gateway_Decode f \<and> h = Gateway_Failing \<or> w' = Replay_Decode f \<and> h = Replay_Failed"
  shows "pipeline_ok md p0 fs (explore_frame md f w' h s)"
proof -
  obtain v s1 where i: "ingest_can_explorer md s f = (v, s1)" by force
  note ctl = ingest_can_explorer_control [OF i]
  show ?thesis
  proof (cases v)
    case (Inl ex)
    then show ?thesis
      using i ctl assms(2,3) by (auto simp: explore_frame_def pipeline_ok_def control_eq go_def)
  next
    case (Inr u)
    from ingest_can_explorer_pipeline [OF i [unfolded Inr]] assms(1)
    have "explored_next md (ts_decoder s) p0 fs f (ts_pipeline s1)"
      by (auto simp: explored_next_def pending_next_def)
    then show ?thesis
      using i Inr ctl assms(2,3) by (auto simp: explore_frame_def pipeline_ok_def control_eq go_def)
  qed
qed

lemma decode_place:
  assumes "explored_next md (ts_decoder s) p0 fs f (ts_pipeline s)" and "ts_state s \<noteq> COMPLETED"
    and "w' = Gateway_Streaming \<and> h = Gateway_Failing \<or> w' = Replay_Streaming \<and> h = Replay_Failed"
  shows "pipeline_ok md p0 fs (decode_into_telemetry md f w' h s)"
proof (cases "decode_frame md (ts_decoder s) f")
  case (Inl ex)
  then show ?thesis using assms(2,3) by (auto simp: decode_into_telemetry_def pipeline_ok_def go_def)
next
  case df: (Inr df)
  obtain v s1 where i: "ingest_decoded s df = (v, s1)" by force
  note ctl = ingest_decoded_control [OF i]
  show ?thesis
  proof (cases v)
    case (Inl ex)
    then show ?thesis
      using i df ctl assms(2,3) by (auto simp: decode_into_telemetry_def pipeline_ok_def control_eq go_def)
  next
    case (Inr u)
    from assms(1) obtain gs q x where fs: "fs = gs @ [f]" and q: "reached md (ts_decoder s) p0 gs q"
      and x: "explorer_ingest md (pl_explorer q) f = (Inr x, pl_explorer (ts_pipeline s))"
      and p: "ts_pipeline s = q\<lparr>pl_explorer := pl_explorer (ts_pipeline s)\<rparr>" by (auto simp: explored_next_def)
    from frame_calls_are_replay_frame [OF x p df i [unfolded Inr]] q
    have "reached md (ts_decoder s) p0 fs (ts_pipeline s1)"
      by (auto simp: reached_def fs intro: replay_frames_snoc)
    then show ?thesis
      using i df Inr ctl assms(2,3) by (auto simp: decode_into_telemetry_def pipeline_ok_def control_eq go_def)
  qed
qed

lemma pipeline_ok_go:
  assumes "pipeline_place md (ts_decoder s) p0 fs (ts_pipeline s) (ts_state s = COMPLETED) w"
  shows "pipeline_ok md p0 fs (go w s)"
  using assms by (simp add: pipeline_ok_def go_def)

lemma pipeline_ok_recorder:
  assumes "pipeline_place md (ts_decoder s) p0 fs (ts_pipeline s) (ts_state s = COMPLETED) w"
  shows "pipeline_ok md p0 fs (go w (s\<lparr>ts_recorder := r, ts_client := c\<rparr>))"
  using assms by (simp add: pipeline_ok_def go_def)

lemma recorder_steps_place:
  assumes "ts_worker s = Some w" and "pipeline_ok md p0 fs s"
  shows "w = Gateway_Record f \<Longrightarrow> pipeline_ok md p0 fs (gateway_record io f s)"
    and "w = Gateway_Completing \<Longrightarrow> pipeline_ok md p0 fs (gateway_completing io s)"
    and "w = Gateway_Failing ex \<Longrightarrow> pipeline_ok md p0 fs (gateway_failing io ex s)"
    and "w = Gateway_Cleanup \<Longrightarrow> pipeline_ok md p0 fs (gateway_cleanup io s)"
  using assms
  by (auto simp: pipeline_ok_def gateway_record_def gateway_completing_def gateway_failing_def gateway_cleanup_def
      go_def split: option.splits prod.splits sum.splits)

lemma unless_stopped_place:
  assumes "reached md (ts_decoder s) p0 fs (ts_pipeline s) \<or> st \<noteq> COMPLETED"
    and "ts_state s \<noteq> COMPLETED" and "w = Gateway_Cleanup \<or> w = Worker_Done"
  shows "pipeline_ok md p0 fs (go w (unless_stopped st error s))"
  using assms by (auto simp: pipeline_ok_def unless_stopped_def transition_locked_def go_def Let_def)

lemma pipeline_ok_step:
  assumes ok: "pipeline_ok md p0 fs s" and w: "ts_worker s = Some w"
    and step: "worker_step md io x w s = Some s'"
  shows "pipeline_ok md p0 (fs @ taken x w) s'"
proof -
  have place: "pipeline_place md (ts_decoder s) p0 fs (ts_pipeline s) (ts_state s = COMPLETED) w"
    using ok w by (simp add: pipeline_ok_def)
  note rec = recorder_steps_place [OF w ok]
  show ?thesis
  proof (cases w)
    case Gateway_Connecting
    then show ?thesis
      using place step
      by (cases x) (auto simp: taken_def gateway_connect_def pipeline_ok_def transition_locked_def go_def Let_def)
  next
    case Gateway_Streaming
    then show ?thesis
      using place step
      by (cases x) (auto simp: taken_def gateway_next_def pending_next_def intro!: pipeline_ok_go split: option.splits if_splits)
  next
    case (Gateway_Record f)
    then show ?thesis using rec(1) [of f io] step by (auto simp: taken_def split: world.splits)
  next
    case (Gateway_Explore f)
    then show ?thesis
      using explore_place [of md s p0 fs f "Gateway_Decode f" Gateway_Failing] place step
      by (auto simp: taken_def split: world.splits)
  next
    case (Gateway_Decode f)
    then show ?thesis
      using decode_place [of md s p0 fs f Gateway_Streaming Gateway_Failing] place step
      by (auto simp: taken_def split: world.splits)
  next
    case Gateway_Completing
    then show ?thesis using rec(2) [of io] step by (auto simp: taken_def split: world.splits)
  next
    case Gateway_Completed
    then show ?thesis
      using unless_stopped_place [of md s p0 fs COMPLETED Gateway_Cleanup None] place step
      by (auto simp: taken_def split: world.splits)
  next
    case (Gateway_Failing ex)
    then show ?thesis using rec(3) [of ex io] step by (auto simp: taken_def split: world.splits)
  next
    case (Gateway_Failed failure)
    then show ?thesis
      using unless_stopped_place [of md s p0 fs FAILED Gateway_Cleanup "Some failure"] place step
      by (auto simp: taken_def split: world.splits)
  next
    case Gateway_Cleanup
    then show ?thesis using rec(4) [of io] step by (auto simp: taken_def split: world.splits)
  next
    case Replay_Waiting
    then show ?thesis
      using place step by (auto simp: taken_def intro!: pipeline_ok_go split: world.splits if_splits)
  next
    case Replay_Streaming
    then show ?thesis
      using place step
      by (cases x) (auto simp: taken_def pending_next_def intro!: pipeline_ok_go split: if_splits)
  next
    case (Replay_Explore f)
    then show ?thesis
      using explore_place [of md s p0 fs f "Replay_Decode f" Replay_Failed] place step
      by (auto simp: taken_def split: world.splits)
  next
    case (Replay_Decode f)
    then show ?thesis
      using decode_place [of md s p0 fs f Replay_Streaming Replay_Failed] place step
      by (auto simp: taken_def split: world.splits)
  next
    case Replay_Completed
    then show ?thesis
      using unless_stopped_place [of md s p0 fs COMPLETED Worker_Done None] place step
      by (auto simp: taken_def split: world.splits)
  next
    case (Replay_Failed ex)
    then show ?thesis
      using unless_stopped_place [of md s p0 fs FAILED Worker_Done "Some (exn_message ex)"] place step
      by (auto simp: taken_def split: world.splits)
  next
    case Worker_Done
    then show ?thesis using step by simp
  qed
qed

lemma pipeline_ok_run:
  "pipeline_ok md p0 fs s \<Longrightarrow> worker_run md ins s = Some (gs, s') \<Longrightarrow> pipeline_ok md p0 (fs @ gs) s'"
proof (induction md ins s arbitrary: fs gs rule: worker_run.induct)
  case (2 md io x ins s)
  then obtain w s1 hs where w: "ts_worker s = Some w" and st: "worker_step md io x w s = Some s1"
    and run: "worker_run md ins s1 = Some (hs, s')" and gs: "gs = taken x w @ hs"
    by (auto split: option.splits)
  from "2.IH" [OF w st pipeline_ok_step [OF "2.prems"(1) w st] run] show ?case by (simp add: gs)
qed simp

lemma completed_reached:
  "pipeline_ok md p0 fs s \<Longrightarrow> ts_state s = COMPLETED \<Longrightarrow> reached md (ts_decoder s) p0 fs (ts_pipeline s)"
  by (auto simp: pipeline_ok_def elim: pipeline_place.elims)

lemma worker_step_decoder: "worker_step md io x w s = Some s' \<Longrightarrow> ts_decoder s' = ts_decoder s"
proof -
  assume step: "worker_step md io x w s = Some s'"
  have keep: "ts_decoder (explore_frame md f w' h s) = ts_decoder s"
    "ts_decoder (decode_into_telemetry md f w' h s) = ts_decoder s" for f w' h
    using explore_frame_control [of md f w' h s] decode_into_telemetry_control [of md f w' h s]
    by (simp_all add: control_def)
  show ?thesis
    by (cases w; cases x)
      (use step keep in \<open>auto simp: gateway_connect_def gateway_next_def gateway_record_def gateway_completing_def
        gateway_failing_def gateway_cleanup_def unless_stopped_def transition_locked_def go_def Let_def
        split: option.splits prod.splits sum.splits if_splits\<close>)
qed

lemma worker_run_decoder: "worker_run md ins s = Some (fs, s') \<Longrightarrow> ts_decoder s' = ts_decoder s"
proof (induction md ins s arbitrary: fs rule: worker_run.induct)
  case (2 md io x ins s)
  then show ?case using worker_step_decoder by (fastforce split: option.splits)
qed simp

section \<open>The recording of an undisturbed live run\<close>

fun recorder_place ::
  "session_manifest \<Rightarrow> raw_can_frame list \<Rightarrow> session_recorder \<Rightarrow> bool \<Rightarrow> worker \<Rightarrow> bool" where
  "recorder_place m fs r done (Gateway_Record f) =
     (\<not> done \<and> wf_frame f \<and> (\<exists>gs. fs = gs @ [f] \<and> rec_inv m True gs r))"
| "recorder_place m fs r done (Gateway_Failing ex) = (\<not> done)"
| "recorder_place m fs r done (Gateway_Failed e) = (\<not> done)"
| "recorder_place m fs r done Gateway_Completed =
     (\<not> done \<and> rec_inv m True fs r \<and> mf_status (sr_manifest r) = COMPLETE)"
| "recorder_place m fs r done Gateway_Cleanup =
     (done \<longrightarrow> rec_inv m True fs r \<and> mf_status (sr_manifest r) = COMPLETE)"
| "recorder_place m fs r done Worker_Done =
     (done \<longrightarrow> rec_inv m True fs r \<and> mf_status (sr_manifest r) = COMPLETE)"
| "recorder_place m fs r done w = (is_gateway w \<and> \<not> done \<and> rec_inv m True fs r)"

definition recorder_ok :: "session_manifest \<Rightarrow> raw_can_frame list \<Rightarrow> telemetry_service \<Rightarrow> bool" where
  "recorder_ok m fs s \<longleftrightarrow>
     (\<exists>w r. ts_worker s = Some w \<and> ts_recorder s = Some r
        \<and> recorder_place m fs r (ts_state s = COMPLETED) w)"

lemma recorder_ok_kept:
  assumes "recorder_place m fs r (ts_state s = COMPLETED) w'" and "ts_recorder s = Some r"
    and "control s' = control s" and "ts_worker s' = Some w'"
  shows "recorder_ok m fs s'"
  using assms by (simp add: recorder_ok_def control_eq)

lemma recorder_ok_frame_calls:
  assumes "recorder_place m fs r (ts_state s = COMPLETED) w" and "ts_recorder s = Some r"
    and "w = Gateway_Explore f \<and> w' = Gateway_Decode f \<or> w = Gateway_Decode f \<and> w' = Gateway_Streaming"
  shows "recorder_ok m fs (explore_frame md f w' Gateway_Failing s)
    \<and> recorder_ok m fs (decode_into_telemetry md f w' Gateway_Failing s)"
proof -
  have "recorder_ok m fs s'"
    if c: "control s' = control s \<and> (ts_worker s' = Some w' \<or> (\<exists>ex. ts_worker s' = Some (Gateway_Failing ex)))" for s'
    using c
  proof (elim conjE disjE exE)
    assume "control s' = control s" and "ts_worker s' = Some w'"
    then show ?thesis using assms by (intro recorder_ok_kept [OF _ assms(2)]) auto
  next
    fix ex assume "control s' = control s" and "ts_worker s' = Some (Gateway_Failing ex)"
    then show ?thesis using assms by (intro recorder_ok_kept [OF _ assms(2)]) auto
  qed
  with explore_frame_control [of md f w' Gateway_Failing s]
    decode_into_telemetry_control [of md f w' Gateway_Failing s] show ?thesis by blast
qed

lemma complete_status: "recorder_complete io r = (Inr m, r') \<Longrightarrow> mf_status (sr_manifest r') = COMPLETE"
  by (auto simp: recorder_complete_def finish_stream_def Let_def
      split: if_splits io_outcome.splits prod.splits sum.splits)

lemma recorder_ok_step:
  assumes ok: "recorder_ok m fs s" and w: "ts_worker s = Some w" and step: "worker_step md io x w s = Some s'"
    and io: "io Write_Frames = Io_Ok" and wf: "\<forall>f. x = Frame f \<longrightarrow> wf_frame f"
  shows "recorder_ok m (fs @ taken x w) s'"
proof -
  obtain r where r: "ts_recorder s = Some r" and place: "recorder_place m fs r (ts_state s = COMPLETED) w"
    using ok w by (auto simp: recorder_ok_def)
  show ?thesis
  proof (cases w)
    case Gateway_Connecting
    then show ?thesis
      using place r step
      by (cases x) (auto simp: taken_def gateway_connect_def recorder_ok_def transition_locked_def go_def Let_def)
  next
    case Gateway_Streaming
    then show ?thesis
      using place r step wf by (cases x) (auto simp: taken_def gateway_next_def recorder_ok_def go_def split: if_splits)
  next
    case (Gateway_Record f)
    obtain v r1 where v: "recorder_record io r f = (v, r1)" by force
    from place Gateway_Record obtain gs where gs: "fs = gs @ [f]" "rec_inv m True gs r" "wf_frame f"
      and "ts_state s \<noteq> COMPLETED" by auto
    with recorder_record_inv [OF gs(2,3) v] io Gateway_Record r v step show ?thesis
      by (cases v) (auto simp: taken_def gateway_record_def recorder_ok_def go_def split: world.splits)
  next
    case (Gateway_Explore f)
    then show ?thesis
      using recorder_ok_frame_calls [OF place r, of f "Gateway_Decode f" md] step
      by (auto simp: taken_def split: world.splits)
  next
    case (Gateway_Decode f)
    then show ?thesis
      using recorder_ok_frame_calls [OF place r, of f Gateway_Streaming md] step
      by (auto simp: taken_def split: world.splits)
  next
    case Gateway_Completing
    obtain v r1 where v: "recorder_complete io r = (v, r1)" by force
    from place Gateway_Completing have inv: "rec_inv m True fs r" and "ts_state s \<noteq> COMPLETED" by auto
    with recorder_complete_inv [OF inv v] complete_status [of io r _ r1] Gateway_Completing r v step show ?thesis
      by (cases v) (auto simp: taken_def gateway_completing_def recorder_ok_def go_def split: world.splits)
  next
    case Gateway_Completed
    then show ?thesis
      using place r step
      by (auto simp: taken_def recorder_ok_def unless_stopped_def transition_locked_def go_def Let_def split: world.splits)
  next
    case (Gateway_Failing ex)
    then show ?thesis
      using place r step
      by (auto simp: taken_def gateway_failing_def recorder_ok_def go_def split: world.splits prod.splits sum.splits)
  next
    case (Gateway_Failed failure)
    then show ?thesis
      using place r step
      by (auto simp: taken_def recorder_ok_def unless_stopped_def transition_locked_def go_def Let_def split: world.splits)
  next
    case Gateway_Cleanup
    then show ?thesis
      using place r step
      by (auto simp: taken_def gateway_cleanup_def recorder_ok_def recorder_recording_def go_def
          split: world.splits prod.splits sum.splits if_splits)
  next
    case Worker_Done
    then show ?thesis using step by simp
  qed (use place in auto)
qed

lemma recorder_ok_run:
  assumes "recorder_ok m fs s" and "worker_run md ins s = Some (gs, s')"
    and "\<forall>(io, x) \<in> set ins. io Write_Frames = Io_Ok \<and> (\<forall>f. x = Frame f \<longrightarrow> wf_frame f)"
  shows "recorder_ok m (fs @ gs) s'"
  using assms
proof (induction md ins s arbitrary: fs gs rule: worker_run.induct)
  case (2 md io x ins s)
  then obtain w s1 hs where w: "ts_worker s = Some w" and st: "worker_step md io x w s = Some s1"
    and run: "worker_run md ins s1 = Some (hs, s')" and gs: "gs = taken x w @ hs"
    by (auto split: option.splits)
  have "recorder_ok m (fs @ taken x w) s1"
    by (rule recorder_ok_step [OF "2.prems"(1) w st]) (use "2.prems"(3) in auto)
  from "2.IH" [OF w st this run] "2.prems"(3) show ?case by (simp add: gs)
qed simp

section \<open>A reset forgets a run\<close>

lemma telemetry_ingest_reset: "telemetry_reset (snd (telemetry_ingest e f)) = telemetry_reset e"
proof (cases "telemetry_ingest e f")
  case (Pair v e')
  then show ?thesis
    using telemetry_ingest_Inl [of e f] telemetry_ingest_Inr(2) [of e f]
    by (cases v) (auto simp: telemetry_reset_def)
qed

lemma append_event_reset:
  "diagnostic_reset (foldl (append_event t code) e ns) = diagnostic_reset e"
proof (induction ns arbitrary: e)
  case (Cons n ns)
  have "diagnostic_reset (append_event t code e n) = diagnostic_reset e"
    by (cases n) (simp add: append_event_def store_event_def diagnostic_reset_def)
  with Cons show ?case by simp
qed simp

lemma engine_rules_reset: "diagnostic_reset (snd (engine_rules sn t rs e)) = diagnostic_reset e"
proof (induction rs arbitrary: e)
  case (Cons r rs)
  have states: "diagnostic_reset (e\<lparr>de_states := st\<rparr>) = diagnostic_reset e" for st
    by (simp add: diagnostic_reset_def)
  have "diagnostic_reset (snd (engine_rule_step sn t r e)) = diagnostic_reset e"
    by (auto simp: engine_rule_step_def append_event_reset states Let_def split: sum.splits prod.splits)
  with Cons show ?case by (auto split: prod.splits sum.splits) (metis snd_conv)+
qed simp

lemma diagnostic_ingest_reset: "diagnostic_reset (snd (diagnostic_ingest d sn)) = diagnostic_reset d"
proof -
  have "diagnostic_reset (d\<lparr>de_observation_timestamp := t, de_latest_telemetry_frame_sequence := n\<rparr>) = diagnostic_reset d"
    for t n by (simp add: diagnostic_reset_def)
  then show ?thesis by (simp add: diagnostic_ingest_def engine_rules_reset split: option.split)
qed

lemma explorer_ingest_reset: "explorer_reset (snd (explorer_ingest md x f)) = explorer_reset x"
  by (auto simp: explorer_ingest_def explorer_reset_def store_explorer_frame_def Let_def split: sum.splits)

lemma replay_frame_reset: "pipeline_reset (snd (replay_frame md dec p f)) = pipeline_reset p"
proof -
  obtain v x where x: "explorer_ingest md (pl_explorer p) f = (v, x)" by force
  have rx: "explorer_reset x = explorer_reset (pl_explorer p)"
    using explorer_ingest_reset [of md "pl_explorer p" f] x by simp
  have obs: "pipeline_reset (snd (observe_telemetry q)) = pipeline_reset q" for q
    using diagnostic_ingest_reset [of "pl_diagnostics q"]
    by (auto simp: observe_telemetry_def pipeline_reset_def split: sum.splits prod.splits) (metis snd_conv)+
  show ?thesis
  proof (cases v)
    case (Inl ex)
    then show ?thesis using x rx by (simp add: replay_frame_def pipeline_reset_def)
  next
    case (Inr u)
    show ?thesis
    proof (cases "decode_frame md dec f")
      case (Inl ex)
      then show ?thesis using x rx Inr by (simp add: replay_frame_def pipeline_reset_def Let_def)
    next
      case df: (Inr df)
      obtain w e where e: "telemetry_ingest (pl_engine p) df = (w, e)" by force
      have "telemetry_reset e = telemetry_reset (pl_engine p)"
        using telemetry_ingest_reset [of "pl_engine p" df] e by simp
      then show ?thesis
        using x rx Inr df e obs by (cases w) (simp_all add: replay_frame_def pipeline_reset_def Let_def)
    qed
  qed
qed

lemma replay_frames_reset: "pipeline_reset (snd (replay_frames md dec p fs)) = pipeline_reset p"
proof (induction fs arbitrary: p)
  case (Cons f fs)
  obtain v q where q: "replay_frame md dec p f = (v, q)" by force
  then have "pipeline_reset q = pipeline_reset p" using replay_frame_reset [of md dec p f] by simp
  with Cons [of q] q show ?case by (cases v) simp_all
qed simp

section \<open>Where live and replay start\<close>

lemma explorer_reset_fresh: "make_can_explorer dec v = Inr x \<Longrightarrow> explorer_reset x = x"
  by (auto simp: make_can_explorer_def explorer_reset_def split: if_splits)

lemma diagnostic_reset_fresh: "make_diagnostic_engine cat v = Inr d \<Longrightarrow> diagnostic_reset d = d"
  by (auto simp: make_diagnostic_engine_def diagnostic_reset_def split: if_splits)

lemma telemetry_reset_fresh: "make_telemetry_engine cat v = Inr e \<Longrightarrow> telemetry_reset e = e"
  by (auto simp: make_telemetry_engine_def telemetry_reset_def split: if_splits)

lemma service_pipeline_fresh:
  assumes "make_telemetry_service c dec None r None None = Inr s"
  shows "pipeline_reset (ts_pipeline s) = ts_pipeline s"
    and "cf_diagnostic_event_capacity c = Py_Int DEFAULT_DIAGNOSTIC_EVENT_CAPACITY \<Longrightarrow>
      make_can_explorer dec (cf_can_explorer_capacity c) = Inr x \<Longrightarrow>
      replay_start dec x (cf_history_capacity c) = Inr (ts_pipeline s)"
proof -
  from assms obtain e x' d where e: "service_engine c dec None = Inr e" and x: "service_explorer c dec None = Inr x'"
    and d: "service_diagnostics c False (te_catalog e) None = Inr d"
    and p: "ts_pipeline s = \<lparr>pl_explorer = x', pl_engine = e, pl_diagnostics = d\<rparr>"
    by (auto simp: make_telemetry_service_def rbind_eq_Inr)
  from e obtain cat where cat: "make_signal_catalog (dec_metadata dec) = Inr cat"
    and me: "make_telemetry_engine cat (cf_history_capacity c) = Inr e"
    by (auto simp: service_engine_def rbind_eq_Inr)
  have tc: "te_catalog e = cat" using me by (auto simp: make_telemetry_engine_def split: if_splits)
  from d obtain rules where rules: "diagnostic_catalog_for False cat = Inr rules"
    and md: "make_diagnostic_engine rules (cf_diagnostic_event_capacity c) = Inr d"
    by (auto simp: service_diagnostics_def rbind_eq_Inr tc)
  have mx: "make_can_explorer dec (cf_can_explorer_capacity c) = Inr x'" using x by (simp add: service_explorer_def)
  show "pipeline_reset (ts_pipeline s) = ts_pipeline s"
    using explorer_reset_fresh [OF mx] telemetry_reset_fresh [OF me] diagnostic_reset_fresh [OF md]
    by (simp add: p pipeline_reset_def)
  assume cap: "cf_diagnostic_event_capacity c = Py_Int DEFAULT_DIAGNOSTIC_EVENT_CAPACITY"
    and "make_can_explorer dec (cf_can_explorer_capacity c) = Inr x"
  moreover have "create_default_diagnostic_catalog cat = Inr rules"
    using rules by (auto simp: diagnostic_catalog_for_def split: sum.splits if_splits)
  ultimately show "replay_start dec x (cf_history_capacity c) = Inr (ts_pipeline s)"
    using mx cat me md explorer_reset_fresh [OF mx] by (simp add: replay_start_def p)
qed

lemma service_start_pipeline:
  assumes "fst (service_start s) = Inr ()"
  shows "ts_worker (snd (service_start s)) = Some Gateway_Connecting"
    and "ts_state (snd (service_start s)) = CONNECTING" and "ts_recorder (snd (service_start s)) = ts_recorder s"
    and "ts_decoder (snd (service_start s)) = ts_decoder s"
    and "ts_pipeline (snd (service_start s)) =
      (ts_pipeline s)\<lparr>pl_explorer := explorer_reset (pl_explorer (ts_pipeline s)),
        pl_diagnostics := diagnostic_reset (pl_diagnostics (ts_pipeline s))\<rparr>"
  using assms by (auto simp: service_start_def transition_locked_def Let_def split: if_splits)

lemma fresh_start_pipeline:
  assumes "fst (service_start s) = Inr ()" and "pipeline_reset (ts_pipeline s) = ts_pipeline s"
  shows "ts_pipeline (snd (service_start s)) = ts_pipeline s"
proof -
  have "pl_explorer (pipeline_reset (ts_pipeline s)) = explorer_reset (pl_explorer (ts_pipeline s))"
    "pl_diagnostics (pipeline_reset (ts_pipeline s)) = diagnostic_reset (pl_diagnostics (ts_pipeline s))"
    by (simp_all add: pipeline_reset_def)
  then show ?thesis using service_start_pipeline(5) [OF assms(1)] by (simp add: assms(2))
qed

lemma replay_frames_snapshot:
  assumes "replay_frames md dec p fs = (Inr (), q)" and "fs \<noteq> []"
  shows "\<exists>sn. telemetry_snapshot_of (pl_engine q) None = Inr sn"
proof -
  obtain gs f where fs: "fs = gs @ [f]" using assms(2) by (cases fs rule: rev_cases) auto
  from assms(1) obtain q' where "replay_frame md dec q' f = (Inr (), q)"
    by (auto simp: fs replay_frames_append split: prod.splits sum.splits)
  then obtain r where "observe_telemetry r = (Inr (), q)"
    by (auto simp: replay_frame_def Let_def split: prod.splits sum.splits)
  then show ?thesis by (auto simp: observe_telemetry_def split: sum.splits prod.splits)
qed

lemma start_ok_parts:
  assumes "worker_run md ins (snd (service_start s0)) = Some (fs, s)" and "ts_state s = COMPLETED"
    and "ts_state s0 = STOPPED" and "\<not> ts_live_started_once s0"
  shows "fst (service_start s0) = Inr ()"
  using assms by (simp add: service_start_def source_active_def Let_def)

lemma live_run_reaches:
  assumes make: "make_telemetry_service c dec None r None None = Inr s0"
    and run: "worker_run md ins (snd (service_start s0)) = Some (fs, s)" and fin: "ts_state s = COMPLETED"
  shows "reached md dec (ts_pipeline s0) fs (ts_pipeline s)"
proof -
  note f0 = make_telemetry_service_fields [OF make]
  have ok: "fst (service_start s0) = Inr ()" by (rule start_ok_parts [OF run fin]) (use f0 in simp_all)
  note st = service_start_pipeline [OF ok]
  have p0: "ts_pipeline (snd (service_start s0)) = ts_pipeline s0"
    by (rule fresh_start_pipeline [OF ok service_pipeline_fresh(1) [OF make]])
  have "pipeline_ok md (ts_pipeline s0) [] (snd (service_start s0))"
    using st(1,2) p0 by (simp add: pipeline_ok_def reached_def)
  from pipeline_ok_run [OF this run] completed_reached [OF _ fin] worker_run_decoder [OF run] st(4) f0
  show ?thesis by simp
qed

end
