(* ===== verification/Live_Total.thy ===== *)
theory Live_Total
  imports Live_Replay Pipeline_Total
begin

text \<open>
  A live run on the packaged database completes: with frames of the database in time order, with 64-bit
  timestamps and a disk that works, no step of the live worker raises. Beyond the pipeline this needs
  the statistics of the explorer never to overflow a float and every sample just ingested to have a
  freshness.
\<close>

section \<open>The statistics of an observed identifier\<close>

lemma message_statistic_total:
  assumes "explored e full" and "\<forall>x \<in> set full. 0 \<le> timestamp_microseconds (ef_raw_frame x)
      \<and> timestamp_microseconds (ef_raw_frame x) < 2 ^ 64"
    and "i \<in> frame_id_of ` set full"
  shows "\<exists>ms. explorer_message_statistic e i = Inr ms"
proof -
  have tal: "tallied full (ce_frames e) (ce_messages e)" using assms(1) unfolding explored_def by blast
  have "of_id i full \<noteq> []" using assms(3) by (auto simp: of_id_def filter_empty_conv)
  then obtain s where s: "dict_get (ce_messages e) i = Some s"
    using tallied_none [OF tal] by (cases "dict_get (ce_messages e) i") auto
  have c: "counts i full (ce_frames e) s" by (rule tallied_get [OF tal s])
  have sub: "set (of_id i full) \<subseteq> set full" by (auto simp: of_id_def)
  then have "hd (of_id i full) \<in> set full" and "last (of_id i full) \<in> set full"
    using \<open>of_id i full \<noteq> []\<close> by auto
  then have "\<bar>mms_latest_timestamp_microseconds s - mms_first_timestamp_microseconds s\<bar> < 2 ^ 64"
    using c assms(2) unfolding counts_def by (smt (verit))
  then obtain v where v: "observed_average s = Inr v"
    using int_truediv_finite [of "mms_latest_timestamp_microseconds s - mms_first_timestamp_microseconds s"
        "mms_total_frame_count s - 1"]
    by (cases "2 \<le> mms_total_frame_count s") (auto simp: observed_average_def)
  obtain w where "observed_frequency v = Inr w" using observed_frequency_total by blast
  with s v show ?thesis by (simp add: explorer_message_statistic_def freeze_message_def)
qed

section \<open>The frame calls of the service\<close>

definition timely :: "raw_can_frame \<Rightarrow> bool" where
  "timely f \<longleftrightarrow> 0 \<le> timestamp_microseconds f \<and> timestamp_microseconds f < 2 ^ 64"

lemma ingest_can_explorer_total:
  assumes ok: "pl_ok l evs xs (ts_pipeline s)" and "faithful_decoder md" and "bus_frame f"
    and "\<forall>x \<in> set xs. timely (ef_raw_frame x)" and "timely f"
  shows "\<exists>u s' x. ingest_can_explorer md s f = (Inr u, s') \<and> ef_raw_frame x = f
    \<and> pl_ok l evs (xs @ [x]) (ts_pipeline s') \<and> pl_engine (ts_pipeline s') = pl_engine (ts_pipeline s)"
proof -
  from explorer_step [OF ok assms(2,3)] obtain x e where
    ing: "explorer_ingest md (pl_explorer (ts_pipeline s)) f = (Inr x, e)" and x: "ef_raw_frame x = f"
    and ok': "pl_ok l evs (xs @ [x]) ((ts_pipeline s)\<lparr>pl_explorer := e\<rparr>)" by blast
  have "explored e (xs @ [x])" using ok' by (simp add: pl_ok_def)
  from message_statistic_total [OF this, of "arbitration_id f"] assms(4,5) x obtain ms where
    "explorer_message_statistic e (arbitration_id f) = Inr ms" by (auto simp: timely_def)
  with ing x ok' show ?thesis by (simp add: ingest_can_explorer_def Let_def) blast
qed

lemma simulation_signals_nonempty: "m \<in> set simulation_dbc \<Longrightarrow> frame_signals m \<noteq> []"
  by (auto simp: simulation_dbc_def dme_frame_def)

lemma sample_status_total:
  assumes rep: "represents e l" and ing: "telemetry_ingest e df = (Inr ss, e')"
  shows "\<exists>fr. mapM (sample_status e') ss = Inr fr \<and> length fr = length ss"
proof -
  have rep': "represents e' (l @ [(df, ss)])" by (rule represents_ingest [OF rep ing])
  have "\<exists>v. sample_status e' s = Inr v" if "s \<in> set ss" for s
  proof -
    have "filter (\<lambda>t. ss_key t = ss_key s) (rev ss) \<noteq> []" using that by (auto simp: filter_empty_conv)
    then obtain t where "dict_get (te_latest e') (ss_key s) = Some t"
      by (cases "filter (\<lambda>t. ss_key t = ss_key s) (rev ss)")
        (auto simp: telemetry_ingest_Inr(2) [OF ing] latest_fold)
    from represents_freshness [OF rep' this] show ?thesis by (auto simp: sample_status_def)
  qed
  then obtain g where "\<And>s. s \<in> set ss \<Longrightarrow> sample_status e' s = Inr (g s)" by metis
  then have "mapM (sample_status e') ss = Inr (map g ss)" by (rule mapM_total)
  then show ?thesis by simp
qed

lemma ingest_decoded_total:
  assumes ok: "pl_ok l evs xs (ts_pipeline s)" and dec: "faithful_decoder md" and bus: "bus_frame f"
    and time: "\<forall>t. te_latest_timestamp_microseconds (pl_engine (ts_pipeline s)) = Some t \<longrightarrow> t \<le> timestamp_microseconds f"
  shows "\<exists>df u s' ss evs'. decode_frame md simulation_decoder f = Inr df \<and> ingest_decoded s df = (Inr u, s')
    \<and> pl_ok (l @ [(df, ss)]) (evs @ evs') xs (ts_pipeline s')
    \<and> te_latest_timestamp_microseconds (pl_engine (ts_pipeline s')) = Some (timestamp_microseconds f)"
proof -
  from bus obtain m where m: "m \<in> set simulation_dbc" "frame_id m = arbitration_id f"
    "frame_size m = payload_length f" by (auto simp: bus_frame_def)
  from decode_simulation [OF dec m] obtain df where
    df: "decode_frame md simulation_decoder f = Inr df"
    and meta: "df_arbitration_id df = frame_id m" "df_message_name df = frame_name m"
    and stamp: "df_timestamp_microseconds df = timestamp_microseconds f"
    and keys: "dict_keys (df_signals df) = map sig_name (frame_signals m)"
    and typed: "\<forall>(n, v) \<in> set (df_signals df). typed_value n v" by blast
  have ne: "df_signals df \<noteq> []" using keys simulation_signals_nonempty [OF m(1)] by auto
  obtain ds where ds: "definitions_for_frame simulation_catalog df = Inr ds"
    using definitions_simulation [OF m(1) meta keys] by blast
  have cat: "te_catalog (pl_engine (ts_pipeline s)) = simulation_catalog"
    and rep: "represents (pl_engine (ts_pipeline s)) l" using ok by (simp_all add: pl_ok_def)
  from telemetry_accepts [OF cat ds typed] time stamp obtain ss e1 where
    ing: "telemetry_ingest (pl_engine (ts_pipeline s)) df = (Inr ss, e1)" by auto
  have wf: "wf_catalog (te_catalog (pl_engine (ts_pipeline s)))" using rep by (simp add: represents_def)
  have "map ss_value ss = map snd (df_signals df)"
    using frame_samples_Inr(1) [OF telemetry_ingest_Inr(1) [OF ing] wf] by (simp add: frame_ok_def)
  then obtain x rest where ss: "ss = x # rest" using ne by (cases ss) auto
  from sample_status_total [OF rep ing] obtain fr where fr: "mapM (sample_status e1) ss = Inr fr" by blast
  obtain u where u: "make_telemetry_update df ss fr = Inr u" by (simp add: make_telemetry_update_def ss)
  from observe_step [OF ok ing typed] obtain evs' d where
    obs: "observe_telemetry ((ts_pipeline s)\<lparr>pl_engine := e1\<rparr>)
        = (Inr (), (ts_pipeline s)\<lparr>pl_engine := e1, pl_diagnostics := d\<rparr>)"
    and ok': "pl_ok (l @ [(df, ss)]) (evs @ evs') xs ((ts_pipeline s)\<lparr>pl_engine := e1, pl_diagnostics := d\<rparr>)"
    by blast
  have now: "te_latest_timestamp_microseconds e1 = Some (timestamp_microseconds f)"
    using telemetry_clock.accepted_advances [OF ing refl] stamp by simp
  have "\<exists>s'. ingest_decoded s df = (Inr u, s')
      \<and> ts_pipeline s' = (ts_pipeline s)\<lparr>pl_engine := e1, pl_diagnostics := d\<rparr>"
    using ne ing fr u obs by (simp add: ingest_decoded_def Let_def)
  then obtain s' where "ingest_decoded s df = (Inr u, s')"
    and p: "ts_pipeline s' = (ts_pipeline s)\<lparr>pl_engine := e1, pl_diagnostics := d\<rparr>" by blast
  moreover have "pl_ok (l @ [(df, ss)]) (evs @ evs') xs (ts_pipeline s')" using ok' p by simp
  moreover have "te_latest_timestamp_microseconds (pl_engine (ts_pipeline s')) = Some (timestamp_microseconds f)"
    using now p by simp
  ultimately show ?thesis using df by blast
qed

section \<open>The workers\<close>

text \<open>A worker that has processed \<open>fs\<close> and waits for its next frame, apart from which worker it is.\<close>

definition feeding :: "raw_can_frame list \<Rightarrow> telemetry_service \<Rightarrow> bool" where
  "feeding fs s \<longleftrightarrow> ts_state s = RUNNING \<and> \<not> ts_stop_requested s \<and> ts_decoder s = simulation_decoder
     \<and> (\<exists>l evs xs. pl_ok l evs xs (ts_pipeline s) \<and> map ef_raw_frame xs = fs \<and> length l = length fs)
     \<and> te_latest_timestamp_microseconds (pl_engine (ts_pipeline s)) = map_option timestamp_microseconds (last_opt fs)"

definition live_streaming :: "session_manifest \<Rightarrow> raw_can_frame list \<Rightarrow> telemetry_service \<Rightarrow> bool" where
  "live_streaming m fs s \<longleftrightarrow> ts_worker s = Some Gateway_Streaming \<and> feeding fs s
     \<and> (\<exists>r. ts_recorder s = Some r \<and> rec_inv m True fs r \<and> recorder_recording r)"

definition replay_streaming :: "raw_can_frame list \<Rightarrow> telemetry_service \<Rightarrow> bool" where
  "replay_streaming fs s \<longleftrightarrow> ts_worker s = Some Replay_Streaming \<and> feeding fs s"

lemma feeding_go [simp]: "feeding fs (go w s) = feeding fs s"
  by (simp add: feeding_def go_def)

text \<open>The calls both workers make for the next frame succeed.\<close>

lemma frame_calls:
  assumes feed: "feeding fs s" and dec: "faithful_decoder md" and bus: "bus_frame f" and enc: "encodable f"
    and times: "\<forall>g \<in> set fs. encodable g"
    and time: "\<forall>t. map_option timestamp_microseconds (last_opt fs) = Some t \<longrightarrow> t \<le> timestamp_microseconds f"
  shows "\<exists>s1 s2. explore_frame md f w1 h1 s = go w1 s1 \<and> decode_into_telemetry md f w2 h2 (go w1 s1) = go w2 s2
    \<and> feeding (fs @ [f]) s2 \<and> control s2 = control s"
proof -
  from feed obtain l evs xs where st: "ts_state s = RUNNING" and ns: "\<not> ts_stop_requested s"
    and dc: "ts_decoder s = simulation_decoder"
    and ok: "pl_ok l evs xs (ts_pipeline s)" and xs: "map ef_raw_frame xs = fs" and len: "length l = length fs"
    and now: "te_latest_timestamp_microseconds (pl_engine (ts_pipeline s)) = map_option timestamp_microseconds (last_opt fs)"
    by (auto simp: feeding_def)
  have timely: "timely g" if "encodable g" for g using that by (simp add: timely_def encodable_def wf_frame_def)
  have past: "\<forall>x \<in> set xs. timely (ef_raw_frame x)" using times timely xs by auto
  from ingest_can_explorer_total [OF ok dec bus past timely [OF enc]] obtain u s1 x where
    e1: "ingest_can_explorer md s f = (Inr u, s1)" and x: "ef_raw_frame x = f"
    and ok1: "pl_ok l evs (xs @ [x]) (ts_pipeline s1)"
    and eng1: "pl_engine (ts_pipeline s1) = pl_engine (ts_pipeline s)" by blast
  have c1: "control (go w1 s1) = control s" using ingest_can_explorer_control [OF e1] by simp
  have "pl_ok l evs (xs @ [x]) (ts_pipeline (go w1 s1))" and
    t1: "\<forall>t. te_latest_timestamp_microseconds (pl_engine (ts_pipeline (go w1 s1))) = Some t \<longrightarrow> t \<le> timestamp_microseconds f"
    using ok1 eng1 now time by (simp_all add: go_def)
  from ingest_decoded_total [OF this(1) dec bus t1] obtain df v s2 ss evs' where
    df: "decode_frame md simulation_decoder f = Inr df" and e2: "ingest_decoded (go w1 s1) df = (Inr v, s2)"
    and ok2: "pl_ok (l @ [(df, ss)]) (evs @ evs') (xs @ [x]) (ts_pipeline s2)"
    and now2: "te_latest_timestamp_microseconds (pl_engine (ts_pipeline s2)) = Some (timestamp_microseconds f)" by blast
  have c2: "control s2 = control s" using ingest_decoded_control [OF e2] c1 by simp
  have "ts_decoder (go w1 s1) = simulation_decoder" using c1 dc by (simp add: control_eq go_def)
  then have "explore_frame md f w1 h1 s = go w1 s1" "decode_into_telemetry md f w2 h2 (go w1 s1) = go w2 s2"
    using e1 e2 df by (simp_all add: explore_frame_def decode_into_telemetry_def)
  moreover have "ts_state s2 = RUNNING" "\<not> ts_stop_requested s2" "ts_decoder s2 = simulation_decoder"
    using c2 st ns dc by (simp_all add: control_eq)
  moreover have "map ef_raw_frame (xs @ [x]) = fs @ [f]" and "length (l @ [(df, ss)]) = length (fs @ [f])"
    and "te_latest_timestamp_microseconds (pl_engine (ts_pipeline s2)) = map_option timestamp_microseconds (last_opt (fs @ [f]))"
    using xs x len now2 by simp_all
  ultimately show ?thesis using ok2 c2 unfolding feeding_def by blast
qed

text \<open>The steps of a worker for a frame, after the one that takes it: three of the live one, two of a replay.\<close>

definition frame_inputs :: "nat \<Rightarrow> raw_can_frame \<Rightarrow> (io \<times> world) list" where
  "frame_inputs n f = (all_ok, Frame f) # replicate n (all_ok, Stream_End)"

definition live_inputs :: "raw_can_frame list \<Rightarrow> (io \<times> world) list" where
  "live_inputs fs = (all_ok, Connected) # concat (map (frame_inputs 3) fs) @ replicate 4 (all_ok, Stream_End)"

definition replay_inputs :: "raw_can_frame list \<Rightarrow> (io \<times> world) list" where
  "replay_inputs fs = (all_ok, Stream_End) # concat (map (frame_inputs 2) fs) @ replicate 2 (all_ok, Stream_End)"

lemma worker_run_step:
  "ts_worker s = Some w \<Longrightarrow> worker_step md io x w s = Some s1 \<Longrightarrow>
     worker_run md ((io, x) # ins) s = map_option (\<lambda>(fs, s2). (taken x w @ fs, s2)) (worker_run md ins s1)"
  by simp

lemma record_all_ok:
  assumes "rec_inv m True fs r" and "recorder_recording r" and "encodable f"
    and "\<forall>t. map_option timestamp_microseconds (last_opt fs) = Some t \<longrightarrow> t \<le> timestamp_microseconds f"
  shows "\<exists>r'. recorder_record all_ok r f = (Inr (), r') \<and> rec_inv m True (fs @ [f]) r' \<and> recorder_recording r'"
proof -
  have "fs \<noteq> [] \<longrightarrow> timestamp_microseconds (last fs) \<le> timestamp_microseconds f"
    using assms(4) by (auto simp: last_opt_def)
  from record_ok [OF assms(1-3) this] show ?thesis
    by (cases "recorder_record all_ok r f"; cases "fst (recorder_record all_ok r f)")
       (auto simp: recorder_step_def split: if_splits sum.splits)
qed

lemma live_frame:
  assumes live: "live_streaming m fs s" and dec: "faithful_decoder md" and bus: "bus_frame f" and enc: "encodable f"
    and times: "\<forall>g \<in> set fs. encodable g"
    and time: "\<forall>t. map_option timestamp_microseconds (last_opt fs) = Some t \<longrightarrow> t \<le> timestamp_microseconds f"
  shows "\<exists>s'. live_streaming m (fs @ [f]) s'
    \<and> (\<forall>ins. worker_run md (frame_inputs 3 f @ ins) s = map_option (\<lambda>(gs, s2). (f # gs, s2)) (worker_run md ins s'))"
proof -
  from live obtain r where w: "ts_worker s = Some Gateway_Streaming" and feed: "feeding fs s"
    and r: "ts_recorder s = Some r" and inv: "rec_inv m True fs r" and rec: "recorder_recording r"
    by (auto simp: live_streaming_def)
  from record_all_ok [OF inv rec enc time] obtain r' where
    rr: "recorder_record all_ok r f = (Inr (), r')" and inv': "rec_inv m True (fs @ [f]) r'"
    and rec': "recorder_recording r'" by blast
  let ?s1 = "go (Gateway_Record f) s"
  let ?s2 = "go (Gateway_Explore f) (?s1\<lparr>ts_recorder := Some r'\<rparr>)"
  have ns: "\<not> ts_stop_requested s" using feed by (simp add: feeding_def)
  have 1: "worker_step md all_ok (Frame f) Gateway_Streaming s = Some ?s1" using ns r by (simp add: gateway_next_def)
  have 2: "worker_step md all_ok Stream_End (Gateway_Record f) ?s1 = Some ?s2"
    using r rr by (simp add: gateway_record_def)
  have "feeding fs ?s2" using feed by (simp add: feeding_def go_def)
  from frame_calls [OF this dec bus enc times time, of "Gateway_Decode f" Gateway_Failing Gateway_Streaming Gateway_Failing]
  obtain s3 s4 where
    e3: "explore_frame md f (Gateway_Decode f) Gateway_Failing ?s2 = go (Gateway_Decode f) s3"
    and e4: "decode_into_telemetry md f Gateway_Streaming Gateway_Failing (go (Gateway_Decode f) s3) = go Gateway_Streaming s4"
    and feed4: "feeding (fs @ [f]) s4" and c4: "control s4 = control ?s2" by blast
  have 3: "worker_step md all_ok Stream_End (Gateway_Explore f) ?s2 = Some (go (Gateway_Decode f) s3)"
    and 4: "worker_step md all_ok Stream_End (Gateway_Decode f) (go (Gateway_Decode f) s3) = Some (go Gateway_Streaming s4)"
    using e3 e4 by simp_all
  have "ts_recorder (go Gateway_Streaming s4) = Some r'" using c4 by (simp add: control_eq go_def)
  then have "live_streaming m (fs @ [f]) (go Gateway_Streaming s4)"
    using feed4 inv' rec' by (simp add: live_streaming_def)
  moreover have "worker_run md (frame_inputs 3 f @ ins) s
      = map_option (\<lambda>(gs, s2). (f # gs, s2)) (worker_run md ins (go Gateway_Streaming s4))" for ins
    unfolding frame_inputs_def append_Cons
    using worker_run_step [OF w 1] worker_run_step [OF _ 2] worker_run_step [OF _ 3] worker_run_step [OF _ 4]
    by (simp add: numeral_3_eq_3 taken_def option.map_id0 option.map_id case_prod_beta
        del: worker_step.simps worker_run.simps(2))
  ultimately show ?thesis by blast
qed

text \<open>A replay takes two steps a frame and records nothing.\<close>

lemma replayed_frame:
  assumes play: "replay_streaming fs s" and dec: "faithful_decoder md" and bus: "bus_frame f" and enc: "encodable f"
    and times: "\<forall>g \<in> set fs. encodable g"
    and time: "\<forall>t. map_option timestamp_microseconds (last_opt fs) = Some t \<longrightarrow> t \<le> timestamp_microseconds f"
  shows "\<exists>s'. replay_streaming (fs @ [f]) s'
    \<and> (\<forall>ins. worker_run md (frame_inputs 2 f @ ins) s = map_option (\<lambda>(gs, s2). (f # gs, s2)) (worker_run md ins s'))"
proof -
  from play have w: "ts_worker s = Some Replay_Streaming" and feed: "feeding fs s"
    by (auto simp: replay_streaming_def)
  let ?s1 = "go (Replay_Explore f) s"
  have 1: "worker_step md all_ok (Frame f) Replay_Streaming s = Some ?s1" using feed by (simp add: feeding_def)
  have "feeding fs ?s1" using feed by simp
  from frame_calls [OF this dec bus enc times time, of "Replay_Decode f" Replay_Failed Replay_Streaming Replay_Failed]
  obtain s2 s3 where
    e2: "explore_frame md f (Replay_Decode f) Replay_Failed ?s1 = go (Replay_Decode f) s2"
    and e3: "decode_into_telemetry md f Replay_Streaming Replay_Failed (go (Replay_Decode f) s2) = go Replay_Streaming s3"
    and feed3: "feeding (fs @ [f]) s3" by blast
  have 2: "worker_step md all_ok Stream_End (Replay_Explore f) ?s1 = Some (go (Replay_Decode f) s2)"
    and 3: "worker_step md all_ok Stream_End (Replay_Decode f) (go (Replay_Decode f) s2) = Some (go Replay_Streaming s3)"
    using e2 e3 by simp_all
  have "replay_streaming (fs @ [f]) (go Replay_Streaming s3)" using feed3 by (simp add: replay_streaming_def)
  moreover have "worker_run md (frame_inputs 2 f @ ins) s
      = map_option (\<lambda>(gs, s2). (f # gs, s2)) (worker_run md ins (go Replay_Streaming s3))" for ins
    unfolding frame_inputs_def append_Cons
    using worker_run_step [OF w 1] worker_run_step [OF _ 2] worker_run_step [OF _ 3]
    by (simp add: numeral_2_eq_2 taken_def option.map_id0 option.map_id case_prod_beta
        del: worker_step.simps worker_run.simps(2))
  ultimately show ?thesis by blast
qed

text \<open>Frame by frame, either worker goes through a whole stream.\<close>

definition advances ::
  "msg_decoder \<Rightarrow> nat \<Rightarrow> (raw_can_frame list \<Rightarrow> telemetry_service \<Rightarrow> bool) \<Rightarrow> bool" where
  "advances md n reached_at \<longleftrightarrow> (\<forall>gs s f. reached_at gs s \<longrightarrow> (\<forall>g \<in> set gs. encodable g) \<longrightarrow> bus_frame f
     \<longrightarrow> encodable f \<longrightarrow> (\<forall>t. map_option timestamp_microseconds (last_opt gs) = Some t \<longrightarrow> t \<le> timestamp_microseconds f)
     \<longrightarrow> (\<exists>s'. reached_at (gs @ [f]) s'
        \<and> (\<forall>ins. worker_run md (frame_inputs n f @ ins) s = map_option (\<lambda>(hs, s2). (f # hs, s2)) (worker_run md ins s'))))"

lemma live_advances: "faithful_decoder md \<Longrightarrow> advances md 3 (live_streaming m)"
  unfolding advances_def by (blast intro: live_frame)

lemma replay_advances: "faithful_decoder md \<Longrightarrow> advances md 2 replay_streaming"
  unfolding advances_def by (blast intro: replayed_frame)

lemma stream_run:
  assumes step: "advances md n reached_at"
  shows "reached_at gs s \<Longrightarrow> \<forall>f \<in> set gs. encodable f \<Longrightarrow> \<forall>f \<in> set fs. bus_frame f \<and> encodable f
    \<Longrightarrow> sorted (map timestamp_microseconds (gs @ fs))
    \<Longrightarrow> \<exists>s'. reached_at (gs @ fs) s'
        \<and> (\<forall>ins. worker_run md (concat (map (frame_inputs n) fs) @ ins) s
              = map_option (\<lambda>(hs, s2). (fs @ hs, s2)) (worker_run md ins s'))"
proof (induction fs arbitrary: gs s)
  case Nil
  then show ?case by (intro exI [of _ s]) (simp add: case_prod_beta option.map_ident)
next
  case (Cons f fs)
  have time: "\<forall>t. map_option timestamp_microseconds (last_opt gs) = Some t \<longrightarrow> t \<le> timestamp_microseconds f"
    using Cons.prems(4) by (cases gs rule: rev_cases) (auto simp: last_opt_def sorted_append)
  from step [unfolded advances_def, rule_format, of gs s f] Cons.prems(1-3) time obtain s1 where
    s1: "reached_at (gs @ [f]) s1"
    and run1: "\<And>ins. worker_run md (frame_inputs n f @ ins) s
      = map_option (\<lambda>(hs, s2). (f # hs, s2)) (worker_run md ins s1)" by auto
  from Cons.IH [OF s1] Cons.prems obtain s' where s': "reached_at (gs @ f # fs) s'"
    and run: "\<And>ins. worker_run md (concat (map (frame_inputs n) fs) @ ins) s1
      = map_option (\<lambda>(hs, s2). (fs @ hs, s2)) (worker_run md ins s')" by auto
  have "worker_run md (concat (map (frame_inputs n) (f # fs)) @ ins) s
      = map_option (\<lambda>(hs, s2). ((f # fs) @ hs, s2)) (worker_run md ins s')" for ins
    using run1 [of "concat (map (frame_inputs n) fs) @ ins"] run [of ins]
    by (cases "worker_run md ins s'") (auto simp: case_prod_beta)
  with s' show ?case by blast
qed

lemma stream_from_start:
  assumes "advances md n reached_at" and "reached_at [] s" and "\<forall>f \<in> set fs. bus_frame f \<and> encodable f"
    and "sorted (map timestamp_microseconds fs)"
  shows "\<exists>s'. reached_at fs s'
    \<and> (\<forall>ins. worker_run md (concat (map (frame_inputs n) fs) @ ins) s
          = map_option (\<lambda>(hs, s2). (fs @ hs, s2)) (worker_run md ins s'))"
  using stream_run [OF assms(1,2) _ assms(3)] assms(4) by simp

text \<open>What follows the stream: the recorder completes, the state becomes completed, the worker cleans up.\<close>

lemma complete_all_ok:
  assumes "rec_inv m True fs r" and "recorder_recording r"
  shows "\<exists>v r'. recorder_complete all_ok r = (Inr v, r') \<and> \<not> recorder_recording r'
    \<and> mf_frame_count (sr_manifest r') = int (length fs)"
proof -
  obtain res r' where c: "recorder_complete all_ok r = (res, r')" by fastforce
  from assms c show ?thesis
  proof (cases rule: recorder_complete_cases)
    case (published a)
    then show ?thesis using c by (simp add: sealed_def with_counts_def recorder_recording_def)
  next
    case (unpublished d)
    then show ?thesis
      using c assms(2)
      by (auto simp: recorder_complete_def finish_stream_def all_ok_def write_manifest_atomic_def Let_def)
  qed (simp add: finish_stream_def all_ok_def)
qed

lemma live_end:
  assumes "live_streaming m fs s"
  shows "\<exists>s' r'. worker_run md (replicate 4 (all_ok, Stream_End)) s = Some ([], s')
    \<and> ts_state s' = COMPLETED \<and> ts_worker s' = Some Worker_Done \<and> ts_pipeline s' = ts_pipeline s
    \<and> ts_recorder s' = Some r' \<and> \<not> recorder_recording r' \<and> mf_frame_count (sr_manifest r') = int (length fs)"
proof -
  from assms obtain r where w: "ts_worker s = Some Gateway_Streaming" and st: "ts_state s = RUNNING"
    and ns: "\<not> ts_stop_requested s" and r: "ts_recorder s = Some r"
    and inv: "rec_inv m True fs r" and rec: "recorder_recording r"
    by (auto simp: live_streaming_def feeding_def)
  from complete_all_ok [OF inv rec] obtain v r' where c: "recorder_complete all_ok r = (Inr v, r')"
    and r': "\<not> recorder_recording r'" "mf_frame_count (sr_manifest r') = int (length fs)" by blast
  show ?thesis
    using w st ns r c r'
    by (simp add: numeral_eq_Suc taken_def go_def gateway_completing_def unless_stopped_def
        transition_locked_def gateway_cleanup_def Let_def)
qed

text \<open>A service that just started with a fresh recorder is streaming once its gateway connects.\<close>

lemma live_connects:
  assumes rec: "make_recorder resource io rq d = (Inr r0, d0)"
    and make: "make_telemetry_service c simulation_decoder None (Some r0) None None = Inr s0"
    and cap: "cf_diagnostic_event_capacity c = Py_Int DEFAULT_DIAGNOSTIC_EVENT_CAPACITY"
  shows "\<exists>s. live_streaming (sr_manifest r0) [] s
    \<and> (\<forall>ins. worker_run md ((all_ok, Connected) # ins) (snd (service_start s0)) = worker_run md ins s)"
proof -
  note f0 = make_telemetry_service_fields [OF make]
  have ok: "fst (service_start s0) = Inr ()"
    using f0 by (simp add: service_start_def source_active_def Let_def)
  note st = service_start_pipeline [OF ok]
  obtain x where x: "make_can_explorer simulation_decoder (cf_can_explorer_capacity c) = Inr x"
    using make by (auto simp: make_telemetry_service_def rbind_eq_Inr service_explorer_def)
  have "simulation_explorer x" and "0 < ce_capacity x"
    using make_simulation_explorer [OF x] x by (auto simp: make_can_explorer_def split: if_splits)
  from replay_start_ok [OF this service_pipeline_fresh(2) [OF make cap x]]
  have p: "pl_ok [] [] [] (ts_pipeline (snd (service_start s0)))"
      "te_latest_timestamp_microseconds (pl_engine (ts_pipeline (snd (service_start s0)))) = None"
    by (simp_all add: fresh_start_pipeline [OF ok service_pipeline_fresh(1) [OF make]])
  have ns: "\<not> ts_stop_requested (snd (service_start s0))"
    using ok by (simp add: service_start_def transition_locked_def Let_def split: if_splits)
  let ?s = "gateway_connect (snd (service_start s0))"
  from p have "live_streaming (sr_manifest r0) [] ?s"
    using ns st(3,4) f0 make_recorder_inv [OF rec]
    by (auto simp: live_streaming_def feeding_def gateway_connect_def transition_locked_def go_def Let_def last_opt_def)
  moreover have "worker_run md ((all_ok, Connected) # ins) (snd (service_start s0)) = worker_run md ins ?s" for ins
    using st(1) by (simp add: taken_def option.map_id0 option.map_id case_prod_beta option.map_ident)
  ultimately show ?thesis by blast
qed

text \<open>The live run as a whole.\<close>

lemma live_run_end:
  assumes "faithful_decoder md" and "make_recorder resource io rq d = (Inr r0, d0)"
    and "make_telemetry_service c simulation_decoder None (Some r0) None None = Inr s0"
    and "cf_diagnostic_event_capacity c = Py_Int DEFAULT_DIAGNOSTIC_EVENT_CAPACITY"
    and "\<forall>f \<in> set fs. bus_frame f \<and> encodable f" and "sorted (map timestamp_microseconds fs)"
  shows "\<exists>s r. worker_run md (live_inputs fs) (snd (service_start s0)) = Some (fs, s)
    \<and> ts_state s = COMPLETED \<and> ts_worker s = Some Worker_Done
    \<and> te_total_frames (pl_engine (ts_pipeline s)) = int (length fs)
    \<and> ts_recorder s = Some r \<and> \<not> recorder_recording r \<and> mf_frame_count (sr_manifest r) = int (length fs)"
proof -
  let ?m = "sr_manifest r0"
  from live_connects [OF assms(2-4), of md] obtain s where s: "live_streaming ?m [] s"
    and start: "\<And>ins. worker_run md ((all_ok, Connected) # ins) (snd (service_start s0)) = worker_run md ins s"
    by blast
  from stream_from_start [OF live_advances [OF assms(1)] s assms(5,6)] obtain s1 where s1: "live_streaming ?m fs s1"
    and stream: "\<forall>ins. worker_run md (concat (map (frame_inputs 3) fs) @ ins) s
      = map_option (\<lambda>(hs, s2). (fs @ hs, s2)) (worker_run md ins s1)" by blast
  from live_end [OF s1, of md] obtain s2 r where
    fin: "worker_run md (replicate 4 (all_ok, Stream_End)) s1 = Some ([], s2)"
      "ts_state s2 = COMPLETED" "ts_worker s2 = Some Worker_Done" "ts_pipeline s2 = ts_pipeline s1"
      "ts_recorder s2 = Some r" "\<not> recorder_recording r" "mf_frame_count (sr_manifest r) = int (length fs)"
    by blast
  have "te_total_frames (pl_engine (ts_pipeline s1)) = int (length fs)"
    using s1 by (auto simp: live_streaming_def feeding_def pl_ok_def represents_def)
  moreover have "worker_run md (live_inputs fs) (snd (service_start s0)) = Some (fs, s2)"
    unfolding live_inputs_def start by (simp add: fin(1) stream)
  ultimately show ?thesis using fin(2-7) by auto
qed

section \<open>A replay through the service\<close>

text \<open>Publishing to nobody changes nobody: a worker leaves a service without subscribers without subscribers.\<close>

definition unsubscribed :: "telemetry_service \<Rightarrow> bool" where
  "unsubscribed s \<longleftrightarrow> subscriber_count (ts_broadcaster s) = 0 \<and> subscriber_count (ts_can_broadcaster s) = 0"

lemma publish_to_nobody: "subscriber_count b = 0 \<Longrightarrow> bc_publish e b = b"
  by (simp add: subscriber_count_def bc_publish_def)

lemma unsubscribed_keep:
  "unsubscribed (go w s) = unsubscribed s"
  "unsubscribed s \<Longrightarrow> unsubscribed (transition_locked st e s)"
  "unsubscribed s \<Longrightarrow> unsubscribed (unless_stopped st e s)"
  "unsubscribed s \<Longrightarrow> ingest_can_explorer md s f = (v, s') \<Longrightarrow> unsubscribed s'"
  "unsubscribed s \<Longrightarrow> ingest_decoded s df = (v', s') \<Longrightarrow> unsubscribed s'"
  by (auto simp: unsubscribed_def go_def transition_locked_def unless_stopped_def publish_to_nobody Let_def
      ingest_can_explorer_def ingest_decoded_def split: prod.splits sum.splits if_splits)

lemma unsubscribed_frame_calls:
  "unsubscribed s \<Longrightarrow> unsubscribed (explore_frame md f w h s)"
  "unsubscribed s \<Longrightarrow> unsubscribed (decode_into_telemetry md f w h s)"
  by (auto simp: explore_frame_def decode_into_telemetry_def unsubscribed_keep(1) split: prod.splits sum.splits
      intro: unsubscribed_keep(4,5))

lemma unsubscribed_recorder:
  "unsubscribed s \<Longrightarrow> unsubscribed (gateway_record io f s)"
  "unsubscribed s \<Longrightarrow> unsubscribed (gateway_completing io s)"
  "unsubscribed s \<Longrightarrow> unsubscribed (gateway_failing io ex s)"
  "unsubscribed s \<Longrightarrow> unsubscribed (gateway_cleanup io s)"
  "unsubscribed s \<Longrightarrow> unsubscribed (gateway_next f s)"
  "unsubscribed s \<Longrightarrow> unsubscribed (gateway_connect s)"
  by (auto simp: unsubscribed_def gateway_record_def gateway_completing_def gateway_failing_def gateway_cleanup_def
      gateway_next_def gateway_connect_def go_def transition_locked_def publish_to_nobody Let_def
      split: option.splits prod.splits sum.splits)

lemma unsubscribed_step: "worker_step md io x w s = Some s' \<Longrightarrow> unsubscribed s \<Longrightarrow> unsubscribed s'"
  by (cases "(md, io, x, w, s)" rule: worker_step.cases)
     (auto simp: unsubscribed_keep(1-3) unsubscribed_frame_calls unsubscribed_recorder split: if_splits)

lemma unsubscribed_run: "worker_run md ins s = Some (fs, s') \<Longrightarrow> unsubscribed s \<Longrightarrow> unsubscribed s'"
proof (induction md ins s arbitrary: fs rule: worker_run.induct)
  case (2 md io x ins s)
  then show ?case using unsubscribed_step by (fastforce split: option.splits)
qed simp

lemma unsubscribed_fresh:
  assumes "make_telemetry_service c dec None r None None = Inr s0"
  shows "unsubscribed (snd (service_start s0))"
proof -
  have "unsubscribed s0"
    using assms by (auto simp: make_telemetry_service_def rbind_eq_Inr unsubscribed_def subscriber_count_def
        make_broadcaster_def)
  then show ?thesis
    by (auto simp: service_start_def Let_def unsubscribed_def transition_locked_def publish_to_nobody)
qed

text \<open>A replay worker whose replay may begin, on the pipeline of a new service.\<close>

definition replay_ready :: "pipeline \<Rightarrow> telemetry_service \<Rightarrow> bool" where
  "replay_ready p s \<longleftrightarrow> ts_worker s = Some Replay_Waiting \<and> ts_state s = RUNNING \<and> \<not> ts_stop_requested s
     \<and> ts_decoder s = simulation_decoder \<and> ts_pipeline s = p \<and> ts_replay_start s"

lemma replay_started:
  assumes make: "make_telemetry_service c simulation_decoder None r None None = Inr s0"
    and cap: "cf_diagnostic_event_capacity c = Py_Int DEFAULT_DIAGNOSTIC_EVENT_CAPACITY"
    and ready: "replay_ready (ts_pipeline s0) s2"
  shows "\<exists>s. replay_streaming [] s
    \<and> (\<forall>ins. worker_run md ((all_ok, Stream_End) # ins) s2 = worker_run md ins s)"
proof -
  obtain x where x: "make_can_explorer simulation_decoder (cf_can_explorer_capacity c) = Inr x"
    using make by (auto simp: make_telemetry_service_def rbind_eq_Inr service_explorer_def)
  have "simulation_explorer x" and "0 < ce_capacity x"
    using make_simulation_explorer [OF x] x by (auto simp: make_can_explorer_def split: if_splits)
  from replay_start_ok [OF this service_pipeline_fresh(2) [OF make cap x]]
  have p: "pl_ok [] [] [] (ts_pipeline s0)" "te_latest_timestamp_microseconds (pl_engine (ts_pipeline s0)) = None"
    by simp_all
  have "replay_streaming [] (go Replay_Streaming s2)"
    using ready p by (auto simp: replay_ready_def replay_streaming_def feeding_def go_def last_opt_def)
  moreover have "worker_run md ((all_ok, Stream_End) # ins) s2 = worker_run md ins (go Replay_Streaming s2)" for ins
    using ready by (simp add: replay_ready_def taken_def option.map_id0 option.map_id case_prod_beta option.map_ident)
  ultimately show ?thesis by blast
qed

lemma replay_end:
  assumes "replay_streaming fs s"
  shows "\<exists>s'. worker_run md (replicate 2 (all_ok, Stream_End)) s = Some ([], s') \<and> ts_state s' = COMPLETED"
  using assms
  by (simp add: replay_streaming_def feeding_def numeral_eq_Suc taken_def go_def unless_stopped_def
      transition_locked_def Let_def)

lemma replay_run_end:
  assumes "faithful_decoder md" and "make_telemetry_service c simulation_decoder None r None None = Inr s0"
    and "cf_diagnostic_event_capacity c = Py_Int DEFAULT_DIAGNOSTIC_EVENT_CAPACITY"
    and "replay_ready (ts_pipeline s0) s2"
    and "\<forall>f \<in> set fs. bus_frame f \<and> encodable f" and "sorted (map timestamp_microseconds fs)"
  shows "\<exists>s3. worker_run md (replay_inputs fs) s2 = Some (fs, s3) \<and> ts_state s3 = COMPLETED"
proof -
  from replay_started [OF assms(2-4), of md] obtain s where s: "replay_streaming [] s"
    and start: "\<And>ins. worker_run md ((all_ok, Stream_End) # ins) s2 = worker_run md ins s" by blast
  from stream_from_start [OF replay_advances [OF assms(1)] s assms(5,6)] obtain s' where "replay_streaming fs s'"
    and stream: "\<forall>ins. worker_run md (concat (map (frame_inputs 2) fs) @ ins) s
      = map_option (\<lambda>(hs, s2). (fs @ hs, s2)) (worker_run md ins s')" by blast
  from replay_end [OF this(1), of md] obtain s3 where
    "worker_run md (replicate 2 (all_ok, Stream_End)) s' = Some ([], s3)" "ts_state s3 = COMPLETED" by blast
  then have "worker_run md (replay_inputs fs) s2 = Some (fs, s3)"
    unfolding replay_inputs_def start by (simp add: stream)
  with \<open>ts_state s3 = COMPLETED\<close> show ?thesis by blast
qed

text \<open>What any replay of the service computes, once it is completed.\<close>

lemma replay_run_reaches:
  assumes "ts_worker s2 = Some Replay_Waiting" and "ts_state s2 = RUNNING"
    and "worker_run md ins s2 = Some (fs, s3)" and "ts_state s3 = COMPLETED"
  shows "replay_frames md (ts_decoder s2) (ts_pipeline s2) fs = (Inr (), ts_pipeline s3)"
proof -
  have "pipeline_ok md (ts_pipeline s2) [] s2" using assms(1,2) by (simp add: pipeline_ok_def reached_def)
  from pipeline_ok_run [OF this assms(3)] completed_reached [OF _ assms(4)] worker_run_decoder [OF assms(3)]
  show ?thesis by (simp add: reached_def)
qed

text \<open>After a live run that ended, the service accepts a replay, and its pipeline starts afresh.\<close>

lemma live_then_reset:
  assumes make: "make_telemetry_service c decoder None r None None = Inr s0"
    and run: "worker_run md ins (snd (service_start s0)) = Some (fs, s1)" and fin: "ts_state s1 = COMPLETED"
  shows "pipeline_reset (ts_pipeline s1) = ts_pipeline s0" and "ts_decoder s1 = decoder"
proof -
  note f0 = make_telemetry_service_fields [OF make]
  have live: "replay_frames md decoder (ts_pipeline s0) fs = (Inr (), ts_pipeline s1)"
    using live_run_reaches [OF make run fin] by (simp add: reached_def)
  show "ts_decoder s1 = decoder"
    using service_start_pipeline(4) [OF start_ok_parts [OF run fin]] worker_run_decoder [OF run] f0 by simp
  show "pipeline_reset (ts_pipeline s1) = ts_pipeline s0"
    using replay_frames_reset [of md decoder "ts_pipeline s0" fs] live service_pipeline_fresh(1) [OF make] by simp
qed

lemma replay_accepted:
  assumes "unsubscribed s" and "ts_state s = COMPLETED" and "ts_worker s = Some Worker_Done"
  shows "\<exists>s'. service_start_replay session_id name wait s = (Inr (), s')"
  using assms
  by (simp add: service_start_replay_def unsubscribed_def source_active_def worker_alive_def Let_def)

text \<open>The run the examples below share.\<close>

lemma sample_stream:
  "\<forall>f \<in> set bus_sample. bus_frame f \<and> encodable f" "sorted (map timestamp_microseconds bus_sample)"
  using bus_sample by (auto simp: bus_sample_def encodable_def wf_frame_def)

lemma sample_live_run:
  "\<exists>s r. worker_run zero_decoder (live_inputs bus_sample) (snd (service_start (sample_service (Some sample_recorder))))
        = Some (bus_sample, s)
     \<and> ts_state s = COMPLETED \<and> ts_worker s = Some Worker_Done
     \<and> te_total_frames (pl_engine (ts_pipeline s)) = 3
     \<and> ts_recorder s = Some r \<and> \<not> recorder_recording r \<and> mf_frame_count (sr_manifest r) = 3"
  using live_run_end [OF zero_decoder sample_recorder_made sample_service _ sample_stream]
  by (simp add: default_service_config_def bus_sample_def)

section \<open>Properties\<close>

text \<open>The recording of a live run that ended completed, without a failed write.\<close>

lemma live_recording_published:
  assumes "make_recorder resource io rq d = (Inr r0, d0)" and "wf_request rq"
    and "make_telemetry_service c decoder None (Some r0) None None = Inr s0"
    and "worker_run md ins (snd (service_start s0)) = Some (fs, s)" and "ts_state s = COMPLETED"
    and "\<forall>(io, w) \<in> set ins. io Write_Frames = Io_Ok \<and> (\<forall>f. w = Frame f \<longrightarrow> wf_frame f)"
  obtains r a rd where "ts_recorder s = Some r" "disk_final (sr_disk r) = Some a"
    "open_reader (stored a) None = Inr rd" "validate_integrity rd = Inr ()" "reader_frames rd = (fs, None)"
    "rd_manifest rd = sealed (sr_manifest r0) fs COMPLETE None"
proof -
  let ?m = "sr_manifest r0"
  note f0 = make_telemetry_service_fields [OF assms(3)]
  have ok: "fst (service_start s0) = Inr ()"
    by (rule start_ok_parts [OF assms(4,5)]) (use f0 in simp_all)
  note st = service_start_pipeline [OF ok]
  from make_recorder_inv [OF assms(1)] assms(2) have inv0: "rec_inv ?m True [] r0" and id: "wf_identity ?m" by auto
  have "recorder_ok ?m [] (snd (service_start s0))"
    using st(1-3) f0 inv0 by (simp add: recorder_ok_def)
  from recorder_ok_run [OF this assms(4,6)] assms(5) obtain r where
    r: "ts_recorder s = Some r" and inv: "rec_inv ?m True fs r" and cpl: "mf_status (sr_manifest r) = COMPLETE"
    by (auto simp: recorder_ok_def elim: recorder_place.elims)
  from inv cpl obtain a where a: "disk_final (sr_disk r) = Some a" by (auto simp: rec_inv_def)
  from recording_reads_back [OF inv id a, of None] obtain rd where
    rd: "open_reader (stored a) None = Inr rd" "rd_manifest rd = sr_manifest r"
      "validate_integrity rd = Inr ()" "reader_frames rd = (fs, None)" by auto
  with published_manifest [OF inv id a] have "rd_manifest rd = sealed ?m fs COMPLETE None" by simp
  with r a rd show ?thesis by (intro that) simp_all
qed

text \<open>C2: a recorded live session replays to the state the live source had reached: if the live worker of a
  fresh service ran to the end of its stream without a failed write, then its recording is published,
  opens, validates and holds exactly the frames the worker processed, and replaying it through
  replay_session succeeds and ends in the same explorer, telemetry engine and diagnostic engine.\<close>

theorem live_session_replays:
  assumes "make_recorder resource io rq d = (Inr r0, d0)" and "wf_request rq"
    and "make_telemetry_service c decoder None (Some r0) None None = Inr s0"
    and "cf_diagnostic_event_capacity c = Py_Int DEFAULT_DIAGNOSTIC_EVENT_CAPACITY"
    and "worker_run md ins (snd (service_start s0)) = Some (fs, s)" and "ts_state s = COMPLETED"
    and "\<forall>(io, w) \<in> set ins. io Write_Frames = Io_Ok \<and> (\<forall>f. w = Frame f \<longrightarrow> wf_frame f)"
    and "is_supported_dbc_sha256 resource (mf_dbc_sha256 (sr_manifest r0))"
    and "make_can_explorer decoder (cf_can_explorer_capacity c) = Inr x"
  shows "\<exists>r a rd res. ts_recorder s = Some r \<and> disk_final (sr_disk r) = Some a
    \<and> open_reader (stored a) None = Inr rd \<and> reader_frames rd = (fs, None)
    \<and> replay_session md resource rd decoder x (cf_history_capacity c) = Inr res
    \<and> rr_pipeline res = ts_pipeline s"
proof -
  from live_recording_published [OF assms(1-3,5-7)] obtain r a rd where
    r: "ts_recorder s = Some r" and a: "disk_final (sr_disk r) = Some a" and
    rd: "open_reader (stored a) None = Inr rd" "validate_integrity rd = Inr ()" "reader_frames rd = (fs, None)"
    and m: "rd_manifest rd = sealed (sr_manifest r0) fs COMPLETE None" .
  have sha: "mf_dbc_sha256 (rd_manifest rd) = mf_dbc_sha256 (sr_manifest r0)"
    by (simp add: m sealed_def with_counts_def)
  have start: "replay_start decoder x (cf_history_capacity c) = Inr (ts_pipeline s0)"
    by (rule service_pipeline_fresh(2) [OF assms(3,4,9)])
  have run: "replay_frames md decoder (ts_pipeline s0) fs = (Inr (), ts_pipeline s)"
    using live_run_reaches [OF assms(3,5,6)] by (simp add: reached_def)
  have "\<exists>sn. telemetry_snapshot_of (pl_engine (ts_pipeline s)) None = Inr sn"
  proof (cases "fs = []")
    case False
    then show ?thesis by (rule replay_frames_snapshot [OF run])
  next
    case True
    then have "ts_pipeline s = pipeline_reset (ts_pipeline s0)"
      using run service_pipeline_fresh(1) [OF assms(3)] by simp
    then show ?thesis
      by (simp add: pipeline_reset_def telemetry_snapshot_of_def telemetry_reset_def dict_of_def)
  qed
  then obtain sn where "telemetry_snapshot_of (pl_engine (ts_pipeline s)) None = Inr sn" by blast
  from replay_session_frames [OF rd(2,3) _ start run this, of resource] sha assms(8)
  show ?thesis using r a rd(1,3) by simp
qed

lemma make_recorder_sha:
  "make_recorder resource io rq d = (Inr r, d') \<Longrightarrow> rq_dbc_sha256 rq = Some h \<Longrightarrow> h \<noteq> []
     \<Longrightarrow> mf_dbc_sha256 (sr_manifest r) = h"
  by (auto simp: make_recorder_def initial_manifest_def start_recording_def write_manifest_atomic_def Let_def rbind_eq_Inr
      split: prod.splits sum.splits option.splits if_splits io_outcome.splits)

lemma sample_recorder_sha: "mf_dbc_sha256 (sr_manifest sample_recorder) = LEGACY_PHASE_8A_DBC_SHA256"
  by (rule make_recorder_sha [OF sample_recorder_made]) (simp_all add: sample_request_def LEGACY_PHASE_8A_DBC_SHA256_def)

theorem live_session_replays_witness:
  "\<exists>s r a rd res. worker_run zero_decoder (live_inputs bus_sample)
        (snd (service_start (sample_service (Some sample_recorder)))) = Some (bus_sample, s)
     \<and> ts_recorder s = Some r \<and> disk_final (sr_disk r) = Some a
     \<and> open_reader (stored a) None = Inr rd \<and> reader_frames rd = (bus_sample, None)
     \<and> replay_session zero_decoder [] rd simulation_decoder
          (simulation_explorer_of DEFAULT_CAN_EXPLORER_CAPACITY) (cf_history_capacity default_service_config) = Inr res
     \<and> te_total_frames (pl_engine (rr_pipeline res)) = 3"
proof -
  from sample_live_run obtain s where run: "worker_run zero_decoder (live_inputs bus_sample)
      (snd (service_start (sample_service (Some sample_recorder)))) = Some (bus_sample, s)"
    and s: "ts_state s = COMPLETED" "te_total_frames (pl_engine (ts_pipeline s)) = 3" by blast
  have ins: "\<forall>(io, w) \<in> set (live_inputs bus_sample). io Write_Frames = Io_Ok \<and> (\<forall>f. w = Frame f \<longrightarrow> wf_frame f)"
    by (auto simp: live_inputs_def frame_inputs_def all_ok_def bus_sample_def wf_frame_def)
  have sha: "is_supported_dbc_sha256 [] (mf_dbc_sha256 (sr_manifest sample_recorder))"
    by (simp add: sample_recorder_sha is_supported_dbc_sha256_def)
  have x: "make_can_explorer simulation_decoder (cf_can_explorer_capacity default_service_config)
      = Inr (simulation_explorer_of DEFAULT_CAN_EXPLORER_CAPACITY)"
    by (simp add: default_service_config_def simulation_explorer_of)
  from live_session_replays [OF sample_recorder_made sample_request_wf sample_service _ run s(1) ins sha x] run s(2)
  show ?thesis by (auto simp: default_service_config_def)
qed

text \<open>C29: replaying through the service itself reproduces the live state: after a live run that completed, a
  replay started on the same service whose worker processes the same frames to the end leaves the same
  explorer, telemetry engine and diagnostic engine.\<close>

theorem service_replay_reproduces_live:
  assumes "make_telemetry_service c decoder None recorder None None = Inr s0"
    and "worker_run md ins (snd (service_start s0)) = Some (fs, s1)" and "ts_state s1 = COMPLETED"
    and "service_start_replay session_id name wait s1 = (Inr (), s2)"
    and "worker_run md ins' s2 = Some (fs, s3)" and "ts_state s3 = COMPLETED"
  shows "ts_pipeline s3 = ts_pipeline s1"
proof -
  have live: "replay_frames md decoder (ts_pipeline s0) fs = (Inr (), ts_pipeline s1)"
    using live_run_reaches [OF assms(1-3)] by (simp add: reached_def)
  note reset = live_then_reset [OF assms(1-3)]
  from assms(4) have s2: "ts_worker s2 = Some Replay_Waiting" "ts_state s2 = RUNNING" "ts_decoder s2 = decoder"
    "ts_pipeline s2 = ts_pipeline s0"
    using reset by (auto simp: service_start_replay_def transition_locked_def Let_def split: if_splits)
  from replay_run_reaches [OF this(1,2) assms(5,6)] s2
  have "replay_frames md decoder (ts_pipeline s0) fs = (Inr (), ts_pipeline s3)" by simp
  with live show ?thesis by simp
qed

theorem service_replay_reproduces_live_witness:
  "\<exists>s1 s2 s3. worker_run zero_decoder (live_inputs bus_sample) (snd (service_start (sample_service (Some sample_recorder))))
        = Some (bus_sample, s1)
     \<and> service_start_replay ''s'' None False s1 = (Inr (), s2)
     \<and> worker_run zero_decoder (replay_inputs bus_sample) s2 = Some (bus_sample, s3)
     \<and> te_total_frames (pl_engine (ts_pipeline s3)) = 3"
proof -
  from sample_live_run obtain s1 where run: "worker_run zero_decoder (live_inputs bus_sample)
      (snd (service_start (sample_service (Some sample_recorder)))) = Some (bus_sample, s1)"
    and s1: "ts_state s1 = COMPLETED" "ts_worker s1 = Some Worker_Done" "te_total_frames (pl_engine (ts_pipeline s1)) = 3"
    by blast
  note reset = live_then_reset [OF sample_service run s1(1)]
  from replay_accepted [OF unsubscribed_run [OF run unsubscribed_fresh [OF sample_service]] s1(1,2)]
  obtain s2 where s2: "service_start_replay ''s'' None False s1 = (Inr (), s2)" by blast
  have "replay_ready (ts_pipeline (sample_service (Some sample_recorder))) s2"
    using s2 reset by (auto simp: replay_ready_def service_start_replay_def transition_locked_def Let_def split: if_splits)
  from replay_run_end [OF zero_decoder sample_service _ this sample_stream] obtain s3 where
    s3: "worker_run zero_decoder (replay_inputs bus_sample) s2 = Some (bus_sample, s3)" "ts_state s3 = COMPLETED"
    by (auto simp: default_service_config_def)
  from service_replay_reproduces_live [OF sample_service run s1(1) s2 s3] run s2 s3(1) s1(3) show ?thesis by auto
qed

text \<open>C8: a live run on the packaged database goes to its end: with a recorder just made, a decoder that
  returns the declared signals, 64-bit timestamps in order and a disk that works, the worker of a service
  that was started connects, processes every frame, completes the recording and ends in the completed
  state; nothing it calls raises.\<close>

theorem live_run_completes:
  assumes "faithful_decoder md" and "make_recorder resource io rq d = (Inr r0, d0)"
    and "make_telemetry_service c simulation_decoder None (Some r0) None None = Inr s0"
    and "cf_diagnostic_event_capacity c = Py_Int DEFAULT_DIAGNOSTIC_EVENT_CAPACITY"
    and "\<forall>f \<in> set fs. bus_frame f \<and> encodable f" and "sorted (map timestamp_microseconds fs)"
  shows "\<exists>s. worker_run md (live_inputs fs) (snd (service_start s0)) = Some (fs, s)
    \<and> ts_state s = COMPLETED \<and> \<not> worker_alive s
    \<and> te_total_frames (pl_engine (ts_pipeline s)) = int (length fs)
    \<and> \<not> so_recording (source_status s) \<and> so_recorded_frame_count (source_status s) = int (length fs)"
  using live_run_end [OF assms] by (fastforce simp: worker_alive_def source_status_def)

theorem live_run_completes_witness:
  "\<exists>s. worker_run zero_decoder (live_inputs bus_sample) (snd (service_start (sample_service (Some sample_recorder))))
        = Some (bus_sample, s)
     \<and> ts_state s = COMPLETED \<and> so_recorded_frame_count (source_status s) = 3"
proof -
  have "int (length bus_sample) = 3" by (simp add: bus_sample_def)
  with live_run_completes [OF zero_decoder sample_recorder_made sample_service _ sample_stream]
  show ?thesis by (fastforce simp: default_service_config_def)
qed

end
