(* ===== verification/Investigation_Service.thy ===== *)
theory Investigation_Service
  imports Session_Store Session_Replay
begin

text \<open>
  The read-only investigation of a recorded session (\<open>investigation/service.py\<close>, \<open>models.py\<close>): one pass
  over the frames of a validated session keeps the raw frames, samples and diagnostic events of a time
  window, the last samples before it and the diagnostic states at its centre. \<open>resource\<close> is the packaged
  database file, \<open>decoder\<close> the decoder its constructor makes of it, and \<open>msg_decode\<close> the frame decoder of
  the \<open>canmatrix\<close> package.
\<close>

section \<open>The contracts\<close>

abbreviation (input) INVESTIGATION_FORMAT_NAME :: string where
  "INVESTIGATION_FORMAT_NAME \<equiv> ''tuneros.diagnostic_investigation''"

abbreviation (input) INVESTIGATION_FORMAT_VERSION :: int where "INVESTIGATION_FORMAT_VERSION \<equiv> 1"

abbreviation (input) DEFAULT_WINDOW_BEFORE_MICROSECONDS :: int where
  "DEFAULT_WINDOW_BEFORE_MICROSECONDS \<equiv> 2000000"

abbreviation (input) DEFAULT_WINDOW_AFTER_MICROSECONDS :: int where
  "DEFAULT_WINDOW_AFTER_MICROSECONDS \<equiv> 2000000"

definition MAX_INVESTIGATION_WINDOW_MICROSECONDS :: int where
  "MAX_INVESTIGATION_WINDOW_MICROSECONDS = 30000000"

definition MAX_INVESTIGATION_RAW_FRAMES :: nat where
  "MAX_INVESTIGATION_RAW_FRAMES = 8192"

definition MAX_SELECTED_SIGNALS :: nat where
  "MAX_SELECTED_SIGNALS = 6"

record investigation_window =
  iw_requested_center :: int
  iw_center :: int
  iw_requested_before :: int
  iw_requested_after :: int
  iw_start :: int
  iw_end :: int

definition window_duration :: "investigation_window \<Rightarrow> int" where
  "window_duration w = iw_end w - iw_start w"

record signal_series =
  sr_definition :: signal_definition
  sr_samples :: "signal_sample list"

datatype summary_type = Summary_Numeric | Summary_Boolean | Summary_Unobserved

record signal_summary =
  sy_key :: signal_key
  sy_value_type :: summary_type
  sy_observation_count :: int
  sy_first :: "signal_value option"
  sy_last :: "signal_value option"
  sy_minimum :: "pyfloat option"
  sy_maximum :: "pyfloat option"
  sy_mean :: "pyfloat option"
  sy_distinct_values :: "signal_value list"

record diagnostic_state_at_time =
  da_definition :: diagnostic_definition
  da_status :: "diagnostic_status option"
  da_record :: "diagnostic_trouble_code option"

record investigation_statistics =
  is_raw_frame_count :: int
  is_decoded_signal_update_count :: int
  is_diagnostic_event_count :: int
  is_selected_signal_counts :: "(signal_key \<times> int) list"
  is_window_duration_microseconds :: int

record investigation_result =
  ir_session :: session_manifest
  ir_window :: investigation_window
  ir_available_signals :: "signal_definition list"
  ir_selected_signals :: "signal_key list"
  ir_start_context :: "signal_sample list"
  ir_raw_frames :: "can_explorer_frame list"
  ir_telemetry_series :: "signal_series list"
  ir_signal_summaries :: "signal_summary list"
  ir_diagnostic_events :: "diagnostic_event list"
  ir_diagnostic_states_at_center :: "diagnostic_state_at_time list"
  ir_freeze_frames_at_center :: "diagnostic_freeze_frame list"
  ir_statistics :: investigation_statistics

record signal_comparison =
  sc_key :: signal_key
  sc_primary :: signal_summary
  sc_baseline :: signal_summary
  sc_mean_difference :: "pyfloat option"

record investigation_comparison =
  ic_primary :: investigation_result
  ic_baseline :: investigation_result
  ic_signal_comparisons :: "signal_comparison list"
  ic_diagnostic_code :: "string option"
  ic_primary_has_diagnostic_event :: "bool option"
  ic_baseline_has_diagnostic_event :: "bool option"

record investigation_evidence_export =
  ie_format_name :: string
  ie_format_version :: int
  ie_investigation :: investigation_result
  ie_baseline :: "investigation_result option"
  ie_signal_comparisons :: "signal_comparison list"
  ie_diagnostic_code :: "string option"
  ie_primary_has_diagnostic_event :: "bool option"
  ie_baseline_has_diagnostic_event :: "bool option"

section \<open>The window and the selection\<close>

definition check_extent :: "string \<Rightarrow> py_value \<Rightarrow> unit result" where
  "check_extent name v =
     (if not_plain_int v \<or> int_value v < 0
        then raise Investigation_Query_Error (name @ ''_microseconds must be a non-negative integer'')
      else Inr ())"

definition resolve_window ::
  "session_manifest \<Rightarrow> py_value \<Rightarrow> py_value \<Rightarrow> py_value \<Rightarrow> investigation_window result" where
  "resolve_window m center before after =
     rbind (check_extent ''before'' before) (\<lambda>_.
     rbind (check_extent ''after'' after) (\<lambda>_.
       if int_value before + int_value after > MAX_INVESTIGATION_WINDOW_MICROSECONDS
         then raise Investigation_Query_Error
           (''total investigation window cannot exceed '' @ str_int MAX_INVESTIGATION_WINDOW_MICROSECONDS
              @ '' us'')
       else (case (mf_first_timestamp_microseconds m, mf_last_timestamp_microseconds m) of
               (Some lo, Some hi) \<Rightarrow>
                 let requested = (if center = Py_None then Py_Int ((lo + hi) div 2) else center);
                     c = int_value requested
                 in if not_plain_int requested \<or> c < lo \<or> hi < c
                    then raise Investigation_Query_Error
                      (''center timestamp must be within ['' @ str_int lo @ '', '' @ str_int hi @ '']'')
                    else Inr \<lparr>iw_requested_center = c, iw_center = c,
                              iw_requested_before = int_value before, iw_requested_after = int_value after,
                              iw_start = max lo (c - int_value before),
                              iw_end = min hi (c + int_value after)\<rparr>
             | _ \<Rightarrow> raise Investigation_Query_Error ''empty sessions cannot be investigated'')))"

definition clamp_center :: "session_manifest \<Rightarrow> py_value \<Rightarrow> int result" where
  "clamp_center m center =
     (if not_plain_int center \<or> int_value center < 0
        then raise Investigation_Query_Error
          ''baseline center timestamp must be a non-negative integer''
      else (case (mf_first_timestamp_microseconds m, mf_last_timestamp_microseconds m) of
              (Some lo, Some hi) \<Rightarrow> Inr (min (max (int_value center) lo) hi)
            | _ \<Rightarrow> raise Investigation_Query_Error ''empty baseline sessions cannot be investigated''))"

definition selected_keys ::
  "signal_catalog \<Rightarrow> diagnostic_rule option \<Rightarrow> signal_key list option \<Rightarrow> signal_key list" where
  "selected_keys catalog rule selected =
     (case selected of
        Some ks \<Rightarrow> ks
      | None \<Rightarrow>
          (case rule of
             Some r \<Rightarrow> dd_required_signals (rule_definition r)
           | None \<Rightarrow> map sd_key (take MAX_SELECTED_SIGNALS (cat_definitions catalog))))"

definition resolve_signals ::
  "signal_catalog \<Rightarrow> diagnostic_catalog \<Rightarrow> signal_key list option \<Rightarrow> string option
     \<Rightarrow> signal_key list result" where
  "resolve_signals catalog rules selected code =
     rbind (case code of
              None \<Rightarrow> Inr None
            | Some c \<Rightarrow> rbind (diag_catalog_require rules c) (\<lambda>r. Inr (Some r))) (\<lambda>rule.
       let keys = selected_keys catalog rule selected
       in if keys = [] then raise Investigation_Query_Error ''at least one signal must be selected''
          else if length keys > MAX_SELECTED_SIGNALS
            then raise Investigation_Query_Error
              (''at most '' @ str_int (int MAX_SELECTED_SIGNALS) @ '' signals may be selected'')
          else if \<not> distinct keys
            then raise Investigation_Query_Error ''selected signals must be unique''
          else rbind (mapM (catalog_require catalog) keys) (\<lambda>_. Inr keys))"

section \<open>Summaries\<close>

text \<open>
  \<open>min\<close> over floats, and \<open>sum\<close> over floats as the interpreter computes it since version 3.12: Neumaier's
  compensated summation, the compensation added at the end when it is finite and not zero.
\<close>

fun float_min_from :: "pyfloat \<Rightarrow> pyfloat list \<Rightarrow> pyfloat" where
  "float_min_from m [] = m"
| "float_min_from m (x # xs) = float_min_from (if float_less x m then x else m) xs"

definition float_min :: "pyfloat list \<Rightarrow> pyfloat result" where
  "float_min xs =
     (case xs of [] \<Rightarrow> raise Value_Error ''min() iterable argument is empty''
      | x # rest \<Rightarrow> Inr (float_min_from x rest))"

fun float_finite :: "pyfloat \<Rightarrow> bool" where
  "float_finite (Finite _) = True"
| "float_finite _ = False"

definition compensation :: "pyfloat \<Rightarrow> pyfloat \<Rightarrow> pyfloat \<Rightarrow> pyfloat" where
  "compensation s x t =
     (if float_less (float_abs s) (float_abs x) then float_add (float_sub x t) s
      else float_add (float_sub s t) x)"

fun float_sum_from :: "pyfloat \<Rightarrow> pyfloat \<Rightarrow> pyfloat list \<Rightarrow> pyfloat" where
  "float_sum_from s c [] = (if c \<noteq> Finite 0 \<and> float_finite c then float_add s c else s)"
| "float_sum_from s c (x # xs) =
     (let t = float_add s x in float_sum_from t (float_add c (compensation s x t)) xs)"

definition float_sum :: "pyfloat list \<Rightarrow> pyfloat" where
  "float_sum xs =
     (case xs of [] \<Rightarrow> Finite 0 | x # rest \<Rightarrow> float_sum_from (float_add (Finite 0) x) (Finite 0) rest)"

text \<open>\<open>float(value)\<close>; the values of samples are booleans, integers and floats.\<close>

fun to_float :: "signal_value \<Rightarrow> pyfloat result" where
  "to_float (Py_Bool b) = Inr (Finite (if b then 1 else 0))"
| "to_float (Py_Int i) = float_of_int i"
| "to_float (Py_Float x) = Inr x"
| "to_float _ = raise Type_Error ''float() argument must be a string or a real number''"

definition summarize :: "signal_series \<Rightarrow> signal_summary result" where
  "summarize sr =
     (let values = map ss_value (sr_samples sr); key = sd_key (sr_definition sr)
      in if values = []
           then Inr \<lparr>sy_key = key, sy_value_type = Summary_Unobserved, sy_observation_count = 0,
                     sy_first = None, sy_last = None, sy_minimum = None, sy_maximum = None,
                     sy_mean = None, sy_distinct_values = []\<rparr>
         else if list_all isinstance_bool values
           then Inr \<lparr>sy_key = key, sy_value_type = Summary_Boolean,
                     sy_observation_count = int (length values),
                     sy_first = Some (hd values), sy_last = Some (last values), sy_minimum = None,
                     sy_maximum = None, sy_mean = None,
                     sy_distinct_values = dict_keys (dict_of (map (\<lambda>v. (v, ())) values))\<rparr>
         else rbind (mapM to_float values) (\<lambda>numeric.
              rbind (float_min numeric) (\<lambda>lo.
              rbind (float_max numeric) (\<lambda>hi.
              rbind (float_of_int (int (length numeric))) (\<lambda>n.
              rbind (float_div (float_sum numeric) n) (\<lambda>mean.
                Inr \<lparr>sy_key = key, sy_value_type = Summary_Numeric,
                     sy_observation_count = int (length numeric),
                     sy_first = Some (hd values), sy_last = Some (last values), sy_minimum = Some lo,
                     sy_maximum = Some hi, sy_mean = Some mean, sy_distinct_values = []\<rparr>))))))"

section \<open>The pass over the frames\<close>

type_synonym center_capture = "diagnostic_state_at_time list \<times> diagnostic_freeze_frame list"

record investigation =
  nv_pipeline :: pipeline
  nv_series :: "(signal_key, signal_sample list) dict"
  nv_context :: "(signal_key, signal_sample) dict"
  nv_raw_frames :: "can_explorer_frame list"
  nv_window_events :: "diagnostic_event list"
  nv_decoded_signal_updates :: int
  nv_center :: "center_capture option"

definition state_at_center ::
  "diagnostic_engine \<Rightarrow> diagnostic_rule \<Rightarrow> diagnostic_state_at_time result" where
  "state_at_center d r =
     rbind (diagnostic_dtc d (rule_code r)) (\<lambda>v.
       Inr \<lparr>da_definition = rule_definition r, da_status = map_option dtc_status v, da_record = v\<rparr>)"

definition diagnostics_at_center ::
  "diagnostic_rule list \<Rightarrow> diagnostic_engine \<Rightarrow> center_capture result" where
  "diagnostics_at_center rules d =
     rbind (mapM (state_at_center d) rules) (\<lambda>states.
     rbind (mapM (\<lambda>r. diagnostic_freeze_frame_of d (rule_code r)) rules) (\<lambda>frames.
       Inr (states, List.map_filter id frames)))"

definition capture_center :: "diagnostic_rule list \<Rightarrow> investigation \<Rightarrow> investigation result" where
  "capture_center rules s =
     (case nv_center s of
        Some _ \<Rightarrow> Inr s
      | None \<Rightarrow>
          rbind (diagnostics_at_center rules (pl_diagnostics (nv_pipeline s))) (\<lambda>v.
            Inr (s\<lparr>nv_center := Some v\<rparr>)))"

text \<open>The four calls for a frame: what they return, and the engines after them.\<close>

type_synonym frame_analysis = "can_explorer_frame \<times> signal_sample list \<times> diagnostic_event list"

definition analyse_frame ::
  "msg_decoder \<Rightarrow> dbc_decoder \<Rightarrow> pipeline \<Rightarrow> raw_can_frame \<Rightarrow> (frame_analysis \<times> pipeline) result" where
  "analyse_frame msg_decode decoder p f =
     (case explorer_ingest msg_decode (pl_explorer p) f of
        (Inl ex, _) \<Rightarrow> Inl ex
      | (Inr annotated, x) \<Rightarrow>
          rbind (decode_frame msg_decode decoder f) (\<lambda>decoded.
            case telemetry_ingest (pl_engine p) decoded of
              (Inl ex, _) \<Rightarrow> Inl ex
            | (Inr samples, e) \<Rightarrow>
                rbind (telemetry_snapshot_of e None) (\<lambda>sn.
                  case diagnostic_ingest (pl_diagnostics p) sn of
                    (Inl ex, _) \<Rightarrow> Inl ex
                  | (Inr generated, d) \<Rightarrow>
                      Inr ((annotated, samples, generated),
                           \<lparr>pl_explorer = x, pl_engine = e, pl_diagnostics = d\<rparr>))))"

definition add_to_series ::
  "(signal_key, signal_sample list) dict \<Rightarrow> signal_sample \<Rightarrow> (signal_key, signal_sample list) dict" where
  "add_to_series series x =
     (case dict_get series (ss_key x) of
        None \<Rightarrow> series
      | Some xs \<Rightarrow> dict_set (ss_key x) (xs @ [x]) series)"

definition add_to_context ::
  "(signal_key, signal_sample list) dict \<Rightarrow> (signal_key, signal_sample) dict \<Rightarrow> signal_sample
     \<Rightarrow> (signal_key, signal_sample) dict" where
  "add_to_context series found x =
     (if dict_get series (ss_key x) = None then found else dict_set (ss_key x) x found)"

definition too_many_frames :: exn where
  "too_many_frames =
     Exn Investigation_Limit_Error
       (''investigation raw frame count exceeds '' @ str_int (int MAX_INVESTIGATION_RAW_FRAMES)
          @ ''; request a narrower window'')"

definition add_frame ::
  "investigation_window \<Rightarrow> raw_can_frame \<Rightarrow> frame_analysis \<Rightarrow> investigation \<Rightarrow> investigation result" where
  "add_frame w f a s =
     (case a of (annotated, samples, generated) \<Rightarrow>
        let s1 = (if timestamp_microseconds f \<le> iw_start w
                    then s\<lparr>nv_context := foldl (add_to_context (nv_series s)) (nv_context s) samples\<rparr>
                    else s)
        in if timestamp_microseconds f < iw_start w then Inr s1
           else if MAX_INVESTIGATION_RAW_FRAMES \<le> length (nv_raw_frames s1) then Inl too_many_frames
           else Inr (s1\<lparr>nv_raw_frames := nv_raw_frames s1 @ [annotated],
                        nv_decoded_signal_updates := nv_decoded_signal_updates s1 + int (length samples),
                        nv_series := foldl add_to_series (nv_series s1) samples,
                        nv_window_events := nv_window_events s1
                          @ filter (\<lambda>e. iw_start w \<le> ev_timestamp_microseconds e) generated\<rparr>))"

definition investigate_frame ::
  "msg_decoder \<Rightarrow> dbc_decoder \<Rightarrow> diagnostic_rule list \<Rightarrow> investigation_window \<Rightarrow> investigation
     \<Rightarrow> raw_can_frame \<Rightarrow> investigation result" where
  "investigate_frame msg_decode decoder rules w s f =
     rbind (if iw_center w < timestamp_microseconds f then capture_center rules s else Inr s) (\<lambda>s1.
       if iw_end w < timestamp_microseconds f then Inr s1
       else rbind (analyse_frame msg_decode decoder (nv_pipeline s1) f) (\<lambda>(a, p).
              add_frame w f a (s1\<lparr>nv_pipeline := p\<rparr>)))"

fun investigate_frames ::
  "msg_decoder \<Rightarrow> dbc_decoder \<Rightarrow> diagnostic_rule list \<Rightarrow> investigation_window \<Rightarrow> investigation
     \<Rightarrow> raw_can_frame list \<Rightarrow> investigation result" where
  "investigate_frames msg_decode decoder rules w s [] = Inr s"
| "investigate_frames msg_decode decoder rules w s (f # fs) =
     rbind (investigate_frame msg_decode decoder rules w s f)
       (\<lambda>s1. investigate_frames msg_decode decoder rules w s1 fs)"

section \<open>The service\<close>

definition new_investigation :: "signal_key list \<Rightarrow> pipeline \<Rightarrow> investigation" where
  "new_investigation selected p =
     \<lparr>nv_pipeline = p, nv_series = dict_of (map (\<lambda>k. (k, [])) selected), nv_context = [],
      nv_raw_frames = [], nv_window_events = [], nv_decoded_signal_updates = 0, nv_center = None\<rparr>"

text \<open>The private engines of an investigation.\<close>

definition investigation_engines :: "dbc_decoder \<Rightarrow> signal_catalog \<Rightarrow> diagnostic_catalog \<Rightarrow> pipeline result" where
  "investigation_engines decoder catalog rules =
     rbind (make_telemetry_engine catalog (Py_Int 1)) (\<lambda>e.
     rbind (make_diagnostic_engine rules (Py_Int DEFAULT_DIAGNOSTIC_EVENT_CAPACITY)) (\<lambda>d.
     rbind (make_can_explorer decoder (Py_Int 1)) (\<lambda>x.
       Inr \<lparr>pl_explorer = x, pl_engine = e, pl_diagnostics = d\<rparr>)))"

definition series_of :: "investigation \<Rightarrow> signal_key \<Rightarrow> signal_sample list" where
  "series_of s k = (case dict_get (nv_series s) k of None \<Rightarrow> [] | Some xs \<Rightarrow> xs)"

definition freeze_series ::
  "signal_catalog \<Rightarrow> investigation \<Rightarrow> signal_key \<Rightarrow> signal_series result" where
  "freeze_series catalog s k =
     rbind (catalog_require catalog k) (\<lambda>d. Inr \<lparr>sr_definition = d, sr_samples = series_of s k\<rparr>)"

text \<open>What follows the loop.\<close>

definition finish_investigation ::
  "session_manifest \<Rightarrow> investigation_window \<Rightarrow> signal_catalog \<Rightarrow> signal_key list \<Rightarrow> investigation
     \<Rightarrow> investigation_result result" where
  "finish_investigation m w catalog selected s =
     rbind (mapM (freeze_series catalog s) selected) (\<lambda>series.
     rbind (mapM summarize series) (\<lambda>summaries.
       case nv_center s of
         None \<Rightarrow> raise Assertion_Error ''diagnostic center state was not captured''
       | Some (states, frames) \<Rightarrow>
           Inr \<lparr>ir_session = m, ir_window = w, ir_available_signals = cat_definitions catalog,
                ir_selected_signals = selected,
                ir_start_context = List.map_filter (dict_get (nv_context s)) selected,
                ir_raw_frames = nv_raw_frames s, ir_telemetry_series = series,
                ir_signal_summaries = summaries, ir_diagnostic_events = nv_window_events s,
                ir_diagnostic_states_at_center = states, ir_freeze_frames_at_center = frames,
                ir_statistics =
                  \<lparr>is_raw_frame_count = int (length (nv_raw_frames s)),
                   is_decoded_signal_update_count = nv_decoded_signal_updates s,
                   is_diagnostic_event_count = int (length (nv_window_events s)),
                   is_selected_signal_counts = map (\<lambda>k. (k, int (length (series_of s k)))) selected,
                   is_window_duration_microseconds = window_duration w\<rparr>\<rparr>))"

definition investigate_reader ::
  "msg_decoder \<Rightarrow> dbc_decoder \<Rightarrow> session_reader \<Rightarrow> py_value \<Rightarrow> py_value \<Rightarrow> py_value
     \<Rightarrow> signal_key list option \<Rightarrow> string option \<Rightarrow> investigation_result result" where
  "investigate_reader msg_decode decoder rd center before after selected code =
     rbind (resolve_window (rd_manifest rd) center before after) (\<lambda>w.
     rbind (make_signal_catalog (dec_metadata decoder)) (\<lambda>catalog.
     rbind (create_default_diagnostic_catalog catalog) (\<lambda>rules.
     rbind (resolve_signals catalog rules selected code) (\<lambda>keys.
     rbind (investigation_engines decoder catalog rules) (\<lambda>p0.
       case reader_frames rd of (fs, ending) \<Rightarrow>
         rbind (investigate_frames msg_decode decoder (dc_rules rules) w (new_investigation keys p0) fs) (\<lambda>s.
           case ending of
             Some ex \<Rightarrow> Inl ex
           | None \<Rightarrow>
               rbind (capture_center (dc_rules rules) s) (\<lambda>s1.
                 finish_investigation (rd_manifest rd) w catalog keys s1)))))))"

definition investigate ::
  "msg_decoder \<Rightarrow> bytes \<Rightarrow> session_root \<Rightarrow> dbc_decoder \<Rightarrow> string \<Rightarrow> py_value \<Rightarrow> py_value \<Rightarrow> py_value
     \<Rightarrow> signal_key list option \<Rightarrow> string option \<Rightarrow> investigation_result result" where
  "investigate msg_decode resource dir decoder session_id center before after selected code =
     rbind (store_reader resource dir session_id True) (\<lambda>rd.
       investigate_reader msg_decode decoder rd center before after selected code)"

definition compatibility_differences :: "session_manifest \<Rightarrow> session_manifest \<Rightarrow> string list" where
  "compatibility_differences primary baseline =
     (if mf_dbc_sha256 primary \<noteq> mf_dbc_sha256 baseline then [''DBC hash''] else [])
     @ (if mf_can_network primary \<noteq> mf_can_network baseline then [''CAN network''] else [])
     @ (if mf_vehicle_profile_id primary \<noteq> mf_vehicle_profile_id baseline
        then [''vehicle profile''] else [])"

fun join_comma :: "string list \<Rightarrow> string" where
  "join_comma [] = ''''"
| "join_comma [x] = x"
| "join_comma (x # xs) = x @ '', '' @ join_comma xs"

definition require_compatible :: "session_manifest \<Rightarrow> session_manifest \<Rightarrow> unit result" where
  "require_compatible primary baseline =
     (let differences = compatibility_differences primary baseline
      in if differences \<noteq> []
           then raise Investigation_Compatibility_Error
             (''baseline is incompatible with primary session: '' @ join_comma differences)
         else Inr ())"

definition has_event :: "investigation_result \<Rightarrow> string option \<Rightarrow> bool option" where
  "has_event r code =
     (case code of
        None \<Rightarrow> None
      | Some c \<Rightarrow> Some (\<exists>e \<in> set (ir_diagnostic_events r). ev_code e = c))"

definition compare_summaries :: "signal_summary \<Rightarrow> signal_summary \<Rightarrow> signal_comparison" where
  "compare_summaries primary baseline =
     \<lparr>sc_key = sy_key primary, sc_primary = primary, sc_baseline = baseline,
      sc_mean_difference =
        (case (sy_mean primary, sy_mean baseline) of
           (Some x, Some y) \<Rightarrow> Some (float_sub x y)
         | _ \<Rightarrow> None)\<rparr>"

definition compare_sessions ::
  "msg_decoder \<Rightarrow> bytes \<Rightarrow> session_root \<Rightarrow> dbc_decoder \<Rightarrow> string \<Rightarrow> string \<Rightarrow> py_value \<Rightarrow> py_value
     \<Rightarrow> py_value \<Rightarrow> py_value \<Rightarrow> signal_key list option \<Rightarrow> string option
     \<Rightarrow> investigation_comparison result" where
  "compare_sessions msg_decode resource dir decoder primary_id baseline_id primary_center baseline_center
     before after selected code =
     rbind (store_reader resource dir primary_id True) (\<lambda>primary_reader.
     rbind (store_reader resource dir baseline_id True) (\<lambda>baseline_reader.
     rbind (require_compatible (rd_manifest primary_reader) (rd_manifest baseline_reader)) (\<lambda>_.
     rbind (investigate msg_decode resource dir decoder primary_id primary_center before after selected code)
       (\<lambda>primary.
     rbind (clamp_center (rd_manifest baseline_reader)
              (if baseline_center = Py_None then Py_Int (iw_center (ir_window primary)) else baseline_center))
       (\<lambda>center.
     rbind (investigate msg_decode resource dir decoder baseline_id (Py_Int center) before after
              (Some (ir_selected_signals primary)) code) (\<lambda>baseline.
     rbind (zip_strict (ir_signal_summaries primary) (ir_signal_summaries baseline)) (\<lambda>pairs.
       Inr \<lparr>ic_primary = primary, ic_baseline = baseline,
            ic_signal_comparisons = map (\<lambda>(x, y). compare_summaries x y) pairs,
            ic_diagnostic_code = code,
            ic_primary_has_diagnostic_event = has_event primary code,
            ic_baseline_has_diagnostic_event = has_event baseline code\<rparr>)))))))"

definition export_evidence ::
  "msg_decoder \<Rightarrow> bytes \<Rightarrow> session_root \<Rightarrow> dbc_decoder \<Rightarrow> string \<Rightarrow> string option \<Rightarrow> py_value \<Rightarrow> py_value
     \<Rightarrow> py_value \<Rightarrow> py_value \<Rightarrow> signal_key list option \<Rightarrow> string option
     \<Rightarrow> investigation_evidence_export result" where
  "export_evidence msg_decode resource dir decoder session_id baseline_id center baseline_center
     before after selected code =
     (let export_of = (\<lambda>investigation comparison.
            \<lparr>ie_format_name = INVESTIGATION_FORMAT_NAME, ie_format_version = INVESTIGATION_FORMAT_VERSION,
             ie_investigation = investigation, ie_baseline = map_option ic_baseline comparison,
             ie_signal_comparisons =
               (case comparison of None \<Rightarrow> [] | Some c \<Rightarrow> ic_signal_comparisons c),
             ie_diagnostic_code = code,
             ie_primary_has_diagnostic_event =
               (case comparison of None \<Rightarrow> None | Some c \<Rightarrow> ic_primary_has_diagnostic_event c),
             ie_baseline_has_diagnostic_event =
               (case comparison of None \<Rightarrow> None | Some c \<Rightarrow> ic_baseline_has_diagnostic_event c)\<rparr>)
      in (case baseline_id of
            None \<Rightarrow>
              rbind (investigate msg_decode resource dir decoder session_id center before after selected code)
                (\<lambda>r. Inr (export_of r None))
          | Some b \<Rightarrow>
              rbind (compare_sessions msg_decode resource dir decoder session_id b center baseline_center
                       before after selected code) (\<lambda>c. Inr (export_of (ic_primary c) (Some c)))))"

end
