(* ===== verification/Calibration_Catalog.thy ===== *)
theory Calibration_Catalog
  imports Py_Values
begin

text \<open>
  The public metadata of the synthetic calibration profiles (\<open>calibration/catalog.py\<close>). A float literal
  is the double nearest to the decimal it writes.
\<close>

section \<open>Data\<close>

definition SYNTHETIC_CALIBRATION_DISCLAIMER :: string where
  "SYNTHETIC_CALIBRATION_DISCLAIMER =
     ''Synthetic TunerOS simulation calibration. Not BMW factory data and not suitable for ''
     @ ''flashing or real-vehicle tuning.''"

record calibration_axis =
  ca_name :: string
  ca_unit :: string
  ca_breakpoints :: "pyfloat list"

record calibration_table =
  ct_table_id :: string
  ct_name :: string
  ct_value_unit :: string
  ct_row_axis :: calibration_axis
  ct_column_axis :: "calibration_axis option"
  ct_values :: "pyfloat list list"

record calibration_parameter =
  cp_name :: string
  cp_value :: pyfloat
  cp_unit :: string

record calibration_profile =
  cl_profile_id :: string
  cl_display_name :: string
  cl_revision :: int
  cl_description :: string
  cl_synthetic :: bool
  cl_disclaimer :: string
  cl_parameters :: "calibration_parameter list"
  cl_tables :: "calibration_table list"

section \<open>The profiles\<close>

definition make_axis :: "string \<Rightarrow> string \<Rightarrow> rat list \<Rightarrow> calibration_axis" where
  "make_axis name unit values =
     \<lparr>ca_name = name, ca_unit = unit, ca_breakpoints = map round_double values\<rparr>"

definition table1d ::
  "string \<Rightarrow> string \<Rightarrow> string \<Rightarrow> calibration_axis \<Rightarrow> rat list \<Rightarrow> calibration_table" where
  "table1d table_id name unit axis values =
     \<lparr>ct_table_id = table_id, ct_name = name, ct_value_unit = unit, ct_row_axis = axis,
      ct_column_axis = None, ct_values = [map round_double values]\<rparr>"

definition table2d ::
  "string \<Rightarrow> string \<Rightarrow> string \<Rightarrow> calibration_axis \<Rightarrow> calibration_axis \<Rightarrow> rat list list \<Rightarrow> calibration_table"
  where
  "table2d table_id name unit rows columns values =
     \<lparr>ct_table_id = table_id, ct_name = name, ct_value_unit = unit, ct_row_axis = rows,
      ct_column_axis = Some columns, ct_values = map (map round_double) values\<rparr>"

definition PEDAL :: calibration_axis where
  "PEDAL = make_axis ''Pedal'' ''normalized'' [0, 1/4, 1/2, 3/4, 1]"

definition BOOST_RPM :: calibration_axis where
  "BOOST_RPM = make_axis ''Engine speed'' ''rpm'' [1000, 2500, 4000, 5500, 6500]"

definition LOAD_3 :: calibration_axis where
  "LOAD_3 = make_axis ''Load'' ''normalized'' [0, 1/2, 1]"

definition LAMBDA_LOAD :: calibration_axis where
  "LAMBDA_LOAD = make_axis ''Load'' ''normalized'' [0, 1/2, 8/10, 1]"

definition IGNITION_RPM :: calibration_axis where
  "IGNITION_RPM = make_axis ''Engine speed'' ''rpm'' [2000, 3500, 5000, 6500]"

definition make_profile :: "string \<Rightarrow> calibration_profile" where
  "make_profile profile_id =
     (let stage1 = (profile_id = ''stage-1'')
      in \<lparr>cl_profile_id = profile_id,
          cl_display_name = (if stage1 then ''Stage 1'' else ''Stock''),
          cl_revision = 1,
          cl_description =
            (if stage1
               then ''TunerOS synthetic higher-output simulation calibration; not real tuning data.''
             else ''TunerOS synthetic baseline calibration for the simulated N54 powertrain.''),
          cl_synthetic = True,
          cl_disclaimer = SYNTHETIC_CALIBRATION_DISCLAIMER,
          cl_parameters =
            [\<lparr>cp_name = ''Boost response time constant'',
              cp_value = round_double (if stage1 then 65/100 else 80/100), cp_unit = ''s''\<rparr>,
             \<lparr>cp_name = ''Engine output multiplier'',
              cp_value = round_double (if stage1 then 108/100 else 1), cp_unit = ''ratio''\<rparr>],
          cl_tables =
            [table1d ''throttle-response'' ''Throttle response'' ''normalized load'' PEDAL
               (if stage1 then [0, 28/100, 60/100, 86/100, 1] else [0, 22/100, 48/100, 74/100, 1]),
             table2d ''boost-target'' ''Boost target'' ''kPa_gauge'' BOOST_RPM LOAD_3
               (if stage1
                  then [[0, 0, 0], [0, 35, 95], [0, 50, 125], [0, 45, 110], [0, 20, 65]]
                else [[0, 0, 0], [0, 25, 70], [0, 35, 90], [0, 28, 75], [0, 10, 40]]),
             table1d ''lambda-target'' ''Lambda target'' ''lambda'' LAMBDA_LOAD
               (if stage1 then [1, 1, 88/100, 82/100] else [1, 1, 90/100, 86/100]),
             table2d ''ignition-target'' ''Ignition target'' ''degrees'' IGNITION_RPM LOAD_3
               (if stage1 then [[18, 14, 9], [22, 16, 10], [24, 18, 9], [20, 14, 7]]
                else [[18, 14, 10], [22, 15, 8], [24, 16, 7], [20, 12, 5]])]\<rparr>)"

definition CALIBRATION_PROFILES :: "calibration_profile list" where
  "CALIBRATION_PROFILES = [make_profile ''stock'', make_profile ''stage-1'']"

definition calibration_profiles :: "calibration_profile list" where
  "calibration_profiles = CALIBRATION_PROFILES"

definition calibration_profile_of :: "string \<Rightarrow> calibration_profile result" where
  "calibration_profile_of profile_id =
     (case find (\<lambda>p. cl_profile_id p = profile_id) CALIBRATION_PROFILES of
        Some p \<Rightarrow> Inr p
      | None \<Rightarrow> raise Key_Error (py_repr (''unknown calibration profile '' @ py_repr profile_id)))"

section \<open>Decimal literals keep their order\<close>

lemma unit_small:
  assumes "0 < x" and "x \<le> 2 ^ 20"
  shows "pow2 (unit_exponent x) \<le> 1 / 2 ^ 30"
proof -
  have "pow2 (ilog2 x - 52) \<le> 1 / 2 ^ 30"
  proof (rule ccontr)
    assume "\<not> ?thesis"
    then have "pow2 (- 30) < pow2 (ilog2 x - 52)" by (simp add: pow2_def)
    then have "\<not> ilog2 x - 52 \<le> - 30" using pow2_mono [of "ilog2 x - 52" "- 30"] by (meson not_less)
    then have "pow2 22 \<le> pow2 (ilog2 x)" by (intro pow2_mono) simp
    also have "\<dots> \<le> x" by (rule pow2_ilog2 [OF assms(1)])
    finally show False using assms(2) by (simp add: pow2_def)
  qed
  moreover have "pow2 (- 1074) \<le> 1 / 2 ^ 30" using pow2_mono [of "- 1074" "- 30"] by (simp add: pow2_def)
  ultimately show ?thesis using assms(1) by (simp add: unit_exponent_def max_def)
qed

lemma round_double_close:
  assumes "0 \<le> x" and "x \<le> 2 ^ 20"
  shows "\<exists>y. round_double x = Finite y \<and> \<bar>y - x\<bar> \<le> 1 / 2 ^ 30"
proof (cases "x = 0")
  case False
  let ?u = "pow2 (unit_exponent x)"
  have u: "0 < ?u" "?u \<le> 1 / 2 ^ 30" using unit_small [of x] assms False by simp_all
  have "\<bar>x\<bar> \<le> 2 ^ 70" using assms by simp
  from round_double_finite [OF this] obtain y where y: "round_double x = Finite y" by blast
  then have yy: "y = of_int (round_half_even (x / ?u)) * ?u"
    using False by (auto simp: round_double_def Let_def split: if_splits)
  have "(x / ?u - 1) * ?u \<le> y" "y \<le> (x / ?u + 1) * ?u"
    unfolding yy using round_half_even_near [of "x / ?u"] u(1) by (simp_all add: mult_right_mono)
  then have "x - ?u \<le> y" "y \<le> x + ?u" using u(1) by (simp_all add: algebra_simps)
  then have "\<bar>y - x\<bar> \<le> 1 / 2 ^ 30" using u(2) by linarith
  then show ?thesis using y by blast
qed simp

lemma literals_ordered:
  assumes "0 \<le> x" and "y \<le> 2 ^ 20" and "x + 1 / 2 ^ 20 \<le> y"
  shows "float_less (round_double x) (round_double y)"
proof -
  obtain a where a: "round_double x = Finite a" "\<bar>a - x\<bar> \<le> 1 / 2 ^ 30"
    using round_double_close [of x] assms by auto
  obtain b where b: "round_double y = Finite b" "\<bar>b - y\<bar> \<le> 1 / 2 ^ 30"
    using round_double_close [of y] assms by auto
  have "(1::rat) / 2 ^ 20 > 1 / 2 ^ 30 + 1 / 2 ^ 30" by simp
  then have "a < b" using a(2) b(2) assms(3) by linarith
  then show ?thesis by (simp add: a b)
qed

section \<open>Shape of the tables\<close>

fun increasing :: "pyfloat list \<Rightarrow> bool" where
  "increasing (x # y # rest) \<longleftrightarrow> float_less x y \<and> increasing (y # rest)"
| "increasing _ \<longleftrightarrow> True"

definition table_well_shaped :: "calibration_table \<Rightarrow> bool" where
  "table_well_shaped t \<longleftrightarrow> increasing (ca_breakpoints (ct_row_axis t))
     \<and> (case ct_column_axis t of
          None \<Rightarrow> map length (ct_values t) = [length (ca_breakpoints (ct_row_axis t))]
        | Some c \<Rightarrow> increasing (ca_breakpoints c)
            \<and> map length (ct_values t)
                = replicate (length (ca_breakpoints (ct_row_axis t))) (length (ca_breakpoints c)))"

lemmas calibration_axes = PEDAL_def BOOST_RPM_def LOAD_3_def LAMBDA_LOAD_def IGNITION_RPM_def make_axis_def

lemma axes_increasing:
  "increasing (ca_breakpoints PEDAL)" "increasing (ca_breakpoints BOOST_RPM)" "increasing (ca_breakpoints LOAD_3)"
  "increasing (ca_breakpoints LAMBDA_LOAD)" "increasing (ca_breakpoints IGNITION_RPM)"
  by (simp_all add: calibration_axes literals_ordered [where x = 0, simplified] literals_ordered)

lemma axis_lengths [simp]:
  "length (ca_breakpoints PEDAL) = 5" "length (ca_breakpoints BOOST_RPM) = 5" "length (ca_breakpoints LOAD_3) = 3"
  "length (ca_breakpoints LAMBDA_LOAD) = 4" "length (ca_breakpoints IGNITION_RPM) = 4"
  by (simp_all add: calibration_axes)

lemma profile_well_shaped: "list_all table_well_shaped (cl_tables (make_profile i))"
  by (simp add: make_profile_def Let_def table1d_def table2d_def table_well_shaped_def axes_increasing numeral_eq_Suc)

definition table_layout :: "calibration_table \<Rightarrow> string \<times> calibration_axis \<times> calibration_axis option" where
  "table_layout t = (ct_table_id t, ct_row_axis t, ct_column_axis t)"

text \<open>C40: looking up a calibration profile gives the profile of that ID, or raises exactly when no profile has
  it; IDs are unique, every profile is marked synthetic, its tables have increasing axes and values of the
  shape of their axes, and the two profiles have the same tables over the same axes.\<close>

theorem calibration_catalog_exact:
  "(case calibration_profile_of i of
      Inr p \<Rightarrow> p \<in> set calibration_profiles \<and> cl_profile_id p = i
    | Inl e \<Rightarrow> e = Exn Key_Error (py_repr (''unknown calibration profile '' @ py_repr i))
        \<and> i \<notin> cl_profile_id ` set calibration_profiles)
   \<and> distinct (map cl_profile_id calibration_profiles)
   \<and> list_all (\<lambda>p. cl_synthetic p \<and> list_all table_well_shaped (cl_tables p)) calibration_profiles
   \<and> (\<exists>layout. map (\<lambda>p. map table_layout (cl_tables p)) calibration_profiles = [layout, layout])"
proof (intro conjI)
  show "case calibration_profile_of i of
      Inr p \<Rightarrow> p \<in> set calibration_profiles \<and> cl_profile_id p = i
    | Inl e \<Rightarrow> e = Exn Key_Error (py_repr (''unknown calibration profile '' @ py_repr i))
        \<and> i \<notin> cl_profile_id ` set calibration_profiles"
    by (auto simp: calibration_profile_of_def calibration_profiles_def find_Some_iff find_None_iff split: option.splits)
  show "distinct (map cl_profile_id calibration_profiles)"
    by (simp add: calibration_profiles_def CALIBRATION_PROFILES_def make_profile_def Let_def)
  show "list_all (\<lambda>p. cl_synthetic p \<and> list_all table_well_shaped (cl_tables p)) calibration_profiles"
    using profile_well_shaped
    by (simp add: calibration_profiles_def CALIBRATION_PROFILES_def) (simp add: make_profile_def Let_def)
  show "\<exists>layout. map (\<lambda>p. map table_layout (cl_tables p)) calibration_profiles = [layout, layout]"
    by (simp add: calibration_profiles_def CALIBRATION_PROFILES_def make_profile_def Let_def table_layout_def
        table1d_def table2d_def)
qed

end
