(* ===== verification/Api_Models.thy ===== *)
theory Api_Models
  imports Investigation_Service Calibration_Catalog Telemetry_Service
begin

text \<open>
  The serialization contracts of the HTTP and WebSocket interface (\<open>api/models.py\<close>): one record per
  response class, one field per attribute. The classes only declare typed fields; their base class
  comes from the \<open>pydantic\<close> package, which on values of the declared types keeps them as they are. An
  attribute with a set of literal strings is the datatype that names them, the constant \<open>type\<close> tags are
  strings.
\<close>

record signal_key_response =
  rk_message_name :: string
  rk_signal_name :: string

record signal_definition_response =
  rdf_key :: signal_key_response
  rdf_signal_name :: string
  rdf_message_name :: string
  rdf_arbitration_id :: int
  rdf_arbitration_id_hex :: string
  rdf_source_ecu :: string
  rdf_unit :: string
  rdf_expected_period_microseconds :: int

record signal_sample_response =
  rsm_key :: signal_key_response
  rsm_value :: signal_value
  rsm_timestamp_microseconds :: int
  rsm_frame_sequence :: int
  rsm_arbitration_id :: int
  rsm_arbitration_id_hex :: string
  rsm_message_name :: string
  rsm_source_ecu :: string
  rsm_unit :: string
  rsm_freshness :: "signal_freshness option"

record message_frame_count_response =
  rmf_arbitration_id :: int
  rmf_arbitration_id_hex :: string
  rmf_message_name :: string
  rmf_frames :: int

record telemetry_statistics_response =
  rts_total_frames :: int
  rts_total_signal_updates :: int
  rts_latest_timestamp_microseconds :: "int option"
  rts_last_frame_sequence :: "int option"
  rts_frames_by_message :: "message_frame_count_response list"

record telemetry_snapshot_response =
  rsn_observation_timestamp_microseconds :: "int option"
  rsn_last_frame_sequence :: "int option"
  rsn_signals :: "signal_sample_response list"
  rsn_statistics :: telemetry_statistics_response

record telemetry_status_response =
  rst_service_state :: telemetry_service_state
  rst_gateway_connected :: bool
  rst_last_error :: "string option"
  rst_latest_timestamp_microseconds :: "int option"
  rst_total_frames :: int
  rst_total_signal_updates :: int

record telemetry_source_response =
  rso_mode :: telemetry_source_mode
  rso_session_id :: "string option"
  rso_session_name :: "string option"
  rso_recording :: bool
  rso_recorded_frame_count :: int

record can_decoded_signal_response =
  rcs_signal_name :: string
  rcs_value :: signal_value
  rcs_unit :: string

record can_explorer_frame_response =
  rcf_sequence :: int
  rcf_timestamp_microseconds :: int
  rcf_arbitration_id :: int
  rcf_arbitration_id_hex :: string
  rcf_dlc :: int
  rcf_payload :: "int list"
  rcf_payload_hex :: string
  rcf_message_name :: "string option"
  rcf_source_ecu :: "string option"
  rcf_expected_period_microseconds :: "int option"
  rcf_decode_status :: can_decode_status
  rcf_decode_error :: "string option"
  rcf_decoded_signals :: "can_decoded_signal_response list"

record can_message_statistics_response =
  rcm_arbitration_id :: int
  rcm_arbitration_id_hex :: string
  rcm_message_name :: "string option"
  rcm_source_ecu :: "string option"
  rcm_retained_frame_count :: int
  rcm_total_frame_count :: int
  rcm_first_timestamp_microseconds :: int
  rcm_latest_timestamp_microseconds :: int
  rcm_expected_period_microseconds :: "int option"
  rcm_observed_average_period_microseconds :: "pyfloat option"
  rcm_observed_frequency_hz :: "pyfloat option"
  rcm_latest_dlc :: int

record can_explorer_statistics_response =
  rce_retained_frame_count :: int
  rce_total_frame_count :: int
  rce_unique_id_count :: int
  rce_oldest_retained_timestamp_microseconds :: "int option"
  rce_newest_retained_timestamp_microseconds :: "int option"
  rce_last_sequence :: "int option"
  rce_source :: telemetry_source_response

record initial_can_snapshot_event_response =
  rci_type :: string
  rci_frames :: "can_explorer_frame_response list"
  rci_statistics :: can_explorer_statistics_response
  rci_messages :: "can_message_statistics_response list"
  rci_service_state :: telemetry_service_state

record can_frame_event_response =
  rcv_type :: string
  rcv_frame :: can_explorer_frame_response
  rcv_statistics :: can_explorer_statistics_response
  rcv_message_statistics :: can_message_statistics_response

record can_source_state_event_response =
  rcc_type :: string
  rcc_state :: telemetry_service_state
  rcc_error :: "string option"
  rcc_source :: telemetry_source_response

record diagnostic_definition_response =
  rdd_code :: string
  rdd_rule_id :: string
  rdd_name :: string
  rdd_description :: string
  rdd_severity :: diagnostic_severity
  rdd_source_system :: string
  rdd_required_signals :: "signal_key_response list"
  rdd_confirmation_duration_microseconds :: int
  rdd_recovery_duration_microseconds :: int
  rdd_activation_description :: string
  rdd_recovery_description :: string

record diagnostic_trouble_code_response =
  rtc_definition :: diagnostic_definition_response
  rtc_status :: diagnostic_status
  rtc_first_detected_timestamp_microseconds :: int
  rtc_confirmed_timestamp_microseconds :: "int option"
  rtc_last_seen_timestamp_microseconds :: int
  rtc_resolved_timestamp_microseconds :: "int option"
  rtc_cleared_timestamp_microseconds :: "int option"
  rtc_occurrence_count :: int
  rtc_freeze_frame_available :: bool

record diagnostic_summary_response =
  rdm_observation_timestamp_microseconds :: "int option"
  rdm_latest_telemetry_frame_sequence :: "int option"
  rdm_retained_event_count :: int
  rdm_total_event_count :: int
  rdm_latest_event_sequence :: "int option"
  rdm_pending_count :: int
  rdm_active_count :: int
  rdm_historical_count :: int
  rdm_cleared_count :: int
  rdm_service_state :: telemetry_service_state
  rdm_source :: telemetry_source_response

record diagnostic_event_response =
  rev_sequence :: int
  rev_timestamp_microseconds :: int
  rev_code :: string
  rev_event_type :: diagnostic_event_type
  rev_prior_status :: "diagnostic_status option"
  rev_new_status :: "diagnostic_status option"

record freeze_frame_signal_response =
  rfs_key :: signal_key_response
  rfs_value :: signal_value
  rfs_unit :: string
  rfs_source_ecu :: string
  rfs_arbitration_id :: int
  rfs_arbitration_id_hex :: string
  rfs_timestamp_microseconds :: int
  rfs_telemetry_frame_sequence :: int

record diagnostic_freeze_frame_response =
  rff_code :: string
  rff_capture_timestamp_microseconds :: int
  rff_telemetry_frame_sequence :: int
  rff_signals :: "freeze_frame_signal_response list"

record session_summary_response =
  rss_session_id :: string
  rss_name :: "string option"
  rss_created_at_utc :: string
  rss_scenario :: "string option"
  rss_status :: session_status
  rss_frame_count :: int
  rss_duration_microseconds :: int
  rss_dbc_compatible :: bool
  rss_calibration_id :: "string option"
  rss_calibration_revision :: "int option"

record session_detail_response = session_summary_response +
  rsd_format_name :: string
  rsd_format_version :: int
  rsd_vehicle_profile_id :: string
  rsd_can_network :: string
  rsd_dbc_name :: string
  rsd_dbc_sha256 :: string
  rsd_frames_sha256 :: string
  rsd_first_timestamp_microseconds :: "int option"
  rsd_last_timestamp_microseconds :: "int option"

record session_replay_response =
  rsr_session_id :: string
  rsr_session_name :: "string option"
  rsr_source_mode :: string
  rsr_service_state :: string

record calibration_axis_response =
  rca_name :: string
  rca_unit :: string
  rca_breakpoints :: "pyfloat list"

record calibration_table_response =
  rct_table_id :: string
  rct_name :: string
  rct_value_unit :: string
  rct_row_axis :: calibration_axis_response
  rct_column_axis :: "calibration_axis_response option"
  rct_values :: "pyfloat list list"

record calibration_parameter_response =
  rcp_name :: string
  rcp_value :: pyfloat
  rcp_unit :: string

record calibration_profile_response =
  rcl_profile_id :: string
  rcl_display_name :: string
  rcl_revision :: int
  rcl_description :: string
  rcl_synthetic :: bool
  rcl_disclaimer :: string
  rcl_parameters :: "calibration_parameter_response list"
  rcl_tables :: "calibration_table_response list"

record investigation_window_response =
  riw_requested_center_timestamp_microseconds :: int
  riw_center_timestamp_microseconds :: int
  riw_requested_before_microseconds :: int
  riw_requested_after_microseconds :: int
  riw_start_timestamp_microseconds :: int
  riw_end_timestamp_microseconds :: int
  riw_duration_microseconds :: int

record investigation_signal_series_response =
  ris_definition :: signal_definition_response
  ris_samples :: "signal_sample_response list"

record investigation_signal_summary_response =
  riy_key :: signal_key_response
  riy_value_type :: summary_type
  riy_observation_count :: int
  riy_first :: "signal_value option"
  riy_last :: "signal_value option"
  riy_minimum :: "pyfloat option"
  riy_maximum :: "pyfloat option"
  riy_mean :: "pyfloat option"
  riy_distinct_values :: "signal_value list"

datatype status_at_time = Absent | At_Time diagnostic_status

record diagnostic_state_at_time_response =
  rda_definition :: diagnostic_definition_response
  rda_status :: status_at_time
  rda_record :: "diagnostic_trouble_code_response option"

record selected_signal_count_response =
  rsc_key :: signal_key_response
  rsc_count :: int

record investigation_statistics_response =
  rit_raw_frame_count :: int
  rit_decoded_signal_update_count :: int
  rit_diagnostic_event_count :: int
  rit_selected_signal_counts :: "selected_signal_count_response list"
  rit_window_duration_microseconds :: int

record investigation_response =
  rir_session :: session_detail_response
  rir_window :: investigation_window_response
  rir_available_signals :: "signal_definition_response list"
  rir_selected_signals :: "signal_key_response list"
  rir_start_context :: "signal_sample_response list"
  rir_raw_frames :: "can_explorer_frame_response list"
  rir_telemetry_series :: "investigation_signal_series_response list"
  rir_signal_summaries :: "investigation_signal_summary_response list"
  rir_diagnostic_events :: "diagnostic_event_response list"
  rir_diagnostic_states_at_center :: "diagnostic_state_at_time_response list"
  rir_freeze_frames_at_center :: "diagnostic_freeze_frame_response list"
  rir_statistics :: investigation_statistics_response

record signal_comparison_response =
  rcmp_key :: signal_key_response
  rcmp_primary :: investigation_signal_summary_response
  rcmp_baseline :: investigation_signal_summary_response
  rcmp_mean_difference :: "pyfloat option"

record investigation_comparison_response =
  ric_primary :: investigation_response
  ric_baseline :: investigation_response
  ric_signal_comparisons :: "signal_comparison_response list"
  ric_diagnostic_code :: "string option"
  ric_primary_has_diagnostic_event :: "bool option"
  ric_baseline_has_diagnostic_event :: "bool option"

record investigation_evidence_export_response =
  rie_format_name :: string
  rie_format_version :: int
  rie_investigation :: investigation_response
  rie_baseline :: "investigation_response option"
  rie_signal_comparisons :: "signal_comparison_response list"
  rie_diagnostic_code :: "string option"
  rie_primary_has_diagnostic_event :: "bool option"
  rie_baseline_has_diagnostic_event :: "bool option"

record signal_response =
  rsg_definition :: signal_definition_response
  rsg_sample :: "signal_sample_response option"
  rsg_freshness :: "signal_freshness option"

record signal_history_response =
  rsh_definition :: signal_definition_response
  rsh_samples :: "signal_sample_response list"

record initial_snapshot_event_response =
  rin_type :: string
  rin_snapshot :: telemetry_snapshot_response

record telemetry_update_event_response =
  ru_type :: string
  ru_timestamp_microseconds :: int
  ru_frame_sequence :: int
  ru_arbitration_id :: int
  ru_arbitration_id_hex :: string
  ru_message_name :: string
  ru_source_ecu :: string
  ru_signals :: "signal_sample_response list"

record service_state_event_response =
  rse_type :: string
  rse_state :: telemetry_service_state
  rse_error :: "string option"

end
