(* ===== verification/Api_Serialization.thy ===== *)
theory Api_Serialization
  imports Api_Models
begin

text \<open>
  The adaptation of domain values to the response models (\<open>api/serialization.py\<close>), one definition per
  function. A function is a result where its body can raise: a statistics table with an identifier
  the catalog does not define, an update whose samples and states do not pair up, a session without
  a frame hash.
\<close>

section \<open>Text\<close>

definition format_arbitration_id :: "int \<Rightarrow> string" where
  "format_arbitration_id aid = ''0x'' @ hex03 aid"

definition hex02 :: "u8 \<Rightarrow> string" where
  "hex02 b = zero_pad 2 (hex_upper (uint b))"

definition key_response :: "signal_key \<Rightarrow> signal_key_response" where
  "key_response k = \<lparr>rk_message_name = key_message_name k, rk_signal_name = key_signal_name k\<rparr>"

section \<open>The source and the diagnostics\<close>

definition serialize_source :: "telemetry_source_status \<Rightarrow> telemetry_source_response" where
  "serialize_source src =
     \<lparr>rso_mode = so_mode src, rso_session_id = so_session_id src,
      rso_session_name = so_session_name src, rso_recording = so_recording src,
      rso_recorded_frame_count = so_recorded_frame_count src\<rparr>"

definition serialize_diagnostic_definition ::
  "diagnostic_definition \<Rightarrow> diagnostic_definition_response" where
  "serialize_diagnostic_definition d =
     \<lparr>rdd_code = dd_code d, rdd_rule_id = dd_rule_id d, rdd_name = dd_name d,
      rdd_description = dd_description d, rdd_severity = dd_severity d,
      rdd_source_system = dd_source_system d,
      rdd_required_signals = map key_response (dd_required_signals d),
      rdd_confirmation_duration_microseconds = dd_confirmation_duration_microseconds d,
      rdd_recovery_duration_microseconds = dd_recovery_duration_microseconds d,
      rdd_activation_description = dd_activation_description d,
      rdd_recovery_description = dd_recovery_description d\<rparr>"

definition serialize_dtc :: "diagnostic_trouble_code \<Rightarrow> diagnostic_trouble_code_response" where
  "serialize_dtc t =
     \<lparr>rtc_definition = serialize_diagnostic_definition (dtc_definition t), rtc_status = dtc_status t,
      rtc_first_detected_timestamp_microseconds = dtc_first_detected t,
      rtc_confirmed_timestamp_microseconds = dtc_confirmed t,
      rtc_last_seen_timestamp_microseconds = dtc_last_seen t,
      rtc_resolved_timestamp_microseconds = dtc_resolved t,
      rtc_cleared_timestamp_microseconds = dtc_cleared t,
      rtc_occurrence_count = dtc_occurrence_count t,
      rtc_freeze_frame_available = dtc_freeze_frame_available t\<rparr>"

definition serialize_diagnostic_summary ::
  "diagnostic_snapshot \<Rightarrow> telemetry_source_status \<Rightarrow> telemetry_service_state
     \<Rightarrow> diagnostic_summary_response" where
  "serialize_diagnostic_summary sn src state =
     \<lparr>rdm_observation_timestamp_microseconds = ds_observation_timestamp_microseconds sn,
      rdm_latest_telemetry_frame_sequence = ds_latest_telemetry_frame_sequence sn,
      rdm_retained_event_count = ds_retained_event_count sn,
      rdm_total_event_count = ds_total_event_count sn,
      rdm_latest_event_sequence = ds_latest_event_sequence sn,
      rdm_pending_count = ds_pending_count sn, rdm_active_count = ds_active_count sn,
      rdm_historical_count = ds_historical_count sn, rdm_cleared_count = ds_cleared_count sn,
      rdm_service_state = state, rdm_source = serialize_source src\<rparr>"

definition serialize_diagnostic_event :: "diagnostic_event \<Rightarrow> diagnostic_event_response" where
  "serialize_diagnostic_event e =
     \<lparr>rev_sequence = ev_sequence e, rev_timestamp_microseconds = ev_timestamp_microseconds e,
      rev_code = ev_code e, rev_event_type = ev_event_type e, rev_prior_status = ev_prior_status e,
      rev_new_status = ev_new_status e\<rparr>"

definition serialize_freeze_frame_signal :: "freeze_frame_signal \<Rightarrow> freeze_frame_signal_response" where
  "serialize_freeze_frame_signal x =
     \<lparr>rfs_key = key_response (ffs_key x), rfs_value = ffs_value x, rfs_unit = ffs_unit x,
      rfs_source_ecu = ffs_source_ecu x, rfs_arbitration_id = ffs_arbitration_id x,
      rfs_arbitration_id_hex = format_arbitration_id (ffs_arbitration_id x),
      rfs_timestamp_microseconds = ffs_timestamp_microseconds x,
      rfs_telemetry_frame_sequence = ffs_telemetry_frame_sequence x\<rparr>"

definition serialize_diagnostic_freeze_frame ::
  "diagnostic_freeze_frame \<Rightarrow> diagnostic_freeze_frame_response" where
  "serialize_diagnostic_freeze_frame fr =
     \<lparr>rff_code = ff_code fr,
      rff_capture_timestamp_microseconds = ff_capture_timestamp_microseconds fr,
      rff_telemetry_frame_sequence = ff_telemetry_frame_sequence fr,
      rff_signals = map serialize_freeze_frame_signal (ff_signals fr)\<rparr>"

section \<open>CAN frames\<close>

definition serialize_can_signal :: "can_explorer_signal \<Rightarrow> can_decoded_signal_response" where
  "serialize_can_signal x =
     \<lparr>rcs_signal_name = es_signal_name x, rcs_value = es_value x, rcs_unit = es_unit x\<rparr>"

definition serialize_can_frame :: "can_explorer_frame \<Rightarrow> can_explorer_frame_response" where
  "serialize_can_frame x =
     (let raw = ef_raw_frame x
      in \<lparr>rcf_sequence = ef_sequence x, rcf_timestamp_microseconds = timestamp_microseconds raw,
          rcf_arbitration_id = arbitration_id raw,
          rcf_arbitration_id_hex = format_arbitration_id (arbitration_id raw),
          rcf_dlc = payload_length raw, rcf_payload = map uint (payload raw),
          rcf_payload_hex = join_space (map hex02 (payload raw)),
          rcf_message_name = ef_message_name x, rcf_source_ecu = ef_source_ecu x,
          rcf_expected_period_microseconds = ef_expected_period_microseconds x,
          rcf_decode_status = ef_decode_status x, rcf_decode_error = ef_decode_error x,
          rcf_decoded_signals = map serialize_can_signal (ef_decoded_signals x)\<rparr>)"

definition serialize_can_message_statistics ::
  "can_message_statistics \<Rightarrow> can_message_statistics_response" where
  "serialize_can_message_statistics m =
     \<lparr>rcm_arbitration_id = cm_arbitration_id m,
      rcm_arbitration_id_hex = format_arbitration_id (cm_arbitration_id m),
      rcm_message_name = cm_message_name m, rcm_source_ecu = cm_source_ecu m,
      rcm_retained_frame_count = cm_retained_frame_count m,
      rcm_total_frame_count = cm_total_frame_count m,
      rcm_first_timestamp_microseconds = cm_first_timestamp_microseconds m,
      rcm_latest_timestamp_microseconds = cm_latest_timestamp_microseconds m,
      rcm_expected_period_microseconds = cm_expected_period_microseconds m,
      rcm_observed_average_period_microseconds = cm_observed_average_period_microseconds m,
      rcm_observed_frequency_hz = cm_observed_frequency_hz m, rcm_latest_dlc = cm_latest_dlc m\<rparr>"

definition serialize_can_statistics ::
  "can_explorer_statistics \<Rightarrow> telemetry_source_status \<Rightarrow> can_explorer_statistics_response" where
  "serialize_can_statistics st src =
     \<lparr>rce_retained_frame_count = cs_retained_frame_count st,
      rce_total_frame_count = cs_total_frame_count st, rce_unique_id_count = cs_unique_id_count st,
      rce_oldest_retained_timestamp_microseconds = cs_oldest_retained_timestamp_microseconds st,
      rce_newest_retained_timestamp_microseconds = cs_newest_retained_timestamp_microseconds st,
      rce_last_sequence = cs_last_sequence st, rce_source = serialize_source src\<rparr>"

definition serialize_initial_can_snapshot ::
  "can_explorer_snapshot \<Rightarrow> telemetry_source_status \<Rightarrow> telemetry_service_state
     \<Rightarrow> initial_can_snapshot_event_response" where
  "serialize_initial_can_snapshot sn src state =
     \<lparr>rci_type = ''initial_can_snapshot'', rci_frames = map serialize_can_frame (cx_frames sn),
      rci_statistics = serialize_can_statistics (cx_statistics sn) src,
      rci_messages = map serialize_can_message_statistics (cx_messages sn),
      rci_service_state = state\<rparr>"

definition serialize_can_update ::
  "can_explorer_update \<Rightarrow> telemetry_source_status \<Rightarrow> can_frame_event_response" where
  "serialize_can_update u src =
     \<lparr>rcv_type = ''can_frame'', rcv_frame = serialize_can_frame (cu_frame u),
      rcv_statistics = serialize_can_statistics (cu_statistics u) src,
      rcv_message_statistics = serialize_can_message_statistics (cu_message_statistics u)\<rparr>"

definition serialize_can_source_state ::
  "telemetry_service_state_update \<Rightarrow> telemetry_source_status \<Rightarrow> can_source_state_event_response" where
  "serialize_can_source_state u src =
     \<lparr>rcc_type = ''can_source_state'', rcc_state = su_state u, rcc_error = su_error u,
      rcc_source = serialize_source src\<rparr>"

section \<open>Telemetry\<close>

definition serialize_definition :: "signal_definition \<Rightarrow> signal_definition_response" where
  "serialize_definition d =
     \<lparr>rdf_key = key_response (sd_key d), rdf_signal_name = key_signal_name (sd_key d),
      rdf_message_name = sd_message_name d, rdf_arbitration_id = sd_arbitration_id d,
      rdf_arbitration_id_hex = format_arbitration_id (sd_arbitration_id d),
      rdf_source_ecu = sd_source_ecu d, rdf_unit = sd_unit d,
      rdf_expected_period_microseconds = sd_expected_period_microseconds d\<rparr>"

definition serialize_sample :: "signal_sample \<Rightarrow> signal_freshness option \<Rightarrow> signal_sample_response" where
  "serialize_sample x freshness =
     \<lparr>rsm_key = key_response (ss_key x), rsm_value = ss_value x,
      rsm_timestamp_microseconds = ss_timestamp_microseconds x,
      rsm_frame_sequence = ss_frame_sequence x, rsm_arbitration_id = ss_arbitration_id x,
      rsm_arbitration_id_hex = format_arbitration_id (ss_arbitration_id x),
      rsm_message_name = ss_message_name x, rsm_source_ecu = ss_source_ecu x, rsm_unit = ss_unit x,
      rsm_freshness = freshness\<rparr>"

text \<open>The service passed to a function is only asked for its signal catalog.\<close>

definition service_catalog :: "telemetry_service \<Rightarrow> signal_catalog" where
  "service_catalog s = te_catalog (pl_engine (ts_pipeline s))"

definition names_by_id :: "signal_catalog \<Rightarrow> (int, string) dict" where
  "names_by_id c = dict_of (map (\<lambda>d. (sd_arbitration_id d, sd_message_name d)) (cat_definitions c))"

definition message_count ::
  "(int, string) dict \<Rightarrow> int \<times> int \<Rightarrow> message_frame_count_response result" where
  "message_count names entry =
     (case entry of (aid, frames) \<Rightarrow>
        (case dict_get names aid of
           None \<Rightarrow> raise Key_Error (str_int aid)
         | Some name \<Rightarrow>
             Inr \<lparr>rmf_arbitration_id = aid, rmf_arbitration_id_hex = format_arbitration_id aid,
                  rmf_message_name = name, rmf_frames = frames\<rparr>))"

definition serialize_statistics ::
  "telemetry_statistics \<Rightarrow> telemetry_service \<Rightarrow> telemetry_statistics_response result" where
  "serialize_statistics st s =
     rbind (mapM (message_count (names_by_id (service_catalog s))) (sort (st_frames_by_arbitration_id st)))
       (\<lambda>counted. Inr
          \<lparr>rts_total_frames = st_total_frames st, rts_total_signal_updates = st_total_signal_updates st,
           rts_latest_timestamp_microseconds = st_latest_timestamp_microseconds st,
           rts_last_frame_sequence = st_last_frame_sequence st, rts_frames_by_message = counted\<rparr>)"

definition serialize_snapshot ::
  "telemetry_snapshot \<Rightarrow> telemetry_service \<Rightarrow> telemetry_snapshot_response result" where
  "serialize_snapshot sn s =
     rbind (serialize_statistics (sn_statistics sn) s) (\<lambda>st. Inr
       \<lparr>rsn_observation_timestamp_microseconds = sn_observation_timestamp_microseconds sn,
        rsn_last_frame_sequence = sn_last_frame_sequence sn,
        rsn_signals = map (\<lambda>(k, x). serialize_sample x (snapshot_status sn k)) (sn_samples sn),
        rsn_statistics = st\<rparr>)"

definition serialize_initial_snapshot ::
  "telemetry_snapshot \<Rightarrow> telemetry_service \<Rightarrow> initial_snapshot_event_response result" where
  "serialize_initial_snapshot sn s =
     rbind (serialize_snapshot sn s) (\<lambda>r. Inr \<lparr>rin_type = ''initial_snapshot'', rin_snapshot = r\<rparr>)"

definition serialize_update :: "telemetry_update \<Rightarrow> telemetry_update_event_response result" where
  "serialize_update u =
     rbind (zip_strict (tu_samples u) (tu_freshness u)) (\<lambda>pairs. Inr
       \<lparr>ru_type = ''telemetry_update'', ru_timestamp_microseconds = tu_timestamp_microseconds u,
        ru_frame_sequence = tu_frame_sequence u, ru_arbitration_id = tu_arbitration_id u,
        ru_arbitration_id_hex = format_arbitration_id (tu_arbitration_id u),
        ru_message_name = tu_message_name u, ru_source_ecu = tu_source_ecu u,
        ru_signals = map (\<lambda>(x, v). serialize_sample x (Some v)) pairs\<rparr>)"

definition serialize_service_state ::
  "telemetry_service_state_update \<Rightarrow> service_state_event_response" where
  "serialize_service_state u =
     \<lparr>rse_type = ''service_state'', rse_state = su_state u, rse_error = su_error u\<rparr>"

section \<open>Sessions and calibrations\<close>

definition serialize_session_summary :: "session_manifest \<Rightarrow> bool \<Rightarrow> session_summary_response" where
  "serialize_session_summary m dbc_compatible =
     \<lparr>rss_session_id = mf_session_id m, rss_name = mf_name m, rss_created_at_utc = mf_created_at_utc m,
      rss_scenario = mf_scenario m, rss_status = mf_status m, rss_frame_count = mf_frame_count m,
      rss_duration_microseconds = mf_duration_microseconds m, rss_dbc_compatible = dbc_compatible,
      rss_calibration_id = mf_calibration_id m, rss_calibration_revision = mf_calibration_revision m\<rparr>"

definition serialize_axis :: "calibration_axis \<Rightarrow> calibration_axis_response" where
  "serialize_axis a =
     \<lparr>rca_name = ca_name a, rca_unit = ca_unit a, rca_breakpoints = ca_breakpoints a\<rparr>"

definition serialize_table :: "calibration_table \<Rightarrow> calibration_table_response" where
  "serialize_table t =
     \<lparr>rct_table_id = ct_table_id t, rct_name = ct_name t, rct_value_unit = ct_value_unit t,
      rct_row_axis = serialize_axis (ct_row_axis t),
      rct_column_axis = map_option serialize_axis (ct_column_axis t), rct_values = ct_values t\<rparr>"

definition serialize_calibration :: "calibration_profile \<Rightarrow> calibration_profile_response" where
  "serialize_calibration p =
     \<lparr>rcl_profile_id = cl_profile_id p, rcl_display_name = cl_display_name p,
      rcl_revision = cl_revision p, rcl_description = cl_description p, rcl_synthetic = True,
      rcl_disclaimer = cl_disclaimer p,
      rcl_parameters =
        map (\<lambda>x. \<lparr>rcp_name = cp_name x, rcp_value = cp_value x, rcp_unit = cp_unit x\<rparr>) (cl_parameters p),
      rcl_tables = map serialize_table (cl_tables p)\<rparr>"

text \<open>The detail response extends the summary's dictionary by its own fields.\<close>

definition serialize_session_detail ::
  "session_manifest \<Rightarrow> bool \<Rightarrow> session_detail_response result" where
  "serialize_session_detail m dbc_compatible =
     (case mf_frames_sha256 m of
        None \<Rightarrow> raise Assertion_Error ''complete session must have a frame-file hash''
      | Some frames_sha256 \<Rightarrow> Inr (session_summary_response.extend
          (serialize_session_summary m dbc_compatible)
          (session_detail_response.fields (mf_format_name m) (mf_format_version m)
             (mf_vehicle_profile_id m) (mf_can_network m) (mf_dbc_name m) (mf_dbc_sha256 m) frames_sha256
             (mf_first_timestamp_microseconds m) (mf_last_timestamp_microseconds m))))"

section \<open>Investigations\<close>

definition serialize_investigation_summary ::
  "signal_summary \<Rightarrow> investigation_signal_summary_response" where
  "serialize_investigation_summary y =
     \<lparr>riy_key = key_response (sy_key y), riy_value_type = sy_value_type y,
      riy_observation_count = sy_observation_count y, riy_first = sy_first y, riy_last = sy_last y,
      riy_minimum = sy_minimum y, riy_maximum = sy_maximum y, riy_mean = sy_mean y,
      riy_distinct_values = sy_distinct_values y\<rparr>"

definition serialize_window :: "investigation_window \<Rightarrow> investigation_window_response" where
  "serialize_window w =
     \<lparr>riw_requested_center_timestamp_microseconds = iw_requested_center w,
      riw_center_timestamp_microseconds = iw_center w,
      riw_requested_before_microseconds = iw_requested_before w,
      riw_requested_after_microseconds = iw_requested_after w,
      riw_start_timestamp_microseconds = iw_start w, riw_end_timestamp_microseconds = iw_end w,
      riw_duration_microseconds = window_duration w\<rparr>"

definition serialize_state_at_center ::
  "diagnostic_state_at_time \<Rightarrow> diagnostic_state_at_time_response" where
  "serialize_state_at_center x =
     \<lparr>rda_definition = serialize_diagnostic_definition (da_definition x),
      rda_status = (case da_status x of None \<Rightarrow> Absent | Some status \<Rightarrow> At_Time status),
      rda_record = map_option serialize_dtc (da_record x)\<rparr>"

definition serialize_investigation_statistics ::
  "investigation_statistics \<Rightarrow> investigation_statistics_response" where
  "serialize_investigation_statistics st =
     \<lparr>rit_raw_frame_count = is_raw_frame_count st,
      rit_decoded_signal_update_count = is_decoded_signal_update_count st,
      rit_diagnostic_event_count = is_diagnostic_event_count st,
      rit_selected_signal_counts =
        map (\<lambda>(k, n). \<lparr>rsc_key = key_response k, rsc_count = n\<rparr>) (is_selected_signal_counts st),
      rit_window_duration_microseconds = is_window_duration_microseconds st\<rparr>"

definition serialize_investigation :: "investigation_result \<Rightarrow> investigation_response result" where
  "serialize_investigation r =
     rbind (serialize_session_detail (ir_session r) True) (\<lambda>session. Inr
       \<lparr>rir_session = session, rir_window = serialize_window (ir_window r),
        rir_available_signals = map serialize_definition (ir_available_signals r),
        rir_selected_signals = map key_response (ir_selected_signals r),
        rir_start_context = map (\<lambda>x. serialize_sample x None) (ir_start_context r),
        rir_raw_frames = map serialize_can_frame (ir_raw_frames r),
        rir_telemetry_series =
          map (\<lambda>x. \<lparr>ris_definition = serialize_definition (sr_definition x),
                    ris_samples = map (\<lambda>y. serialize_sample y None) (sr_samples x)\<rparr>)
            (ir_telemetry_series r),
        rir_signal_summaries = map serialize_investigation_summary (ir_signal_summaries r),
        rir_diagnostic_events = map serialize_diagnostic_event (ir_diagnostic_events r),
        rir_diagnostic_states_at_center =
          map serialize_state_at_center (ir_diagnostic_states_at_center r),
        rir_freeze_frames_at_center =
          map serialize_diagnostic_freeze_frame (ir_freeze_frames_at_center r),
        rir_statistics = serialize_investigation_statistics (ir_statistics r)\<rparr>)"

definition serialize_signal_comparison :: "signal_comparison \<Rightarrow> signal_comparison_response" where
  "serialize_signal_comparison x =
     \<lparr>rcmp_key = key_response (sc_key x),
      rcmp_primary = serialize_investigation_summary (sc_primary x),
      rcmp_baseline = serialize_investigation_summary (sc_baseline x),
      rcmp_mean_difference = sc_mean_difference x\<rparr>"

definition serialize_investigation_comparison ::
  "investigation_comparison \<Rightarrow> investigation_comparison_response result" where
  "serialize_investigation_comparison c =
     rbind (serialize_investigation (ic_primary c)) (\<lambda>primary.
     rbind (serialize_investigation (ic_baseline c)) (\<lambda>baseline. Inr
       \<lparr>ric_primary = primary, ric_baseline = baseline,
        ric_signal_comparisons = map serialize_signal_comparison (ic_signal_comparisons c),
        ric_diagnostic_code = ic_diagnostic_code c,
        ric_primary_has_diagnostic_event = ic_primary_has_diagnostic_event c,
        ric_baseline_has_diagnostic_event = ic_baseline_has_diagnostic_event c\<rparr>))"

definition serialize_investigation_export ::
  "investigation_evidence_export \<Rightarrow> investigation_evidence_export_response result" where
  "serialize_investigation_export x =
     rbind (serialize_investigation (ie_investigation x)) (\<lambda>investigation.
     rbind (case ie_baseline x of
              None \<Rightarrow> Inr None
            | Some b \<Rightarrow> rbind (serialize_investigation b) (\<lambda>r. Inr (Some r))) (\<lambda>baseline. Inr
       \<lparr>rie_format_name = ie_format_name x, rie_format_version = ie_format_version x,
        rie_investigation = investigation, rie_baseline = baseline,
        rie_signal_comparisons = map serialize_signal_comparison (ie_signal_comparisons x),
        rie_diagnostic_code = ie_diagnostic_code x,
        rie_primary_has_diagnostic_event = ie_primary_has_diagnostic_event x,
        rie_baseline_has_diagnostic_event = ie_baseline_has_diagnostic_event x\<rparr>))"

end
