(* ===== verification/Api_Handlers.thy ===== *)
theory Api_Handlers
  imports Api_Serialization
begin

text \<open>
  The HTTP endpoints (\<open>api/app.py\<close>). An endpoint gives its response, or what the \<open>fastapi\<close> package
  turns into an error response: an \<open>HTTPException\<close> with its status and detail, a request refused by
  the declared bounds of its parameters, or an exception no clause catches. \<open>resource\<close>, \<open>dir\<close>,
  \<open>decoder\<close> and \<open>md\<close> are the packaged database, the session root, the decoder and the frame decoder
  of \<open>canmatrix\<close>.
\<close>

section \<open>Error responses\<close>

datatype http_error = HTTP_Exception int string | Request_Refused | Uncaught exn

type_synonym 'a http = "http_error + 'a"

definition http_status :: "'a http \<Rightarrow> int" where
  "http_status r =
     (case r of
        Inr _ \<Rightarrow> 200
      | Inl (HTTP_Exception status _) \<Rightarrow> status
      | Inl Request_Refused \<Rightarrow> 422
      | Inl (Uncaught _) \<Rightarrow> 500)"

definition hbind :: "'a http \<Rightarrow> ('a \<Rightarrow> 'b http) \<Rightarrow> 'b http" where
  "hbind m f = (case m of Inl e \<Rightarrow> Inl e | Inr x \<Rightarrow> f x)"

lemma hbind_simps [simp]: "hbind (Inl e) f = Inl e" "hbind (Inr x) f = f x"
  by (simp_all add: hbind_def)

text \<open>A \<open>try\<close> block whose clauses raise \<open>HTTPException\<close> with a status and the text of the error.\<close>

fun except_clauses :: "(exn_class \<times> int) list \<Rightarrow> exn \<Rightarrow> http_error" where
  "except_clauses [] e = Uncaught e"
| "except_clauses ((c, status) # rest) e =
     (if catches c e then HTTP_Exception status (exn_message e) else except_clauses rest e)"

definition tried :: "(exn_class \<times> int) list \<Rightarrow> 'a result \<Rightarrow> 'a http" where
  "tried clauses r = (case r of Inl e \<Rightarrow> Inl (except_clauses clauses e) | Inr x \<Rightarrow> Inr x)"

abbreviation untried :: "'a result \<Rightarrow> 'a http" where
  "untried \<equiv> tried []"

definition not_found :: "string \<Rightarrow> 'a option \<Rightarrow> 'a http" where
  "not_found detail v = (case v of None \<Rightarrow> Inl (HTTP_Exception 404 detail) | Some x \<Rightarrow> Inr x)"

text \<open>The bounds a \<open>Query\<close> or \<open>Path\<close> declares.\<close>

definition bounded_query :: "int \<Rightarrow> int option \<Rightarrow> int \<Rightarrow> 'a http \<Rightarrow> 'a http" where
  "bounded_query lo hi v k =
     (if v < lo \<or> (case hi of None \<Rightarrow> False | Some h \<Rightarrow> h < v) then Inl Request_Refused else k)"

definition bounded_opt :: "int \<Rightarrow> int option \<Rightarrow> int option \<Rightarrow> 'a http \<Rightarrow> 'a http" where
  "bounded_opt lo hi v k = (case v of None \<Rightarrow> k | Some i \<Rightarrow> bounded_query lo hi i k)"

section \<open>Constants\<close>

abbreviation (input) DEFAULT_CAN_FRAME_QUERY_LIMIT :: int where "DEFAULT_CAN_FRAME_QUERY_LIMIT \<equiv> 500"

abbreviation (input) MAX_CAN_FRAME_QUERY_LIMIT :: int where "MAX_CAN_FRAME_QUERY_LIMIT \<equiv> 1000"

abbreviation (input) CAN_WEBSOCKET_INITIAL_FRAME_LIMIT :: int where
  "CAN_WEBSOCKET_INITIAL_FRAME_LIMIT \<equiv> 1000"

abbreviation (input) DEFAULT_DIAGNOSTIC_EVENT_QUERY_LIMIT :: int where
  "DEFAULT_DIAGNOSTIC_EVENT_QUERY_LIMIT \<equiv> 200"

abbreviation (input) MAX_DIAGNOSTIC_EVENT_QUERY_LIMIT :: int where
  "MAX_DIAGNOSTIC_EVENT_QUERY_LIMIT \<equiv> 1024"

section \<open>Construction\<close>

definition app_service ::
  "dbc_decoder \<Rightarrow> telemetry_service option \<Rightarrow> telemetry_service_config option \<Rightarrow> telemetry_service result"
  where
  "app_service decoder service config =
     (if service \<noteq> None \<and> config \<noteq> None then raise Value_Error ''pass service or config, not both''
      else case service of
          Some s \<Rightarrow> Inr s
        | None \<Rightarrow>
            make_telemetry_service (case config of None \<Rightarrow> default_service_config | Some c \<Rightarrow> c)
              decoder None None None None)"

text \<open>What happens before the application serves its first request.\<close>

definition app_startup ::
  "bytes \<Rightarrow> session_root \<Rightarrow> string option \<Rightarrow> bool \<Rightarrow> telemetry_service \<Rightarrow> unit result \<times> telemetry_service"
  where
  "app_startup resource dir initial_replay autostart s =
     (case initial_replay of
        Some i \<Rightarrow>
          (case store_reader resource dir i True of
             Inl e \<Rightarrow> (Inl e, s)
           | Inr rd \<Rightarrow>
               service_start_replay (mf_session_id (rd_manifest rd)) (mf_name (rd_manifest rd)) True s)
      | None \<Rightarrow> if autostart then service_start s else (Inr (), s))"

section \<open>Signals\<close>

definition resolve_unique_signal :: "telemetry_service \<Rightarrow> string \<Rightarrow> signal_key http" where
  "resolve_unique_signal s name =
     hbind (tried [(Telemetry_Schema_Error, 409)] (find_unique_signal (service_catalog s) name))
       (not_found (''unknown signal '' @ py_repr name))"

definition resolve_canonical_signal :: "telemetry_service \<Rightarrow> string \<Rightarrow> string \<Rightarrow> signal_key http" where
  "resolve_canonical_signal s message name =
     (let k = Signal_Key message name
      in hbind (not_found (''unknown signal '' @ message @ ''.'' @ name) (catalog_get (service_catalog s) k))
           (\<lambda>_. Inr k))"

definition signal_response_of :: "telemetry_service \<Rightarrow> signal_key \<Rightarrow> signal_response http" where
  "signal_response_of s k =
     untried (rbind (catalog_require (service_catalog s) k) (\<lambda>d.
       rbind (service_latest s k) (\<lambda>(x, freshness). Inr
         \<lparr>rsg_definition = serialize_definition d,
          rsg_sample = map_option (\<lambda>y. serialize_sample y freshness) x, rsg_freshness = freshness\<rparr>)))"

definition history_response_of ::
  "telemetry_service \<Rightarrow> signal_key \<Rightarrow> int option \<Rightarrow> signal_history_response http" where
  "history_response_of s k limit =
     (let capacity = int_value (cf_history_capacity (ts_config s))
      in if (case limit of None \<Rightarrow> False | Some n \<Rightarrow> capacity < n)
           then Inl (HTTP_Exception 422
             (''limit cannot exceed configured history capacity '' @ str_int capacity))
         else untried (rbind (catalog_require (service_catalog s) k) (\<lambda>d.
           rbind (service_history s k limit) (\<lambda>h. Inr
             \<lparr>rsh_definition = serialize_definition d,
              rsh_samples = map (\<lambda>x. serialize_sample x None) h\<rparr>))))"

definition get_signal :: "telemetry_service \<Rightarrow> string \<Rightarrow> signal_response http" where
  "get_signal s name = hbind (resolve_unique_signal s name) (signal_response_of s)"

definition get_canonical_signal :: "telemetry_service \<Rightarrow> string \<Rightarrow> string \<Rightarrow> signal_response http" where
  "get_canonical_signal s message name =
     hbind (resolve_canonical_signal s message name) (signal_response_of s)"

definition get_signal_history ::
  "telemetry_service \<Rightarrow> string \<Rightarrow> int option \<Rightarrow> signal_history_response http" where
  "get_signal_history s name limit =
     bounded_opt 1 None limit
       (hbind (resolve_unique_signal s name) (\<lambda>k. history_response_of s k limit))"

definition get_canonical_signal_history ::
  "telemetry_service \<Rightarrow> string \<Rightarrow> string \<Rightarrow> int option \<Rightarrow> signal_history_response http" where
  "get_canonical_signal_history s message name limit =
     bounded_opt 1 None limit
       (hbind (resolve_canonical_signal s message name) (\<lambda>k. history_response_of s k limit))"

definition get_catalog :: "telemetry_service \<Rightarrow> signal_definition_response list http" where
  "get_catalog s = Inr (map serialize_definition (cat_definitions (service_catalog s)))"

definition get_telemetry :: "telemetry_service \<Rightarrow> telemetry_snapshot_response http" where
  "get_telemetry s = untried (rbind (service_snapshot s) (\<lambda>sn. serialize_snapshot sn s))"

definition get_statistics :: "telemetry_service \<Rightarrow> telemetry_statistics_response http" where
  "get_statistics s = untried (serialize_statistics (service_statistics s) s)"

definition get_status :: "telemetry_service \<Rightarrow> telemetry_status_response http" where
  "get_status s =
     (let status = service_status s
      in Inr \<lparr>rst_service_state = st_state status, rst_gateway_connected = gateway_connected status,
              rst_last_error = st_last_error status,
              rst_latest_timestamp_microseconds = st_latest_timestamp_microseconds (st_statistics status),
              rst_total_frames = st_total_frames (st_statistics status),
              rst_total_signal_updates = st_total_signal_updates (st_statistics status)\<rparr>)"

definition get_source :: "telemetry_service \<Rightarrow> telemetry_source_response http" where
  "get_source s = Inr (serialize_source (source_status s))"

section \<open>Calibrations\<close>

definition get_calibrations :: "calibration_profile_response list http" where
  "get_calibrations = Inr (map serialize_calibration calibration_profiles)"

definition get_calibration :: "string \<Rightarrow> calibration_profile_response http" where
  "get_calibration i =
     tried [(Key_Error, 404)] (rbind (calibration_profile_of i) (\<lambda>p. Inr (serialize_calibration p)))"

section \<open>CAN frames and diagnostics\<close>

definition get_can_frames ::
  "telemetry_service \<Rightarrow> int \<Rightarrow> int option \<Rightarrow> string option \<Rightarrow> string option
     \<Rightarrow> can_explorer_frame_response list http" where
  "get_can_frames s limit aid message ecu =
     bounded_query 1 (Some MAX_CAN_FRAME_QUERY_LIMIT) limit (bounded_opt 0 (Some 0x7FF) aid
       (untried (rbind (can_frames s (Py_Int limit) aid message ecu) (\<lambda>fs.
          Inr (map serialize_can_frame fs)))))"

definition get_can_frame :: "telemetry_service \<Rightarrow> int \<Rightarrow> can_explorer_frame_response http" where
  "get_can_frame s n =
     bounded_query 0 None n
       (hbind (not_found (''CAN frame sequence '' @ str_int n @ '' not retained'') (can_frame s n))
          (\<lambda>x. Inr (serialize_can_frame x)))"

definition get_can_statistics :: "telemetry_service \<Rightarrow> can_explorer_statistics_response http" where
  "get_can_statistics s = Inr (serialize_can_statistics (can_statistics s) (source_status s))"

definition get_can_messages :: "telemetry_service \<Rightarrow> can_message_statistics_response list http" where
  "get_can_messages s =
     untried (rbind (can_message_statistics_of s) (\<lambda>ms. Inr (map serialize_can_message_statistics ms)))"

definition get_diagnostic_summary :: "telemetry_service \<Rightarrow> diagnostic_summary_response http" where
  "get_diagnostic_summary s =
     untried (rbind (service_diagnostic_snapshot s) (\<lambda>sn.
       Inr (serialize_diagnostic_summary sn (source_status s) (ts_state s))))"

definition get_diagnostic_dtcs ::
  "telemetry_service \<Rightarrow> diagnostic_status option \<Rightarrow> diagnostic_trouble_code_response list http" where
  "get_diagnostic_dtcs s status =
     untried (rbind (service_dtcs s status) (\<lambda>ts. Inr (map serialize_dtc ts)))"

definition get_diagnostic_events :: "telemetry_service \<Rightarrow> int \<Rightarrow> diagnostic_event_response list http" where
  "get_diagnostic_events s limit =
     bounded_query 1 (Some MAX_DIAGNOSTIC_EVENT_QUERY_LIMIT) limit
       (untried (rbind (service_events s (Py_Int limit)) (\<lambda>evs.
          Inr (map serialize_diagnostic_event evs))))"

definition get_diagnostic_dtc :: "telemetry_service \<Rightarrow> string \<Rightarrow> diagnostic_trouble_code_response http" where
  "get_diagnostic_dtc s code =
     hbind (tried [(Unknown_Diagnostic_Code_Error, 404)] (service_dtc s code)) (\<lambda>v.
     hbind (not_found (''diagnostic code '' @ py_repr code @ '' has no DTC'') v) (\<lambda>t.
       Inr (serialize_dtc t)))"

definition get_diagnostic_freeze_frame ::
  "telemetry_service \<Rightarrow> string \<Rightarrow> diagnostic_freeze_frame_response http" where
  "get_diagnostic_freeze_frame s code =
     hbind (tried [(Unknown_Diagnostic_Code_Error, 404)] (service_freeze_frame s code)) (\<lambda>v.
     hbind (not_found (''diagnostic code '' @ py_repr code @ '' has no freeze frame'') v) (\<lambda>fr.
       Inr (serialize_diagnostic_freeze_frame fr)))"

definition clear_diagnostic_dtc ::
  "telemetry_service \<Rightarrow> string \<Rightarrow> diagnostic_trouble_code_response http \<times> telemetry_service" where
  "clear_diagnostic_dtc s code =
     (case clear_diagnostic s code of (r, s1) \<Rightarrow>
        (tried [(Unknown_Diagnostic_Code_Error, 404), (Diagnostic_Clear_Error, 409)]
           (rbind r (\<lambda>t. Inr (serialize_dtc t))), s1))"

section \<open>Sessions\<close>

definition get_sessions :: "bytes \<Rightarrow> session_root \<Rightarrow> session_summary_response list http" where
  "get_sessions resource dir =
     tried [(Session_Error, 409)] (rbind (store_list dir) (\<lambda>ms.
       Inr (map (\<lambda>m. serialize_session_summary m (compatibility resource m)) ms)))"

definition get_session :: "bytes \<Rightarrow> session_root \<Rightarrow> string \<Rightarrow> session_detail_response http" where
  "get_session resource dir i =
     hbind (tried [(Key_Error, 404), (Session_Error, 409)] (store_reader resource dir i False)) (\<lambda>rd.
       untried (serialize_session_detail (rd_manifest rd) (compatibility resource (rd_manifest rd))))"

text \<open>Opening the session and starting the replay are one \<open>try\<close> block.\<close>

definition replay_session_request ::
  "bytes \<Rightarrow> session_root \<Rightarrow> string \<Rightarrow> telemetry_service \<Rightarrow> session_replay_response http \<times> telemetry_service"
  where
  "replay_session_request resource dir i s =
     (let clauses = [(Key_Error, 404), (Session_Error, 409), (Runtime_Error, 409)]
      in (case store_reader resource dir i True of
            Inl e \<Rightarrow> (Inl (except_clauses clauses e), s)
          | Inr rd \<Rightarrow>
              let m = rd_manifest rd
              in (case service_start_replay (mf_session_id m) (mf_name m) True s of (r, s1) \<Rightarrow>
                    (tried clauses (rbind r (\<lambda>_. Inr
                       \<lparr>rsr_session_id = mf_session_id m, rsr_session_name = mf_name m,
                        rsr_source_mode = ''replay'', rsr_service_state = ''running''\<rparr>)), s1))))"

section \<open>Investigations\<close>

text \<open>\<open>value.partition(".")\<close>: the text before the first dot, whether there is one, the text after it.\<close>

fun partition_dot :: "string \<Rightarrow> string \<times> bool \<times> string" where
  "partition_dot [] = ([], False, [])"
| "partition_dot (c # cs) =
     (if c = CHR ''.'' then ([], True, cs)
      else (case partition_dot cs of (a, found, b) \<Rightarrow> (c # a, found, b)))"

definition investigation_signal :: "string \<Rightarrow> signal_key http" where
  "investigation_signal v =
     (case partition_dot v of (message, separator, name) \<Rightarrow>
        if \<not> separator \<or> message = [] \<or> name = []
          then Inl (HTTP_Exception 422 ''signal must use canonical MessageName.SignalName form'')
        else Inr (Signal_Key message name))"

fun collect_signals :: "string list \<Rightarrow> signal_key list http" where
  "collect_signals [] = Inr []"
| "collect_signals (v # vs) =
     hbind (investigation_signal v) (\<lambda>k. hbind (collect_signals vs) (\<lambda>ks. Inr (k # ks)))"

definition investigation_signals :: "string list option \<Rightarrow> signal_key list option http" where
  "investigation_signals values =
     (case values of
        None \<Rightarrow> Inr None
      | Some vs \<Rightarrow> hbind (collect_signals vs) (\<lambda>ks. Inr (Some ks)))"

definition investigation_error :: "exn \<Rightarrow> http_error" where
  "investigation_error e =
     (if catches Key_Error e then HTTP_Exception 404 (exn_message e)
      else if catches Investigation_Compatibility_Error e then HTTP_Exception 409 (exn_message e)
      else if catches Investigation_Limit_Error e then HTTP_Exception 413 (exn_message e)
      else if catches Session_Error e then HTTP_Exception 409 (exn_message e)
      else HTTP_Exception 422 (exn_message e))"

definition investigation_tried :: "exn_class list \<Rightarrow> 'a result \<Rightarrow> 'a http" where
  "investigation_tried classes r =
     (case r of
        Inl e \<Rightarrow> Inl (if \<exists>c \<in> set classes. catches c e then investigation_error e else Uncaught e)
      | Inr x \<Rightarrow> Inr x)"

text \<open>The classes named by the three \<open>except\<close> clauses; the first one leaves out incompatibility.\<close>

definition single_session_errors :: "exn_class list" where
  "single_session_errors =
     [Key_Error, Session_Error, Investigation_Query_Error, Investigation_Limit_Error, Diagnostic_Error,
      Telemetry_Schema_Error]"

definition comparison_errors :: "exn_class list" where
  "comparison_errors =
     [Key_Error, Session_Error, Investigation_Query_Error, Investigation_Limit_Error,
      Investigation_Compatibility_Error, Diagnostic_Error, Telemetry_Schema_Error]"

definition optional_int :: "int option \<Rightarrow> py_value" where
  "optional_int v = (case v of None \<Rightarrow> Py_None | Some i \<Rightarrow> Py_Int i)"

text \<open>The query parameters that the three endpoints share.\<close>

record investigation_query =
  iq_center_us :: "int option"
  iq_before_us :: int
  iq_after_us :: int
  iq_signal :: "string list option"
  iq_code :: "string option"

definition checked_query :: "investigation_query \<Rightarrow> 'a http \<Rightarrow> 'a http" where
  "checked_query q k =
     bounded_opt 0 None (iq_center_us q)
       (bounded_query 0 None (iq_before_us q) (bounded_query 0 None (iq_after_us q) k))"

definition get_session_investigation ::
  "msg_decoder \<Rightarrow> bytes \<Rightarrow> session_root \<Rightarrow> dbc_decoder \<Rightarrow> string \<Rightarrow> investigation_query
     \<Rightarrow> investigation_response http" where
  "get_session_investigation md resource dir decoder i q =
     checked_query q
       (hbind (investigation_signals (iq_signal q)) (\<lambda>selected.
        hbind (investigation_tried single_session_errors
          (investigate md resource dir decoder i (optional_int (iq_center_us q)) (Py_Int (iq_before_us q))
             (Py_Int (iq_after_us q)) selected (iq_code q))) (\<lambda>r.
          untried (serialize_investigation r))))"

definition compare_session_investigation ::
  "msg_decoder \<Rightarrow> bytes \<Rightarrow> session_root \<Rightarrow> dbc_decoder \<Rightarrow> string \<Rightarrow> string \<Rightarrow> int option
     \<Rightarrow> investigation_query \<Rightarrow> investigation_comparison_response http" where
  "compare_session_investigation md resource dir decoder i baseline baseline_center q =
     checked_query q (bounded_opt 0 None baseline_center
       (hbind (investigation_signals (iq_signal q)) (\<lambda>selected.
        hbind (investigation_tried comparison_errors
          (compare_sessions md resource dir decoder i baseline (optional_int (iq_center_us q))
             (optional_int baseline_center) (Py_Int (iq_before_us q)) (Py_Int (iq_after_us q)) selected
             (iq_code q))) (\<lambda>c.
          untried (serialize_investigation_comparison c)))))"

text \<open>The export, with the name of the file it is offered under.\<close>

definition export_session_investigation ::
  "msg_decoder \<Rightarrow> bytes \<Rightarrow> session_root \<Rightarrow> dbc_decoder \<Rightarrow> string \<Rightarrow> string option \<Rightarrow> int option
     \<Rightarrow> investigation_query \<Rightarrow> (investigation_evidence_export_response \<times> string) http" where
  "export_session_investigation md resource dir decoder i baseline baseline_center q =
     checked_query q (bounded_opt 0 None baseline_center
       (hbind (investigation_signals (iq_signal q)) (\<lambda>selected.
        hbind (investigation_tried comparison_errors
          (export_evidence md resource dir decoder i baseline (optional_int (iq_center_us q))
             (optional_int baseline_center) (Py_Int (iq_before_us q)) (Py_Int (iq_after_us q)) selected
             (iq_code q))) (\<lambda>x.
        hbind (untried (serialize_investigation_export x)) (\<lambda>r. Inr
          (r, ''tuneros-investigation-'' @ i @ ''-''
                @ str_int (riw_center_timestamp_microseconds (rir_window (rie_investigation r)))
                @ ''.json''))))))"

end
