(* ===== verification/Api_Websocket.thy ===== *)
theory Api_Websocket
  imports Api_Handlers
begin

text \<open>
  The two WebSocket endpoints (\<open>api/app.py\<close>). A connection is what the endpoint sends over it, given
  the items its subscription receives, and how the endpoint ends: it waits for the next item, it
  returns, or an exception leaves it. A client that goes away lets a number of sends through; the next
  one raises \<open>WebSocketDisconnect\<close>, on which the endpoint returns.
\<close>

section \<open>Connections\<close>

datatype 'm ws_action = Send 'm | Close int "string option"

datatype ws_end = Waiting | Returned | Failed_With exn

type_synonym 'm connection = "'m ws_action list \<times> ws_end"

definition then_do :: "'m ws_action list \<Rightarrow> 'm connection \<Rightarrow> 'm connection" where
  "then_do acts c = (acts @ fst c, snd c)"

text \<open>The same connection when the client lets only \<open>n\<close> actions through.\<close>

definition disconnect_after :: "nat \<Rightarrow> 'm connection \<Rightarrow> 'm connection" where
  "disconnect_after n c = (if length (fst c) \<le> n then c else (take n (fst c), Returned))"

definition closes_with :: "telemetry_service_state \<Rightarrow> int option" where
  "closes_with state =
     (case state of
        COMPLETED \<Rightarrow> Some 1000 | STOPPED \<Rightarrow> Some 1000 | FAILED \<Rightarrow> Some 1011 | _ \<Rightarrow> None)"

text \<open>
  The loop after the greeting; \<open>adapt\<close> makes the message of an event, from what the service answers when
  the event is handled.
\<close>

fun subscriber_loop ::
  "('c \<Rightarrow> service_event \<Rightarrow> 'm result) \<Rightarrow> (subscriber_item \<times> 'c) list \<Rightarrow> 'm connection" where
  "subscriber_loop adapt [] = ([], Waiting)"
| "subscriber_loop adapt ((Subscriber_Closed reason, now) # items) = ([Close 1013 (Some reason)], Returned)"
| "subscriber_loop adapt ((Event_Item e, now) # items) =
     (case adapt now e of
        Inl ex \<Rightarrow> ([], Failed_With ex)
      | Inr msg \<Rightarrow>
          (case (case e of State_Event u \<Rightarrow> closes_with (su_state u) | _ \<Rightarrow> None) of
             Some code \<Rightarrow> ([Send msg, Close code None], Returned)
           | None \<Rightarrow> then_do [Send msg] (subscriber_loop adapt items)))"

text \<open>The greeting ends the connection when the source has already ended.\<close>

definition greeting_done :: "telemetry_service_state \<Rightarrow> bool" where
  "greeting_done state \<longleftrightarrow> state \<in> {COMPLETED, FAILED}"

definition greeting_code :: "telemetry_service_state \<Rightarrow> int" where
  "greeting_code state = (if state = COMPLETED then 1000 else 1011)"

section \<open>Telemetry\<close>

datatype telemetry_message =
    Initial_Snapshot initial_snapshot_event_response
  | Update_Message telemetry_update_event_response
  | State_Message service_state_event_response

fun telemetry_event_message :: "service_event \<Rightarrow> telemetry_message result" where
  "telemetry_event_message (Telemetry_Event u) = rbind (serialize_update u) (\<lambda>r. Inr (Update_Message r))"
| "telemetry_event_message (State_Event u) = Inr (State_Message (serialize_service_state u))"
| "telemetry_event_message (Can_Event u) = raise Assertion_Error ''unknown telemetry subscriber item''"

definition telemetry_connection ::
  "telemetry_service \<Rightarrow> telemetry_snapshot \<Rightarrow> telemetry_service_status \<Rightarrow> subscriber_item list
     \<Rightarrow> telemetry_message connection" where
  "telemetry_connection s sn status items =
     (case serialize_initial_snapshot sn s of
        Inl ex \<Rightarrow> ([], Failed_With ex)
      | Inr initial \<Rightarrow>
          then_do [Send (Initial_Snapshot initial)]
            (if greeting_done (st_state status)
             then ([Send (State_Message \<lparr>rse_type = ''service_state'', rse_state = st_state status,
                                         rse_error = st_last_error status\<rparr>),
                    Close (greeting_code (st_state status)) None], Returned)
             else subscriber_loop (\<lambda>_. telemetry_event_message) (map (\<lambda>x. (x, ())) items)))"

definition telemetry_websocket ::
  "telemetry_service \<Rightarrow> subscriber_item list \<Rightarrow> nat \<Rightarrow> telemetry_message connection \<times> telemetry_service"
  where
  "telemetry_websocket s items sends =
     (case service_subscribe s of
        (Inl ex, s1) \<Rightarrow> (([], Failed_With ex), s1)
      | (Inr (i, sn, status), s1) \<Rightarrow>
          (disconnect_after sends (telemetry_connection s1 sn status items), s1))"

section \<open>Raw frames\<close>

datatype can_message =
    Initial_Can initial_can_snapshot_event_response
  | Can_Frame_Message can_frame_event_response
  | Can_State_Message can_source_state_event_response

text \<open>\<open>now\<close> is the source status when the item is handled.\<close>

fun can_event_message :: "telemetry_source_status \<Rightarrow> service_event \<Rightarrow> can_message result" where
  "can_event_message now (Can_Event u) = Inr (Can_Frame_Message (serialize_can_update u now))"
| "can_event_message now (State_Event u) = Inr (Can_State_Message (serialize_can_source_state u now))"
| "can_event_message now (Telemetry_Event u) = raise Assertion_Error ''unknown CAN explorer subscriber item''"

definition can_connection ::
  "can_explorer_snapshot \<Rightarrow> telemetry_service_status \<Rightarrow> telemetry_source_status
     \<Rightarrow> (subscriber_item \<times> telemetry_source_status) list \<Rightarrow> can_message connection" where
  "can_connection sn status src items =
     then_do [Send (Initial_Can (serialize_initial_can_snapshot sn src (st_state status)))]
       (if greeting_done (st_state status)
        then ([Send (Can_State_Message \<lparr>rcc_type = ''can_source_state'', rcc_state = st_state status,
                                        rcc_error = st_last_error status, rcc_source = serialize_source src\<rparr>),
               Close (greeting_code (st_state status)) None], Returned)
        else subscriber_loop can_event_message items)"

definition can_websocket ::
  "telemetry_service \<Rightarrow> (subscriber_item \<times> telemetry_source_status) list \<Rightarrow> nat
     \<Rightarrow> can_message connection \<times> telemetry_service" where
  "can_websocket s items sends =
     (case service_subscribe_can s (Py_Int CAN_WEBSOCKET_INITIAL_FRAME_LIMIT) of
        (Inl ex, s1) \<Rightarrow> (([], Failed_With ex), s1)
      | (Inr (i, sn, status, src), s1) \<Rightarrow>
          (disconnect_after sends (can_connection sn status src items), s1))"

end
