(* ===== verification/Investigation_Properties.thy ===== *)
theory Investigation_Properties
  imports Investigation_Service Live_Total
begin

text \<open>
  What an investigation reports: its window lies inside the session and its limits, the single pass
  agrees with a reference that filters and replays the frames separately, on bus traffic it fails
  only by the frame limit, and a comparison pairs the summaries of the same signals.
\<close>

section \<open>The reference\<close>

text \<open>The calls for each frame of a list, with what they returned.\<close>

fun analyse_frames ::
  "msg_decoder \<Rightarrow> dbc_decoder \<Rightarrow> pipeline \<Rightarrow> raw_can_frame list
     \<Rightarrow> ((raw_can_frame \<times> frame_analysis) list \<times> pipeline) result" where
  "analyse_frames md decoder p [] = Inr ([], p)"
| "analyse_frames md decoder p (f # fs) =
     rbind (analyse_frame md decoder p f) (\<lambda>(a, p1).
     rbind (analyse_frames md decoder p1 fs) (\<lambda>(rest, p2). Inr ((f, a) # rest, p2)))"

definition frames_upto :: "int \<Rightarrow> raw_can_frame list \<Rightarrow> raw_can_frame list" where
  "frames_upto t fs = filter (\<lambda>f. timestamp_microseconds f \<le> t) fs"

definition annotated_frames :: "(raw_can_frame \<times> frame_analysis) list \<Rightarrow> can_explorer_frame list" where
  "annotated_frames l = map (\<lambda>(f, x, ss, evs). x) l"

definition observed_samples :: "(raw_can_frame \<times> frame_analysis) list \<Rightarrow> signal_sample list" where
  "observed_samples l = concat (map (\<lambda>(f, x, ss, evs). ss) l)"

definition generated_events :: "(raw_can_frame \<times> frame_analysis) list \<Rightarrow> diagnostic_event list" where
  "generated_events l = concat (map (\<lambda>(f, x, ss, evs). evs) l)"

definition inside :: "investigation_window \<Rightarrow> (raw_can_frame \<times> frame_analysis) list
    \<Rightarrow> (raw_can_frame \<times> frame_analysis) list" where
  "inside w l = filter (\<lambda>(f, a). iw_start w \<le> timestamp_microseconds f) l"

definition until_start :: "investigation_window \<Rightarrow> (raw_can_frame \<times> frame_analysis) list
    \<Rightarrow> (raw_can_frame \<times> frame_analysis) list" where
  "until_start w l = filter (\<lambda>(f, a). timestamp_microseconds f \<le> iw_start w) l"

definition of_signal :: "signal_key \<Rightarrow> signal_sample list \<Rightarrow> signal_sample list" where
  "of_signal k ss = filter (\<lambda>s. ss_key s = k) ss"

definition reference_state ::
  "investigation_window \<Rightarrow> signal_key list \<Rightarrow> (raw_can_frame \<times> frame_analysis) list \<Rightarrow> pipeline
     \<Rightarrow> center_capture \<Rightarrow> investigation" where
  "reference_state w keys l p c =
     \<lparr>nv_pipeline = p,
      nv_series = map (\<lambda>k. (k, of_signal k (observed_samples (inside w l)))) keys,
      nv_context = concat (map (\<lambda>k. case last_opt (of_signal k (observed_samples (until_start w l))) of
          None \<Rightarrow> [] | Some s \<Rightarrow> [(k, s)]) keys),
      nv_raw_frames = annotated_frames (inside w l),
      nv_window_events = filter (\<lambda>e. iw_start w \<le> ev_timestamp_microseconds e) (generated_events (inside w l)),
      nv_decoded_signal_updates = int (length (observed_samples (inside w l))),
      nv_center = Some c\<rparr>"

text \<open>The frames up to the centre give the diagnostic states, those up to the end everything else.\<close>

definition reference_investigation ::
  "msg_decoder \<Rightarrow> dbc_decoder \<Rightarrow> session_reader \<Rightarrow> py_value \<Rightarrow> py_value \<Rightarrow> py_value
     \<Rightarrow> signal_key list option \<Rightarrow> string option \<Rightarrow> investigation_result result" where
  "reference_investigation md decoder rd center before after selected code =
     rbind (resolve_window (rd_manifest rd) center before after) (\<lambda>w.
     rbind (make_signal_catalog (dec_metadata decoder)) (\<lambda>catalog.
     rbind (create_default_diagnostic_catalog catalog) (\<lambda>rules.
     rbind (resolve_signals catalog rules selected code) (\<lambda>keys.
     rbind (investigation_engines decoder catalog rules) (\<lambda>p0.
     rbind (analyse_frames md decoder p0 (frames_upto (iw_center w) (fst (reader_frames rd)))) (\<lambda>(_, pc).
     rbind (diagnostics_at_center (dc_rules rules) (pl_diagnostics pc)) (\<lambda>c.
     rbind (analyse_frames md decoder p0 (frames_upto (iw_end w) (fst (reader_frames rd)))) (\<lambda>(l, p).
       if MAX_INVESTIGATION_RAW_FRAMES < length (inside w l) then Inl too_many_frames
       else finish_investigation (rd_manifest rd) w catalog keys (reference_state w keys l p c)))))))))"

section \<open>Frame by frame\<close>

lemma analyse_frames_append:
  "analyse_frames md decoder p (fs @ gs) =
     rbind (analyse_frames md decoder p fs) (\<lambda>(l, q).
     rbind (analyse_frames md decoder q gs) (\<lambda>(l', r). Inr (l @ l', r)))"
proof (induction fs arbitrary: p)
  case Nil
  then show ?case by (cases "analyse_frames md decoder p gs") auto
next
  case (Cons f fs)
  show ?case
  proof (cases "analyse_frame md decoder p f")
    case (Inr v)
    obtain a p1 where v: "v = (a, p1)" by fastforce
    show ?thesis
    proof (cases "analyse_frames md decoder p1 fs")
      case (Inr u)
      then show ?thesis
        using \<open>analyse_frame md decoder p f = Inr v\<close>
        by (cases u; cases "analyse_frames md decoder (snd u) gs") (auto simp: Cons v)
    qed (simp add: Cons Inr v)
  qed simp
qed

lemma analyse_frames_snoc:
  "analyse_frames md decoder p (fs @ [f]) = Inr (l', r) \<longleftrightarrow>
     (\<exists>l q a. analyse_frames md decoder p fs = Inr (l, q) \<and> analyse_frame md decoder q f = Inr (a, r)
        \<and> l' = l @ [(f, a)])"
  by (auto simp: analyse_frames_append rbind_eq_Inr split: prod.splits)

lemma analyse_frame_Inr:
  assumes "analyse_frame md decoder p f = Inr (a, q)"
  obtains x df ss e sn evs d where "explorer_ingest md (pl_explorer p) f = (Inr (fst a), x)"
    and "decode_frame md decoder f = Inr df" and "telemetry_ingest (pl_engine p) df = (Inr ss, e)"
    and "telemetry_snapshot_of e None = Inr sn" and "diagnostic_ingest (pl_diagnostics p) sn = (Inr evs, d)"
    and "a = (fst a, ss, evs)" and "q = \<lparr>pl_explorer = x, pl_engine = e, pl_diagnostics = d\<rparr>"
proof -
  obtain rx x where x: "explorer_ingest md (pl_explorer p) f = (rx, x)" by fastforce
  obtain y where y: "rx = Inr y" using assms by (cases rx) (simp_all add: analyse_frame_def x)
  obtain df where df: "decode_frame md decoder f = Inr df"
    using assms by (cases "decode_frame md decoder f") (simp_all add: analyse_frame_def x y)
  obtain rs e where e: "telemetry_ingest (pl_engine p) df = (rs, e)" by fastforce
  obtain ss where ss: "rs = Inr ss" using assms by (cases rs) (simp_all add: analyse_frame_def x y df e)
  obtain sn where sn: "telemetry_snapshot_of e None = Inr sn"
    using assms by (cases "telemetry_snapshot_of e None") (simp_all add: analyse_frame_def x y df e ss)
  obtain rd d where d: "diagnostic_ingest (pl_diagnostics p) sn = (rd, d)" by fastforce
  obtain evs where evs: "rd = Inr evs" using assms by (cases rd) (simp_all add: analyse_frame_def x y df e ss sn d)
  show thesis
    using that [of x df ss e sn evs d] assms by (auto simp: analyse_frame_def x y df e ss sn d evs)
qed

lemma analyse_frame_replay:
  assumes "analyse_frame md decoder p f = Inr (a, q)"
  shows "replay_frame md decoder p f = (Inr (), q)"
  using assms by (rule analyse_frame_Inr) (simp add: replay_frame_def observe_telemetry_def)

lemma explorer_ingest_raw: "explorer_ingest md e f = (Inr x, e') \<Longrightarrow> ef_raw_frame x = f"
  by (auto simp: explorer_ingest_def explorer_frame_def Let_def split: prod.splits sum.splits)

lemma analyse_frame_raw:
  assumes "analyse_frame md decoder p f = Inr ((x, ss, evs), q)"
  shows "ef_raw_frame x = f"
  using assms by (rule analyse_frame_Inr) (auto dest: explorer_ingest_raw)

lemma analyse_frames_replay:
  "analyse_frames md decoder p fs = Inr (l, q) \<Longrightarrow>
     replay_frames md decoder p fs = (Inr (), q) \<and> map fst l = fs
     \<and> list_all (\<lambda>(f, x, ss, evs). ef_raw_frame x = f) l"
proof (induction fs arbitrary: p l)
  case (Cons f fs)
  then obtain x ss evs p1 rest where a: "analyse_frame md decoder p f = Inr ((x, ss, evs), p1)"
    and r: "analyse_frames md decoder p1 fs = Inr (rest, q)" and l: "l = (f, x, ss, evs) # rest"
    by (auto simp: rbind_eq_Inr split: prod.splits)
  show ?case using analyse_frame_replay [OF a] analyse_frame_raw [OF a] Cons.IH [OF r]
    by (simp add: l)
qed simp

text \<open>The annotated frames of the window are its raw frames.\<close>

lemma annotated_inside:
  assumes "analyse_frames md decoder p (frames_upto (iw_end w) fs) = Inr (l, q)"
  shows "map ef_raw_frame (annotated_frames (inside w l))
    = filter (\<lambda>f. iw_start w \<le> timestamp_microseconds f \<and> timestamp_microseconds f \<le> iw_end w) fs"
proof -
  have fst: "map fst l = frames_upto (iw_end w) fs" and raw: "list_all (\<lambda>(f, x, ss, evs). ef_raw_frame x = f) l"
    using analyse_frames_replay [OF assms] by simp_all
  have "map ef_raw_frame (annotated_frames (inside w l)) = map fst (inside w l)"
    using raw by (auto simp: annotated_frames_def inside_def list_all_iff)
  also have "\<dots> = filter (\<lambda>f. iw_start w \<le> timestamp_microseconds f) (map fst l)"
    by (induction l) (auto simp: inside_def)
  finally show ?thesis by (simp add: fst frames_upto_def conj_commute)
qed

lemma frames_upto_snoc:
  "frames_upto t (fs @ [f]) = frames_upto t fs @ (if timestamp_microseconds f \<le> t then [f] else [])"
  by (simp add: frames_upto_def)

lemma frames_upto_all: "\<forall>f \<in> set fs. timestamp_microseconds f \<le> t \<Longrightarrow> frames_upto t fs = fs"
  by (simp add: frames_upto_def)

lemma gathered_snoc:
  "annotated_frames (l @ [(f, x, ss, evs)]) = annotated_frames l @ [x]"
  "observed_samples (l @ [(f, x, ss, evs)]) = observed_samples l @ ss"
  "generated_events (l @ [(f, x, ss, evs)]) = generated_events l @ evs"
  "inside w (l @ [(f, a)]) = inside w l @ (if iw_start w \<le> timestamp_microseconds f then [(f, a)] else [])"
  "until_start w (l @ [(f, a)]) = until_start w l @ (if timestamp_microseconds f \<le> iw_start w then [(f, a)] else [])"
  by (simp_all add: annotated_frames_def observed_samples_def generated_events_def inside_def until_start_def)

lemma length_annotated [simp]: "length (annotated_frames l) = length l"
  by (simp add: annotated_frames_def)

lemma of_signal_append: "of_signal k (xs @ ys) = of_signal k xs @ of_signal k ys"
  by (simp add: of_signal_def)

lemma last_opt_empty [simp]: "last_opt [] = None" "last_opt xs = None \<longleftrightarrow> xs = []"
  by (simp_all add: last_opt_def)

lemma series_fold:
  "dict_get (foldl add_to_series series ss) k = map_option (\<lambda>xs. xs @ of_signal k ss) (dict_get series k)"
proof (induction ss arbitrary: series)
  case (Cons s ss)
  then show ?case
    by (cases "dict_get series (ss_key s)") (auto simp: add_to_series_def of_signal_def option.map_comp comp_def)
qed (simp add: of_signal_def option.map_ident)

lemma context_fold:
  "dict_get (foldl (add_to_context series) found ss) k =
     (if dict_get series k = None then dict_get found k
      else case last_opt (of_signal k ss) of None \<Rightarrow> dict_get found k | Some s \<Rightarrow> Some s)"
proof (induction ss arbitrary: found)
  case (Cons s ss)
  then show ?case
    by (cases "dict_get series (ss_key s)")
      (auto simp: add_to_context_def of_signal_def last_opt_def split: option.splits)
qed (simp add: of_signal_def last_opt_def)

section \<open>The pass and the reference\<close>

text \<open>What the running investigation has kept after the frames \<open>gs\<close>.\<close>

definition kept ::
  "msg_decoder \<Rightarrow> dbc_decoder \<Rightarrow> investigation_window \<Rightarrow> signal_key list \<Rightarrow> pipeline
     \<Rightarrow> (raw_can_frame \<times> frame_analysis) list \<Rightarrow> raw_can_frame list \<Rightarrow> investigation \<Rightarrow> bool" where
  "kept md decoder w keys p0 l gs s \<longleftrightarrow>
     analyse_frames md decoder p0 (frames_upto (iw_end w) gs) = Inr (l, nv_pipeline s)
     \<and> nv_raw_frames s = annotated_frames (inside w l)
     \<and> length (inside w l) \<le> MAX_INVESTIGATION_RAW_FRAMES
     \<and> (\<forall>k. dict_get (nv_series s) k =
          (if k \<in> set keys then Some (of_signal k (observed_samples (inside w l))) else None))
     \<and> (\<forall>k. dict_get (nv_context s) k =
          (if k \<in> set keys then last_opt (of_signal k (observed_samples (until_start w l))) else None))
     \<and> nv_window_events s
         = filter (\<lambda>e. iw_start w \<le> ev_timestamp_microseconds e) (generated_events (inside w l))
     \<and> nv_decoded_signal_updates s = int (length (observed_samples (inside w l)))"

text \<open>The centre is captured once a frame lies beyond it, from the engines at that moment.\<close>

definition centred ::
  "msg_decoder \<Rightarrow> dbc_decoder \<Rightarrow> diagnostic_rule list \<Rightarrow> investigation_window \<Rightarrow> pipeline
     \<Rightarrow> raw_can_frame list \<Rightarrow> investigation \<Rightarrow> bool" where
  "centred md decoder rules w p0 gs s \<longleftrightarrow>
     (case nv_center s of
        None \<Rightarrow> \<forall>g \<in> set gs. timestamp_microseconds g \<le> iw_center w
      | Some c \<Rightarrow> (\<exists>g \<in> set gs. iw_center w < timestamp_microseconds g)
          \<and> (\<exists>l q. analyse_frames md decoder p0 (frames_upto (iw_center w) gs) = Inr (l, q)
               \<and> diagnostics_at_center rules (pl_diagnostics q) = Inr c))"

lemma kept_center: "kept md decoder w keys p0 l gs (s\<lparr>nv_center := c\<rparr>) = kept md decoder w keys p0 l gs s"
  by (simp add: kept_def)

lemma kept_later:
  "kept md decoder w keys p0 l gs s \<Longrightarrow> iw_end w < timestamp_microseconds f
     \<Longrightarrow> kept md decoder w keys p0 l (gs @ [f]) s"
  by (simp add: kept_def frames_upto_snoc)

text \<open>A frame of the window is added, unless the limit is reached.\<close>

lemma kept_add:
  assumes kept: "kept md decoder w keys p0 l gs s" and "timestamp_microseconds f \<le> iw_end w"
    and a: "analyse_frame md decoder (nv_pipeline s) f = Inr (a, p)"
  shows "add_frame w f a (s\<lparr>nv_pipeline := p\<rparr>) =
      (if length (inside w (l @ [(f, a)])) \<le> MAX_INVESTIGATION_RAW_FRAMES
       then Inr (projr (add_frame w f a (s\<lparr>nv_pipeline := p\<rparr>))) else Inl too_many_frames)"
    and "add_frame w f a (s\<lparr>nv_pipeline := p\<rparr>) = Inr s' \<Longrightarrow>
      kept md decoder w keys p0 (l @ [(f, a)]) (gs @ [f]) s' \<and> nv_center s' = nv_center s"
proof -
  obtain x ss evs where av: "a = (x, ss, evs)" by (cases a) auto
  have len: "length (nv_raw_frames s) = length (inside w l)" and le: "length (inside w l) \<le> MAX_INVESTIGATION_RAW_FRAMES"
    using kept by (simp_all add: kept_def)
  show "add_frame w f a (s\<lparr>nv_pipeline := p\<rparr>) =
      (if length (inside w (l @ [(f, a)])) \<le> MAX_INVESTIGATION_RAW_FRAMES
       then Inr (projr (add_frame w f a (s\<lparr>nv_pipeline := p\<rparr>))) else Inl too_many_frames)"
    using len le by (auto simp: add_frame_def av gathered_snoc Let_def)
  have all: "analyse_frames md decoder p0 (frames_upto (iw_end w) (gs @ [f])) = Inr (l @ [(f, a)], p)"
    using kept a assms(2) by (simp add: kept_def frames_upto_snoc analyse_frames_append)
  show "kept md decoder w keys p0 (l @ [(f, a)]) (gs @ [f]) s' \<and> nv_center s' = nv_center s"
    if "add_frame w f a (s\<lparr>nv_pipeline := p\<rparr>) = Inr s'"
    using that kept all len
    by (auto simp: kept_def add_frame_def av gathered_snoc Let_def series_fold context_fold of_signal_append
        last_opt_append split: if_splits option.splits)
qed

definition ordered_window :: "investigation_window \<Rightarrow> bool" where
  "ordered_window w \<longleftrightarrow> iw_start w \<le> iw_center w \<and> iw_center w \<le> iw_end w"

text \<open>Whenever the centre is captured, its value is what the engines say after the frames up to it.\<close>

lemma capture_at_center:
  assumes kept: "kept md decoder w keys p0 l gs s" and cen: "centred md decoder rules w p0 gs s"
    and w: "ordered_window w"
  shows "\<exists>l q. analyse_frames md decoder p0 (frames_upto (iw_center w) gs) = Inr (l, q)
    \<and> capture_center rules s
        = rbind (diagnostics_at_center rules (pl_diagnostics q)) (\<lambda>c. Inr (s\<lparr>nv_center := Some c\<rparr>))"
proof (cases "nv_center s")
  case None
  then have "\<forall>g \<in> set gs. timestamp_microseconds g \<le> iw_center w" using cen by (simp add: centred_def)
  then have "frames_upto (iw_center w) gs = gs" "frames_upto (iw_end w) gs = gs"
    using w by (auto intro!: frames_upto_all simp: ordered_window_def)
  then show ?thesis using kept None by (simp add: kept_def capture_center_def)
next
  case (Some c)
  then obtain l q where "analyse_frames md decoder p0 (frames_upto (iw_center w) gs) = Inr (l, q)"
    and c: "diagnostics_at_center rules (pl_diagnostics q) = Inr c" using cen by (auto simp: centred_def)
  moreover have "s\<lparr>nv_center := Some c\<rparr> = s" using Some by simp
  ultimately show ?thesis using Some by (simp add: capture_center_def)
qed

lemma capture_centred:
  assumes kept: "kept md decoder w keys p0 l gs s" and cen: "centred md decoder rules w p0 gs s"
    and w: "ordered_window w" and beyond: "iw_center w < timestamp_microseconds f"
    and cap: "capture_center rules s = Inr s1"
  shows "kept md decoder w keys p0 l gs s1" and "centred md decoder rules w p0 (gs @ [f]) s1"
proof -
  from capture_at_center [OF kept cen w] obtain l' q where
    q: "analyse_frames md decoder p0 (frames_upto (iw_center w) gs) = Inr (l', q)" and
    eq: "capture_center rules s
      = rbind (diagnostics_at_center rules (pl_diagnostics q)) (\<lambda>c. Inr (s\<lparr>nv_center := Some c\<rparr>))" by blast
  from cap obtain c where c: "diagnostics_at_center rules (pl_diagnostics q) = Inr c"
    and s1: "s1 = s\<lparr>nv_center := Some c\<rparr>" unfolding eq rbind_eq_Inr by blast
  show "kept md decoder w keys p0 l gs s1" using kept by (simp add: s1 kept_center)
  show "centred md decoder rules w p0 (gs @ [f]) s1"
    using q c beyond by (auto simp: s1 centred_def frames_upto_snoc)
qed

lemma centred_within:
  assumes "centred md decoder rules w p0 gs s" and "\<forall>g \<in> set gs. timestamp_microseconds g \<le> timestamp_microseconds f"
    and "timestamp_microseconds f \<le> iw_center w" and "nv_center s' = nv_center s"
  shows "centred md decoder rules w p0 (gs @ [f]) s'"
  using assms by (fastforce simp: centred_def split: option.splits)

text \<open>One turn of the loop, when it succeeds.\<close>

lemma investigate_frame_kept:
  assumes kept: "kept md decoder w keys p0 l gs s" and cen: "centred md decoder rules w p0 gs s"
    and w: "ordered_window w" and time: "\<forall>g \<in> set gs. timestamp_microseconds g \<le> timestamp_microseconds f"
    and step: "investigate_frame md decoder rules w s f = Inr s'"
  shows "\<exists>l'. kept md decoder w keys p0 l' (gs @ [f]) s' \<and> centred md decoder rules w p0 (gs @ [f]) s'"
proof -
  obtain s1 where s1: "(if iw_center w < timestamp_microseconds f then capture_center rules s else Inr s) = Inr s1"
    using step by (cases "if iw_center w < timestamp_microseconds f then capture_center rules s else Inr s")
      (auto simp: investigate_frame_def)
  have kept1: "kept md decoder w keys p0 l gs s1"
    and cen1: "iw_center w < timestamp_microseconds f \<Longrightarrow> centred md decoder rules w p0 (gs @ [f]) s1"
    using s1 capture_centred [OF kept cen w] kept by (auto split: if_splits)
  show ?thesis
  proof (cases "iw_end w < timestamp_microseconds f")
    case True
    then have "s' = s1" using step by (simp add: investigate_frame_def s1)
    moreover have "iw_center w < timestamp_microseconds f" using True w by (simp add: ordered_window_def)
    ultimately show ?thesis using kept_later [OF kept1 True] cen1 by blast
  next
    case False
    then obtain a p where a: "analyse_frame md decoder (nv_pipeline s1) f = Inr (a, p)"
      and add: "add_frame w f a (s1\<lparr>nv_pipeline := p\<rparr>) = Inr s'"
      using step by (auto simp: investigate_frame_def s1 rbind_eq_Inr)
    from kept_add(2) [OF kept1 _ a add] False
    have k: "kept md decoder w keys p0 (l @ [(f, a)]) (gs @ [f]) s'" and c: "nv_center s' = nv_center s1" by auto
    have "centred md decoder rules w p0 (gs @ [f]) s'"
    proof (cases "iw_center w < timestamp_microseconds f")
      case True
      then show ?thesis using cen1 c by (simp add: centred_def)
    next
      case False
      then have "s1 = s" using s1 by simp
      with False c show ?thesis using centred_within [OF cen time] by simp
    qed
    with k show ?thesis by blast
  qed
qed

lemma investigate_frames_snoc:
  "investigate_frames md decoder rules w s (gs @ [f]) =
     rbind (investigate_frames md decoder rules w s gs) (\<lambda>s1. investigate_frame md decoder rules w s1 f)"
proof (induction gs arbitrary: s)
  case Nil
  then show ?case by (cases "investigate_frame md decoder rules w s f") simp_all
next
  case (Cons g gs)
  then show ?case by (cases "investigate_frame md decoder rules w s g") simp_all
qed

lemma sorted_times_snoc:
  "sorted (map timestamp_microseconds (gs @ [f])) \<longleftrightarrow>
     sorted (map timestamp_microseconds gs) \<and> (\<forall>g \<in> set gs. timestamp_microseconds g \<le> timestamp_microseconds f)"
  by (auto simp: sorted_append)

lemma new_series: "dict_get (nv_series (new_investigation keys p0)) k = (if k \<in> set keys then Some [] else None)"
proof -
  have "dict_get (rev (map (\<lambda>k. (k, [])) keys)) k = (if k \<in> set keys then Some [] else None)"
    by (induction keys) (auto simp: map_add_def)
  then show ?thesis by (simp add: new_investigation_def dict_get_dict_of)
qed

lemma loop_kept:
  assumes "ordered_window w"
  shows "sorted (map timestamp_microseconds gs) \<Longrightarrow>
    investigate_frames md decoder rules w (new_investigation keys p0) gs = Inr s \<Longrightarrow>
    \<exists>l. kept md decoder w keys p0 l gs s \<and> centred md decoder rules w p0 gs s"
proof (induction gs arbitrary: s rule: rev_induct)
  case Nil
  then show ?case
    using new_series [of keys p0]
    by (auto simp: kept_def centred_def frames_upto_def inside_def until_start_def annotated_frames_def
        observed_samples_def generated_events_def of_signal_def new_investigation_def intro!: exI [of _ "[]"])
next
  case (snoc f gs)
  then obtain s1 where s1: "investigate_frames md decoder rules w (new_investigation keys p0) gs = Inr s1"
    and f: "investigate_frame md decoder rules w s1 f = Inr s"
    by (auto simp: investigate_frames_snoc rbind_eq_Inr)
  from snoc.prems(1) have sorted: "sorted (map timestamp_microseconds gs)"
    and time: "\<forall>g \<in> set gs. timestamp_microseconds g \<le> timestamp_microseconds f"
    unfolding sorted_times_snoc by auto
  from snoc.IH [OF sorted s1] obtain l where "kept md decoder w keys p0 l gs s1" "centred md decoder rules w p0 gs s1"
    by blast
  from investigate_frame_kept [OF this assms time f] show ?case by blast
qed

text \<open>Conversely the loop succeeds when every frame can be analysed and the centre be read, up to the limit.\<close>

definition center_readable ::
  "msg_decoder \<Rightarrow> dbc_decoder \<Rightarrow> diagnostic_rule list \<Rightarrow> investigation_window \<Rightarrow> pipeline
     \<Rightarrow> raw_can_frame list \<Rightarrow> bool" where
  "center_readable md decoder rules w p0 gs \<longleftrightarrow>
     (\<exists>g \<in> set gs. iw_center w < timestamp_microseconds g) \<longrightarrow>
     (\<exists>l q c. analyse_frames md decoder p0 (frames_upto (iw_center w) gs) = Inr (l, q)
        \<and> diagnostics_at_center rules (pl_diagnostics q) = Inr c)"

lemma investigate_frame_total:
  assumes kept: "kept md decoder w keys p0 l gs s" and cen: "centred md decoder rules w p0 gs s"
    and w: "ordered_window w" and cr: "center_readable md decoder rules w p0 (gs @ [f])"
    and all: "analyse_frames md decoder p0 (frames_upto (iw_end w) (gs @ [f])) = Inr (l', q')"
  shows "if length (inside w l') \<le> MAX_INVESTIGATION_RAW_FRAMES
    then \<exists>s'. investigate_frame md decoder rules w s f = Inr s'
    else investigate_frame md decoder rules w s f = Inl too_many_frames"
proof -
  obtain s1 where s1: "(if iw_center w < timestamp_microseconds f then capture_center rules s else Inr s) = Inr s1"
    and kept1: "kept md decoder w keys p0 l gs s1"
  proof (cases "iw_center w < timestamp_microseconds f")
    case True
    then have "frames_upto (iw_center w) (gs @ [f]) = frames_upto (iw_center w) gs" by (simp add: frames_upto_snoc)
    with cr True obtain m q c where "analyse_frames md decoder p0 (frames_upto (iw_center w) gs) = Inr (m, q)"
      "diagnostics_at_center rules (pl_diagnostics q) = Inr c" by (auto simp: center_readable_def)
    with capture_at_center [OF kept cen w] obtain s1 where "capture_center rules s = Inr s1" by auto
    then show thesis using that [of s1] capture_centred(1) [OF kept cen w True] True by simp
  next
    case False
    then show thesis using that kept by simp
  qed
  show ?thesis
  proof (cases "iw_end w < timestamp_microseconds f")
    case True
    then have "l' = l" using all kept by (simp add: kept_def frames_upto_snoc)
    then show ?thesis using kept True by (simp add: investigate_frame_def s1 kept_def)
  next
    case False
    then obtain a p where a: "analyse_frame md decoder (nv_pipeline s1) f = Inr (a, p)" and l': "l' = l @ [(f, a)]"
      using all kept1 by (auto simp: kept_def frames_upto_snoc analyse_frames_append rbind_eq_Inr split: prod.splits)
    have "timestamp_microseconds f \<le> iw_end w" using False by simp
    note kept_add(1) [OF kept1 this a]
    moreover have "investigate_frame md decoder rules w s f = add_frame w f a (s1\<lparr>nv_pipeline := p\<rparr>)"
      using False by (simp add: investigate_frame_def s1 a)
    ultimately show ?thesis unfolding l' by (metis (full_types))
  qed
qed

lemma loop_total:
  assumes w: "ordered_window w"
  shows "sorted (map timestamp_microseconds gs) \<Longrightarrow> center_readable md decoder rules w p0 gs \<Longrightarrow>
    analyse_frames md decoder p0 (frames_upto (iw_end w) gs) = Inr (l, q) \<Longrightarrow>
    (if length (inside w l) \<le> MAX_INVESTIGATION_RAW_FRAMES
     then \<exists>s. investigate_frames md decoder rules w (new_investigation keys p0) gs = Inr s
     else investigate_frames md decoder rules w (new_investigation keys p0) gs = Inl too_many_frames)"
proof (induction gs arbitrary: l q rule: rev_induct)
  case Nil
  then show ?case by (simp add: frames_upto_def inside_def)
next
  case (snoc f gs)
  from snoc.prems(1) have sorted: "sorted (map timestamp_microseconds gs)"
    and time: "\<forall>g \<in> set gs. timestamp_microseconds g \<le> timestamp_microseconds f"
    unfolding sorted_times_snoc by auto
  have cr: "center_readable md decoder rules w p0 gs"
    unfolding center_readable_def
  proof
    assume "\<exists>g \<in> set gs. iw_center w < timestamp_microseconds g"
    then have "iw_center w < timestamp_microseconds f" using time by fastforce
    with snoc.prems(2) show "\<exists>l q c. analyse_frames md decoder p0 (frames_upto (iw_center w) gs) = Inr (l, q)
        \<and> diagnostics_at_center rules (pl_diagnostics q) = Inr c"
      by (auto simp: center_readable_def frames_upto_snoc)
  qed
  obtain l1 q1 where l1: "analyse_frames md decoder p0 (frames_upto (iw_end w) gs) = Inr (l1, q1)"
    and pre: "\<exists>r. l = l1 @ r"
    using snoc.prems(3) by (auto simp: frames_upto_snoc analyse_frames_append rbind_eq_Inr split: prod.splits if_splits)
  then have le: "length (inside w l1) \<le> length (inside w l)" by (auto simp: inside_def)
  note IH = snoc.IH [OF sorted cr l1]
  show ?case
  proof (cases "length (inside w l1) \<le> MAX_INVESTIGATION_RAW_FRAMES")
    case True
    then obtain s where s: "investigate_frames md decoder rules w (new_investigation keys p0) gs = Inr s"
      using IH by auto
    from loop_kept [OF w sorted s] obtain l2 where
      "kept md decoder w keys p0 l2 gs s" "centred md decoder rules w p0 gs s" by blast
    from investigate_frame_total [OF this w snoc.prems(2,3)] show ?thesis
      by (simp add: investigate_frames_snoc s)
  next
    case False
    then show ?thesis using IH le by (simp add: investigate_frames_snoc)
  qed
qed

section \<open>What is reported\<close>

lemma context_get:
  "distinct keys \<Longrightarrow>
     dict_get (concat (map (\<lambda>k. case g k of None \<Rightarrow> [] | Some v \<Rightarrow> [(k, v)]) keys)) k
       = (if k \<in> set keys then g k else None)"
proof (induction keys)
  case (Cons x keys)
  then show ?case by (cases "g x") auto
qed simp

lemma finish_kept:
  assumes kept: "kept md decoder w keys p0 l gs s" and "distinct keys" and "nv_center s = Some c"
  shows "finish_investigation m w catalog keys s = finish_investigation m w catalog keys (reference_state w keys l p c)"
proof -
  let ?r = "reference_state w keys l p c"
  have get: "dict_get (nv_series ?r) k = (if k \<in> set keys then Some (of_signal k (observed_samples (inside w l))) else None)" for k
    by (simp add: reference_state_def map_of_map_graph)
  have series: "series_of s k = series_of ?r k" for k
    using kept by (simp add: series_of_def get kept_def)
  have "dict_get (nv_context s) k = dict_get (nv_context ?r) k" for k
    using kept context_get [OF assms(2), of "\<lambda>k. last_opt (of_signal k (observed_samples (until_start w l)))" k]
    by (simp add: kept_def reference_state_def)
  then have found: "dict_get (nv_context s) = dict_get (nv_context ?r)" by blast
  have frozen: "freeze_series catalog s = freeze_series catalog ?r" by (simp add: fun_eq_iff freeze_series_def series)
  have fields: "nv_raw_frames s = nv_raw_frames ?r" "nv_window_events s = nv_window_events ?r"
    "nv_decoded_signal_updates s = nv_decoded_signal_updates ?r" "nv_center s = nv_center ?r"
    using kept assms(3) by (simp_all add: kept_def reference_state_def)
  show ?thesis unfolding finish_investigation_def found frozen fields series by (rule refl)
qed

lemma finish_fields:
  assumes "finish_investigation m w catalog keys s = Inr res"
  shows "ir_session res = m" and "ir_window res = w" and "ir_selected_signals res = keys"
    and "ir_raw_frames res = nv_raw_frames s"
  using assms by (auto simp: finish_investigation_def rbind_eq_Inr split: option.splits prod.splits)

lemma resolve_window_ordered:
  assumes "resolve_window m center before after = Inr w"
  shows "ordered_window w"
  using assms
  by (auto simp: resolve_window_def check_extent_def ordered_window_def Let_def split: if_splits option.splits)

lemma resolve_signals_distinct:
  "resolve_signals catalog rules selected code = Inr keys \<Longrightarrow>
     distinct keys \<and> keys \<noteq> [] \<and> length keys \<le> MAX_SELECTED_SIGNALS"
  by (auto simp: resolve_signals_def Let_def rbind_eq_Inr split: if_splits)

lemma resolve_signals_known:
  "resolve_signals catalog rules selected code = Inr keys \<Longrightarrow> \<forall>k \<in> set keys. \<exists>d. catalog_require catalog k = Inr d"
  by (fastforce simp: resolve_signals_def Let_def rbind_eq_Inr mapM_eq_Inr list_all2_conv_all_nth in_set_conv_nth
      split: if_splits)

lemma valid_frames_sorted:
  assumes "reader_frames rd = (fs, None)"
  shows "sorted (map timestamp_microseconds fs)"
  using frames_file_holds [OF assms] by (auto simp: file_holds_def)

lemma rbind_same:
  "(\<And>x. m = Inr x \<Longrightarrow> f x = Inr y \<longleftrightarrow> g x = Inr y) \<Longrightarrow> rbind m f = Inr y \<longleftrightarrow> rbind m g = Inr y"
  by (cases m) simp_all

text \<open>The loop and what follows it, against the reference.\<close>

lemma pass_is_reference:
  assumes w: "ordered_window w" and "distinct keys" and sorted: "sorted (map timestamp_microseconds fs)"
  shows "rbind (investigate_frames md decoder rules w (new_investigation keys p0) fs) (\<lambda>s.
      rbind (capture_center rules s) (\<lambda>s1. finish_investigation m w catalog keys s1)) = Inr res
    \<longleftrightarrow> rbind (analyse_frames md decoder p0 (frames_upto (iw_center w) fs)) (\<lambda>(_, pc).
      rbind (diagnostics_at_center rules (pl_diagnostics pc)) (\<lambda>c.
      rbind (analyse_frames md decoder p0 (frames_upto (iw_end w) fs)) (\<lambda>(l, p).
       if MAX_INVESTIGATION_RAW_FRAMES < length (inside w l) then Inl too_many_frames
       else finish_investigation m w catalog keys (reference_state w keys l p c)))) = Inr res" (is "?L \<longleftrightarrow> ?R")
proof
  assume ?L
  then obtain s where s: "investigate_frames md decoder rules w (new_investigation keys p0) fs = Inr s"
    by (auto simp: rbind_eq_Inr)
  from loop_kept [OF w sorted s] obtain l where k: "kept md decoder w keys p0 l fs s"
    and cen: "centred md decoder rules w p0 fs s" by blast
  from capture_at_center [OF k cen w] obtain l' q where
    q: "analyse_frames md decoder p0 (frames_upto (iw_center w) fs) = Inr (l', q)" and
    eq: "capture_center rules s
      = rbind (diagnostics_at_center rules (pl_diagnostics q)) (\<lambda>c. Inr (s\<lparr>nv_center := Some c\<rparr>))" by blast
  from \<open>?L\<close> obtain c where c: "diagnostics_at_center rules (pl_diagnostics q) = Inr c"
    and fin: "finish_investigation m w catalog keys (s\<lparr>nv_center := Some c\<rparr>) = Inr res"
    unfolding s rbind_simps eq rbind_eq_Inr by blast
  have "kept md decoder w keys p0 l fs (s\<lparr>nv_center := Some c\<rparr>)" using k by (simp add: kept_center)
  from finish_kept [OF this assms(2), of c m catalog "nv_pipeline s"] fin q c k show ?R by (simp add: kept_def)
next
  assume ?R
  then obtain l' q c l p where q: "analyse_frames md decoder p0 (frames_upto (iw_center w) fs) = Inr (l', q)"
    and c: "diagnostics_at_center rules (pl_diagnostics q) = Inr c"
    and l: "analyse_frames md decoder p0 (frames_upto (iw_end w) fs) = Inr (l, p)"
    and le: "length (inside w l) \<le> MAX_INVESTIGATION_RAW_FRAMES"
    and fin: "finish_investigation m w catalog keys (reference_state w keys l p c) = Inr res"
    by (auto simp: rbind_eq_Inr split: if_splits)
  have "center_readable md decoder rules w p0 fs" using q c by (auto simp: center_readable_def)
  from loop_total [OF w sorted this l, of keys] le obtain s where
    s: "investigate_frames md decoder rules w (new_investigation keys p0) fs = Inr s" by auto
  from loop_kept [OF w sorted s] obtain l2 where k: "kept md decoder w keys p0 l2 fs s"
    and cen: "centred md decoder rules w p0 fs s" by blast
  have l2: "l2 = l" using k l by (simp add: kept_def)
  from capture_at_center [OF k cen w] q c have cap: "capture_center rules s = Inr (s\<lparr>nv_center := Some c\<rparr>)" by auto
  have "kept md decoder w keys p0 l fs (s\<lparr>nv_center := Some c\<rparr>)" using k by (simp add: kept_center l2)
  from finish_kept [OF this assms(2), of c m catalog p] fin s cap show ?L by simp
qed

section \<open>Bus traffic\<close>

lemma replay_analyse:
  assumes "replay_frame md decoder p f = (Inr (), q)"
  shows "\<exists>a. analyse_frame md decoder p f = Inr (a, q)"
proof -
  obtain x xe where x: "explorer_ingest md (pl_explorer p) f = (Inr x, xe)"
    using assms by (auto simp: replay_frame_def split: prod.splits sum.splits)
  obtain df where df: "decode_frame md decoder f = Inr df"
    using assms by (auto simp: replay_frame_def x Let_def split: prod.splits sum.splits)
  obtain ss e where e: "telemetry_ingest (pl_engine p) df = (Inr ss, e)"
    using assms by (auto simp: replay_frame_def x df Let_def split: prod.splits sum.splits)
  have "observe_telemetry (p\<lparr>pl_explorer := xe, pl_engine := e\<rparr>) = (Inr (), q)"
    using assms by (simp add: replay_frame_def x df e)
  then obtain sn evs d where sn: "telemetry_snapshot_of e None = Inr sn"
    and d: "diagnostic_ingest (pl_diagnostics p) sn = (Inr evs, d)"
    and q: "q = p\<lparr>pl_explorer := xe, pl_engine := e, pl_diagnostics := d\<rparr>"
    by (auto simp: observe_telemetry_def split: prod.splits sum.splits)
  show ?thesis by (simp add: analyse_frame_def x df e sn d q)
qed

lemma replay_analyses:
  "replay_frames md decoder p fs = (Inr (), q) \<Longrightarrow> \<exists>l. analyse_frames md decoder p fs = Inr (l, q)"
proof (induction fs arbitrary: p)
  case (Cons f fs)
  then obtain p1 where p1: "replay_frame md decoder p f = (Inr (), p1)" and "replay_frames md decoder p1 fs = (Inr (), q)"
    by (auto split: prod.splits sum.splits)
  from Cons.IH [OF this(2)] replay_analyse [OF p1] show ?case by auto
qed simp

text \<open>Every sample of an analysed bus frame has a value of its signal's type, and a frame has few samples.\<close>

definition well_sampled :: "(raw_can_frame \<times> frame_analysis) list \<Rightarrow> bool" where
  "well_sampled l \<longleftrightarrow> (\<forall>(f, x, ss, evs) \<in> set l. typed_samples ss \<and> length ss \<le> 8)"

lemma simulation_signal_count: "m \<in> set simulation_dbc \<Longrightarrow> length (frame_signals m) \<le> 8"
  by (auto simp: simulation_dbc_def dme_frame_def)

lemma bus_analysis:
  assumes ok: "pl_ok l evs xs p" and dec: "faithful_decoder md" and bus: "bus_frame f"
    and a: "analyse_frame md simulation_decoder p f = Inr ((x, ss, es), q)"
  shows "typed_samples ss \<and> length ss \<le> 8 \<and> (\<exists>df evs'. pl_ok (l @ [(df, ss)]) (evs @ evs') (xs @ [x]) q)"
proof -
  from a obtain xe df e sn d where ing: "explorer_ingest md (pl_explorer p) f = (Inr x, xe)"
    and df: "decode_frame md simulation_decoder f = Inr df" and e: "telemetry_ingest (pl_engine p) df = (Inr ss, e)"
    and sn: "telemetry_snapshot_of e None = Inr sn" and d: "diagnostic_ingest (pl_diagnostics p) sn = (Inr es, d)"
    and q: "q = \<lparr>pl_explorer = xe, pl_engine = e, pl_diagnostics = d\<rparr>"
    by (rule analyse_frame_Inr) auto
  from bus obtain m where m: "m \<in> set simulation_dbc" "frame_id m = arbitration_id f"
    "frame_size m = payload_length f" by (auto simp: bus_frame_def)
  from decode_simulation [OF dec m] df have keys: "dict_keys (df_signals df) = map sig_name (frame_signals m)"
    and typed: "\<forall>(n, v) \<in> set (df_signals df). typed_value n v" by auto
  have len: "length (df_signals df) = length (frame_signals m)" using keys by (metis length_map)
  have rep: "represents (pl_engine p) l" using ok by (simp add: pl_ok_def)
  from explorer_step [OF ok dec bus] ing have ok1: "pl_ok l evs (xs @ [x]) (p\<lparr>pl_explorer := xe\<rparr>)" by auto
  have "telemetry_ingest (pl_engine (p\<lparr>pl_explorer := xe\<rparr>)) df = (Inr ss, e)" using e by simp
  from observe_step [OF ok1 this typed] obtain evs' d' where
    obs: "observe_telemetry (p\<lparr>pl_explorer := xe, pl_engine := e\<rparr>)
      = (Inr (), p\<lparr>pl_explorer := xe, pl_engine := e, pl_diagnostics := d'\<rparr>)"
    and ok': "pl_ok (l @ [(df, ss)]) (evs @ evs') (xs @ [x]) (p\<lparr>pl_explorer := xe, pl_engine := e, pl_diagnostics := d'\<rparr>)"
    by auto
  have "p\<lparr>pl_explorer := xe, pl_engine := e, pl_diagnostics := d'\<rparr>
      = p\<lparr>pl_explorer := xe, pl_engine := e, pl_diagnostics := d\<rparr>"
    using obs sn d by (simp add: observe_telemetry_def)
  moreover have "p\<lparr>pl_explorer := xe, pl_engine := e, pl_diagnostics := d\<rparr> = q" by (cases p) (simp add: q)
  ultimately have "pl_ok (l @ [(df, ss)]) (evs @ evs') (xs @ [x]) q" using ok' by simp
  then show ?thesis
    using typed_samples_ingest [OF rep e typed] len simulation_signal_count [OF m(1)] by auto
qed

lemma bus_analyses:
  "pl_ok l evs xs p \<Longrightarrow> faithful_decoder md \<Longrightarrow> \<forall>f \<in> set fs. bus_frame f \<Longrightarrow>
     analyse_frames md simulation_decoder p fs = Inr (r, q) \<Longrightarrow>
     well_sampled r \<and> (\<exists>l' evs' xs'. pl_ok l' evs' xs' q)"
proof (induction fs arbitrary: l evs xs p r)
  case Nil
  then show ?case by (auto simp: well_sampled_def)
next
  case (Cons f fs)
  then obtain x ss es p1 rest where a: "analyse_frame md simulation_decoder p f = Inr ((x, ss, es), p1)"
    and rest: "analyse_frames md simulation_decoder p1 fs = Inr (rest, q)" and r: "r = (f, x, ss, es) # rest"
    by (auto simp: rbind_eq_Inr split: prod.splits)
  have "bus_frame f" using Cons.prems(3) by simp
  from bus_analysis [OF Cons.prems(1,2) this a] obtain l1 evs1 xs1 where
    "typed_samples ss" "length ss \<le> 8" and ok: "pl_ok l1 evs1 xs1 p1" by blast
  with Cons.IH [OF ok Cons.prems(2) _ rest] Cons.prems(3) show ?case by (auto simp: well_sampled_def r)
qed

lemma investigation_engines_ok:
  assumes "create_default_diagnostic_catalog simulation_catalog = Inr rules"
  shows "\<exists>p0. investigation_engines simulation_decoder simulation_catalog rules = Inr p0
    \<and> pl_ok [] [] [] p0 \<and> te_latest_timestamp_microseconds (pl_engine p0) = None"
proof -
  obtain x where x: "make_can_explorer simulation_decoder (Py_Int 1) = Inr x" using simulation_explorer_of [of 1] by auto
  have sim: "simulation_explorer x" "0 < ce_capacity x" and fresh: "explorer_reset x = x"
    using make_simulation_explorer [OF x] x by (auto simp: make_can_explorer_def explorer_reset_def split: if_splits)
  obtain p where p: "replay_start simulation_decoder x (Py_Int 1) = Inr p" using replay_start_total [of 1 x] by auto
  have "investigation_engines simulation_decoder simulation_catalog rules = Inr p"
    using p x assms make_simulation_catalog
    by (auto simp: replay_start_def investigation_engines_def rbind_eq_Inr simulation_metadata_def [symmetric] fresh)
  with replay_start_ok [OF sim p] show ?thesis by blast
qed

lemma diagnostics_at_center_total:
  assumes "pl_ok l evs xs p"
  shows "\<exists>c. diagnostics_at_center default_rules (pl_diagnostics p) = Inr c"
proof -
  let ?d = "pl_diagnostics p"
  have inv: "diag_inv ?d evs" and rules: "dc_rules (de_catalog ?d) = default_rules" using assms by (simp_all add: pl_ok_def)
  have "\<exists>y z. state_at_center ?d r = Inr y \<and> diagnostic_freeze_frame_of ?d (rule_code r) = Inr z"
    if r: "r \<in> set default_rules" for r
  proof -
    have mem: "r \<in> set (dc_rules (de_catalog ?d))" using r rules by simp
    from diag_inv_rule [OF inv this] obtain st where st: "dict_get (de_states ?d) (rule_code r) = Some st" by blast
    have "diag_catalog_get (de_catalog ?d) (rule_code r) = Some r"
      using inv mem unfolding diag_inv_def wf_diag_catalog_def by blast
    then show ?thesis
      using st dtc_read [OF inv mem st]
      by (simp add: state_at_center_def diagnostic_freeze_frame_of_def diag_catalog_require_def rule_state_of_def)
  qed
  then obtain g h where "\<And>r. r \<in> set default_rules \<Longrightarrow> state_at_center ?d r = Inr (g r)"
    and "\<And>r. r \<in> set default_rules \<Longrightarrow> diagnostic_freeze_frame_of ?d (rule_code r) = Inr (h r)" by metis
  then have "mapM (state_at_center ?d) default_rules = Inr (map g default_rules)"
    and "mapM (\<lambda>r. diagnostic_freeze_frame_of ?d (rule_code r)) default_rules = Inr (map h default_rules)"
    by (simp_all add: mapM_total)
  then show ?thesis by (simp add: diagnostics_at_center_def)
qed

section \<open>Summaries of samples\<close>

lemma float_less_le_trans:
  "float_less x r \<Longrightarrow> \<not> float_less m r \<Longrightarrow> m \<noteq> Not_A_Number \<Longrightarrow> float_less x m"
  by (cases x; cases r; cases m) auto

lemma float_le_less_trans:
  "float_less r x \<Longrightarrow> \<not> float_less r m \<Longrightarrow> m \<noteq> Not_A_Number \<Longrightarrow> float_less m x"
  by (cases x; cases r; cases m) auto

lemma float_min_from_least:
  "Not_A_Number \<notin> set (m # xs) \<Longrightarrow>
     float_min_from m xs \<in> set (m # xs) \<and> (\<forall>x \<in> set (m # xs). \<not> float_less x (float_min_from m xs))"
proof (induction xs arbitrary: m)
  case (Cons x xs)
  let ?n = "if float_less x m then x else m"
  have "Not_A_Number \<notin> set (?n # xs)" using Cons.prems by auto
  note IH = Cons.IH [OF this]
  show ?case
  proof (cases "float_less x m")
    case True
    then show ?thesis using IH float_less_trans [of x m] by auto
  next
    case False
    then show ?thesis using IH float_less_le_trans [of x "float_min_from m xs" m] Cons.prems by auto
  qed
qed simp

lemma float_max_from_greatest:
  "Not_A_Number \<notin> set (m # xs) \<Longrightarrow>
     float_max_from m xs \<in> set (m # xs) \<and> (\<forall>x \<in> set (m # xs). \<not> float_less (float_max_from m xs) x)"
proof (induction xs arbitrary: m)
  case (Cons x xs)
  let ?n = "if float_less m x then x else m"
  have "Not_A_Number \<notin> set (?n # xs)" using Cons.prems by auto
  note IH = Cons.IH [OF this]
  show ?case
  proof (cases "float_less m x")
    case True
    then show ?thesis using IH float_less_trans [of _ m x] by auto
  next
    case False
    then show ?thesis using IH float_le_less_trans [of "float_max_from m xs" x m] Cons.prems by auto
  qed
qed simp

lemma round_double_positive:
  assumes "1 \<le> x" and "round_double x = Finite y"
  shows "0 < y"
proof -
  let ?u = "pow2 (unit_exponent x)"
  have "pow2 (ilog2 \<bar>x\<bar> - 52) \<le> x"
    using pow2_mono [of "ilog2 \<bar>x\<bar> - 52" "ilog2 \<bar>x\<bar>"] pow2_ilog2 [of "\<bar>x\<bar>"] assms(1) by simp
  moreover have "pow2 (- 1074) \<le> 1" using pow2_mono [of "- 1074" 0] by (simp add: pow2_def)
  ultimately have "?u \<le> x" using assms(1) by (simp add: unit_exponent_def max_def)
  then have "1 \<le> x / ?u" by (simp add: le_divide_eq)
  then have "round_half_even (of_int 1) \<le> round_half_even (x / ?u)" by (intro round_half_even_mono) simp
  then have "1 \<le> round_half_even (x / ?u)" by (simp only: round_half_even_of_int)
  then have "0 < of_int (round_half_even (x / ?u)) * ?u" by simp
  moreover have "y = of_int (round_half_even (x / ?u)) * ?u"
    using assms by (auto simp: round_double_def Let_def split: if_splits)
  ultimately show ?thesis by simp
qed

lemma float_of_count:
  assumes "n \<noteq> 0" and "int n \<le> 2 ^ 70"
  shows "\<exists>y. float_of_int (int n) = Inr (Finite y) \<and> 0 < y"
proof -
  have "(of_int (int n) :: rat) \<le> of_int (2 ^ 70)" using assms(2) by (simp only: of_int_le_iff)
  then have "\<bar>of_int (int n) :: rat\<bar> \<le> 2 ^ 70" by simp
  from round_double_finite [OF this] obtain y where y: "round_double (of_int (int n)) = Finite y" by blast
  have "(1::rat) \<le> of_int (int n)" using assms(1) by simp
  from round_double_positive [OF this y] y show ?thesis by (simp add: float_of_int_def)
qed

text \<open>What the three kinds of summary hold.\<close>

definition summary_typed :: "signal_series \<Rightarrow> pyfloat list \<Rightarrow> signal_summary \<Rightarrow> bool" where
  "summary_typed sr xs y \<longleftrightarrow>
     (let values = map ss_value (sr_samples sr)
      in case sy_value_type y of
           Summary_Unobserved \<Rightarrow> values = [] \<and> sy_first y = None \<and> sy_last y = None
             \<and> sy_minimum y = None \<and> sy_maximum y = None \<and> sy_mean y = None \<and> sy_distinct_values y = []
         | Summary_Boolean \<Rightarrow> values \<noteq> [] \<and> (\<forall>v \<in> set values. \<exists>b. v = Py_Bool b)
             \<and> sy_minimum y = None \<and> sy_maximum y = None \<and> sy_mean y = None
             \<and> distinct (sy_distinct_values y) \<and> set (sy_distinct_values y) = set values
         | Summary_Numeric \<Rightarrow> values \<noteq> [] \<and> (\<exists>v \<in> set values. \<forall>b. v \<noteq> Py_Bool b)
             \<and> sy_distinct_values y = []
             \<and> (\<exists>lo hi mean. sy_minimum y = Some lo \<and> sy_maximum y = Some hi \<and> sy_mean y = Some mean
                  \<and> lo \<in> set xs \<and> hi \<in> set xs
                  \<and> (\<forall>x \<in> set xs. \<not> float_less x lo \<and> \<not> float_less hi x)))"

lemma isinstance_bool_iff: "isinstance_bool v \<longleftrightarrow> (\<exists>b. v = Py_Bool b)"
  by (cases v) simp_all

lemma summarize_total:
  assumes xs: "mapM to_float (map ss_value (sr_samples sr)) = Inr xs"
    and nan: "Not_A_Number \<notin> set xs" and small: "int (length (sr_samples sr)) \<le> 2 ^ 70"
  shows "\<exists>y. summarize sr = Inr y \<and> sy_key y = sd_key (sr_definition sr)
    \<and> sy_observation_count y = int (length (sr_samples sr)) \<and> summary_typed sr xs y
    \<and> (sr_samples sr \<noteq> [] \<longrightarrow> sy_first y = Some (ss_value (hd (sr_samples sr)))
         \<and> sy_last y = Some (ss_value (last (sr_samples sr))))"
proof -
  let ?vs = "map ss_value (sr_samples sr)"
  consider "?vs = []" | "?vs \<noteq> []" "list_all isinstance_bool ?vs" | "?vs \<noteq> []" "\<not> list_all isinstance_bool ?vs" by blast
  then show ?thesis
  proof cases
    case 1
    then show ?thesis by (simp add: summarize_def summary_typed_def)
  next
    case 2
    have keys: "set (dict_keys (dict_of (map (\<lambda>v. (v, ())) ?vs))) = set ?vs"
    proof -
      have "dict_get (dict_of (map (\<lambda>v. (v, ())) ?vs)) v \<noteq> None \<longleftrightarrow> v \<in> set ?vs" for v
        unfolding dict_get_dict_of by (force simp: map_of_eq_None_iff simp flip: not_None_eq)
      then show ?thesis by (auto simp: map_of_eq_None_iff)
    qed
    from 2 keys show ?thesis
      by (auto simp: summarize_def summary_typed_def Let_def hd_map last_map list_all_iff isinstance_bool_iff)
  next
    case 3
    have len: "length xs = length ?vs" using xs by (auto simp: mapM_eq_Inr dest: list_all2_lengthD)
    then obtain x rest where x: "xs = x # rest" using 3(1) by (cases xs) auto
    note least = float_min_from_least [of x rest] and greatest = float_max_from_greatest [of x rest]
    from float_of_count [of "length xs"] len small x obtain n where
      n: "float_of_int (int (length xs)) = Inr (Finite n)" "0 < n" by auto
    then obtain mean where "float_div (float_sum xs) (Finite n) = Inr mean"
      by (auto simp: float_div_def float_is_zero_def)
    then have "summarize sr = Inr \<lparr>sy_key = sd_key (sr_definition sr), sy_value_type = Summary_Numeric,
        sy_observation_count = int (length xs), sy_first = Some (hd ?vs), sy_last = Some (last ?vs),
        sy_minimum = Some (float_min_from x rest), sy_maximum = Some (float_max_from x rest), sy_mean = Some mean,
        sy_distinct_values = []\<rparr>"
      using 3 xs n by (simp add: summarize_def Let_def float_min_def float_max_def x)
    then show ?thesis
      using 3 len least greatest nan
      by (auto simp: summary_typed_def x list_all_iff isinstance_bool_iff hd_map last_map Let_def)
  qed
qed

section \<open>An investigation of bus traffic\<close>

lemma typed_sample_float:
  "typed_value n v \<Longrightarrow> \<exists>x. to_float v = Inr x"
  by (auto simp: typed_value_def split: if_splits)

lemma observed_bound:
  "well_sampled l \<Longrightarrow> length (observed_samples l) \<le> 8 * length l \<and> typed_samples (observed_samples l)"
  by (induction l) (auto simp: well_sampled_def observed_samples_def typed_samples_def)

lemma well_sampled_inside: "well_sampled l \<Longrightarrow> well_sampled (inside w l)"
  by (auto simp: well_sampled_def inside_def)

lemma summarize_succeeds:
  assumes xs: "mapM to_float (map ss_value (sr_samples sr)) = Inr xs" and "int (length (sr_samples sr)) \<le> 2 ^ 70"
  shows "\<exists>y. summarize sr = Inr y"
proof (cases "sr_samples sr = [] \<or> list_all isinstance_bool (map ss_value (sr_samples sr))")
  case True
  then show ?thesis by (auto simp: summarize_def Let_def)
next
  case False
  have len: "length xs = length (sr_samples sr)" using xs by (auto simp: mapM_eq_Inr dest: list_all2_lengthD)
  then obtain x rest where x: "xs = x # rest" using False by (cases xs) auto
  from float_of_count [of "length xs"] len assms(2) x obtain n where
    n: "float_of_int (int (length xs)) = Inr (Finite n)" "0 < n" by auto
  then obtain mean where "float_div (float_sum xs) (Finite n) = Inr mean"
    by (auto simp: float_div_def float_is_zero_def)
  then show ?thesis using False xs n by (simp add: summarize_def Let_def float_min_def float_max_def x)
qed

lemma finish_total:
  assumes "well_sampled l" and "length (inside w l) \<le> MAX_INVESTIGATION_RAW_FRAMES"
    and "\<forall>k \<in> set keys. \<exists>d. catalog_require catalog k = Inr d"
  shows "\<exists>res. finish_investigation m w catalog keys (reference_state w keys l p c) = Inr res"
proof -
  let ?r = "reference_state w keys l p c"
  have obs: "length (observed_samples (inside w l)) \<le> 8 * length (inside w l)" "typed_samples (observed_samples (inside w l))"
    using observed_bound [OF well_sampled_inside [OF assms(1)]] by auto
  have "\<exists>sr y. freeze_series catalog ?r k = Inr sr \<and> summarize sr = Inr y" if k: "k \<in> set keys" for k
  proof -
    let ?ss = "of_signal k (observed_samples (inside w l))"
    obtain d where d: "catalog_require catalog k = Inr d" using assms(3) k by blast
    have ss: "series_of ?r k = ?ss" using k by (simp add: series_of_def reference_state_def map_of_map_graph)
    have "\<forall>v \<in> set (map ss_value ?ss). \<exists>x. to_float v = Inr x"
      using obs(2) typed_sample_float by (fastforce simp: typed_samples_def of_signal_def)
    then obtain g where "\<And>v. v \<in> set (map ss_value ?ss) \<Longrightarrow> to_float v = Inr (g v)" by metis
    then have conv: "mapM to_float (map ss_value ?ss) = Inr (map g (map ss_value ?ss))" by (rule mapM_total)
    have "length ?ss \<le> length (observed_samples (inside w l))" by (simp add: of_signal_def)
    then have "int (length ?ss) \<le> 2 ^ 70" using obs(1) assms(2) by (simp add: MAX_INVESTIGATION_RAW_FRAMES_def)
    with summarize_succeeds [of "\<lparr>sr_definition = d, sr_samples = ?ss\<rparr>"] conv
    show ?thesis by (auto simp: freeze_series_def d ss)
  qed
  then obtain h z where hz: "\<And>k. k \<in> set keys \<Longrightarrow> freeze_series catalog ?r k = Inr (h k) \<and> summarize (h k) = Inr (z k)"
    by metis
  then have "mapM (freeze_series catalog ?r) keys = Inr (map h keys)" by (simp add: mapM_total)
  moreover have "mapM summarize (map h keys) = Inr (map (\<lambda>k. z k) keys)"
    using hz by (auto simp: mapM_eq_Inr list_all2_conv_all_nth)
  ultimately show ?thesis
    by (cases c) (simp add: finish_investigation_def reference_state_def)
qed

lemma bus_investigation:
  assumes dec: "faithful_decoder md" and frames: "reader_frames rd = (fs, None)" and bus: "\<forall>f \<in> set fs. bus_frame f"
    and w: "resolve_window (rd_manifest rd) center before after = Inr w"
    and rules: "create_default_diagnostic_catalog simulation_catalog = Inr rules"
    and keys: "resolve_signals simulation_catalog rules selected code = Inr keys"
  shows "if length (filter (\<lambda>f. iw_start w \<le> timestamp_microseconds f \<and> timestamp_microseconds f \<le> iw_end w) fs)
        \<le> MAX_INVESTIGATION_RAW_FRAMES
    then \<exists>res. investigate_reader md simulation_decoder rd center before after selected code = Inr res
      \<and> ir_window res = w \<and> ir_selected_signals res = keys
      \<and> map ef_raw_frame (ir_raw_frames res)
          = filter (\<lambda>f. iw_start w \<le> timestamp_microseconds f \<and> timestamp_microseconds f \<le> iw_end w) fs
    else investigate_reader md simulation_decoder rd center before after selected code = Inl too_many_frames"
proof -
  have sorted: "sorted (map timestamp_microseconds fs)" by (rule valid_frames_sorted [OF frames])
  have drules: "dc_rules rules = default_rules"
    using rules default_catalog_accepted by (auto simp: create_default_diagnostic_catalog_def)
  from investigation_engines_ok [OF rules] obtain p0 where
    p0: "investigation_engines simulation_decoder simulation_catalog rules = Inr p0" and ok: "pl_ok [] [] [] p0"
    and none: "te_latest_timestamp_microseconds (pl_engine p0) = None" by blast
  have total: "\<exists>l q. analyse_frames md simulation_decoder p0 (frames_upto t fs) = Inr (l, q)
      \<and> well_sampled l \<and> (\<exists>l' evs' xs'. pl_ok l' evs' xs' q)" for t
  proof -
    have bus': "\<forall>f \<in> set (frames_upto t fs). bus_frame f" using bus by (simp add: frames_upto_def)
    have "sorted (map timestamp_microseconds (frames_upto t fs))"
      using sorted by (simp add: frames_upto_def sorted_filter)
    from replay_frames_total [OF ok dec bus' this] none obtain q where
      "replay_frames md simulation_decoder p0 (frames_upto t fs) = (Inr (), q)" by auto
    from replay_analyses [OF this] obtain l where
      l: "analyse_frames md simulation_decoder p0 (frames_upto t fs) = Inr (l, q)" by blast
    from bus_analyses [OF ok dec bus' l] l show ?thesis by blast
  qed
  from total [of "iw_end w"] obtain l q where
    l: "analyse_frames md simulation_decoder p0 (frames_upto (iw_end w) fs) = Inr (l, q)" and ws: "well_sampled l" by blast
  from total [of "iw_center w"] obtain lc qc where
    lc: "analyse_frames md simulation_decoder p0 (frames_upto (iw_center w) fs) = Inr (lc, qc)"
    and "\<exists>l' evs' xs'. pl_ok l' evs' xs' qc" by blast
  with diagnostics_at_center_total obtain c where c: "diagnostics_at_center default_rules (pl_diagnostics qc) = Inr c"
    by blast
  have ow: "ordered_window w" by (rule resolve_window_ordered [OF w])
  have dk: "distinct keys" using resolve_signals_distinct [OF keys] by blast
  have cr: "center_readable md simulation_decoder default_rules w p0 fs" using lc c by (auto simp: center_readable_def)
  let ?in = "filter (\<lambda>f. iw_start w \<le> timestamp_microseconds f \<and> timestamp_microseconds f \<le> iw_end w) fs"
  have raws: "map ef_raw_frame (annotated_frames (inside w l)) = ?in" by (rule annotated_inside [OF l])
  then have len: "length (inside w l) = length ?in" by (metis length_annotated length_map)
  note loop = loop_total [OF ow sorted cr l, of keys]
  have unfold: "investigate_reader md simulation_decoder rd center before after selected code =
      rbind (investigate_frames md simulation_decoder default_rules w (new_investigation keys p0) fs) (\<lambda>s.
      rbind (capture_center default_rules s) (\<lambda>s1. finish_investigation (rd_manifest rd) w simulation_catalog keys s1))"
    using w rules keys p0 make_simulation_catalog frames drules
    by (simp add: investigate_reader_def simulation_metadata_def)
  show ?thesis
  proof (cases "length ?in \<le> MAX_INVESTIGATION_RAW_FRAMES")
    case True
    then have "length (inside w l) \<le> MAX_INVESTIGATION_RAW_FRAMES" using len by simp
    from finish_total [OF ws this resolve_signals_known [OF keys]] obtain res where
      res: "finish_investigation (rd_manifest rd) w simulation_catalog keys (reference_state w keys l q c) = Inr res" by blast
    have "investigate_reader md simulation_decoder rd center before after selected code = Inr res"
      unfolding unfold pass_is_reference [OF ow dk sorted] using lc c l res True len by simp
    moreover have "ir_window res = w" "ir_selected_signals res = keys" "ir_raw_frames res = annotated_frames (inside w l)"
      using finish_fields [OF res] by (simp_all add: reference_state_def)
    ultimately show ?thesis using raws True by auto
  next
    case False
    then show ?thesis using loop len unfold by simp
  qed
qed

section \<open>A recorded bus session\<close>

lemma record_all:
  "rec_inv m True gs r \<Longrightarrow> recorder_recording r \<Longrightarrow> \<forall>f \<in> set fs. encodable f \<Longrightarrow>
     sorted (map timestamp_microseconds (gs @ fs)) \<Longrightarrow> \<exists>r'. rec_inv m True (gs @ fs) r' \<and> recorder_recording r'"
proof (induction fs arbitrary: gs r)
  case (Cons f fs)
  have "\<forall>t. map_option timestamp_microseconds (last_opt gs) = Some t \<longrightarrow> t \<le> timestamp_microseconds f"
    using Cons.prems(4) by (cases gs rule: rev_cases) (auto simp: last_opt_def sorted_append)
  from record_all_ok [OF Cons.prems(1,2) _ this] Cons.prems(3) obtain r1 where
    "rec_inv m True (gs @ [f]) r1" "recorder_recording r1" by auto
  from Cons.IH [OF this] Cons.prems(3,4) show ?case by simp
qed auto

lemma bus_artifact:
  "\<exists>a rd. open_reader (stored a) None = Inr rd \<and> validate_integrity rd = Inr ()
     \<and> reader_frames rd = (bus_sample, None) \<and> rd_manifest rd = sealed (sr_manifest sample_recorder) bus_sample COMPLETE None"
proof -
  let ?m = "sr_manifest sample_recorder"
  have "recorder_recording sample_recorder" using make_recorder_inv [OF sample_recorder_made] by simp
  from record_all [OF sample_recorder_inv this, of bus_sample] sample_stream obtain r where
    inv: "rec_inv ?m True bus_sample r" and rec: "recorder_recording r" by auto
  obtain res r' where c: "recorder_complete all_ok r = (res, r')" by fastforce
  have "\<exists>v. res = Inr v" using complete_all_ok [OF inv rec] c by auto
  with inv rec c obtain a where r': "r' = r\<lparr>sr_closed := True, sr_manifest := sealed ?m bus_sample COMPLETE None,
      sr_disk := \<lparr>disk_partial = None, disk_final = Some (completed (sealed ?m bus_sample COMPLETE None) a)\<rparr>\<rparr>"
    by (cases rule: recorder_complete_cases) auto
  have "recorder_step r (all_ok, Op_Complete) = ([], r')" by (simp add: recorder_step_def c)
  then have "rec_inv ?m True bus_sample r'" using recorder_step_inv [OF inv, of "(all_ok, Op_Complete)"] by (simp add: all_ok_def)
  from recording_reads_back [OF this sample_identity, of _ None] r' show ?thesis by auto
qed

definition sample_id :: string where
  "sample_id = ''01234567-89ab-cdef-0123-456789abcdef''"

lemma sample_id_canonical: "canonical_uuid sample_id"
  by (simp add: sample_id_def canonical_uuid_iff dashed_def HEX_DIGITS_def)

text \<open>A session root that holds a recording of the sample bus traffic.\<close>

lemma bus_session:
  "\<exists>dir rd. store_reader [] dir sample_id True = Inr rd \<and> validate_integrity rd = Inr ()
     \<and> reader_frames rd = (bus_sample, None)
     \<and> mf_first_timestamp_microseconds (rd_manifest rd) = Some 10
     \<and> mf_last_timestamp_microseconds (rd_manifest rd) = Some 20"
proof -
  let ?m = "sr_manifest sample_recorder"
  from bus_artifact obtain a rd where rd: "open_reader (stored a) None = Inr rd" "validate_integrity rd = Inr ()"
    "reader_frames rd = (bus_sample, None)" and m: "rd_manifest rd = sealed ?m bus_sample COMPLETE None" by blast
  have "mf_session_id ?m = rq_identifier sample_request"
    using make_recorder_manifest [OF sample_recorder_made] initial_manifest_id by blast
  then have id: "mf_session_id (rd_manifest rd) = sample_id"
    by (simp add: m sealed_def with_counts_def sample_request_def sample_id_def)
  have comp: "compatibility [] (rd_manifest rd)"
    by (simp add: compatibility_def m sealed_def with_counts_def sample_recorder_sha is_supported_dbc_sha256_def)
  have "re_name (hd (the (sample_dir a))) = sample_id @ ARTIFACT_SUFFIX"
    by (simp add: sample_dir_def sample_id_def ARTIFACT_SUFFIX_def)
  then have "store_reader [] (sample_dir a) sample_id True = Inr rd"
    using rd(1,2) id comp sample_id_canonical
    by (simp add: store_reader_def sample_dir_def root_entries_def canonical_id_eq contained_artifact_def
        checked_reader_def validate_manifest_id_def)
  moreover have "mf_first_timestamp_microseconds (rd_manifest rd) = Some 10"
    "mf_last_timestamp_microseconds (rd_manifest rd) = Some 20"
    by (simp_all add: m sealed_def with_counts_def bus_sample_def)
  ultimately show ?thesis using rd(2,3) by blast
qed

definition sample_window :: investigation_window where
  "sample_window = \<lparr>iw_requested_center = 15, iw_center = 15, iw_requested_before = 2000000,
     iw_requested_after = 2000000, iw_start = 10, iw_end = 20\<rparr>"

lemma sample_window:
  assumes "mf_first_timestamp_microseconds m = Some 10" and "mf_last_timestamp_microseconds m = Some 20"
  shows "resolve_window m Py_None (Py_Int 2000000) (Py_Int 2000000) = Inr sample_window"
  using assms
  by (simp add: resolve_window_def check_extent_def MAX_INVESTIGATION_WINDOW_MICROSECONDS_def sample_window_def)

lemma coolant_selected: "resolve_signals simulation_catalog rules (Some [COOLANT]) None = Inr [COOLANT]"
proof -
  have "catalog_get simulation_catalog COOLANT \<noteq> None"
    by (rule default_required_known [of "hd default_rules"]) (simp_all add: default_rules_def diag_definition_def)
  then obtain d where "catalog_require simulation_catalog COOLANT = Inr d" by (auto simp: catalog_require_Inr)
  then show ?thesis by (simp add: resolve_signals_def selected_keys_def MAX_SELECTED_SIGNALS_def)
qed

lemma sample_in_window:
  "filter (\<lambda>f. iw_start sample_window \<le> timestamp_microseconds f \<and> timestamp_microseconds f \<le> iw_end sample_window) bus_sample
     = bus_sample"
  by (simp add: sample_window_def bus_sample_def)

lemma sample_investigation:
  assumes "reader_frames rd = (bus_sample, None)" and "mf_first_timestamp_microseconds (rd_manifest rd) = Some 10"
    and "mf_last_timestamp_microseconds (rd_manifest rd) = Some 20"
  shows "\<exists>res. investigate_reader zero_decoder simulation_decoder rd Py_None (Py_Int 2000000) (Py_Int 2000000)
      (Some [COOLANT]) None = Inr res \<and> map ef_raw_frame (ir_raw_frames res) = bus_sample
      \<and> ir_window res = sample_window \<and> ir_selected_signals res = [COOLANT]"
proof -
  obtain rules where r: "create_default_diagnostic_catalog simulation_catalog = Inr rules"
    using default_catalog_accepted by blast
  from bus_investigation [OF zero_decoder assms(1) bus_sample sample_window [OF assms(2,3)] r coolant_selected]
  show ?thesis unfolding sample_in_window by (auto simp: bus_sample_def MAX_INVESTIGATION_RAW_FRAMES_def)
qed

section \<open>Properties\<close>

text \<open>C7: the single pass of an investigation reports what a reference reports that replays the frames up to
  the centre for the diagnostic states, and the frames up to the end, filtered per signal, for the raw
  frames, series, context and events: on a session that validates, one returns a result exactly when the
  other returns the same.\<close>

theorem investigation_is_reference:
  assumes "validate_integrity rd = Inr ()"
  shows "investigate_reader md decoder rd center before after selected code = Inr res
    \<longleftrightarrow> reference_investigation md decoder rd center before after selected code = Inr res"
proof -
  obtain fs where fs: "reader_frames rd = (fs, None)"
    using reader_frames_end [of rd] assms by (cases "reader_frames rd") auto
  have sorted: "sorted (map timestamp_microseconds fs)" by (rule valid_frames_sorted [OF fs])
  show ?thesis
  proof (cases "resolve_window (rd_manifest rd) center before after")
    case (Inr w)
    note w = resolve_window_ordered [OF Inr]
    show ?thesis
      unfolding investigate_reader_def reference_investigation_def Inr rbind_simps fs prod.case fst_conv option.case
      by (intro rbind_same pass_is_reference [OF w _ sorted]) (use resolve_signals_distinct in blast)
  qed (simp add: investigate_reader_def reference_investigation_def)
qed

theorem investigation_is_reference_witness:
  "\<exists>rd res. validate_integrity rd = Inr () \<and> map ef_raw_frame (ir_raw_frames res) = bus_sample
     \<and> reference_investigation zero_decoder simulation_decoder rd Py_None (Py_Int 2000000) (Py_Int 2000000)
         (Some [COOLANT]) None = Inr res"
proof -
  obtain rd where rd: "validate_integrity rd = Inr ()" "reader_frames rd = (bus_sample, None)"
    "mf_first_timestamp_microseconds (rd_manifest rd) = Some 10" "mf_last_timestamp_microseconds (rd_manifest rd) = Some 20"
    using bus_session by blast
  from sample_investigation [OF rd(2-4)] investigation_is_reference [OF rd(1)] rd(1) show ?thesis by blast
qed

text \<open>Investigating recorded bus traffic fails for one reason only: with the packaged database, a session
  whose frames are all bus frames, a window inside the session and known signals, the result holds the
  frames of the window, unless there are more than 8192 of them; then the limit error is raised and no
  evidence is silently dropped.\<close>

theorem investigation_limit_exact:
  assumes "faithful_decoder md" and "reader_frames rd = (fs, None)" and "\<forall>f \<in> set fs. bus_frame f"
    and "resolve_window (rd_manifest rd) center before after = Inr w"
    and "create_default_diagnostic_catalog simulation_catalog = Inr rules"
    and "resolve_signals simulation_catalog rules selected code = Inr keys"
  shows "if length (filter (\<lambda>f. iw_start w \<le> timestamp_microseconds f \<and> timestamp_microseconds f \<le> iw_end w) fs)
        \<le> MAX_INVESTIGATION_RAW_FRAMES
    then \<exists>res. investigate_reader md simulation_decoder rd center before after selected code = Inr res
      \<and> ir_window res = w \<and> ir_selected_signals res = keys
      \<and> map ef_raw_frame (ir_raw_frames res)
          = filter (\<lambda>f. iw_start w \<le> timestamp_microseconds f \<and> timestamp_microseconds f \<le> iw_end w) fs
    else investigate_reader md simulation_decoder rd center before after selected code = Inl too_many_frames"
  using bus_investigation [OF assms] .

theorem investigation_limit_exact_witness:
  "\<exists>rd res. investigate_reader zero_decoder simulation_decoder rd Py_None (Py_Int 2000000) (Py_Int 2000000)
      (Some [COOLANT]) None = Inr res \<and> length (ir_raw_frames res) = 3"
proof -
  obtain rd where rd: "reader_frames rd = (bus_sample, None)"
    "mf_first_timestamp_microseconds (rd_manifest rd) = Some 10" "mf_last_timestamp_microseconds (rd_manifest rd) = Some 20"
    using bus_session by blast
  obtain rules where r: "create_default_diagnostic_catalog simulation_catalog = Inr rules"
    using default_catalog_accepted by blast
  have len: "length bus_sample = 3" by (simp add: bus_sample_def)
  from investigation_limit_exact [OF zero_decoder rd(1) bus_sample sample_window [OF rd(2,3)] r coolant_selected]
  have "\<exists>res. investigate_reader zero_decoder simulation_decoder rd Py_None (Py_Int 2000000) (Py_Int 2000000)
      (Some [COOLANT]) None = Inr res \<and> map ef_raw_frame (ir_raw_frames res) = bus_sample"
    unfolding sample_in_window using len by (auto simp: MAX_INVESTIGATION_RAW_FRAMES_def)
  then show ?thesis using len by (metis length_map)
qed

text \<open>C37: which windows are accepted, and that an accepted one lies in the session, contains its centre and is
  no longer than the requested extents and the limit of thirty seconds; without a requested centre every
  session with frames has one.\<close>

theorem investigation_window_exact:
  "((\<exists>w. resolve_window m center before after = Inr w) \<longleftrightarrow>
      (\<exists>b a lo hi. before = Py_Int b \<and> after = Py_Int a \<and> 0 \<le> b \<and> 0 \<le> a \<and> b + a \<le> 30000000
         \<and> mf_first_timestamp_microseconds m = Some lo \<and> mf_last_timestamp_microseconds m = Some hi
         \<and> (case center of Py_None \<Rightarrow> lo \<le> hi | Py_Int c \<Rightarrow> lo \<le> c \<and> c \<le> hi | _ \<Rightarrow> False)))
    \<and> (case resolve_window m center before after of
         Inl e \<Rightarrow> exn_class e = Investigation_Query_Error
       | Inr w \<Rightarrow> (\<exists>lo hi. mf_first_timestamp_microseconds m = Some lo \<and> mf_last_timestamp_microseconds m = Some hi
           \<and> lo \<le> iw_start w \<and> iw_start w \<le> iw_center w \<and> iw_center w \<le> iw_end w \<and> iw_end w \<le> hi
           \<and> window_duration w \<le> iw_requested_before w + iw_requested_after w \<and> window_duration w \<le> 30000000))"
proof (cases "(\<exists>b. before = Py_Int b \<and> 0 \<le> b) \<and> (\<exists>a. after = Py_Int a \<and> 0 \<le> a)")
  case True
  then obtain b a where "before = Py_Int b" "0 \<le> b" "after = Py_Int a" "0 \<le> a" by blast
  then show ?thesis
    by (cases "mf_first_timestamp_microseconds m"; cases "mf_last_timestamp_microseconds m"; cases center)
       (auto simp: resolve_window_def check_extent_def Let_def MAX_INVESTIGATION_WINDOW_MICROSECONDS_def window_duration_def)
next
  case False
  then show ?thesis
    using not_plain_int_iff [of before] not_plain_int_iff [of after]
    by (auto simp: resolve_window_def check_extent_def split: if_splits)
qed

text \<open>C38: the summary of a series is typed: no samples give an unobserved summary with nothing in it, booleans
  their distinct values and no statistics, and anything else a minimum and a maximum that are observed
  values bounding all of them and a mean; the count, first and last value are those of the series.\<close>

theorem summary_is_typed:
  assumes "mapM to_float (map ss_value (sr_samples sr)) = Inr xs" and "Not_A_Number \<notin> set xs"
    and "int (length (sr_samples sr)) \<le> 2 ^ 70"
  shows "\<exists>y. summarize sr = Inr y \<and> sy_key y = sd_key (sr_definition sr)
    \<and> sy_observation_count y = int (length (sr_samples sr)) \<and> summary_typed sr xs y
    \<and> (sr_samples sr \<noteq> [] \<longrightarrow> sy_first y = Some (ss_value (hd (sr_samples sr)))
         \<and> sy_last y = Some (ss_value (last (sr_samples sr))))"
  using summarize_total [OF assms] .

definition sample_series :: "signal_definition \<Rightarrow> pyfloat list \<Rightarrow> signal_series" where
  "sample_series d xs = \<lparr>sr_definition = d, sr_samples = map (\<lambda>x. \<lparr>ss_key = sd_key d, ss_value = Py_Float x,
     ss_timestamp_microseconds = 0, ss_frame_sequence = 0, ss_arbitration_id = 0, ss_message_name = [],
     ss_source_ecu = [], ss_unit = []\<rparr>) xs\<rparr>"

theorem summary_is_typed_witness:
  "\<exists>y. summarize (sample_series undefined [Finite 2, Finite 5, Finite 3]) = Inr y
     \<and> sy_observation_count y = 3 \<and> sy_first y = Some (Py_Float (Finite 2))"
  using summary_is_typed [of "sample_series undefined [Finite 2, Finite 5, Finite 3]" "[Finite 2, Finite 5, Finite 3]"]
  by (auto simp: sample_series_def)

end
