(* ===== verification/Investigation_Comparison.thy ===== *)
theory Investigation_Comparison
  imports Investigation_Properties
begin

text \<open>
  What the comparison of two recorded sessions reports: which sessions may be compared, where the window
  of the baseline lies, and that the summaries of the same signals are paired.
\<close>

section \<open>The summaries of a result\<close>

lemma summarize_key: "summarize sr = Inr y \<Longrightarrow> sy_key y = sd_key (sr_definition sr)"
  by (auto simp: summarize_def Let_def rbind_eq_Inr split: if_splits)

lemma catalogued_get_key: "make_signal_catalog ms = Inr c \<Longrightarrow> catalog_get c k = Some d \<Longrightarrow> sd_key d = k"
  by (drule make_catalog_catalogued) (auto simp: catalog_get_def catalogued_def map_of_keyed_Some)

lemma frozen_key:
  assumes "make_signal_catalog ms = Inr catalog" and "freeze_series catalog s k = Inr sr"
  shows "sd_key (sr_definition sr) = k"
  using assms catalogued_get_key by (auto simp: freeze_series_def rbind_eq_Inr catalog_require_Inr)

lemma finish_summaries:
  assumes "make_signal_catalog ms = Inr catalog" and "finish_investigation m w catalog keys s = Inr res"
  shows "map sy_key (ir_signal_summaries res) = keys"
proof -
  from assms(2) obtain series ys where series: "mapM (freeze_series catalog s) keys = Inr series"
    and ys: "mapM summarize series = Inr ys" and res: "ir_signal_summaries res = ys"
    by (auto simp: finish_investigation_def rbind_eq_Inr split: option.splits prod.splits)
  have "list_all2 (\<lambda>k sr. k = sd_key (sr_definition sr)) keys series"
    using series frozen_key [OF assms(1)] by (auto simp: mapM_eq_Inr elim!: list_all2_mono)
  then have "keys = map (\<lambda>sr. sd_key (sr_definition sr)) series"
    using list_all2_map_fst [of "\<lambda>k. k"] by auto
  moreover have "list_all2 (\<lambda>sr y. sd_key (sr_definition sr) = sy_key y) series ys"
    using ys summarize_key by (auto simp: mapM_eq_Inr elim!: list_all2_mono)
  ultimately show ?thesis using list_all2_map_fst by (fastforce simp: res)
qed

lemma investigate_reader_fields:
  assumes "investigate_reader md decoder rd center before after selected code = Inr res"
  shows "resolve_window (rd_manifest rd) center before after = Inr (ir_window res)
    \<and> ir_session res = rd_manifest rd \<and> map sy_key (ir_signal_summaries res) = ir_selected_signals res
    \<and> (\<forall>keys. selected = Some keys \<longrightarrow> ir_selected_signals res = keys)"
proof -
  obtain fs ending where frames: "reader_frames rd = (fs, ending)" by fastforce
  from assms obtain w catalog rules keys p0 s1 where w: "resolve_window (rd_manifest rd) center before after = Inr w"
    and catalog: "make_signal_catalog (dec_metadata decoder) = Inr catalog"
    and keys: "resolve_signals catalog rules selected code = Inr keys"
    and res: "finish_investigation (rd_manifest rd) w catalog keys s1 = Inr res"
    by (cases ending) (auto simp: investigate_reader_def rbind_eq_Inr frames)
  have "\<forall>ks. selected = Some ks \<longrightarrow> keys = ks"
    using keys by (auto simp: resolve_signals_def selected_keys_def Let_def rbind_eq_Inr split: if_splits)
  with w finish_fields [OF res] finish_summaries [OF catalog res] show ?thesis by simp
qed

lemma investigate_fields:
  assumes "investigate md resource dir decoder i center before after selected code = Inr res"
  obtains rd where "store_reader resource dir i True = Inr rd"
    and "resolve_window (rd_manifest rd) center before after = Inr (ir_window res)"
    and "ir_session res = rd_manifest rd" and "map sy_key (ir_signal_summaries res) = ir_selected_signals res"
    and "\<forall>keys. selected = Some keys \<longrightarrow> ir_selected_signals res = keys"
  using assms that investigate_reader_fields unfolding investigate_def rbind_eq_Inr by metis

lemma store_reader_id: "store_reader resource dir i c = Inr rd \<Longrightarrow> mf_session_id (rd_manifest rd) = i"
  by (drule store_reader_Inr) (auto simp: entry_reader_def)

lemma require_compatible_Inr:
  "require_compatible p b = Inr u \<longleftrightarrow> mf_dbc_sha256 p = mf_dbc_sha256 b \<and> mf_can_network p = mf_can_network b
     \<and> mf_vehicle_profile_id p = mf_vehicle_profile_id b"
  by (auto simp: require_compatible_def compatibility_differences_def Let_def split: if_splits)

lemma clamp_center_Inr:
  "clamp_center m center = Inr c \<Longrightarrow>
     \<exists>lo hi i. mf_first_timestamp_microseconds m = Some lo \<and> mf_last_timestamp_microseconds m = Some hi
       \<and> center = Py_Int i \<and> c = min (max i lo) hi"
  using not_plain_int_iff [of center]
  by (auto simp: clamp_center_def split: if_splits option.splits)

lemma resolve_window_center:
  "resolve_window m (Py_Int c) before after = Inr w \<Longrightarrow> iw_center w = c"
  by (auto simp: resolve_window_def Let_def rbind_eq_Inr split: if_splits option.splits)

lemma compare_summaries_fields [simp]:
  "sc_key (compare_summaries x y) = sy_key x" "sc_primary (compare_summaries x y) = x"
  "sc_baseline (compare_summaries x y) = y"
  "sc_mean_difference (compare_summaries x y) = None \<longleftrightarrow> sy_mean x = None \<or> sy_mean y = None"
  by (auto simp: compare_summaries_def split: option.splits)

lemma paired_fields:
  assumes "length xs = length ys"
  shows "map sc_key (map (\<lambda>(x, y). compare_summaries x y) (zip xs ys)) = map sy_key xs
    \<and> map sc_primary (map (\<lambda>(x, y). compare_summaries x y) (zip xs ys)) = xs
    \<and> map sc_baseline (map (\<lambda>(x, y). compare_summaries x y) (zip xs ys)) = ys"
  using assms by (induction xs ys rule: list_induct2) simp_all

section \<open>Properties\<close>

text \<open>C39: a comparison compares like with like: the two sessions carry the requested IDs and agree on database
  hash, network and vehicle profile, both results are about the same selected signals, the baseline's centre is
  the requested one (or the primary's) moved into the baseline session, and there is one entry per selected
  signal, in order, that pairs the two summaries of that signal and gives the difference of the means exactly
  when both exist.\<close>

theorem comparison_pairs_signals:
  assumes "compare_sessions md resource dir decoder primary_id baseline_id primary_center baseline_center
    before after selected code = Inr c"
  shows "(let p = ic_primary c; b = ic_baseline c; xs = ic_signal_comparisons c in
      mf_session_id (ir_session p) = primary_id \<and> mf_session_id (ir_session b) = baseline_id
    \<and> mf_dbc_sha256 (ir_session p) = mf_dbc_sha256 (ir_session b)
    \<and> mf_can_network (ir_session p) = mf_can_network (ir_session b)
    \<and> mf_vehicle_profile_id (ir_session p) = mf_vehicle_profile_id (ir_session b)
    \<and> ir_selected_signals b = ir_selected_signals p
    \<and> map sc_key xs = ir_selected_signals p
    \<and> map sc_primary xs = ir_signal_summaries p \<and> map sc_baseline xs = ir_signal_summaries b
    \<and> (\<forall>x \<in> set xs. sy_key (sc_primary x) = sc_key x \<and> sy_key (sc_baseline x) = sc_key x
         \<and> (sc_mean_difference x = None \<longleftrightarrow> sy_mean (sc_primary x) = None \<or> sy_mean (sc_baseline x) = None))
    \<and> (\<exists>lo hi i. mf_first_timestamp_microseconds (ir_session b) = Some lo
         \<and> mf_last_timestamp_microseconds (ir_session b) = Some hi
         \<and> (if baseline_center = Py_None then i = iw_center (ir_window p) else baseline_center = Py_Int i)
         \<and> iw_center (ir_window b) = min (max i lo) hi))"
proof -
  from assms obtain rp rb u p center b pairs where
    rp: "store_reader resource dir primary_id True = Inr rp" and rb: "store_reader resource dir baseline_id True = Inr rb"
    and comp: "require_compatible (rd_manifest rp) (rd_manifest rb) = Inr u"
    and p: "investigate md resource dir decoder primary_id primary_center before after selected code = Inr p"
    and center: "clamp_center (rd_manifest rb)
        (if baseline_center = Py_None then Py_Int (iw_center (ir_window p)) else baseline_center) = Inr center"
    and b: "investigate md resource dir decoder baseline_id (Py_Int center) before after
        (Some (ir_selected_signals p)) code = Inr b"
    and pairs: "zip_strict (ir_signal_summaries p) (ir_signal_summaries b) = Inr pairs"
    and c: "c = \<lparr>ic_primary = p, ic_baseline = b, ic_signal_comparisons = map (\<lambda>(x, y). compare_summaries x y) pairs,
        ic_diagnostic_code = code, ic_primary_has_diagnostic_event = has_event p code,
        ic_baseline_has_diagnostic_event = has_event b code\<rparr>"
    unfolding compare_sessions_def rbind_eq_Inr by blast
  from investigate_fields [OF p] rp have fp: "ir_session p = rd_manifest rp"
    "map sy_key (ir_signal_summaries p) = ir_selected_signals p" by (metis Inr_inject)+
  from investigate_fields [OF b] rb have fb: "ir_session b = rd_manifest rb"
    "map sy_key (ir_signal_summaries b) = ir_selected_signals p" "ir_selected_signals b = ir_selected_signals p"
    "resolve_window (rd_manifest rb) (Py_Int center) before after = Inr (ir_window b)"
    by (metis Inr_inject)+
  have len: "length (ir_signal_summaries p) = length (ir_signal_summaries b)"
    and zip: "pairs = zip (ir_signal_summaries p) (ir_signal_summaries b)"
    using pairs by (auto simp: zip_strict_def split: if_splits)
  have keys: "sy_key y = sy_key x" if "(x, y) \<in> set pairs" for x y
    using that fp(2) fb(2) by (auto simp: zip in_set_zip) (metis len nth_map)
  obtain lo hi i where clamp: "mf_first_timestamp_microseconds (rd_manifest rb) = Some lo"
    "mf_last_timestamp_microseconds (rd_manifest rb) = Some hi" "center = min (max i lo) hi"
    "(if baseline_center = Py_None then Py_Int (iw_center (ir_window p)) else baseline_center) = Py_Int i"
    using clamp_center_Inr [OF center] by blast
  have i: "if baseline_center = Py_None then i = iw_center (ir_window p) else baseline_center = Py_Int i"
    using clamp(4) by (simp split: if_splits)
  have iw: "iw_center (ir_window b) = min (max i lo) hi" using resolve_window_center [OF fb(4)] clamp(3) by simp
  have "map sc_key (ic_signal_comparisons c) = ir_selected_signals p"
    "map sc_primary (ic_signal_comparisons c) = ir_signal_summaries p"
    "map sc_baseline (ic_signal_comparisons c) = ir_signal_summaries b"
    using paired_fields [OF len] fp(2) by (simp_all add: c zip)
  then show ?thesis
    using fp(1) fb(1,3) store_reader_id [OF rp] store_reader_id [OF rb] comp [unfolded require_compatible_Inr]
      clamp(1,2) i iw keys
    unfolding Let_def by (simp add: c split: if_splits) (fastforce split: if_splits)+
qed

text \<open>A session compared with itself.\<close>

theorem comparison_pairs_signals_witness:
  "\<exists>dir c. compare_sessions zero_decoder [] dir simulation_decoder sample_id sample_id Py_None Py_None
       (Py_Int 2000000) (Py_Int 2000000) (Some [COOLANT]) None = Inr c
     \<and> map sc_key (ic_signal_comparisons c) = [COOLANT] \<and> iw_center (ir_window (ic_baseline c)) = 15"
proof -
  obtain dir rd where rd: "store_reader [] dir sample_id True = Inr rd" "reader_frames rd = (bus_sample, None)"
    and ts: "mf_first_timestamp_microseconds (rd_manifest rd) = Some 10"
      "mf_last_timestamp_microseconds (rd_manifest rd) = Some 20" using bus_session by blast
  from sample_investigation [OF rd(2) ts] obtain res where
    res: "investigate_reader zero_decoder simulation_decoder rd Py_None (Py_Int 2000000) (Py_Int 2000000)
      (Some [COOLANT]) None = Inr res"
    and w: "ir_window res = sample_window" and sel: "ir_selected_signals res = [COOLANT]" by blast
  have "resolve_window (rd_manifest rd) (Py_Int 15) (Py_Int 2000000) (Py_Int 2000000)
      = resolve_window (rd_manifest rd) Py_None (Py_Int 2000000) (Py_Int 2000000)"
    unfolding sample_window [OF ts] using ts
    by (simp add: resolve_window_def check_extent_def MAX_INVESTIGATION_WINDOW_MICROSECONDS_def sample_window_def)
  then have again: "investigate_reader zero_decoder simulation_decoder rd (Py_Int 15) (Py_Int 2000000) (Py_Int 2000000)
      (Some [COOLANT]) None = Inr res" using res by (simp add: investigate_reader_def)
  have "require_compatible (rd_manifest rd) (rd_manifest rd) = Inr ()" by (simp add: require_compatible_Inr)
  moreover have "clamp_center (rd_manifest rd) (Py_Int 15) = Inr 15" using ts by (simp add: clamp_center_def)
  ultimately obtain c where c: "compare_sessions zero_decoder [] dir simulation_decoder sample_id sample_id Py_None
      Py_None (Py_Int 2000000) (Py_Int 2000000) (Some [COOLANT]) None = Inr c" and p: "ic_primary c = res" "ic_baseline c = res"
    using rd(1) res again w sel
    by (simp add: compare_sessions_def investigate_def zip_strict_def sample_window_def)
  have "map sc_key (ic_signal_comparisons c) = [COOLANT]"
    using comparison_pairs_signals [OF c] p sel unfolding Let_def by simp
  moreover have "iw_center (ir_window (ic_baseline c)) = 15" using p w by (simp add: sample_window_def)
  ultimately show ?thesis using c by (intro exI [of _ dir] exI [of _ c]) simp
qed

end
