(* ===== verification/Api_Properties.thy ===== *)
theory Api_Properties
  imports Api_Websocket Investigation_Comparison Telemetry_Properties
begin

text \<open>
  What a client of the interface can rely on: a WebSocket shows the published events in order and ends
  with one close, the statistics of a served engine always serialize, and investigating recorded bus
  traffic never answers with an internal error.
\<close>

section \<open>What a subscriber receives\<close>

lemma received_shape:
  assumes "0 < cap" and "client_steps (new_client cap) c"
  shows "prefix (item_events (cl_received c)) (cl_offered c)
    \<and> (cl_received c = map Event_Item (item_events (cl_received c))
       \<or> cl_received c = map Event_Item (item_events (cl_received c)) @ [slow])"
proof -
  have inv: "client_inv c" by (rule client_steps_inv [OF assms(2) new_client_inv [OF assms(1)]])
  show ?thesis
  proof (cases "sub_active (cl_sub c)")
    case True
    then show ?thesis using inv by (auto simp: client_inv_def in_flight_def only_events_def)
  next
    case False
    then have "abandoned c" using inv by (simp add: client_inv_def)
    then show ?thesis
      by (auto simp: abandoned_def closing_def Let_def only_events_def dest: append_prefixD)
  qed
qed

section \<open>The loop of a connection\<close>

definition ends_stream :: "service_event \<Rightarrow> int option" where
  "ends_stream e = (case e of State_Event u \<Rightarrow> closes_with (su_state u) | _ \<Rightarrow> None)"

definition stream_close :: "subscriber_item list \<Rightarrow> 'm ws_action list" where
  "stream_close tail = (if tail = [] then [] else [Close 1013 (Some ''slow_client'')])"

lemma then_do_simps [simp]: "then_do [] c = c" "then_do (a # as) c = (a # as @ fst c, snd c)"
  by (simp_all add: then_do_def)

text \<open>Up to the first event that ends the stream, or to what follows the events.\<close>

lemma loop_running:
  assumes "list_all2 (\<lambda>e m. adapt () e = Inr m) es ms" and "\<forall>e \<in> set es. ends_stream e = None"
  shows "subscriber_loop adapt (map (\<lambda>x. (x, ())) (map Event_Item es @ items))
    = then_do (map Send ms) (subscriber_loop adapt (map (\<lambda>x. (x, ())) items))"
  using assms by (induction rule: list_all2_induct) (auto simp: then_do_def ends_stream_def)

lemma loop_ended:
  assumes "adapt () e = Inr m" and "ends_stream e = Some code"
  shows "subscriber_loop adapt (map (\<lambda>x. (x, ())) (Event_Item e # items)) = ([Send m, Close code None], Returned)"
  using assms by (simp add: ends_stream_def)

text \<open>How a connection that follows the events \<open>es\<close> and then \<open>tail\<close> goes on and ends.\<close>

lemma loop_outcome:
  fixes adapt :: "unit \<Rightarrow> service_event \<Rightarrow> 'm result"
  assumes ok: "\<forall>e \<in> set es. \<exists>m. adapt () e = Inr m" and tail: "tail = [] \<or> tail = [slow]"
  shows "\<exists>shown ms close. prefix shown es \<and> list_all2 (\<lambda>e m. adapt () e = Inr m) shown ms
    \<and> subscriber_loop adapt (map (\<lambda>x. (x, ())) (map Event_Item es @ tail))
        = (map Send ms @ close, if close = [] then Waiting else Returned)
    \<and> (\<forall>e \<in> set (butlast shown). ends_stream e = None)
    \<and> (if shown \<noteq> [] \<and> ends_stream (last shown) \<noteq> None
       then close = [Close (the (ends_stream (last shown))) None]
       else shown = es \<and> close = stream_close tail)"
proof -
  obtain run rest where es: "es = run @ rest" and none: "\<forall>e \<in> set run. ends_stream e = None"
    and hd: "rest = [] \<or> ends_stream (hd rest) \<noteq> None"
    using hd_dropWhile [of "\<lambda>e. ends_stream e = None" es] set_takeWhileD [of _ "\<lambda>e. ends_stream e = None" es]
      takeWhile_dropWhile_id [of "\<lambda>e. ends_stream e = None" es] by metis
  obtain f where f: "\<And>e. e \<in> set es \<Longrightarrow> adapt () e = Inr (f e)" using ok by metis
  have run: "list_all2 (\<lambda>e m. adapt () e = Inr m) run (map f run)"
    using f by (auto simp: es list_all2_map2 list_all2_same)
  show ?thesis
  proof (cases rest)
    case Nil
    obtain close :: "'m ws_action list" where close: "close = stream_close tail" by blast
    have "subscriber_loop adapt (map (\<lambda>x. (x, ())) tail) = (close, if close = [] then Waiting else Returned)"
      using tail by (auto simp: stream_close_def close)
    then have "subscriber_loop adapt (map (\<lambda>x. (x, ())) (map Event_Item run @ tail))
        = (map Send (map f run) @ close, if close = [] then Waiting else Returned)"
      using loop_running [where adapt = adapt and items = tail, OF run none] by (simp add: then_do_def)
    moreover have "\<not> (run \<noteq> [] \<and> ends_stream (last run) \<noteq> None)" using none by (metis last_in_set)
    moreover have "\<forall>e \<in> set (butlast run). ends_stream e = None" using none by (auto dest: in_set_butlastD)
    ultimately show ?thesis
      using run close unfolding es Nil append_Nil2
      by (intro exI [of _ run] exI [of _ "map f run"] exI [of _ close] conjI) (simp_all, auto)
  next
    case (Cons e more)
    then obtain code where code: "ends_stream e = Some code" using hd by auto
    have e: "adapt () e = Inr (f e)" using f by (simp add: es Cons)
    have "subscriber_loop adapt (map (\<lambda>x. (x, ())) (map Event_Item run @ Event_Item e # map Event_Item more @ tail))
        = (map Send (map f (run @ [e])) @ [Close code None], Returned)"
      using loop_running [where adapt = adapt and items = "Event_Item e # map Event_Item more @ tail", OF run none]
      unfolding loop_ended [where adapt = adapt, OF e code] by (simp add: then_do_def)
    then show ?thesis
      using none run e code
      by (intro exI [of _ "run @ [e]"] exI [of _ "map f (run @ [e])"] exI [of _ "[Close code None]"])
        (simp add: es Cons list_all2_appendI)
  qed
qed

lemma update_message:
  "length (tu_samples u) = length (tu_freshness u) \<Longrightarrow> \<exists>m. telemetry_event_message (Telemetry_Event u) = Inr m"
  by (simp add: serialize_update_def zip_strict_def)

text \<open>What the service publishes: one freshness per sample.\<close>

lemma published_update_paired:
  "ingest_decoded s f = (Inr u, s') \<Longrightarrow> length (tu_samples u) = length (tu_freshness u)"
  by (auto simp: ingest_decoded_def make_telemetry_update_def rbind_eq_Inr mapM_eq_Inr Let_def
      dest!: list_all2_lengthD split: if_splits prod.splits sum.splits list.splits)

definition telemetry_events :: "service_event list \<Rightarrow> bool" where
  "telemetry_events es \<longleftrightarrow> (\<forall>e \<in> set es. case e of
     Telemetry_Event u \<Rightarrow> length (tu_samples u) = length (tu_freshness u)
   | State_Event _ \<Rightarrow> True | Can_Event _ \<Rightarrow> False)"

lemma telemetry_events_message:
  "telemetry_events es \<Longrightarrow> e \<in> set es \<Longrightarrow> \<exists>m. telemetry_event_message e = Inr m"
  using update_message unfolding telemetry_events_def by (cases e) (fastforce simp del: telemetry_event_message.simps(1))+


text \<open>A client of capacity one that receives the event that completes the source.\<close>

lemma one_event_received:
  "\<exists>c. client_steps (new_client 1) c \<and> cl_offered c = [e] \<and> cl_received c = [Event_Item e]"
proof -
  let ?s0 = "make_subscription 1"
  let ?s1 = "?s0\<lparr>sub_outstanding := 1\<rparr>"
  let ?s2 = "?s1\<lparr>sub_loop := [Deliver e]\<rparr>"
  let ?s3 = "?s1\<lparr>sub_queue := [Event_Item e]\<rparr>"
  let ?c1 = "(new_client 1)\<lparr>cl_sub := ?s1, cl_publisher := Posting e, cl_offered := [e]\<rparr>"
  let ?c2 = "?c1\<lparr>cl_sub := ?s2, cl_publisher := Quiet\<rparr>"
  let ?c3 = "?c2\<lparr>cl_sub := ?s1, cl_loop := Putting e\<rparr>"
  let ?c4 = "?c3\<lparr>cl_sub := ?s3, cl_loop := Idle\<rparr>"
  let ?c5 = "?c4\<lparr>cl_sub := ?s1, cl_loop := Taken (Event_Item e), cl_received := [Event_Item e]\<rparr>"
  have 1: "client_step (new_client 1) ?c1"
    using client_step.reserve [of "new_client 1" ?s1 e] by (simp add: new_client_def make_subscription_def sub_reserve_def)
  have 2: "client_step ?c1 ?c2"
    using client_step.post [of ?c1 e ?s2] by (simp add: new_client_def make_subscription_def call_soon_def)
  have 3: "client_step ?c2 ?c3"
    using client_step.start_delivery [of ?c2 e "[]"] by (simp add: new_client_def make_subscription_def)
  have 4: "client_step ?c3 ?c4"
    using client_step.put [of ?c3 e ?s3] by (simp add: new_client_def make_subscription_def put_nowait_def)
  have 5: "client_step ?c4 ?c5"
    using client_step.take_item [of ?c4 "Event_Item e" ?s1] by (simp add: new_client_def make_subscription_def sub_take_def)
  have "client_steps (new_client 1) ?c5"
    by (rule rtranclp_trans [OF two_steps [OF 1 2] three_steps [OF 3 4 5]])
  then show ?thesis by (intro exI [of _ ?c5]) simp
qed

definition empty_snapshot :: telemetry_snapshot where
  "empty_snapshot = \<lparr>sn_observation_timestamp_microseconds = None, sn_last_frame_sequence = None, sn_samples = [],
     sn_freshness = [], sn_statistics = \<lparr>st_total_frames = 0, st_total_signal_updates = 0,
     st_latest_timestamp_microseconds = None, st_last_frame_sequence = None, st_frames_by_arbitration_id = []\<rparr>\<rparr>"

definition running_status :: telemetry_service_status where
  "running_status = \<lparr>st_state = RUNNING, st_last_error = None, st_statistics = sn_statistics empty_snapshot,
     st_source_mode = LIVE\<rparr>"


section \<open>The statistics of a served engine\<close>

definition counts_known :: "telemetry_engine \<Rightarrow> bool" where
  "counts_known e \<longleftrightarrow> (\<forall>i \<in> set (dict_keys (te_frames_by_arbitration_id e)).
     dict_get (cat_messages_by_id (te_catalog e)) i \<noteq> None)"

lemma store_samples_keep [simp]:
  "te_catalog (foldl store_sample e ss) = te_catalog e"
  "te_frames_by_arbitration_id (foldl store_sample e ss) = te_frames_by_arbitration_id e"
  by (induction ss arbitrary: e) (simp_all add: store_sample_def)

lemma frame_samples_known:
  "frame_samples e f = Inr ss \<Longrightarrow> dict_get (cat_messages_by_id (te_catalog e)) (df_arbitration_id f) \<noteq> None"
  by (auto simp: frame_samples_def definitions_for_frame_def rbind_eq_Inr split: option.splits)

lemma bump_keys: "set (dict_keys (bump_count i d)) = insert i (set (dict_keys d))"
  by (simp add: bump_count_def)

lemma ingest_counts_known:
  assumes "telemetry_ingest e f = (r, e')" and "counts_known e"
  shows "counts_known e'"
proof (cases "frame_samples e f")
  case (Inr ss)
  then have "te_catalog e' = te_catalog e"
    "set (dict_keys (te_frames_by_arbitration_id e'))
      = insert (df_arbitration_id f) (set (dict_keys (te_frames_by_arbitration_id e)))"
    using assms(1) unfolding bump_keys [symmetric] by (auto simp: telemetry_ingest_def Let_def)
  then show ?thesis using assms(2) frame_samples_known [OF Inr] by (simp only: counts_known_def) blast
qed (use assms in \<open>simp add: telemetry_ingest_def\<close>)

lemma feed_counts_known:
  "telemetry_feed e fs = (e', l) \<Longrightarrow> counts_known e \<Longrightarrow> counts_known e'"
  by (induction e fs arbitrary: l rule: telemetry_feed.induct)
    (auto split: prod.splits sum.splits dest: ingest_counts_known)

lemma sum_of_indicator: "distinct ks \<Longrightarrow> i \<in> set ks \<Longrightarrow> sum_list (map (\<lambda>k. if i = k then 1 else 0) ks) = (1::int)"
  by (simp add: sum_list_distinct_conv_sum_set)

lemma sum_of_counts:
  "distinct ks \<Longrightarrow> \<forall>b \<in> set l. df_arbitration_id (fst b) \<in> set ks \<Longrightarrow> sum_list (map (id_count l) ks) = int (length l)"
proof (induction l)
  case Nil
  then show ?case by (simp add: id_count_def)
next
  case (Cons b l)
  have "id_count (b # l) = (\<lambda>k. id_count l k + (if df_arbitration_id (fst b) = k then 1 else 0))"
    by (auto simp: id_count_def)
  with Cons sum_of_indicator [of ks "df_arbitration_id (fst b)"] show ?case by (simp add: sum_list_addf)
qed

lemma names_of_message:
  assumes "make_signal_catalog ms = Inr c" and "m \<in> set ms" and "mm_signals m \<noteq> []"
  shows "dict_get (names_by_id c) (mm_arbitration_id m) = Some (mm_message_name m)"
proof -
  have cat: "catalogued c ms (metadata_definitions ms)" by (rule make_catalog_catalogued [OF assms(1)])
  have defs: "cat_definitions c = metadata_definitions ms" and dist: "distinct (map mm_arbitration_id ms)"
    using cat by (simp_all add: catalogued_def)
  have same: "sd_message_name d = mm_message_name m"
    if "d \<in> set (metadata_definitions ms)" "sd_arbitration_id d = mm_arbitration_id m" for d
    using that dist assms(2) by (auto simp: set_metadata_definitions make_definition_def distinct_map inj_on_def)
  obtain s where "s \<in> set (mm_signals m)" using assms(3) by (cases "mm_signals m") auto
  then have d: "make_definition m s \<in> set (metadata_definitions ms)"
    using assms(2) by (auto simp: set_metadata_definitions)
  let ?table = "rev (map (\<lambda>d. (sd_arbitration_id d, sd_message_name d)) (metadata_definitions ms))"
  have "dict_get ?table (mm_arbitration_id m) \<noteq> None"
    using imageI [OF d, of sd_arbitration_id]
    by (simp only: map_of_eq_None_iff) (simp add: image_image make_definition_def)
  then obtain name where n: "dict_get ?table (mm_arbitration_id m) = Some name" by blast
  then have "name = mm_message_name m" using same by (auto dest!: dict_get_mem)
  with n show ?thesis by (simp add: names_by_id_def defs dict_get_dict_of)
qed

definition count_of :: "(int, string) dict \<Rightarrow> int \<times> int \<Rightarrow> message_frame_count_response" where
  "count_of names x =
     \<lparr>rmf_arbitration_id = fst x, rmf_arbitration_id_hex = format_arbitration_id (fst x),
      rmf_message_name = the (dict_get names (fst x)), rmf_frames = snd x\<rparr>"

lemma counts_serialized:
  assumes "\<forall>x \<in> set d. dict_get names (fst x) \<noteq> None"
  shows "mapM (message_count names) d = Inr (map (count_of names) d)"
  using assms by (intro mapM_total) (auto simp: message_count_def count_of_def split: prod.splits)

lemma represented_counts:
  assumes "represents e l"
  shows "distinct (dict_keys (te_frames_by_arbitration_id e))"
    and "\<forall>x \<in> set (te_frames_by_arbitration_id e). snd x = id_count l (fst x)"
    and "\<forall>b \<in> set l. df_arbitration_id (fst b) \<in> set (dict_keys (te_frames_by_arbitration_id e))"
proof -
  let ?d = "te_frames_by_arbitration_id e"
  show dist: "distinct (dict_keys ?d)" using assms by (simp add: represents_def)
  have count: "(case dict_get ?d i of None \<Rightarrow> 0 | Some n \<Rightarrow> n) = id_count l i" for i
    using assms by (simp add: represents_def)
  show "\<forall>x \<in> set ?d. snd x = id_count l (fst x)"
  proof
    fix x assume x: "x \<in> set ?d"
    then have "dict_get ?d (fst x) = Some (snd x)" by (intro map_of_is_SomeI dist) simp
    with count [of "fst x"] show "snd x = id_count l (fst x)" by simp
  qed
  show "\<forall>b \<in> set l. df_arbitration_id (fst b) \<in> set (dict_keys ?d)"
  proof
    fix b assume b: "b \<in> set l"
    then have "b \<in> set (filter (\<lambda>x. df_arbitration_id (fst x) = df_arbitration_id (fst b)) l)" by simp
    then have "id_count l (df_arbitration_id (fst b)) \<noteq> 0" unfolding id_count_def
      by (metis length_pos_if_in_set less_irrefl of_nat_eq_0_iff)
    with count [of "df_arbitration_id (fst b)"] have "dict_get ?d (df_arbitration_id (fst b)) \<noteq> None"
      by (cases "dict_get ?d (df_arbitration_id (fst b))") simp_all
    then show "df_arbitration_id (fst b) \<in> set (dict_keys ?d)" using dict_get_key [of ?d] by blast
  qed
qed

lemma sorted_by_key:
  fixes d :: "(int \<times> int) list"
  assumes "distinct (map fst d)"
  shows "sorted (map fst (sort d))" and "distinct (map fst (sort d))"
proof -
  have "sorted_wrt (\<lambda>x y. fst x \<le> fst y) (sort d)"
    by (rule sorted_wrt_mono_rel [of _ "(\<le>)"]) (auto simp: less_eq_prod_def)
  then show "sorted (map fst (sort d))" by (simp add: sorted_map)
  show "distinct (map fst (sort d))" using assms by (simp add: distinct_map)
qed

definition rows_of :: "can_database_metadata \<Rightarrow> telemetry_log \<Rightarrow> telemetry_statistics_response \<Rightarrow> bool" where
  "rows_of ms l st \<longleftrightarrow> sum_list (map rmf_frames (rts_frames_by_message st)) = int (length l)
    \<and> sorted (map rmf_arbitration_id (rts_frames_by_message st))
    \<and> distinct (map rmf_arbitration_id (rts_frames_by_message st))
    \<and> (\<forall>x \<in> set (rts_frames_by_message st). rmf_frames x = id_count l (rmf_arbitration_id x)
         \<and> (\<exists>m \<in> set ms. mm_arbitration_id m = rmf_arbitration_id x \<and> mm_message_name m = rmf_message_name x))"

lemma counts_sum:
  assumes "represents e l"
  shows "sum_list (map snd (sort (te_frames_by_arbitration_id e))) = int (length l)"
proof -
  let ?d = "te_frames_by_arbitration_id e"
  note cnt = represented_counts [OF assms]
  have dist: "distinct ?d" using cnt(1) by (simp add: distinct_map)
  have "map snd ?d = map (id_count l) (dict_keys ?d)" using cnt(2) by simp
  then have "sum_list (map snd ?d) = int (length l)" using sum_of_counts [OF cnt(1,3)] by (simp only:)
  with dist show ?thesis by (simp add: sum_list_distinct_conv_sum_set)
qed

lemma statistics_serialize:
  assumes "make_signal_catalog ms = Inr c" and ms: "\<forall>m \<in> set ms. mm_signals m \<noteq> []"
    and rep: "represents e l" and known: "counts_known e" and c: "te_catalog e = c"
    and "service_catalog s = c"
  shows "\<exists>st. serialize_statistics (telemetry_statistics_of e) s = Inr st \<and> rows_of ms l st
    \<and> rts_total_frames st = int (length l)"
proof -
  have cat: "catalogued c ms (metadata_definitions ms)" by (rule make_catalog_catalogued [OF assms(1)])
  let ?d = "te_frames_by_arbitration_id e" and ?names = "names_by_id c"
  have message: "\<exists>m \<in> set ms. mm_arbitration_id m = fst x" if "x \<in> set ?d" for x
    using that cat known by (fastforce simp: counts_known_def c catalogued_def map_of_eq_None_iff image_image)
  note names = names_of_message [OF assms(1)] and cnt = represented_counts [OF rep]
  have ok: "\<forall>x \<in> set (sort ?d). dict_get ?names (fst x) \<noteq> None"
    using message names ms by (metis option.distinct(1) set_sort)
  let ?st = "\<lparr>rts_total_frames = te_total_frames e, rts_total_signal_updates = te_total_signal_updates e,
      rts_latest_timestamp_microseconds = te_latest_timestamp_microseconds e,
      rts_last_frame_sequence = te_last_frame_sequence e,
      rts_frames_by_message = map (count_of ?names) (sort ?d)\<rparr>"
  have row: "\<exists>m \<in> set ms. mm_arbitration_id m = fst y \<and> mm_message_name m = the (dict_get ?names (fst y))"
    if y: "y \<in> set ?d" for y
  proof -
    obtain m where m: "m \<in> set ms" "mm_arbitration_id m = fst y" using message [OF y] by blast
    then show ?thesis using names [OF m(1)] ms by (intro bexI [of _ m]) auto
  qed
  have "rows_of ms l ?st"
    using counts_sum [OF rep] sorted_by_key [OF cnt(1)] cnt(2) row by (auto simp: rows_of_def count_of_def comp_def)
  moreover have "serialize_statistics (telemetry_statistics_of e) s = Inr ?st"
    using counts_serialized [OF ok]
    by (simp add: serialize_statistics_def telemetry_statistics_of_def assms(6) dict_of_distinct [OF cnt(1)])
  ultimately show ?thesis using rep by (intro exI [of _ ?st]) (simp add: represents_def)
qed

text \<open>C14: the statistics of a served engine never fail to serialize and agree with the frames it accepted:
  whatever frames the engine was fed, when every message of its database has a signal, both endpoints
  answer, with the same statistics, whose rows are ordered by identifier without repetition, name the
  message of the identifier, count its accepted frames and sum to the total.\<close>

theorem statistics_endpoint_total:
  assumes "make_signal_catalog ms = Inr c" and "\<forall>m \<in> set ms. 0 < mm_cycle_time_microseconds m \<and> mm_signals m \<noteq> []"
    and "make_telemetry_engine c capacity = Inr e0" and "telemetry_feed e0 fs = (e, l)"
    and "pl_engine (ts_pipeline s) = e"
  shows "\<exists>st sn. get_statistics s = Inr st \<and> get_telemetry s = Inr sn \<and> rsn_statistics sn = st
    \<and> rts_total_frames st = int (length l)
    \<and> sum_list (map rmf_frames (rts_frames_by_message st)) = int (length l)
    \<and> sorted (map rmf_arbitration_id (rts_frames_by_message st))
    \<and> distinct (map rmf_arbitration_id (rts_frames_by_message st))
    \<and> (\<forall>x \<in> set (rts_frames_by_message st). rmf_frames x = id_count l (rmf_arbitration_id x)
         \<and> (\<exists>m \<in> set ms. mm_arbitration_id m = rmf_arbitration_id x \<and> mm_message_name m = rmf_message_name x))"
proof -
  have "wf_catalog c" using assms(1,2) by (auto simp: wf_catalog_def)
  then have "represents e0 []" using represents_make [OF assms(3)] by simp
  from telemetry_feed_represents [OF this assms(4)] have rep: "represents e l" and "te_catalog e = te_catalog e0" by auto
  moreover have e0: "te_catalog e0 = c" "te_frames_by_arbitration_id e0 = []"
    using assms(3) by (auto simp: make_telemetry_engine_def telemetry_reset_def split: if_splits)
  ultimately have c: "te_catalog e = c" by simp
  have "counts_known e0" by (simp add: counts_known_def e0)
  from feed_counts_known [OF assms(4) this] have known: "counts_known e" .
  have "\<forall>m \<in> set ms. mm_signals m \<noteq> []" and "service_catalog s = c"
    using assms(2) by (simp_all add: service_catalog_def assms(5) c)
  from statistics_serialize [OF assms(1) this(1) rep known c this(2)] obtain st where
    st: "serialize_statistics (telemetry_statistics_of e) s = Inr st" "rows_of ms l st" "rts_total_frames st = int (length l)"
    by blast
  obtain sn where sn: "telemetry_snapshot_of e None = Inr sn" "sn_statistics sn = telemetry_statistics_of e"
    using represents_snapshot [OF rep] by blast
  have "get_statistics s = Inr st" using st by (simp add: get_statistics_def service_statistics_def assms(5) tried_def)
  moreover have "\<exists>r. get_telemetry s = Inr r \<and> rsn_statistics r = st"
    using sn st by (simp add: get_telemetry_def service_snapshot_def assms(5) tried_def serialize_snapshot_def)
  ultimately show ?thesis using st(2,3) unfolding rows_of_def by blast
qed

theorem statistics_endpoint_total_witness:
  "\<forall>s. \<exists>e l st. telemetry_feed sample_engine sample_feed = (e, l)
     \<and> get_statistics (s\<lparr>ts_pipeline := (ts_pipeline s)\<lparr>pl_engine := e\<rparr>\<rparr>) = Inr st
     \<and> sum_list (map rmf_frames (rts_frames_by_message st)) = 3"
proof
  fix s :: telemetry_service
  obtain e l where f: "telemetry_feed sample_engine sample_feed = (e, l)" by force
  then have l: "length l = 3" using sample_feed_result by simp
  have ms: "\<forall>m \<in> set sample_metadata. 0 < mm_cycle_time_microseconds m \<and> mm_signals m \<noteq> []"
    by (simp add: sample_metadata_def)
  have p: "pl_engine (ts_pipeline (s\<lparr>ts_pipeline := (ts_pipeline s)\<lparr>pl_engine := e\<rparr>\<rparr>)) = e" by simp
  from statistics_endpoint_total [OF sample_signal_catalog ms sample_engine f p] l f
  show "\<exists>e l st. telemetry_feed sample_engine sample_feed = (e, l)
     \<and> get_statistics (s\<lparr>ts_pipeline := (ts_pipeline s)\<lparr>pl_engine := e\<rparr>\<rparr>) = Inr st
     \<and> sum_list (map rmf_frames (rts_frames_by_message st)) = 3" by auto
qed

section \<open>Investigating recorded bus traffic\<close>

lemma resolve_window_error: "resolve_window m center before after = Inl e \<Longrightarrow> exn_class e = Investigation_Query_Error"
  by (auto simp: resolve_window_def check_extent_def rbind_def Let_def split: if_splits option.splits sum.splits)

lemma resolve_signals_error:
  "resolve_signals catalog rules selected code = Inl e \<Longrightarrow>
     exn_class e \<in> {Investigation_Query_Error, Unknown_Diagnostic_Code_Error, Telemetry_Schema_Error}"
  by (auto simp: resolve_signals_def diag_catalog_require_def catalog_require_def rbind_def Let_def
      split: if_splits option.splits sum.splits dest!: mapM_eq_Inl)

lemma query_error_status:
  "exn_class e \<in> {Investigation_Query_Error, Unknown_Diagnostic_Code_Error, Telemetry_Schema_Error} \<Longrightarrow>
     investigation_tried single_session_errors (Inl e) = Inl (HTTP_Exception 422 (exn_message e))"
  by (auto simp: investigation_tried_def single_session_errors_def investigation_error_def catches_def
      is_subclass_def subclass_upto.simps)

lemma limit_error_status:
  "investigation_tried single_session_errors (Inl too_many_frames)
     = Inl (HTTP_Exception 413 (exn_message too_many_frames))"
  by (simp add: investigation_tried_def single_session_errors_def investigation_error_def catches_def
      is_subclass_def subclass_upto.simps too_many_frames_def)

lemma investigation_signals_error:
  "investigation_signals v = Inl e \<Longrightarrow>
     e = HTTP_Exception 422 ''signal must use canonical MessageName.SignalName form''"
proof -
  have one: "investigation_signal x = Inl e \<Longrightarrow> e = HTTP_Exception 422 ''signal must use canonical MessageName.SignalName form''"
    for x e by (auto simp: investigation_signal_def split: prod.splits if_splits)
  have "collect_signals vs = Inl e \<Longrightarrow> e = HTTP_Exception 422 ''signal must use canonical MessageName.SignalName form''"
    for vs e by (induction vs) (auto simp: hbind_def dest: one split: sum.splits)
  then show "investigation_signals v = Inl e \<Longrightarrow> ?thesis"
    by (auto simp: investigation_signals_def hbind_def split: option.splits sum.splits)
qed

definition in_window :: "investigation_window_response \<Rightarrow> raw_can_frame list \<Rightarrow> raw_can_frame list" where
  "in_window w fs = filter (\<lambda>f. riw_start_timestamp_microseconds w \<le> timestamp_microseconds f
     \<and> timestamp_microseconds f \<le> riw_end_timestamp_microseconds w) fs"

lemma serialized_frames:
  "map (\<lambda>x. (rcf_arbitration_id x, rcf_payload x, rcf_timestamp_microseconds x)) (map serialize_can_frame xs)
     = map (\<lambda>f. (arbitration_id f, map uint (payload f), timestamp_microseconds f)) (map ef_raw_frame xs)"
  by (simp add: serialize_can_frame_def Let_def)

text \<open>One query of a session of bus frames, once its parameters are accepted.\<close>

lemma bus_query:
  assumes dec: "faithful_decoder md" and opened: "store_reader resource dir i True = Inr rd"
    and frames: "reader_frames rd = (fs, None)" and bus: "\<forall>f \<in> set fs. bus_frame f"
  shows "case investigation_tried single_session_errors
        (investigate md resource dir simulation_decoder i center before after selected code) of
      Inr res \<Rightarrow> \<exists>r. serialize_investigation res = Inr r \<and> rss_session_id (rir_session r) = i
        \<and> length (rir_raw_frames r) \<le> MAX_INVESTIGATION_RAW_FRAMES
        \<and> map (\<lambda>x. (rcf_arbitration_id x, rcf_payload x, rcf_timestamp_microseconds x)) (rir_raw_frames r)
            = map (\<lambda>f. (arbitration_id f, map uint (payload f), timestamp_microseconds f)) (in_window (rir_window r) fs)
    | Inl e \<Rightarrow> e = HTTP_Exception 413 (exn_message too_many_frames) \<or> (\<exists>detail. e = HTTP_Exception 422 detail)"
proof -
  obtain rules where rules: "create_default_diagnostic_catalog simulation_catalog = Inr rules"
    using default_catalog_accepted by blast
  have inv: "investigate md resource dir simulation_decoder i center before after selected code
      = investigate_reader md simulation_decoder rd center before after selected code"
    by (simp add: investigate_def opened)
  show ?thesis
  proof (cases "resolve_window (rd_manifest rd) center before after")
    case (Inl e)
    then have "investigate_reader md simulation_decoder rd center before after selected code = Inl e"
      by (simp add: investigate_reader_def)
    then show ?thesis by (simp add: inv query_error_status resolve_window_error [OF Inl])
  next
    case w: (Inr w)
    show ?thesis
    proof (cases "resolve_signals simulation_catalog rules selected code")
      case (Inl e)
      then have "investigate_reader md simulation_decoder rd center before after selected code = Inl e"
        by (simp add: investigate_reader_def w make_simulation_catalog rules simulation_metadata_def [symmetric])
      then show ?thesis by (simp add: inv query_error_status [OF resolve_signals_error [OF Inl]])
    next
      case keys: (Inr keys)
      let ?in = "filter (\<lambda>f. iw_start w \<le> timestamp_microseconds f \<and> timestamp_microseconds f \<le> iw_end w) fs"
      note result = bus_investigation [OF dec frames bus w rules keys]
      show ?thesis
      proof (cases "length ?in \<le> MAX_INVESTIGATION_RAW_FRAMES")
        case True
        with result obtain res where
          res: "investigate_reader md simulation_decoder rd center before after selected code = Inr res"
          and iw: "ir_window res = w" and raw: "map ef_raw_frame (ir_raw_frames res) = ?in" by auto
        have session: "ir_session res = rd_manifest rd" using investigate_reader_fields [OF res] by blast
        obtain ps where "file_holds rd ps" using frames_file_holds [OF frames] by blast
        then obtain h where "mf_frames_sha256 (rd_manifest rd) = Some h"
          by (auto simp: file_holds_def manifest_describes_def)
        then obtain r where r: "serialize_investigation res = Inr r"
          and id: "rss_session_id (rir_session r) = mf_session_id (rd_manifest rd)"
          and win: "rir_window r = serialize_window w" and rf: "rir_raw_frames r = map serialize_can_frame (ir_raw_frames res)"
          by (simp add: serialize_investigation_def serialize_session_detail_def session iw
              session_summary_response.defs serialize_session_summary_def)
        have "length (ir_raw_frames res) = length ?in" using raw by (metis length_map)
        moreover have "in_window (rir_window r) fs = ?in" by (simp add: in_window_def win serialize_window_def)
        ultimately show ?thesis
          using r id rf True store_reader_id [OF opened] raw serialized_frames [of "ir_raw_frames res"]
          by (simp add: inv res investigation_tried_def)
      next
        case False
        with result show ?thesis by (simp add: inv limit_error_status)
      qed
    qed
  qed
qed

text \<open>C16: investigating recorded bus traffic never answers with an internal error: when the session opens and
  holds frames of the bus, the endpoint refuses parameters out of their bounds, answers 422 for a query that
  names no valid window or signals and 413 when the window holds more than 8192 frames, and otherwise
  responds with the session of that ID and exactly the raw frames of its window.\<close>

theorem investigation_endpoint_answers:
  assumes "faithful_decoder md" and "store_reader resource dir i True = Inr rd"
    and "reader_frames rd = (fs, None)" and "\<forall>f \<in> set fs. bus_frame f"
  shows "case get_session_investigation md resource dir simulation_decoder i q of
      Inr r \<Rightarrow> rss_session_id (rir_session r) = i \<and> length (rir_raw_frames r) \<le> MAX_INVESTIGATION_RAW_FRAMES
        \<and> map (\<lambda>x. (rcf_arbitration_id x, rcf_payload x, rcf_timestamp_microseconds x)) (rir_raw_frames r)
            = map (\<lambda>f. (arbitration_id f, map uint (payload f), timestamp_microseconds f)) (in_window (rir_window r) fs)
    | Inl Request_Refused \<Rightarrow> iq_before_us q < 0 \<or> iq_after_us q < 0 \<or> (\<exists>c. iq_center_us q = Some c \<and> c < 0)
    | Inl (HTTP_Exception status detail) \<Rightarrow> status = 422 \<or> status = 413 \<and> detail = exn_message too_many_frames
    | Inl (Uncaught e) \<Rightarrow> False"
proof -
  let ?refused = "iq_before_us q < 0 \<or> iq_after_us q < 0 \<or> (\<exists>c. iq_center_us q = Some c \<and> c < 0)"
  have checked: "checked_query q k = (if ?refused then Inl Request_Refused else k)" for k :: "investigation_response http"
    by (auto simp: checked_query_def bounded_query_def bounded_opt_def split: option.splits)
  show ?thesis
  proof (cases ?refused)
    case True
    then show ?thesis by (simp add: get_session_investigation_def checked)
  next
    case False
    show ?thesis
    proof (cases "investigation_signals (iq_signal q)")
      case (Inl e)
      then show ?thesis
        using investigation_signals_error [OF Inl] False by (simp add: get_session_investigation_def checked)
    next
      case (Inr selected)
      let ?run = "investigation_tried single_session_errors (investigate md resource dir simulation_decoder i
        (optional_int (iq_center_us q)) (Py_Int (iq_before_us q)) (Py_Int (iq_after_us q)) selected (iq_code q))"
      have get: "get_session_investigation md resource dir simulation_decoder i q
          = hbind ?run (\<lambda>r. untried (serialize_investigation r))"
        unfolding get_session_investigation_def checked if_not_P [OF False] Inr hbind_simps ..
      note result = bus_query [OF assms, of "optional_int (iq_center_us q)" "Py_Int (iq_before_us q)"
          "Py_Int (iq_after_us q)" selected "iq_code q"]
      show ?thesis
      proof (cases ?run)
        case (Inl e)
        then show ?thesis using result unfolding get by auto
      next
        case (Inr res)
        then obtain r where "serialize_investigation res = Inr r" using result by auto
        then show ?thesis using result unfolding get Inr by (simp add: tried_def)
      qed
    qed
  qed
qed

definition coolant_query :: investigation_query where
  "coolant_query = \<lparr>iq_center_us = None, iq_before_us = 2000000, iq_after_us = 2000000,
     iq_signal = Some [''DmeThermalElectrical.CoolantTemperature''], iq_code = None\<rparr>"

theorem investigation_endpoint_answers_witness:
  "\<exists>dir r. get_session_investigation zero_decoder [] dir simulation_decoder sample_id coolant_query = Inr r
     \<and> rss_session_id (rir_session r) = sample_id"
proof -
  obtain dir rd where rd: "store_reader [] dir sample_id True = Inr rd" "reader_frames rd = (bus_sample, None)"
    and ts: "mf_first_timestamp_microseconds (rd_manifest rd) = Some 10"
      "mf_last_timestamp_microseconds (rd_manifest rd) = Some 20" using bus_session by blast
  from sample_investigation [OF rd(2) ts] obtain res where
    res: "investigate_reader zero_decoder simulation_decoder rd Py_None (Py_Int 2000000) (Py_Int 2000000)
      (Some [COOLANT]) None = Inr res" by blast
  have sel: "investigation_signals (Some [''DmeThermalElectrical.CoolantTemperature'']) = Inr (Some [COOLANT])"
    by (simp add: investigation_signals_def investigation_signal_def COOLANT_def)
  have inv: "investigation_tried single_session_errors (investigate zero_decoder [] dir simulation_decoder sample_id Py_None
      (Py_Int 2000000) (Py_Int 2000000) (Some [COOLANT]) None) = Inr res"
    by (simp add: investigate_def rd(1) res investigation_tried_def)
  with bus_query [OF zero_decoder rd bus_sample, of Py_None "Py_Int 2000000" "Py_Int 2000000" "Some [COOLANT]" None]
  obtain r where "serialize_investigation res = Inr r" by auto
  with inv sel have "get_session_investigation zero_decoder [] dir simulation_decoder sample_id coolant_query = Inr r"
    by (simp add: get_session_investigation_def coolant_query_def checked_query_def bounded_query_def
        bounded_opt_def optional_int_def tried_def)
  with investigation_endpoint_answers [OF zero_decoder rd bus_sample, of coolant_query] show ?thesis by auto
qed

end
