(* ===== verification/Service_Stop.thy ===== *)
theory Service_Stop
  imports Telemetry_Service
begin

text \<open>
  Stopping the telemetry service: once a stop is requested, the worker ends after a bounded number of
  its steps, whatever its connection and its disk do, and joining it succeeds.
\<close>

section \<open>How far a stopping worker is from its end\<close>

fun steps_left :: "worker \<Rightarrow> nat" where
  "steps_left Worker_Done = 0"
| "steps_left Gateway_Cleanup = 1"
| "steps_left (Gateway_Failed _) = 2"
| "steps_left Gateway_Completed = 2"
| "steps_left (Gateway_Failing _) = 3"
| "steps_left Gateway_Completing = 4"
| "steps_left Gateway_Connecting = 4"
| "steps_left Gateway_Streaming = 5"
| "steps_left (Gateway_Decode _) = 6"
| "steps_left (Gateway_Explore _) = 7"
| "steps_left (Gateway_Record _) = 8"
| "steps_left Replay_Waiting = 1"
| "steps_left Replay_Completed = 1"
| "steps_left (Replay_Failed _) = 1"
| "steps_left Replay_Streaming = 2"
| "steps_left (Replay_Decode _) = 3"
| "steps_left (Replay_Explore _) = 4"

text \<open>What the connection can answer: to connecting, and to waiting for the next frame.\<close>

fun answers :: "worker \<Rightarrow> world \<Rightarrow> bool" where
  "answers Gateway_Connecting w \<longleftrightarrow> (case w of Connected \<Rightarrow> True | Raised _ \<Rightarrow> True | _ \<Rightarrow> False)"
| "answers Gateway_Streaming w \<longleftrightarrow> w \<noteq> Connected"
| "answers Replay_Streaming w \<longleftrightarrow> w \<noteq> Connected"
| "answers _ w \<longleftrightarrow> True"

definition stopping :: "telemetry_service \<Rightarrow> bool" where
  "stopping s \<longleftrightarrow> ts_stop_requested s \<and> ts_replay_start s"

lemma go_keeps [simp]: "ts_worker (go w s) = Some w" "stopping (go w s) = stopping s"
  by (simp_all add: go_def stopping_def)

lemma transition_stopping [simp]:
  "stopping (transition_locked st err s) = stopping s" "stopping (unless_stopped st err s) = stopping s"
  by (simp_all add: stopping_def transition_locked_def unless_stopped_def Let_def)

lemma ingest_stopping:
  "ingest_can_explorer md s f = (r, s1) \<Longrightarrow> stopping s1 = stopping s"
  "ingest_decoded s d = (v, s2) \<Longrightarrow> stopping s2 = stopping s"
  by (auto simp: ingest_can_explorer_def ingest_decoded_def stopping_def Let_def
      split: prod.splits sum.splits if_splits)

lemma stopping_updates [simp]:
  "stopping (s\<lparr>ts_recorder := r\<rparr>) = stopping s" "stopping (s\<lparr>ts_client := c\<rparr>) = stopping s"
  by (simp_all add: stopping_def)

text \<open>Every step of a stopping worker brings it nearer to its end, and none is missing.\<close>

definition nearer :: "worker \<Rightarrow> telemetry_service option \<Rightarrow> bool" where
  "nearer wk r \<longleftrightarrow> (\<exists>s' wk'. r = Some s' \<and> stopping s' \<and> ts_worker s' = Some wk' \<and> steps_left wk' < steps_left wk)"

lemma nearer_go: "stopping s \<Longrightarrow> steps_left w < steps_left wk \<Longrightarrow> nearer wk (Some (go w s))"
  by (simp add: nearer_def)

lemma cleanup_ends: "stopping s \<Longrightarrow> nearer Gateway_Cleanup (Some (gateway_cleanup io s))"
  by (auto simp: gateway_cleanup_def split: option.splits prod.splits sum.splits intro!: nearer_go)

lemma failing_fails: "stopping s \<Longrightarrow> nearer (Gateway_Failing ex) (Some (gateway_failing io ex s))"
  by (auto simp: gateway_failing_def split: option.splits prod.splits sum.splits intro!: nearer_go)

lemma completing_ends: "stopping s \<Longrightarrow> nearer Gateway_Completing (Some (gateway_completing io s))"
  by (auto simp: gateway_completing_def split: option.splits prod.splits sum.splits intro!: nearer_go)

lemma record_advances: "stopping s \<Longrightarrow> nearer (Gateway_Record f) (Some (gateway_record io f s))"
  by (auto simp: gateway_record_def split: option.splits prod.splits sum.splits intro!: nearer_go)

lemma explore_advances:
  "stopping s \<Longrightarrow> steps_left next_one < steps_left wk \<Longrightarrow> (\<And>ex. steps_left (failed ex) < steps_left wk) \<Longrightarrow>
     nearer wk (Some (explore_frame md f next_one failed s))"
  by (auto simp: explore_frame_def split: prod.splits sum.splits intro!: nearer_go dest: ingest_stopping(1))

lemma decode_advances:
  "stopping s \<Longrightarrow> steps_left next_one < steps_left wk \<Longrightarrow> (\<And>ex. steps_left (failed ex) < steps_left wk) \<Longrightarrow>
     nearer wk (Some (decode_into_telemetry md f next_one failed s))"
  by (auto simp: decode_into_telemetry_def split: prod.splits sum.splits intro!: nearer_go dest: ingest_stopping(2))

lemma stopping_step:
  assumes "stopping s" and "wk \<noteq> Worker_Done" and "answers wk w"
  shows "nearer wk (worker_step md io w wk s)"
proof -
  have req: "ts_stop_requested s" "ts_replay_start s" using assms(1) by (simp_all add: stopping_def)
  have conn: "nearer Gateway_Connecting (Some (gateway_connect s))"
    using assms(1) req by (auto simp: gateway_connect_def Let_def intro!: nearer_go)
  have nxt: "nearer Gateway_Streaming (Some (gateway_next f s))" for f
    using assms(1) req by (auto simp: gateway_next_def intro!: nearer_go)
  show ?thesis
    using assms req conn nxt
    by (cases wk; cases w)
      (auto simp: cleanup_ends failing_fails completing_ends record_advances explore_advances decode_advances
        intro!: nearer_go)
qed

section \<open>Runs of the worker\<close>

text \<open>
  Up to \<open>n\<close> steps of the worker thread; \<open>io\<close> and \<open>env\<close> are what the disk and the connection do, chosen
  anew for every step.
\<close>

fun worker_run ::
  "msg_decoder \<Rightarrow> (nat \<Rightarrow> io) \<Rightarrow> (nat \<Rightarrow> worker \<Rightarrow> world) \<Rightarrow> nat \<Rightarrow> telemetry_service \<Rightarrow> telemetry_service" where
  "worker_run md io env 0 s = s"
| "worker_run md io env (Suc n) s =
     (case ts_worker s of
        None \<Rightarrow> s
      | Some wk \<Rightarrow>
          (case worker_step md (io n) (env n wk) wk s of
             None \<Rightarrow> s
           | Some s1 \<Rightarrow> worker_run md io env n s1))"

lemma worker_done_stuck: "worker_step md io w Worker_Done s = None"
  by (cases w) simp_all

lemma stopping_run:
  assumes "\<And>n wk. answers wk (env n wk)"
  shows "stopping s \<Longrightarrow> ts_worker s = Some wk \<Longrightarrow> steps_left wk \<le> n \<Longrightarrow> \<not> worker_alive (worker_run md io env n s)"
proof (induction n arbitrary: s wk)
  case 0
  then show ?case by (cases wk) (simp_all add: worker_alive_def)
next
  case (Suc n)
  show ?case
  proof (cases "wk = Worker_Done")
    case True
    then show ?thesis using Suc.prems by (simp add: worker_done_stuck worker_alive_def)
  next
    case False
    from stopping_step [OF Suc.prems(1) False assms [where n = n and wk = wk], of md "io n"]
    obtain s1 wk1 where "worker_step md (io n) (env n wk) wk s = Some s1" "stopping s1" "ts_worker s1 = Some wk1"
      "steps_left wk1 < steps_left wk" using assms by (auto simp: nearer_def)
    with Suc show ?thesis by simp
  qed
qed

lemma steps_left_bound: "steps_left wk \<le> 8"
  by (cases wk) simp_all

lemma run_without_worker: "ts_worker s = None \<Longrightarrow> worker_run md io env n s = s"
  by (cases n) simp_all

section \<open>Properties\<close>

text \<open>C5: stopping terminates: from any state of the service, whatever the connection answers and whichever
  file operations fail, the worker has ended after at most eight of its steps once a stop is requested, and
  joining it then succeeds and leaves the service stopped, without worker and connection.\<close>

theorem stop_terminates:
  assumes "\<And>n wk. answers wk (env n wk)"
  shows "\<not> worker_alive (worker_run md io env 8 (stop_request s))
    \<and> (case stop_join (worker_run md io env 8 (stop_request s)) of (r, s2) \<Rightarrow>
         r = Inr () \<and> ts_state s2 = STOPPED \<and> ts_worker s2 = None \<and> \<not> ts_client s2)"
proof -
  let ?s1 = "worker_run md io env 8 (stop_request s)"
  have dead: "\<not> worker_alive ?s1"
  proof (cases "ts_worker (stop_request s)")
    case None
    then show ?thesis by (simp add: run_without_worker worker_alive_def)
  next
    case (Some wk)
    have "stopping (stop_request s)" by (simp add: stopping_def stop_request_def)
    from stopping_run [OF assms this Some steps_left_bound] show ?thesis .
  qed
  then show ?thesis by (simp add: stop_join_def Let_def transition_locked_def)
qed

theorem stop_terminates_witness:
  "\<forall>md s io. ts_state (snd (stop_join (worker_run md io
     (\<lambda>n wk. if wk = Gateway_Connecting then Connected else Stream_End) 8
     (stop_request (s\<lparr>ts_worker := Some Gateway_Connecting\<rparr>))))) = STOPPED"
proof (intro allI)
  fix md :: msg_decoder and s :: telemetry_service and io :: "nat \<Rightarrow> io"
  let ?env = "\<lambda>(n::nat) wk. if wk = Gateway_Connecting then Connected else Stream_End"
  have "answers wk (?env n wk)" for n wk by (cases wk) simp_all
  from stop_terminates [of ?env md io "s\<lparr>ts_worker := Some Gateway_Connecting\<rparr>", OF this]
  show "ts_state (snd (stop_join (worker_run md io ?env 8 (stop_request (s\<lparr>ts_worker := Some Gateway_Connecting\<rparr>))))) = STOPPED"
    by (auto split: prod.splits)
qed

end
