(* ===== verification/Api_Launcher.thy ===== *)
theory Api_Launcher
  imports Api_Handlers Int_Text
begin

text \<open>
  The command that serves the application (\<open>api/__main__.py\<close>): its options, the service and recorder it
  builds from them, and the life of the application (\<open>lifespan\<close> of \<open>api/app.py\<close>) from start-up to
  shutdown. \<open>argparse\<close> splits the command line into the declared options, each with its text, and refuses what it
  cannot split; what it does with each option follows its declaration. A refused command line ends the
  process with a usage error.
\<close>

section \<open>Arguments\<close>

abbreviation (input) DEFAULT_API_HOST :: string where "DEFAULT_API_HOST \<equiv> ''127.0.0.1''"

abbreviation (input) DEFAULT_API_PORT :: int where "DEFAULT_API_PORT \<equiv> 8000"

abbreviation (input) DEFAULT_SESSION_ROOT :: string where "DEFAULT_SESSION_ROOT \<equiv> ''data/sessions''"

abbreviation (input) AUTHORITATIVE_DBC_NAME :: string where
  "AUTHORITATIVE_DBC_NAME \<equiv> ''tuneros_simulation.dbc''"

record launch_arguments =
  la_host :: string
  la_port :: int
  la_gateway_host :: string
  la_gateway_port :: int
  la_history_capacity :: int
  la_subscriber_queue_capacity :: int
  la_replay_subscriber_queue_capacity :: int
  la_can_explorer_capacity :: int
  la_can_subscriber_queue_capacity :: int
  la_can_replay_subscriber_queue_capacity :: int
  la_diagnostic_event_capacity :: int
  la_session_root :: string
  la_record_session :: bool
  la_replay_session :: "string option"
  la_session_name :: "string option"
  la_scenario :: "string option"
  la_calibration :: "string option"

text \<open>The defaults; the argument is the environment variable \<open>TUNEROS_SESSION_ROOT\<close>.\<close>

definition default_arguments :: "string option \<Rightarrow> launch_arguments" where
  "default_arguments environment =
     \<lparr>la_host = DEFAULT_API_HOST, la_port = DEFAULT_API_PORT, la_gateway_host = DEFAULT_GATEWAY_HOST,
      la_gateway_port = DEFAULT_GATEWAY_PORT, la_history_capacity = DEFAULT_HISTORY_CAPACITY,
      la_subscriber_queue_capacity = DEFAULT_SUBSCRIBER_QUEUE_CAPACITY,
      la_replay_subscriber_queue_capacity = DEFAULT_REPLAY_SUBSCRIBER_QUEUE_CAPACITY,
      la_can_explorer_capacity = DEFAULT_CAN_EXPLORER_CAPACITY,
      la_can_subscriber_queue_capacity = DEFAULT_CAN_SUBSCRIBER_QUEUE_CAPACITY,
      la_can_replay_subscriber_queue_capacity = DEFAULT_CAN_REPLAY_SUBSCRIBER_QUEUE_CAPACITY,
      la_diagnostic_event_capacity = DEFAULT_DIAGNOSTIC_EVENT_CAPACITY,
      la_session_root = (case environment of None \<Rightarrow> DEFAULT_SESSION_ROOT | Some path \<Rightarrow> path),
      la_record_session = False, la_replay_session = None, la_session_name = None, la_scenario = None,
      la_calibration = None\<rparr>"

text \<open>The declared options, each with the text that follows it.\<close>

datatype launch_option =
    Opt_Host string | Opt_Port string | Opt_Gateway_Host string | Opt_Gateway_Port string
  | Opt_History_Capacity string
  | Opt_Subscriber_Queue_Capacity string | Opt_Replay_Subscriber_Queue_Capacity string
  | Opt_Can_Explorer_Capacity string
  | Opt_Can_Subscriber_Queue_Capacity string | Opt_Can_Replay_Subscriber_Queue_Capacity string
  | Opt_Diagnostic_Event_Capacity string | Opt_Session_Root string
  | Opt_Record_Session | Opt_Replay_Session string
  | Opt_Session_Name string | Opt_Scenario string | Opt_Calibration string

datatype usage_error =
    Invalid_Int string | Invalid_Choice string | Sources_Exclude_Each_Other | Calibration_Requires_Recording

definition int_option :: "string \<Rightarrow> (int \<Rightarrow> launch_arguments) \<Rightarrow> usage_error + launch_arguments" where
  "int_option t store = (case int_base 10 t of None \<Rightarrow> Inl (Invalid_Int t) | Some i \<Rightarrow> Inr (store i))"

text \<open>The effect of one option; a later occurrence of an option replaces an earlier one.\<close>

fun apply_option :: "launch_option \<Rightarrow> launch_arguments \<Rightarrow> usage_error + launch_arguments" where
  "apply_option (Opt_Host t) a = Inr (a\<lparr>la_host := t\<rparr>)"
| "apply_option (Opt_Port t) a = int_option t (\<lambda>i. a\<lparr>la_port := i\<rparr>)"
| "apply_option (Opt_Gateway_Host t) a = Inr (a\<lparr>la_gateway_host := t\<rparr>)"
| "apply_option (Opt_Gateway_Port t) a = int_option t (\<lambda>i. a\<lparr>la_gateway_port := i\<rparr>)"
| "apply_option (Opt_History_Capacity t) a = int_option t (\<lambda>i. a\<lparr>la_history_capacity := i\<rparr>)"
| "apply_option (Opt_Subscriber_Queue_Capacity t) a =
     int_option t (\<lambda>i. a\<lparr>la_subscriber_queue_capacity := i\<rparr>)"
| "apply_option (Opt_Replay_Subscriber_Queue_Capacity t) a =
     int_option t (\<lambda>i. a\<lparr>la_replay_subscriber_queue_capacity := i\<rparr>)"
| "apply_option (Opt_Can_Explorer_Capacity t) a =
     int_option t (\<lambda>i. a\<lparr>la_can_explorer_capacity := i\<rparr>)"
| "apply_option (Opt_Can_Subscriber_Queue_Capacity t) a =
     int_option t (\<lambda>i. a\<lparr>la_can_subscriber_queue_capacity := i\<rparr>)"
| "apply_option (Opt_Can_Replay_Subscriber_Queue_Capacity t) a =
     int_option t (\<lambda>i. a\<lparr>la_can_replay_subscriber_queue_capacity := i\<rparr>)"
| "apply_option (Opt_Diagnostic_Event_Capacity t) a =
     int_option t (\<lambda>i. a\<lparr>la_diagnostic_event_capacity := i\<rparr>)"
| "apply_option (Opt_Session_Root t) a = Inr (a\<lparr>la_session_root := t\<rparr>)"
| "apply_option Opt_Record_Session a =
     (if la_replay_session a \<noteq> None then Inl Sources_Exclude_Each_Other
      else Inr (a\<lparr>la_record_session := True\<rparr>))"
| "apply_option (Opt_Replay_Session t) a =
     (if la_record_session a then Inl Sources_Exclude_Each_Other
      else Inr (a\<lparr>la_replay_session := Some t\<rparr>))"
| "apply_option (Opt_Session_Name t) a = Inr (a\<lparr>la_session_name := Some t\<rparr>)"
| "apply_option (Opt_Scenario t) a = Inr (a\<lparr>la_scenario := Some t\<rparr>)"
| "apply_option (Opt_Calibration t) a =
     (if t \<in> {''stock'', ''stage-1''} then Inr (a\<lparr>la_calibration := Some t\<rparr>)
      else Inl (Invalid_Choice t))"

fun apply_options :: "launch_option list \<Rightarrow> launch_arguments \<Rightarrow> usage_error + launch_arguments" where
  "apply_options [] a = Inr a"
| "apply_options (x # xs) a =
     (case apply_option x a of Inl e \<Rightarrow> Inl e | Inr a1 \<Rightarrow> apply_options xs a1)"

definition parse_arguments ::
  "string option \<Rightarrow> launch_option list \<Rightarrow> usage_error + launch_arguments" where
  "parse_arguments environment options =
     (case apply_options options (default_arguments environment) of
        Inl e \<Rightarrow> Inl e
      | Inr a \<Rightarrow>
          if la_calibration a \<noteq> None \<and> \<not> la_record_session a then Inl Calibration_Requires_Recording
          else Inr a)"

section \<open>The service of a command line\<close>

definition launch_config :: "launch_arguments \<Rightarrow> telemetry_service_config" where
  "launch_config a =
     default_service_config
       \<lparr>cf_gateway_host := Py_Str (la_gateway_host a), cf_gateway_port := Py_Int (la_gateway_port a),
        cf_history_capacity := Py_Int (la_history_capacity a),
        cf_subscriber_queue_capacity := Py_Int (la_subscriber_queue_capacity a),
        cf_replay_subscriber_queue_capacity := Py_Int (la_replay_subscriber_queue_capacity a),
        cf_can_explorer_capacity := Py_Int (la_can_explorer_capacity a),
        cf_can_subscriber_queue_capacity := Py_Int (la_can_subscriber_queue_capacity a),
        cf_can_replay_subscriber_queue_capacity := Py_Int (la_can_replay_subscriber_queue_capacity a),
        cf_diagnostic_event_capacity := Py_Int (la_diagnostic_event_capacity a)\<rparr>"

text \<open>The recorder's arguments; the new UUID and the present time are given.\<close>

definition launch_request :: "string \<Rightarrow> string \<Rightarrow> launch_arguments \<Rightarrow> recorder_request" where
  "launch_request identifier now a =
     \<lparr>rq_identifier = identifier, rq_created_at_utc = Some now, rq_name = la_session_name a,
      rq_scenario = la_scenario a, rq_dbc_name = AUTHORITATIVE_DBC_NAME, rq_dbc_sha256 = None,
      rq_calibration_id = la_calibration a,
      rq_calibration_revision = (if la_calibration a \<noteq> None then Some 1 else None)\<rparr>"

definition launch_recorder ::
  "bytes \<Rightarrow> io \<Rightarrow> string \<Rightarrow> string \<Rightarrow> launch_arguments \<Rightarrow> session_disk
     \<Rightarrow> session_recorder option result \<times> session_disk" where
  "launch_recorder resource io identifier now a d =
     (if la_record_session a
      then (case make_recorder resource io (launch_request identifier now a) d of
              (Inl e, d1) \<Rightarrow> (Inl e, d1) | (Inr r, d1) \<Rightarrow> (Inr (Some r), d1))
      else (Inr None, d))"

text \<open>What the web server is given: the address, the service, and what its start-up does.\<close>

record launched =
  lc_host :: string
  lc_port :: int
  lc_service :: telemetry_service
  lc_autostart :: bool
  lc_replay_session :: "string option"

definition launch ::
  "bytes \<Rightarrow> dbc_decoder \<Rightarrow> io \<Rightarrow> string \<Rightarrow> string \<Rightarrow> launch_arguments \<Rightarrow> session_disk
     \<Rightarrow> launched result \<times> session_disk" where
  "launch resource decoder io identifier now a d =
     (case validate_service_config (launch_config a) of
        Inl e \<Rightarrow> (Inl e, d)
      | Inr _ \<Rightarrow>
          (case launch_recorder resource io identifier now a d of
             (Inl e, d1) \<Rightarrow> (Inl e, d1)
           | (Inr recorder, d1) \<Rightarrow>
               (case rbind (make_telemetry_service (launch_config a) decoder None recorder None None)
                       (\<lambda>s. app_service decoder (Some s) None) of
                  Inl e \<Rightarrow> (Inl e, d1)
                | Inr s \<Rightarrow>
                    (Inr \<lparr>lc_host = la_host a, lc_port = la_port a, lc_service = s,
                          lc_autostart = la_replay_session a = None,
                          lc_replay_session = la_replay_session a\<rparr>, d1))))"

datatype launch_outcome = Usage usage_error | Launch_Raised exn | Serving launched

text \<open>The whole command, until the server runs.\<close>

definition main_command ::
  "bytes \<Rightarrow> dbc_decoder \<Rightarrow> io \<Rightarrow> string \<Rightarrow> string \<Rightarrow> string option \<Rightarrow> launch_option list
     \<Rightarrow> session_disk \<Rightarrow> launch_outcome \<times> session_disk" where
  "main_command resource decoder io identifier now environment options d =
     (case parse_arguments environment options of
        Inl e \<Rightarrow> (Usage e, d)
      | Inr a \<Rightarrow>
          (case launch resource decoder io identifier now a d of
             (Inl e, d1) \<Rightarrow> (Launch_Raised e, d1)
           | (Inr app, d1) \<Rightarrow> (Serving app, d1)))"

section \<open>The life of the application\<close>

text \<open>Before the first request; \<open>dir\<close> is the directory of sessions.\<close>

definition serve_startup :: "bytes \<Rightarrow> session_root \<Rightarrow> launched \<Rightarrow> unit result \<times> telemetry_service" where
  "serve_startup resource dir app =
     app_startup resource dir (lc_replay_session app) (lc_autostart app) (lc_service app)"

text \<open>
  When the server ends it stops the service; \<open>meanwhile\<close> is what the worker does while the stop waits
  for it.
\<close>

definition app_shutdown ::
  "(telemetry_service \<Rightarrow> telemetry_service) \<Rightarrow> telemetry_service \<Rightarrow> unit result \<times> telemetry_service" where
  "app_shutdown meanwhile s = stop_join (meanwhile (stop_request s))"

end
