(* ===== verification/Launch_Properties.thy ===== *)
theory Launch_Properties
  imports Api_Launcher Live_Total
begin

text \<open>
  What a command line of the server leads to: exactly one source, a recorder only for live traffic and
  with provenance its reader accepts, and a replay of a recording that reaches the state the recorded run
  had reached.
\<close>

section \<open>Command lines\<close>

definition one_source :: "launch_arguments \<Rightarrow> bool" where
  "one_source a \<longleftrightarrow> \<not> (la_record_session a \<and> la_replay_session a \<noteq> None)
     \<and> (\<forall>t. la_calibration a = Some t \<longrightarrow> t \<in> {''stock'', ''stage-1''})"

lemma int_option_Inr: "int_option t store = Inr a \<longleftrightarrow> (\<exists>i. int_base 10 t = Some i \<and> a = store i)"
  by (auto simp: int_option_def split: option.splits)

lemma apply_option_one_source: "apply_option x a = Inr a' \<Longrightarrow> one_source a \<Longrightarrow> one_source a'"
  by (cases x) (auto simp: int_option_Inr one_source_def split: if_splits)

lemma apply_options_one_source: "apply_options xs a = Inr a' \<Longrightarrow> one_source a \<Longrightarrow> one_source a'"
  by (induction xs arbitrary: a) (auto split: sum.splits intro: apply_option_one_source)

lemma parsed_one_source:
  assumes "parse_arguments environment options = Inr a"
  shows "one_source a \<and> (la_calibration a \<noteq> None \<longrightarrow> la_record_session a)"
proof -
  have "one_source (default_arguments environment)" by (simp add: one_source_def default_arguments_def)
  then show ?thesis
    using assms apply_options_one_source by (auto simp: parse_arguments_def split: sum.splits if_splits)
qed

section \<open>The service of a valid configuration\<close>

lemma launch_config_fields [simp]:
  "cf_history_capacity (launch_config a) = Py_Int (la_history_capacity a)"
  "cf_can_explorer_capacity (launch_config a) = Py_Int (la_can_explorer_capacity a)"
  "cf_diagnostic_event_capacity (launch_config a) = Py_Int (la_diagnostic_event_capacity a)"
  by (simp_all add: launch_config_def)

lemma positive_integer_ok: "validate_positive_integer name (Py_Int i) None = Inr () \<Longrightarrow> 0 < i"
  by (simp add: validate_positive_integer_def split: if_splits)

lemma valid_capacities:
  assumes "validate_service_config (launch_config a) = Inr ()"
  shows "0 < la_history_capacity a" "0 < la_can_explorer_capacity a" "0 < la_diagnostic_event_capacity a"
  using assms by (auto simp: validate_service_config_def rbind_eq_Inr dest: positive_integer_ok)

lemma launch_service_made:
  assumes "validate_service_config (launch_config a) = Inr ()"
  shows "\<exists>s. make_telemetry_service (launch_config a) simulation_decoder None r None None = Inr s"
proof -
  obtain rules where "create_default_diagnostic_catalog simulation_catalog = Inr rules"
    using default_catalog_accepted by blast
  then show ?thesis
    using valid_capacities [OF assms] make_simulation_catalog
    by (simp add: make_telemetry_service_def service_engine_def service_explorer_def service_diagnostics_def
        make_telemetry_engine_def make_can_explorer_def make_diagnostic_engine_def diagnostic_catalog_for_def
        not_plain_int_def simulation_metadata_def [symmetric])
qed

text \<open>The engines of a service depend on three capacities only.\<close>

lemma service_pipeline_capacities:
  assumes "make_telemetry_service c dec None r None None = Inr s"
    and "make_telemetry_service c' dec None r' None None = Inr s'"
    and "cf_history_capacity c' = cf_history_capacity c" "cf_can_explorer_capacity c' = cf_can_explorer_capacity c"
    "cf_diagnostic_event_capacity c' = cf_diagnostic_event_capacity c"
  shows "ts_pipeline s' = ts_pipeline s"
  using assms
  by (auto simp: make_telemetry_service_def service_engine_def service_explorer_def service_diagnostics_def rbind_eq_Inr)

section \<open>Launching\<close>

lemma launch_request_wf:
  "canonical_uuid i \<Longrightarrow> now \<noteq> [] \<Longrightarrow> wf_request (launch_request i now a)"
  by (simp add: wf_request_def launch_request_def)

lemma manifest_of_request:
  "initial_manifest resource rq created = Inr m \<Longrightarrow>
     mf_session_id m = rq_identifier rq \<and> mf_calibration_id m = rq_calibration_id rq
     \<and> mf_calibration_revision m = rq_calibration_revision rq
     \<and> (rq_dbc_sha256 rq = None \<longrightarrow> mf_dbc_sha256 m = authoritative_dbc_sha256 resource)"
  by (auto simp: initial_manifest_def rbind_eq_Inr)

text \<open>How a launch ends.\<close>

lemma launch_cases:
  assumes "launch resource simulation_decoder io i now a d = (out, d1)"
  obtains (invalid) e where "validate_service_config (launch_config a) = Inl e" "out = Inl e" "d1 = d"
  | (no_recorder) e where "validate_service_config (launch_config a) = Inr ()" "la_record_session a"
      "make_recorder resource io (launch_request i now a) d = (Inl e, d1)" "out = Inl e"
  | (served) s recorder where "validate_service_config (launch_config a) = Inr ()"
      "launch_recorder resource io i now a d = (Inr recorder, d1)"
      "make_telemetry_service (launch_config a) simulation_decoder None recorder None None = Inr s"
      "out = Inr \<lparr>lc_host = la_host a, lc_port = la_port a, lc_service = s,
         lc_autostart = la_replay_session a = None, lc_replay_session = la_replay_session a\<rparr>"
proof (cases "validate_service_config (launch_config a)")
  case (Inl e)
  then show thesis using assms by (intro invalid) (auto simp: launch_def)
next
  case (Inr u)
  then have valid: "validate_service_config (launch_config a) = Inr ()" by simp
  obtain v d2 where r: "launch_recorder resource io i now a d = (v, d2)" by fastforce
  show thesis
  proof (cases v)
    case (Inl e)
    then have "la_record_session a" "make_recorder resource io (launch_request i now a) d = (Inl e, d2)"
      using r by (auto simp: launch_recorder_def split: if_splits prod.splits sum.splits)
    moreover have "out = Inl e" "d1 = d2" using assms valid r Inl by (simp_all add: launch_def)
    ultimately show thesis using valid no_recorder by blast
  next
    case (Inr recorder)
    obtain s where s: "make_telemetry_service (launch_config a) simulation_decoder None recorder None None = Inr s"
      using launch_service_made [OF valid] by blast
    have "d1 = d2" and "out = Inr \<lparr>lc_host = la_host a, lc_port = la_port a, lc_service = s,
        lc_autostart = la_replay_session a = None, lc_replay_session = la_replay_session a\<rparr>"
      using assms valid r Inr s by (simp_all add: launch_def app_service_def)
    then show thesis using served [OF valid _ s] r Inr by simp
  qed
qed

lemma launched_recorder:
  assumes "launch_recorder resource io i now a d = (Inr recorder, d1)" and "canonical_uuid i" and "now \<noteq> []"
  shows "case recorder of None \<Rightarrow> \<not> la_record_session a \<and> d1 = d
    | Some r \<Rightarrow> la_record_session a \<and> make_recorder resource io (launch_request i now a) d = (Inr r, d1)
        \<and> recorder_recording r \<and> wf_identity (sr_manifest r) \<and> mf_session_id (sr_manifest r) = i
        \<and> mf_dbc_sha256 (sr_manifest r) = authoritative_dbc_sha256 resource
        \<and> mf_calibration_id (sr_manifest r) = la_calibration a
        \<and> mf_calibration_revision (sr_manifest r) = (if la_calibration a = None then None else Some 1)"
proof (cases "la_record_session a")
  case False
  then show ?thesis using assms(1) by (auto simp: launch_recorder_def)
next
  case True
  with assms(1) obtain r where r: "recorder = Some r" and
    make: "make_recorder resource io (launch_request i now a) d = (Inr r, d1)"
    by (auto simp: launch_recorder_def split: prod.splits sum.splits)
  from make_recorder_manifest [OF make] manifest_of_request
  have "mf_session_id (sr_manifest r) = i \<and> mf_calibration_id (sr_manifest r) = la_calibration a
      \<and> mf_calibration_revision (sr_manifest r) = (if la_calibration a = None then None else Some 1)
      \<and> mf_dbc_sha256 (sr_manifest r) = authoritative_dbc_sha256 resource"
    by (fastforce simp: launch_request_def)
  then show ?thesis
    using r make True make_recorder_inv [OF make] launch_request_wf [OF assms(2,3)] by simp
qed

section \<open>Replaying a recorded run\<close>

text \<open>What serving says about the command line it came from.\<close>

lemma main_serving:
  assumes "main_command resource simulation_decoder io i now environment options d = (Serving app, d1)"
  obtains a recorder where "make_telemetry_service (launch_config a) simulation_decoder None recorder None None
      = Inr (lc_service app)" "launch_recorder resource io i now a d = (Inr recorder, d1)"
    "lc_replay_session app = la_replay_session a" "lc_autostart app = (la_replay_session a = None)"
    "one_source a"
proof -
  from assms obtain a where parsed: "parse_arguments environment options = Inr a"
    by (auto simp: main_command_def split: sum.splits)
  obtain v d2 where l: "launch resource simulation_decoder io i now a d = (v, d2)" by fastforce
  from this that show thesis
  proof (cases rule: launch_cases)
    case (served s recorder)
    then show thesis
      using assms parsed l parsed_one_source [OF parsed] by (intro that [of a recorder]) (auto simp: main_command_def)
  qed (use assms parsed l in \<open>auto simp: main_command_def\<close>)
qed

text \<open>A session that is started for replay waits for a subscriber, which gets the empty state and lets it begin.\<close>

lemma empty_snapshot:
  "\<exists>sn. telemetry_snapshot_of (telemetry_reset e) None = Inr sn"
  by (simp add: telemetry_snapshot_of_def telemetry_reset_def dict_of_def)

lemma replay_awaits_subscriber:
  assumes make: "make_telemetry_service c simulation_decoder None None None None = Inr s0"
  shows "\<exists>s1 v s2. service_start_replay i name True s0 = (Inr (), s1) \<and> ts_source_mode s1 = REPLAY
    \<and> \<not> ts_replay_start s1 \<and> service_subscribe s1 = (Inr v, s2) \<and> replay_ready (ts_pipeline s0) s2"
proof -
  note f = make_telemetry_service_fields [OF make]
  have none: "subscriber_count (ts_broadcaster s0) = 0" "subscriber_count (ts_can_broadcaster s0) = 0"
    "\<not> ts_stop_requested s0"
    using make by (auto simp: make_telemetry_service_def rbind_eq_Inr subscriber_count_def make_broadcaster_def)
  obtain s1 where s1: "service_start_replay i name True s0 = (Inr (), s1)"
    using f none by (simp add: service_start_replay_def source_active_def worker_alive_def Let_def)
  then have w: "ts_worker s1 = Some Replay_Waiting" "ts_state s1 = RUNNING" "\<not> ts_stop_requested s1"
    "ts_decoder s1 = simulation_decoder" "ts_pipeline s1 = pipeline_reset (ts_pipeline s0)"
    "ts_source_mode s1 = REPLAY" "\<not> ts_replay_start s1"
    using f by (auto simp: service_start_replay_def transition_locked_def Let_def split: if_splits)
  obtain k b where b: "bc_subscribe (ts_broadcaster s1) = (k, b)" by fastforce
  obtain sn where "service_snapshot (s1\<lparr>ts_broadcaster := b\<rparr>) = Inr sn"
    using empty_snapshot w(5) by (auto simp: service_snapshot_def pipeline_reset_def)
  then have "service_subscribe s1 =
      (Inr (k, sn, service_status (s1\<lparr>ts_broadcaster := b\<rparr>)), release_replay (s1\<lparr>ts_broadcaster := b\<rparr>))"
    by (simp add: service_subscribe_def b Let_def)
  moreover have "replay_ready (ts_pipeline s0) (release_replay (s1\<lparr>ts_broadcaster := b\<rparr>))"
    using w service_pipeline_fresh(1) [OF make] by (simp add: replay_ready_def release_replay_def)
  ultimately show ?thesis using s1 w(6,7) by blast
qed

text \<open>The directory entry of a published session, and opening it by its ID.\<close>

definition session_entry :: "string \<Rightarrow> artifact \<Rightarrow> root_entry" where
  "session_entry i a =
     \<lparr>re_name = i @ ARTIFACT_SUFFIX, re_contained = True, re_is_dir = True, re_session = stored a\<rparr>"

lemma open_entry:
  assumes "wf_root dir" and "session_entry i a \<in> set (root_entries dir)" and "canonical_uuid i"
    and "open_reader (stored a) None = Inr rd" and "validate_integrity rd = Inr ()"
    and "mf_session_id (rd_manifest rd) = i" and "compatibility resource (rd_manifest rd)"
  shows "store_reader resource dir i True = Inr rd"
  using find_entry [OF assms(1,2)] assms(3-7)
  by (simp add: session_entry_def store_reader_def canonical_id_eq contained_artifact_def checked_reader_def
      validate_manifest_id_def)

text \<open>The second server: it serves without a recorder and replays what the reader of the session yields.\<close>

lemma replayed_by:
  assumes dec: "faithful_decoder md"
    and first: "main_command resource simulation_decoder io i now env opts d = (Serving app, d1)"
    and cap: "cf_diagnostic_event_capacity (ts_config (lc_service app)) = Py_Int DEFAULT_DIAGNOSTIC_EVENT_CAPACITY"
    and main: "main_command resource simulation_decoder io' i' now' env' opts' d' = (Serving app', d1')"
    and sid: "lc_replay_session app' = Some i"
    and caps: "cf_history_capacity (ts_config (lc_service app')) = cf_history_capacity (ts_config (lc_service app))"
      "cf_can_explorer_capacity (ts_config (lc_service app')) = cf_can_explorer_capacity (ts_config (lc_service app))"
      "cf_diagnostic_event_capacity (ts_config (lc_service app')) = cf_diagnostic_event_capacity (ts_config (lc_service app))"
    and rd: "store_reader resource dir i True = Inr rd" "mf_session_id (rd_manifest rd) = i" "reader_frames rd = (fs, None)"
    and fs: "\<forall>f \<in> set fs. bus_frame f \<and> encodable f" "sorted (map timestamp_microseconds fs)"
  shows "\<exists>s1 v s2 s3. serve_startup resource dir app' = (Inr (), s1) \<and> ts_source_mode s1 = REPLAY
    \<and> service_subscribe s1 = (Inr v, s2) \<and> worker_run md (replay_inputs fs) s2 = Some (fs, s3)
    \<and> ts_state s3 = COMPLETED
    \<and> replay_frames md simulation_decoder (ts_pipeline (lc_service app)) fs = (Inr (), ts_pipeline s3)"
proof -
  let ?s0 = "lc_service app" and ?t0 = "lc_service app'"
  from main_serving [OF first] obtain a1 rec where
    make: "make_telemetry_service (launch_config a1) simulation_decoder None rec None None = Inr ?s0" by blast
  have conf: "ts_config ?s0 = launch_config a1" using make_telemetry_service_fields [OF make] by simp
  from main_serving [OF main] obtain a2 rec2 where
    make2: "make_telemetry_service (launch_config a2) simulation_decoder None rec2 None None = Inr ?t0"
    and lrec2: "launch_recorder resource io' i' now' a2 d' = (Inr rec2, d1')"
    and src2: "lc_replay_session app' = la_replay_session a2" "one_source a2" .
  have conf2: "ts_config ?t0 = launch_config a2" using make_telemetry_service_fields [OF make2] by simp
  have "\<not> la_record_session a2" using src2 sid by (auto simp: one_source_def)
  then have none: "rec2 = None" using lrec2 by (simp add: launch_recorder_def)
  have pipe: "ts_pipeline ?t0 = ts_pipeline ?s0"
    by (rule service_pipeline_capacities [OF make make2]) (use caps conf conf2 in simp_all)
  from replay_awaits_subscriber [OF make2 [unfolded none], of i "mf_name (rd_manifest rd)"] obtain s1 v s2 where
    s1: "service_start_replay i (mf_name (rd_manifest rd)) True ?t0 = (Inr (), s1)" "ts_source_mode s1 = REPLAY"
    and s2: "service_subscribe s1 = (Inr v, s2)" "replay_ready (ts_pipeline ?t0) s2" by blast
  have start: "serve_startup resource dir app' = (Inr (), s1)"
    using sid rd(1,2) s1(1) by (simp add: serve_startup_def app_startup_def)
  from replay_run_end [OF dec make2 _ s2(2) fs] caps cap conf2 obtain s3 where
    s3: "worker_run md (replay_inputs fs) s2 = Some (fs, s3)" "ts_state s3 = COMPLETED" by auto
  have "replay_frames md simulation_decoder (ts_pipeline ?s0) fs = (Inr (), ts_pipeline s3)"
    using replay_run_reaches [OF _ _ s3] s2(2) pipe by (simp add: replay_ready_def)
  with start s1(2) s2(1) s3 show ?thesis by blast
qed

text \<open>The first server: its live run ends completed, and the session it leaves can be opened by its ID.\<close>

lemma recorded_by:
  assumes dec: "faithful_decoder md" and id: "canonical_uuid i" "now \<noteq> []"
    and main: "main_command resource simulation_decoder io i now env opts d = (Serving app, d1)"
    and rec: "ts_recorder (lc_service app) = Some r0"
    and cap: "cf_diagnostic_event_capacity (ts_config (lc_service app)) = Py_Int DEFAULT_DIAGNOSTIC_EVENT_CAPACITY"
    and fs: "\<forall>f \<in> set fs. bus_frame f \<and> encodable f" "sorted (map timestamp_microseconds fs)"
  obtains s r a rd where "worker_run md (live_inputs fs) (snd (serve_startup resource dir0 app)) = Some (fs, s)"
    "ts_state s = COMPLETED" "ts_recorder s = Some r" "disk_final (sr_disk r) = Some a"
    "replay_frames md simulation_decoder (ts_pipeline (lc_service app)) fs = (Inr (), ts_pipeline s)"
    "\<And>dir. wf_root dir \<Longrightarrow> session_entry i a \<in> set (root_entries dir) \<Longrightarrow> store_reader resource dir i True = Inr rd"
    "mf_session_id (rd_manifest rd) = i" "reader_frames rd = (fs, None)"
proof -
  let ?s0 = "lc_service app"
  from main_serving [OF main] obtain a1 rc where
    make: "make_telemetry_service (launch_config a1) simulation_decoder None rc None None = Inr ?s0"
    and lrec: "launch_recorder resource io i now a1 d = (Inr rc, d1)"
    and src: "lc_replay_session app = la_replay_session a1" "lc_autostart app = (la_replay_session a1 = None)" "one_source a1" .
  note f = make_telemetry_service_fields [OF make]
  have rc: "rc = Some r0" using f rec by simp
  with launched_recorder [OF lrec id] have
    mrec: "make_recorder resource io (launch_request i now a1) d = (Inr r0, d1)" and "la_record_session a1"
    and m0: "mf_session_id (sr_manifest r0) = i" "mf_dbc_sha256 (sr_manifest r0) = authoritative_dbc_sha256 resource"
    by simp_all
  then have live: "serve_startup resource dir0 app = service_start ?s0"
    using src by (auto simp: one_source_def serve_startup_def app_startup_def)
  from live_run_end [OF dec mrec make [unfolded rc] _ fs] cap f obtain s where
    run: "worker_run md (live_inputs fs) (snd (service_start ?s0)) = Some (fs, s)" and fin: "ts_state s = COMPLETED" by auto
  have ins: "\<forall>(io, w) \<in> set (live_inputs fs). io Write_Frames = Io_Ok \<and> (\<forall>f. w = Frame f \<longrightarrow> wf_frame f)"
    using fs(1) by (auto simp: live_inputs_def frame_inputs_def all_ok_def encodable_def)
  from live_recording_published [OF mrec launch_request_wf [OF id] make [unfolded rc] run fin ins]
  obtain r a rd where r: "ts_recorder s = Some r" "disk_final (sr_disk r) = Some a" and
    rd: "open_reader (stored a) None = Inr rd" "validate_integrity rd = Inr ()" "reader_frames rd = (fs, None)"
    and m: "rd_manifest rd = sealed (sr_manifest r0) fs COMPLETE None" .
  have rid: "mf_session_id (rd_manifest rd) = i" and comp: "compatibility resource (rd_manifest rd)"
    by (simp_all add: m sealed_def with_counts_def m0 compatibility_def is_supported_dbc_sha256_def)
  have "replay_frames md simulation_decoder (ts_pipeline ?s0) fs = (Inr (), ts_pipeline s)"
    using live_run_reaches [OF make run fin] by (simp add: reached_def)
  with run fin r rd(3) rid open_entry [OF _ _ id(1) rd(1,2) rid comp] show thesis
    by (intro that [of s r a rd]) (simp_all add: live)
qed

section \<open>Properties\<close>


text \<open>C3: a run recorded from one command line is reproduced by a second one that replays it: the first serves
  with recording and its live worker processes bus frames in time order to the end; then a published
  session of its ID exists, and in every directory that holds it, a second server asked to replay that ID,
  with the same capacities, starts, waits for a subscriber, replays exactly the recorded frames and ends
  completed in the same explorer, telemetry engine and diagnostic engine.\<close>

theorem launched_recording_replays:
  assumes "faithful_decoder md" and "canonical_uuid i" and "now \<noteq> []"
    and "main_command resource simulation_decoder io i now env opts d = (Serving app, d1)"
    and "ts_recorder (lc_service app) = Some r0"
    and "cf_diagnostic_event_capacity (ts_config (lc_service app)) = Py_Int DEFAULT_DIAGNOSTIC_EVENT_CAPACITY"
    and "\<forall>f \<in> set fs. bus_frame f \<and> encodable f" and "sorted (map timestamp_microseconds fs)"
    and "main_command resource simulation_decoder io' i' now' env' opts' d' = (Serving app', d1')"
    and "lc_replay_session app' = Some i"
    and "cf_history_capacity (ts_config (lc_service app')) = cf_history_capacity (ts_config (lc_service app))"
    and "cf_can_explorer_capacity (ts_config (lc_service app')) = cf_can_explorer_capacity (ts_config (lc_service app))"
    and "cf_diagnostic_event_capacity (ts_config (lc_service app')) =
      cf_diagnostic_event_capacity (ts_config (lc_service app))"
  shows "\<exists>s r a. worker_run md (live_inputs fs) (snd (serve_startup resource dir0 app)) = Some (fs, s)
    \<and> ts_state s = COMPLETED \<and> ts_recorder s = Some r \<and> disk_final (sr_disk r) = Some a
    \<and> (\<forall>dir. wf_root dir \<longrightarrow> session_entry i a \<in> set (root_entries dir) \<longrightarrow>
        (\<exists>rd s1 v s2 s3. store_reader resource dir i True = Inr rd \<and> reader_frames rd = (fs, None)
          \<and> serve_startup resource dir app' = (Inr (), s1) \<and> ts_source_mode s1 = REPLAY
          \<and> service_subscribe s1 = (Inr v, s2) \<and> worker_run md (replay_inputs fs) s2 = Some (fs, s3)
          \<and> ts_state s3 = COMPLETED \<and> ts_pipeline s3 = ts_pipeline s))"
proof -
  from recorded_by [OF assms(1-8)] obtain s r a rd where
    live: "worker_run md (live_inputs fs) (snd (serve_startup resource dir0 app)) = Some (fs, s)"
      "ts_state s = COMPLETED" "ts_recorder s = Some r" "disk_final (sr_disk r) = Some a"
    and reached: "replay_frames md simulation_decoder (ts_pipeline (lc_service app)) fs = (Inr (), ts_pipeline s)"
    and found: "\<And>dir. wf_root dir \<Longrightarrow> session_entry i a \<in> set (root_entries dir)
      \<Longrightarrow> store_reader resource dir i True = Inr rd"
    and rd: "mf_session_id (rd_manifest rd) = i" "reader_frames rd = (fs, None)" by blast
  have again: "\<exists>rd s1 v s2 s3. store_reader resource dir i True = Inr rd \<and> reader_frames rd = (fs, None)
      \<and> serve_startup resource dir app' = (Inr (), s1) \<and> ts_source_mode s1 = REPLAY
      \<and> service_subscribe s1 = (Inr v, s2) \<and> worker_run md (replay_inputs fs) s2 = Some (fs, s3)
      \<and> ts_state s3 = COMPLETED \<and> ts_pipeline s3 = ts_pipeline s"
    if "wf_root dir" and "session_entry i a \<in> set (root_entries dir)" for dir
  proof -
    from replayed_by [OF assms(1,4,6,9-13) found [OF that] rd assms(7,8)] reached found [OF that] rd(2)
    show ?thesis by auto
  qed
  from live again show ?thesis by blast
qed

section \<open>Sample command lines\<close>

definition launch_id :: string where
  "launch_id = ''01234567-89ab-cdef-0123-456789abcdef''"

definition recording_options :: "launch_option list" where
  "recording_options = [Opt_Port ''9000'', Opt_Record_Session, Opt_Calibration ''stock'']"

definition replaying_options :: "launch_option list" where
  "replaying_options = [Opt_Replay_Session launch_id]"

lemma launch_id_canonical: "canonical_uuid launch_id"
  by (simp add: launch_id_def canonical_uuid_iff dashed_def HEX_DIGITS_def)

lemma sample_parsed:
  "parse_arguments None recording_options = Inr (default_arguments None
     \<lparr>la_port := 9000, la_record_session := True, la_calibration := Some ''stock''\<rparr>)"
  "parse_arguments None replaying_options = Inr (default_arguments None \<lparr>la_replay_session := Some launch_id\<rparr>)"
proof -
  have "int_base 10 ''9000'' = Some 9000" by code_simp
  then show "parse_arguments None recording_options = Inr (default_arguments None
     \<lparr>la_port := 9000, la_record_session := True, la_calibration := Some ''stock''\<rparr>)"
    by (simp add: parse_arguments_def recording_options_def int_option_def default_arguments_def)
  show "parse_arguments None replaying_options = Inr (default_arguments None \<lparr>la_replay_session := Some launch_id\<rparr>)"
    by (simp add: parse_arguments_def replaying_options_def default_arguments_def)
qed

lemma sample_config:
  "launch_config (default_arguments None\<lparr>la_port := p, la_record_session := True, la_calibration := c\<rparr>)
     = default_service_config"
  "launch_config (default_arguments None\<lparr>la_replay_session := c\<rparr>) = default_service_config"
  by (simp_all add: launch_config_def default_arguments_def default_service_config_def)

lemma default_config_valid: "validate_service_config default_service_config = Inr ()"
  by (simp add: validate_service_config_def default_service_config_def validate_positive_integer_def
      not_plain_int_def timeout_ok_def)

lemma sample_launch_recorder:
  assumes "la_record_session a" and "la_session_name a = None" "la_scenario a = None"
    and "la_calibration a = Some ''stock''"
  shows "\<exists>r d. launch_recorder [] all_ok launch_id ''2026-01-01T00:00:00Z'' a no_artifacts = (Inr (Some r), d)"
  using assms
  by (simp add: launch_recorder_def make_recorder_def launch_request_def no_artifacts_def all_ok_def
      check_calibration_arguments_def initial_manifest_def normalize_session_name_def recorder_version_def
      start_recording_def encode_header_ok supported_version_def write_manifest_atomic_def Let_def)

text \<open>Both command lines serve.\<close>

lemma sample_recording_served:
  "\<exists>app d r. main_command [] simulation_decoder all_ok launch_id ''2026-01-01T00:00:00Z'' None recording_options
      no_artifacts = (Serving app, d)
     \<and> ts_recorder (lc_service app) = Some r \<and> ts_config (lc_service app) = default_service_config
     \<and> lc_port app = 9000"
proof -
  define a where "a = default_arguments None
    \<lparr>la_port := 9000, la_record_session := True, la_calibration := Some ''stock''\<rparr>"
  have conf: "launch_config a = default_service_config" unfolding a_def by (rule sample_config)
  have "la_record_session a" "la_session_name a = None" "la_scenario a = None" "la_calibration a = Some ''stock''"
    by (simp_all add: a_def default_arguments_def)
  from sample_launch_recorder [OF this] obtain r d where
    r: "launch_recorder [] all_ok launch_id ''2026-01-01T00:00:00Z'' a no_artifacts = (Inr (Some r), d)" by blast
  have port: "la_port a = 9000" by (simp add: a_def)
  show ?thesis
    using sample_parsed(1) [folded a_def] r port sample_service [of "Some r"] sample_service_fields [of "Some r"]
      make_telemetry_service_fields [OF sample_service [of "Some r"]]
    by (simp add: main_command_def launch_def conf default_config_valid app_service_def)
qed

lemma sample_replaying_served:
  "\<exists>app d. main_command [] simulation_decoder all_ok launch_id ''2026-01-02T00:00:00Z'' None replaying_options
      no_artifacts = (Serving app, d)
     \<and> lc_replay_session app = Some launch_id \<and> ts_config (lc_service app) = default_service_config"
proof -
  define a where "a = default_arguments None\<lparr>la_replay_session := Some launch_id\<rparr>"
  have conf: "launch_config a = default_service_config" unfolding a_def by (rule sample_config)
  have "la_replay_session a = Some launch_id" "\<not> la_record_session a" by (simp_all add: a_def default_arguments_def)
  then show ?thesis
    using sample_parsed(2) [folded a_def] sample_service [of None]
      make_telemetry_service_fields [OF sample_service [of None]]
    by (simp add: main_command_def launch_def launch_recorder_def conf default_config_valid app_service_def)
qed


theorem launched_recording_replays_witness:
  "\<exists>app app' d d' s a rd s1 v s2 s3. main_command [] simulation_decoder all_ok launch_id ''2026-01-01T00:00:00Z'' None
      recording_options no_artifacts = (Serving app, d)
     \<and> main_command [] simulation_decoder all_ok launch_id ''2026-01-02T00:00:00Z'' None replaying_options
      no_artifacts = (Serving app', d')
     \<and> worker_run zero_decoder (live_inputs bus_sample) (snd (serve_startup [] None app)) = Some (bus_sample, s)
     \<and> store_reader [] (Some [session_entry launch_id a]) launch_id True = Inr rd
     \<and> reader_frames rd = (bus_sample, None)
     \<and> serve_startup [] (Some [session_entry launch_id a]) app' = (Inr (), s1) \<and> service_subscribe s1 = (Inr v, s2)
     \<and> worker_run zero_decoder (replay_inputs bus_sample) s2 = Some (bus_sample, s3)
     \<and> ts_state s3 = COMPLETED \<and> ts_pipeline s3 = ts_pipeline s"
proof -
  from sample_recording_served obtain app d r where
    main: "main_command [] simulation_decoder all_ok launch_id ''2026-01-01T00:00:00Z'' None recording_options
      no_artifacts = (Serving app, d)"
    and r: "ts_recorder (lc_service app) = Some r" "ts_config (lc_service app) = default_service_config" by blast
  from sample_replaying_served obtain app' d' where
    main': "main_command [] simulation_decoder all_ok launch_id ''2026-01-02T00:00:00Z'' None replaying_options
      no_artifacts = (Serving app', d')"
    and r': "lc_replay_session app' = Some launch_id" "ts_config (lc_service app') = default_service_config" by blast
  have cap: "cf_diagnostic_event_capacity (ts_config (lc_service app)) = Py_Int DEFAULT_DIAGNOSTIC_EVENT_CAPACITY"
    by (simp add: r(2) default_service_config_def)
  have root: "wf_root (Some [session_entry launch_id a])"
    "session_entry launch_id a \<in> set (root_entries (Some [session_entry launch_id a]))" for a
    by (simp_all add: wf_root_def root_entries_def session_entry_def)
  have caps: "cf_history_capacity (ts_config (lc_service app')) = cf_history_capacity (ts_config (lc_service app))"
    "cf_can_explorer_capacity (ts_config (lc_service app')) = cf_can_explorer_capacity (ts_config (lc_service app))"
    "cf_diagnostic_event_capacity (ts_config (lc_service app')) =
      cf_diagnostic_event_capacity (ts_config (lc_service app))" by (simp_all add: r(2) r'(2))
  have now: "''2026-01-01T00:00:00Z'' \<noteq> []" by simp
  from launched_recording_replays [OF zero_decoder launch_id_canonical now main r(1) cap sample_stream main' r'(1) caps,
      of None] obtain s r1 a where
    live: "worker_run zero_decoder (live_inputs bus_sample) (snd (serve_startup [] None app)) = Some (bus_sample, s)"
    and again: "\<forall>dir. wf_root dir \<longrightarrow> session_entry launch_id a \<in> set (root_entries dir) \<longrightarrow>
      (\<exists>rd s1 v s2 s3. store_reader [] dir launch_id True = Inr rd \<and> reader_frames rd = (bus_sample, None)
        \<and> serve_startup [] dir app' = (Inr (), s1) \<and> ts_source_mode s1 = REPLAY
        \<and> service_subscribe s1 = (Inr v, s2) \<and> worker_run zero_decoder (replay_inputs bus_sample) s2 = Some (bus_sample, s3)
        \<and> ts_state s3 = COMPLETED \<and> ts_pipeline s3 = ts_pipeline s)" by (elim exE conjE)
  from again [rule_format, OF root(1) root(2)] obtain rd s1 v s2 s3 where
    replayed: "store_reader [] (Some [session_entry launch_id a]) launch_id True = Inr rd"
      "reader_frames rd = (bus_sample, None)"
      "serve_startup [] (Some [session_entry launch_id a]) app' = (Inr (), s1)" "service_subscribe s1 = (Inr v, s2)"
      "worker_run zero_decoder (replay_inputs bus_sample) s2 = Some (bus_sample, s3)"
      "ts_state s3 = COMPLETED" "ts_pipeline s3 = ts_pipeline s" by (elim exE conjE) (rule that)
  show ?thesis
    by (rule exI [of _ app], rule exI [of _ app'], rule exI [of _ d], rule exI [of _ d'], rule exI [of _ s],
      rule exI [of _ a], rule exI [of _ rd], rule exI [of _ s1], rule exI [of _ v], rule exI [of _ s2],
      rule exI [of _ s3]) (intro conjI main main' live replayed)
qed

end
