(* ===== verification/Can_Console.thy ===== *)
theory Can_Console
  imports Pipeline_Total Can_Properties
begin

text \<open>
  The developer's console for live traffic (\<open>can/live_decode.py\<close>): it connects to the gateway, decodes every
  frame and prints one line for it, until the stream ends or something raises. The shortest decimal text of
  a float (\<open>repr\<close>) is the argument \<open>float_text\<close>; the fixed-point time column is computed.
\<close>

section \<open>Text of numbers\<close>

text \<open>The format \<open>:.6f\<close>: the exact value of the float, rounded to six decimals, ties to even.\<close>

definition sixths :: "int \<Rightarrow> string" where
  "sixths n = str_int (n div 1000000) @ ''.'' @ zero_pad 6 (str_int (n mod 1000000))"

fun fixed6 :: "pyfloat \<Rightarrow> string" where
  "fixed6 (Finite y) =
     (if y < 0 then ''-'' @ sixths (round_half_even (- y * 1000000)) else sixths (round_half_even (y * 1000000)))"
| "fixed6 Pos_Inf = ''inf''"
| "fixed6 Neg_Inf = ''-inf''"
| "fixed6 Not_A_Number = ''nan''"

definition space_pad :: "nat \<Rightarrow> string \<Rightarrow> string" where
  "space_pad w s = replicate (w - length s) (CHR '' '') @ s"

text \<open>\<open>str\<close> of a decoded signal value.\<close>

fun value_text :: "(pyfloat \<Rightarrow> string) \<Rightarrow> signal_value \<Rightarrow> string" where
  "value_text float_text (Py_Float x) = float_text x"
| "value_text float_text (Py_Bool b) = (if b then ''True'' else ''False'')"
| "value_text float_text (Py_Int i) = str_int i"
| "value_text float_text (Py_Str t) = t"
| "value_text float_text (Py_Bytes bs) = py_repr_bytes bs"
| "value_text float_text Py_None = ''None''"

section \<open>The console\<close>

definition console_line :: "(pyfloat \<Rightarrow> string) \<Rightarrow> decoded_can_frame \<Rightarrow> string result" where
  "console_line float_text df =
     (let signals = join_space (map (\<lambda>(name, v). name @ ''='' @ value_text float_text v) (df_signals df))
      in rbind (int_truediv (df_timestamp_microseconds df) 1000000)
           (\<lambda>seconds. Inr (''['' @ space_pad 10 (fixed6 seconds) @ ''s] 0x'' @ hex03 (df_arbitration_id df)
              @ '' '' @ df_message_name df @ '' '' @ signals)))"

text \<open>The lines printed for the frames of the stream, and the exception that stops them.\<close>

fun console_lines ::
  "(pyfloat \<Rightarrow> string) \<Rightarrow> msg_decoder \<Rightarrow> dbc_decoder \<Rightarrow> raw_can_frame list \<Rightarrow> string list \<times> exn option" where
  "console_lines float_text md decoder [] = ([], None)"
| "console_lines float_text md decoder (f # fs) =
     (case rbind (decode_frame md decoder f) (console_line float_text) of
        Inl e \<Rightarrow> ([], Some e)
      | Inr line \<Rightarrow>
          (case console_lines float_text md decoder fs of (lines, stopped) \<Rightarrow> (line # lines, stopped)))"

text \<open>
  The whole command. An exception for a frame leaves the rest of the stream unread; otherwise the stream's own
  end counts. Leaving the block closes the client.
\<close>

definition console_main ::
  "(pyfloat \<Rightarrow> string) \<Rightarrow> msg_decoder \<Rightarrow> dbc_frame list list \<Rightarrow> (string \<Rightarrow> int \<Rightarrow> gateway_socket result)
     \<Rightarrow> string \<Rightarrow> int \<Rightarrow> string list \<times> exn option" where
  "console_main float_text md databases create host port =
     (case make_decoder databases of
        Inl e \<Rightarrow> ([], Some e)
      | Inr decoder \<Rightarrow>
          (case connect create host port of
             (Inl e, _) \<Rightarrow> ([], Some e)
           | (Inr c, _) \<Rightarrow>
               (case client_frames c of
                  (fs, ended, _) \<Rightarrow>
                    (case console_lines float_text md decoder fs of
                       (lines, Some e) \<Rightarrow> (lines, Some e)
                     | (lines, None) \<Rightarrow> (lines, ended)))))"

section \<open>The time column is exact\<close>

lemma round_half_even_half: "\<bar>of_int (round_half_even z) - z\<bar> \<le> 1 / 2"
proof -
  have "of_int \<lfloor>z\<rfloor> \<le> z" and "z < of_int \<lfloor>z\<rfloor> + 1" by linarith+
  then show ?thesis
    unfolding round_half_even_def Let_def abs_le_iff of_int_add of_int_1 by (simp split: if_split) linarith
qed

lemma round_half_even_unique:
  assumes "\<bar>z - of_int n\<bar> < 1 / 2"
  shows "round_half_even z = n"
proof -
  have "\<bar>of_int (round_half_even z) - of_int n :: rat\<bar> < 1"
    using round_half_even_half [of z] assms by linarith
  then have "\<bar>of_int (round_half_even z - n) :: rat\<bar> < of_int 1" by simp
  then show ?thesis by (simp only: of_int_abs [symmetric] of_int_less_iff)
qed

lemma pow2_shift: "pow2 (e - 52) * 2 ^ 52 = pow2 e"
proof -
  obtain a b where e: "e = int a - int b" by (metis int_diff_cases)
  have "pow2 (e - 52) = 2 ^ a / 2 ^ (b + 52)" using pow2_diff [of a "b + 52"] by (simp add: e algebra_simps)
  then show ?thesis by (simp add: e pow2_diff power_add)
qed

text \<open>The relative error of a rounding is at most half a unit in the last place.\<close>

lemma round_double_error:
  assumes "round_double x = Finite y" and "pow2 (- 1022) \<le> x"
  shows "\<bar>y - x\<bar> * 2 ^ 53 \<le> x"
proof -
  let ?u = "pow2 (unit_exponent x)"
  have pos: "0 < x" using assms(2) pow2_pos [of "- 1022"] by linarith
  then have y: "y = of_int (round_half_even (x / ?u)) * ?u"
    using assms(1) by (auto simp: round_double_def Let_def split: if_splits)
  have "?u * 2 ^ 52 \<le> x"
  proof (cases "ilog2 x - 52 \<le> - 1074")
    case True
    then have "unit_exponent x = - 1022 - 52" using pos by (simp add: unit_exponent_def)
    then show ?thesis using pow2_shift [of "- 1022"] assms(2) by (simp only:)
  next
    case False
    then have "unit_exponent x = ilog2 x - 52" using pos by (simp add: unit_exponent_def)
    then show ?thesis using pow2_shift [of "ilog2 x"] pow2_ilog2 [OF pos] by (simp only:)
  qed
  moreover have "\<bar>y - x\<bar> * 2 \<le> ?u"
  proof -
    have "?u \<noteq> 0" using pow2_pos [of "unit_exponent x"] by linarith
    then have "y - x = (of_int (round_half_even (x / ?u)) - x / ?u) * ?u" by (simp add: y left_diff_distrib)
    then have "\<bar>y - x\<bar> = \<bar>of_int (round_half_even (x / ?u)) - x / ?u\<bar> * ?u" by (simp only: abs_mult abs_of_pos [OF pow2_pos])
    also have "\<dots> \<le> 1 / 2 * ?u" by (intro mult_right_mono round_half_even_half less_imp_le pow2_pos)
    finally show ?thesis by simp
  qed
  ultimately show ?thesis by simp
qed

text \<open>The column of a time below \<open>2 ^ 52\<close> microseconds (142 years) shows every microsecond.\<close>

definition seconds_column :: "int \<Rightarrow> string" where
  "seconds_column t = space_pad 10 (str_int (t div 1000000) @ ''.'' @ zero_pad 6 (str_int (t mod 1000000)))"

lemma seconds_exact:
  assumes "0 \<le> t" and "t < 2 ^ 52"
  shows "\<exists>y. int_truediv t 1000000 = Inr y \<and> space_pad 10 (fixed6 y) = seconds_column t"
proof (cases "t = 0")
  case True
  then show ?thesis by (simp add: int_truediv_def seconds_column_def sixths_def round_half_even_def)
next
  case False
  with assms(1) have t: "1 \<le> t" by simp
  let ?x = "of_int t / of_int 1000000 :: rat"
  have "\<bar>t\<bar> < 2 ^ 64" using assms by simp
  from int_truediv_finite [OF this, of 1000000] obtain y where y: "int_truediv t 1000000 = Inr (Finite y)" by auto
  then have r: "round_double ?x = Finite y"
    by (auto simp: int_truediv_def split: pyfloat.splits)
  have "pow2 (- 1022) \<le> 1 / 1000000" by (simp add: pow2_def)
  also have "\<dots> \<le> ?x" using t by simp
  finally have "\<bar>y - ?x\<bar> * 2 ^ 53 \<le> ?x" by (rule round_double_error [OF r])
  then have "\<bar>y - ?x\<bar> * 1000000 * 2 ^ 53 \<le> of_int t" by simp
  moreover have "of_int t < (2 ^ 52 :: rat)" using assms(2) by (simp flip: of_int_power)
  ultimately have small: "\<bar>y - ?x\<bar> * 1000000 < 1 / 2" by simp
  have "y * 1000000 - of_int t = (y - ?x) * 1000000" by (simp add: field_simps)
  then have "\<bar>y * 1000000 - of_int t\<bar> < 1 / 2" using small by (simp only: abs_mult abs_numeral)
  then have n: "round_half_even (y * 1000000) = t" by (rule round_half_even_unique)
  have "\<not> y < 0" using \<open>\<bar>y * 1000000 - of_int t\<bar> < 1 / 2\<close> t by (auto simp: abs_less_iff)
  then show ?thesis using y n by (simp add: seconds_column_def sixths_def)
qed

section \<open>Every frame of the bus is printed\<close>

definition line_of :: "raw_can_frame \<Rightarrow> string \<Rightarrow> bool" where
  "line_of f line \<longleftrightarrow> (\<exists>m \<in> set simulation_dbc. \<exists>signals. frame_id m = arbitration_id f
     \<and> line = ''['' @ seconds_column (timestamp_microseconds f) @ ''s] 0x'' @ hex03 (arbitration_id f)
         @ '' '' @ frame_name m @ '' '' @ signals)"

lemma console_line_of:
  assumes "faithful_decoder md" and "bus_frame f" and "0 \<le> timestamp_microseconds f"
    and "timestamp_microseconds f < 2 ^ 52"
  shows "\<exists>line. rbind (decode_frame md simulation_decoder f) (console_line float_text) = Inr line \<and> line_of f line"
proof -
  from assms(2) obtain m where m: "m \<in> set simulation_dbc" "frame_id m = arbitration_id f"
    "frame_size m = payload_length f" by (auto simp: bus_frame_def)
  from decode_simulation [OF assms(1) m] obtain df where
    df: "decode_frame md simulation_decoder f = Inr df" "df_arbitration_id df = frame_id m"
      "df_message_name df = frame_name m" "df_timestamp_microseconds df = timestamp_microseconds f" by blast
  from seconds_exact [OF assms(3,4)] obtain y where
    "int_truediv (timestamp_microseconds f) 1000000 = Inr y"
    "space_pad 10 (fixed6 y) = seconds_column (timestamp_microseconds f)" by blast
  then show ?thesis
    using df m by (auto simp: console_line_def line_of_def Let_def)
qed

lemma console_lines_total:
  assumes "faithful_decoder md"
  shows "\<forall>f \<in> set fs. bus_frame f \<and> 0 \<le> timestamp_microseconds f \<and> timestamp_microseconds f < 2 ^ 52 \<Longrightarrow>
    \<exists>lines. console_lines float_text md simulation_decoder fs = (lines, None) \<and> list_all2 line_of fs lines"
proof (induction fs)
  case (Cons f fs)
  then obtain lines where "console_lines float_text md simulation_decoder fs = (lines, None)" "list_all2 line_of fs lines"
    by auto
  moreover obtain line where "rbind (decode_frame md simulation_decoder f) (console_line float_text) = Inr line"
    "line_of f line"
    using console_line_of [OF assms, of f] Cons.prems by auto
  ultimately show ?case by simp
qed simp

theorem console_prints_every_frame:
  assumes "faithful_decoder md" and "create host port = Inr s" and "reliable s"
    and "pending s = GATEWAY_MAGIC @ [1, 0, 0, 0] @ stream_of fs"
    and "\<forall>f \<in> set fs. bus_frame f \<and> encodable f \<and> timestamp_microseconds f < 2 ^ 52"
  shows "\<exists>lines. console_main float_text md [simulation_dbc] create host port = (lines, None)
    \<and> list_all2 line_of fs lines"
proof -
  have "read_outcome 8 ''connection header'' False (pending s) = Inr (GATEWAY_MAGIC @ [1, 0, 0, 0])"
    by (simp add: assms(4) read_outcome_def GATEWAY_MAGIC_def)
  moreover have "drop 8 (pending s) = stream_of fs" by (simp add: assms(4) GATEWAY_MAGIC_def)
  ultimately obtain s1 where s1: "reliable s1" "pending s1 = stream_of fs"
    and "read_exact s 8 ''connection header'' False = (Inr (GATEWAY_MAGIC @ [1, 0, 0, 0]), s1)"
    using read_exact_reliable [OF assms(3), of 8 "''connection header''" False] by auto
  moreover have "decode_gateway_header (GATEWAY_MAGIC @ [1, 0, 0, 0]) = Inr ()" unfolding header_ok_iff ..
  ultimately have "connect create host port = (Inr \<lparr>connection = s1, client_closed = False\<rparr>, Some s1)"
    using assms(2) by (simp add: connect_def open_client_def)
  moreover have "list_all encodable fs" using assms(5) by (simp add: list_all_iff)
  then obtain s2 where "client_frames \<lparr>connection = s1, client_closed = False\<rparr> = (fs, None, s2)"
    using frames_from_reliable [OF s1(1)] stream_frames_of [of fs "[]"] by (auto simp: client_frames_def s1(2))
  moreover have "\<forall>f \<in> set fs. bus_frame f \<and> 0 \<le> timestamp_microseconds f \<and> timestamp_microseconds f < 2 ^ 52"
    using assms(5) by (auto simp: encodable_def wf_frame_def)
  from console_lines_total [OF assms(1) this] obtain lines where
    "console_lines float_text md simulation_decoder fs = (lines, None)" "list_all2 line_of fs lines" by blast
  ultimately show ?thesis
    by (simp add: console_main_def make_simulation_decoder)
qed

end
