(* ===== verification/Spec2Isabelle.thy ===== *)
theory Spec2Isabelle
  imports Diag_Properties Can_Properties Telemetry_Properties Can_Explorer Session_Store Session_Properties Pipeline_Total
    Live_Total Api_Properties Service_Stop Launch_Properties Can_Console
begin

text \<open>
  Verification development of the TunerOS backend, the Python package under
  \<open>src/backend/src/tuneros/\<close>; file names below are relative to it.

  The program. A simulated vehicle publishes CAN frames; a gateway sends them over TCP, each as a fixed
  record of 19 bytes. The backend reads them (\<open>can/gateway.py\<close>, \<open>can/record_codec.py\<close>), records them to a
  session file (\<open>session/\<close>), shows them raw (\<open>can/explorer.py\<close>), decodes them with a database
  (\<open>can/decoder.py\<close>), keeps latest values and histories of the signals (\<open>telemetry/engine.py\<close>) and evaluates
  trouble codes on them (\<open>diagnostics/\<close>). \<open>telemetry/service.py\<close> runs this pipeline on a worker thread, from
  the gateway or from a recorded session, and delivers events to bounded subscriptions. \<open>investigation/\<close>
  analyses a recorded session around a point in time, \<open>calibration/\<close> holds static tables, and \<open>api/\<close> serves
  everything over HTTP and WebSockets.

  How code is represented. An operation is a function from its arguments and the state to its result and the
  new state. An exception is a value of \<open>exn\<close> with its class and message, \<open>result\<close> is \<open>exn + 'a\<close>; an operation
  that changes state before it raises returns both. An \<open>except\<close> clause is \<open>catches\<close>, which walks the class
  hierarchy; its depth bound of four links is the longest chain in the program. Integers are \<open>int\<close>, as in
  Python, and bytes are 8-bit words; a float is a rational or one of the IEEE special values, and arithmetic
  rounds to binary64. Dicts are association lists in insertion order, bounded deques keep the newest entries.
  Arguments the code checks with \<open>isinstance\<close> are dynamically typed values (\<open>py_value\<close>). Every recursion
  terminates by structure or by a proved measure; no operation is cut off by fuel.

  Theories, in the order of the pipeline.

  \<^item> \<open>Tuner_Prelude\<close>, \<open>Py_Values\<close>: exceptions, dicts, deques, floats; the interfaces \<open>keyed_log\<close>,
    \<open>bounded_log\<close> (interpreted for the histories, the diagnostic events and the explorer's frames) and
    \<open>sim_clock\<close> (telemetry and diagnostics).
  \<^item> \<open>Can_Frames\<close> (\<open>can/models.py\<close>, \<open>can/record_codec.py\<close>), \<open>Gateway_Client\<close> (\<open>can/gateway.py\<close>), and
    \<open>Can_Properties\<close>: the codec in both directions with its exact domain, and that the client yields the frames
    sent however the stream is cut into chunks, and only well-formed frames whatever arrives. \<open>Can_Console\<close>
    (\<open>can/live_decode.py\<close>): one line for every frame of the bus, its time exact to the microsecond.
  \<^item> \<open>Sha256\<close>, \<open>Dbc_Decoder\<close>, \<open>Signal_Catalogs\<close> (\<open>can/decoder.py\<close>, \<open>can/metadata.py\<close>,
    \<open>telemetry/catalog.py\<close>): the database, its metadata and hash, decoding and its errors, and the signal
    catalog, which is built exactly from coherent metadata.
  \<^item> \<open>Telemetry_Engine\<close>, \<open>Telemetry_Properties\<close> (\<open>telemetry/engine.py\<close>, \<open>telemetry/models.py\<close>): the engine
    refines the log of accepted frames; every read is a function of that log, and refusal is atomic.
  \<^item> \<open>Can_Explorer\<close> (\<open>can/explorer.py\<close>): incremental statistics equal those computed from all frames.
  \<^item> \<open>Diag_Rules\<close> (\<open>diagnostics/models.py\<close>, \<open>rules.py\<close>, \<open>catalog.py\<close>), \<open>Diag_Engine\<close> (\<open>engine.py\<close>),
    \<open>Diag_Lifecycle\<close>, \<open>Diag_Journal\<close>, \<open>Diag_Runs\<close>, \<open>Diag_Properties\<close>: the lifecycle of one rule as a relation on
    statuses, the unbounded journal the engine's event deque is the end of, and runs of snapshots and clear
    requests: debounce in both directions, permanent freeze frames, time, clearing and snapshots.
  \<^item> \<open>Int_Text\<close>, \<open>Uuids\<close>: Python's \<open>int\<close> of a text and the canonical text of a UUID.
  \<^item> \<open>Session_Format\<close> (\<open>session/format.py\<close>, \<open>session/models.py\<close>), \<open>Session_Recorder\<close>, \<open>Session_Recording\<close>
    (\<open>session/recorder.py\<close>), \<open>Session_Reader\<close>, \<open>Session_Store\<close> (\<open>session/catalog.py\<close>), \<open>Session_Replay\<close>,
    \<open>Session_Properties\<close>: the file and manifest codecs; the recorder over a disk on which any file operation may
    fail; what the reader accepts, what the catalog lists, and that what was recorded reads back.
  \<^item> \<open>Service_Broadcast\<close>, \<open>Telemetry_Service\<close> (\<open>telemetry/service.py\<close>), \<open>Service_Runs\<close>, \<open>Service_Stop\<close>,
    \<open>Pipeline_Total\<close>, \<open>Live_Replay\<close>, \<open>Live_Total\<close>: a subscription as a step relation over its lock sections;
    the worker thread as a program counter whose steps are the code between two lock operations, interleaved with
    any call of any thread; the service's state machine, the recorder's fate, stopping, and the agreement of a
    live run with its replay.
  \<^item> \<open>Investigation_Service\<close>, \<open>Investigation_Properties\<close>, \<open>Investigation_Comparison\<close> (\<open>investigation/\<close>): the
    single pass against a reference that replays and filters separately, its limits and windows, summaries and
    comparisons.
  \<^item> \<open>Calibration_Catalog\<close> (\<open>calibration/catalog.py\<close>): lookups and the shape of the tables.
  \<^item> \<open>Api_Models\<close>, \<open>Api_Serialization\<close>, \<open>Api_Handlers\<close>, \<open>Api_Websocket\<close>, \<open>Api_Properties\<close> (\<open>api/\<close>): response
    records, their construction, each endpoint with its parameter bounds and its mapping of exceptions to status
    codes, and each WebSocket as the messages it sends; total statistics, an investigation endpoint that never
    answers with an internal error, and streams in publication order.
  \<^item> \<open>Api_Launcher\<close>, \<open>Launch_Properties\<close> (\<open>api/__main__.py\<close>, \<open>lifespan\<close> of \<open>api/app.py\<close>): the command line,
    the service and recorder built from it, start-up and shutdown; one source per server, and a recording made
    from one command line replayed from another.

  The properties span components: \<open>live_session_replays\<close> and \<open>service_replay_reproduces_live\<close> run the gateway
  worker, the recorder, the reader and the replay worker on the same frames, \<open>pipeline_is_total\<close> and
  \<open>live_run_completes\<close> run decoder, explorer, telemetry and diagnostics on the packaged database,
  \<open>investigation_endpoint_answers\<close> goes from a recorded file to an HTTP response, and
  \<open>launched_recording_replays\<close> from a command line through a live run, its recording, the session directory and a
  second command line to the replayed state.

  Bounds. A record holds a timestamp of 64 bits, an identifier of at most \<open>0x7FF\<close> and a length of at most 8.
  An investigation holds at most the frames of \<open>MAX_INVESTIGATION_RAW_FRAMES\<close>. A stopped worker ends
  within eight of its steps, the longest path from a frame in hand through recording, exploring and decoding it to
  the end of the cleanup.

  Parameters. Code outside the repository is an argument of the definitions that use it. The frame decoder of the
  \<open>canmatrix\<close> package is \<open>msg_decoder\<close>; theorems on the packaged database assume \<open>faithful_decoder\<close>: a payload of
  the frame's size decodes to one value per signal, in the order of the signals. The socket is a script of what
  each \<open>recv\<close> does, the disk is \<open>io\<close>, the outcome of each file operation, and the connection of the worker is
  \<open>world\<close>, what connecting or waiting for a frame gives. \<open>pydantic\<close> and \<open>fastapi\<close> enter with documented
  behaviour only: a model keeps values of its declared types, and a parameter outside its declared bounds is
  refused. \<open>sum\<close> over floats is the compensated summation of CPython since 3.12. \<open>simulation_dbc\<close> holds the
  messages, signals, units and cycle times of the packaged database.

  Not modelled. How \<open>argparse\<close> splits a command line into options, and the web server itself; the shortest decimal
  text of a float, which is an argument of the console; the \<open>__init__.py\<close> files, which re-export names; characters
  beyond the first 256 code points. The gateway client's context
  manager only calls \<open>close\<close>. The recorder of a service is the session recorder. Of JSON the parsed value is
  modelled, not its text; of a manifest replaced on disk the outcome, not the temporary file. Routing and
  CORS are configuration of the web framework. \<open>wait_for_state\<close> is its predicate without the timed
  wait. The frontend (TypeScript) and the vehicle simulator (C++) are other programs.
\<close>

end
